(* ===== verification/Prelude.thy ===== *)
theory Prelude
  imports Main "HOL-Library.Sublist" "HOL-Library.State_Monad" "HOL-Library.AList"
    "HOL-Library.Char_ord"
begin

text \<open>
  The shared library of the development. It holds the fact collections, the monad in which the
  controllers' effects are written (HOL-Library's state monad, run over the record of World.thy),
  a small Hoare calculus for it, the result type of Go functions that return an error, and Go's
  string functions on byte strings.

  A Go string is a list of bytes and \<open>string\<close> is a list of characters, one per byte. The case
  mapping functions are the ASCII part of Go's: every identifier the program lower-cases is a
  Kubernetes name, a MAAS host name or a tag, all of them ASCII.
\<close>

named_theorems tag_simps
named_theorems emits_intros
named_theorems run_simps
named_theorems guard_intros

section \<open>The effect monad\<close>

abbreviation ret :: "'a \<Rightarrow> ('s, 'a) state" where
  "ret \<equiv> State_Monad.return"

abbreviation get_state :: "('s, 's) state" where
  "get_state \<equiv> State_Monad.get"

abbreviation put_state :: "'s \<Rightarrow> ('s, unit) state" where
  "put_state \<equiv> State_Monad.set"

definition modify :: "('s \<Rightarrow> 's) \<Rightarrow> ('s, unit) state" where
  "modify f = do { s \<leftarrow> get_state; put_state (f s) }"

definition gets :: "('s \<Rightarrow> 'a) \<Rightarrow> ('s, 'a) state" where
  "gets f = do { s \<leftarrow> get_state; ret (f s) }"

lemma run_modify [simp]: "run_state (modify f) s = ((), f s)"
  by (simp add: modify_def)

lemma run_gets [simp]: "run_state (gets f) s = (f s, s)"
  by (simp add: gets_def)

lemma run_if [simp]:
  "run_state (if b then m else n) s = (if b then run_state m s else run_state n s)"
  by simp

text \<open>
  \<open>x, err := m; if err != nil { return err }; f(x)\<close>: the error of \<open>m\<close> ends the function.
\<close>

definition ok_then ::
    "('s, 'e + 'a) state \<Rightarrow> ('a \<Rightarrow> ('s, 'e + 'b) state) \<Rightarrow> ('s, 'e + 'b) state" where
  "ok_then m f = do { r \<leftarrow> m; case r of Inl e \<Rightarrow> ret (Inl e) | Inr x \<Rightarrow> f x }"

lemma run_ok_then [simp]:
  "run_state (ok_then m f) s =
     (case run_state m s of (r, t) \<Rightarrow>
        (case r of Inl e \<Rightarrow> (Inl e, t) | Inr x \<Rightarrow> run_state (f x) t))"
  by (simp add: ok_then_def split: prod.splits sum.splits)

lemma run_ok_then_Inr:
  assumes "run_state (ok_then m f) s = (Inr y, u)"
  obtains x t where "run_state m s = (Inr x, t)" "run_state (f x) t = (Inr y, u)"
  using assms by (auto split: prod.splits sum.splits)

text \<open>Hoare triples, for invariants that hold whatever the outside world answers.\<close>

definition valid :: "('s \<Rightarrow> bool) \<Rightarrow> ('s, 'a) state \<Rightarrow> ('a \<Rightarrow> 's \<Rightarrow> bool) \<Rightarrow> bool" where
  "valid P m Q \<longleftrightarrow> (\<forall>s. P s \<longrightarrow> (case run_state m s of (r, t) \<Rightarrow> Q r t))"

lemma validI: "(\<And>s r t. P s \<Longrightarrow> run_state m s = (r, t) \<Longrightarrow> Q r t) \<Longrightarrow> valid P m Q"
  by (auto simp: valid_def)

lemma validD: "valid P m Q \<Longrightarrow> P s \<Longrightarrow> run_state m s = (r, t) \<Longrightarrow> Q r t"
  by (fastforce simp: valid_def)

lemma valid_ret: "(\<And>s. P s \<Longrightarrow> Q x s) \<Longrightarrow> valid P (ret x) Q"
  by (simp add: valid_def)

lemma valid_bind:
  "valid P m R \<Longrightarrow> (\<And>x. valid (R x) (f x) Q) \<Longrightarrow> valid P (m \<bind> f) Q"
  by (fastforce simp: valid_def)

lemma valid_if:
  "(b \<Longrightarrow> valid P m Q) \<Longrightarrow> (\<not> b \<Longrightarrow> valid P n Q) \<Longrightarrow> valid P (if b then m else n) Q"
  by simp

lemma valid_conseq:
  "valid P m Q \<Longrightarrow> (\<And>s. P' s \<Longrightarrow> P s) \<Longrightarrow> (\<And>r s. Q r s \<Longrightarrow> Q' r s) \<Longrightarrow> valid P' m Q'"
  by (fastforce simp: valid_def)

section \<open>Go strings\<close>

definition HasPrefix :: "string \<Rightarrow> string \<Rightarrow> bool" where
  "HasPrefix s p = prefix p s"

definition Contains :: "string \<Rightarrow> string \<Rightarrow> bool" where
  "Contains s sub = sublist sub s"

definition TrimPrefix :: "string \<Rightarrow> string \<Rightarrow> string" where
  "TrimPrefix s p = (if HasPrefix s p then drop (length p) s else s)"

definition lower_char :: "char \<Rightarrow> char" where
  "lower_char c = (if CHR ''A'' \<le> c \<and> c \<le> CHR ''Z'' then char_of (of_char c + 32 :: nat) else c)"

definition ToLower :: "string \<Rightarrow> string" where
  "ToLower s = map lower_char s"

definition EqualFold :: "string \<Rightarrow> string \<Rightarrow> bool" where
  "EqualFold s t = (ToLower s = ToLower t)"

text \<open>\<open>strings.Trim\<close> and \<open>strings.TrimRight\<close> with a set of characters, \<open>strings.TrimSpace\<close>.\<close>

definition TrimLeft_set :: "(char \<Rightarrow> bool) \<Rightarrow> string \<Rightarrow> string" where
  "TrimLeft_set p s = dropWhile p s"

definition TrimRight_set :: "(char \<Rightarrow> bool) \<Rightarrow> string \<Rightarrow> string" where
  "TrimRight_set p s = rev (dropWhile p (rev s))"

definition Trim_set :: "(char \<Rightarrow> bool) \<Rightarrow> string \<Rightarrow> string" where
  "Trim_set p s = TrimRight_set p (TrimLeft_set p s)"

definition is_space :: "char \<Rightarrow> bool" where
  "is_space c = (c = CHR '' '' \<or> (char_of (9 :: nat) \<le> c \<and> c \<le> char_of (13 :: nat)))"

definition TrimSpace :: "string \<Rightarrow> string" where
  "TrimSpace s = Trim_set is_space s"

text \<open>\<open>strings.Split\<close> with a one-byte separator; \<open>Split "" sep\<close> is the list of one empty string.\<close>

fun Split :: "string \<Rightarrow> char \<Rightarrow> string list" where
  "Split [] c = [[]]"
| "Split (x # xs) c =
     (if x = c then [] # Split xs c
      else (case Split xs c of [] \<Rightarrow> [[x]] | w # ws \<Rightarrow> (x # w) # ws))"

text \<open>\<open>strings.Cut\<close> with a one-byte separator: the text before, the text after, found or not.\<close>

definition Cut :: "string \<Rightarrow> char \<Rightarrow> string \<times> string \<times> bool" where
  "Cut s c =
     (if c \<in> set s then (takeWhile (\<lambda>x. x \<noteq> c) s, tl (dropWhile (\<lambda>x. x \<noteq> c) s), True)
      else (s, [], False))"

fun Join :: "string list \<Rightarrow> string \<Rightarrow> string" where
  "Join [] sep = []"
| "Join [w] sep = w"
| "Join (w # ws) sep = w @ sep @ Join ws sep"

lemma HasPrefix_append [simp]: "HasPrefix (p @ s) p"
  by (simp add: HasPrefix_def)

lemma HasPrefix_drop: "HasPrefix s p \<Longrightarrow> p @ drop (length p) s = s"
  by (auto simp: HasPrefix_def prefix_def)

lemma TrimPrefix_append [simp]: "TrimPrefix (p @ s) p = s"
  by (simp add: TrimPrefix_def)

lemma Split_neq_Nil [simp]: "Split s c \<noteq> []"
  by (induction s c rule: Split.induct) (auto split: list.splits)

lemma Split_no_sep: "c \<notin> set s \<Longrightarrow> Split s c = [s]"
  by (induction s c rule: Split.induct) auto

lemma Split_append_sep: "Split (xs @ c # ys) c = Split xs c @ Split ys c"
proof (induction xs)
  case Nil
  then show ?case by simp
next
  case (Cons x xs)
  then show ?case by (cases "Split xs c") auto
qed

lemma last_Split: "c \<notin> set w \<Longrightarrow> last (Split (xs @ c # w) c) = w"
  by (simp add: Split_append_sep Split_no_sep)

lemma length_Split: "length (Split s c) = Suc (count_list s c)"
  by (induction s c rule: Split.induct) (auto split: list.splits)

lemma Cut_found:
  assumes "c \<notin> set a" shows "Cut (a @ c # b) c = (a, b, True)"
proof -
  have "\<And>x. x \<in> set a \<Longrightarrow> x \<noteq> c" using assms by blast
  then show ?thesis by (simp add: Cut_def takeWhile_append2 dropWhile_append2)
qed

lemma Cut_not_found: "c \<notin> set s \<Longrightarrow> Cut s c = (s, [], False)"
  by (simp add: Cut_def)

lemma Cut_join:
  "Cut s c = (a, b, True) \<Longrightarrow> s = a @ c # b \<and> c \<notin> set a"
proof -
  assume cut: "Cut s c = (a, b, True)"
  then have "c \<in> set s" by (auto simp: Cut_def split: if_splits)
  then obtain u v where s: "s = u @ c # v" "c \<notin> set u"
    by (meson split_list_first)
  with cut show ?thesis by (simp add: Cut_found)
qed

section \<open>Go maps as association lists\<close>

text \<open>
  Reading a missing key of a Go \<open>map[string]string\<close> gives the empty string; a nil map reads as
  an empty one. The controllers always make the map before they write to it.
\<close>

type_synonym strmap = "(string \<times> string) list"

definition map_get :: "strmap \<Rightarrow> string \<Rightarrow> string" where
  "map_get m k = (case map_of m k of None \<Rightarrow> [] | Some v \<Rightarrow> v)"

definition map_put :: "string \<Rightarrow> string \<Rightarrow> strmap \<Rightarrow> strmap" where
  "map_put k v m = AList.update k v m"

definition map_has :: "strmap \<Rightarrow> string \<Rightarrow> bool" where
  "map_has m k = (map_of m k \<noteq> None)"

lemma map_get_put [simp]:
  "map_get (map_put k v m) k' = (if k' = k then v else map_get m k')"
  by (simp add: map_get_def map_put_def update_conv)

lemma map_has_put [simp]: "map_has (map_put k v m) k' = (k' = k \<or> map_has m k')"
  by (auto simp: map_has_def map_put_def update_conv)

lemma map_of_put: "map_of (map_put k v m) = (map_of m)(k \<mapsto> v)"
  by (simp add: map_put_def update_conv')

lemma map_of_fold_put:
  "map_of (fold (\<lambda>(k, v). map_put k v) kvs m) = map_of m ++ map_of (rev kvs)"
  by (induction kvs arbitrary: m) (auto simp: map_of_put map_add_def split: option.splits)

lemma map_of_rev_distinct: "distinct (map fst kvs) \<Longrightarrow> map_of (rev kvs) = map_of kvs"
  by (rule map_of_eqI) (auto simp: rev_map [symmetric])

lemma map_of_fold_put_distinct:
  "distinct (map fst kvs) \<Longrightarrow> map_of kvs k = Some v \<Longrightarrow>
   map_of (fold (\<lambda>(k, v). map_put k v) kvs m) k = Some v"
  by (simp add: map_of_fold_put map_of_rev_distinct map_add_def)

lemma distinct_fold_put:
  "distinct (map fst m) \<Longrightarrow> distinct (map fst (fold (\<lambda>(k, v). map_put k v) kvs m))"
  by (induction kvs arbitrary: m) (auto simp: map_put_def distinct_update)

end
