(* ===== verification/Api_Types.thy ===== *)
theory Api_Types
  imports Prelude "HOL-Library.Word"
begin

text \<open>
  The data of the program: Go errors as values, the custom resources of \<open>api/v1beta1\<close> (types.go,
  maasmachine_types.go, maascluster_types.go, maasmachinetemplate_types.go, condition_consts.go),
  the fields of the Cluster API and Kubernetes objects the controllers read, and the view of MAAS
  machines and VM hosts that the MAAS client library hands out. A Go pointer field is an
  \<open>option\<close>; a Go \<open>int\<close> is an \<open>int\<close> except where the code computes with it at a width.
\<close>

section \<open>Go errors\<close>

text \<open>
  \<open>ApiError\<close> is an error of the MAAS or Kubernetes API with its reason and its text,
  \<open>ErrorString\<close> is \<open>errors.New\<close> or \<open>fmt.Errorf\<close> without \<open>%w\<close>, \<open>Wrapped\<close> is \<open>errors.Wrap\<close> or
  \<open>fmt.Errorf("...: %w")\<close>, and \<open>GoPanic\<close> is a run-time panic, which no caller handles.
\<close>

datatype api_reason = NotFoundReason | AlreadyExistsReason | OtherReason

datatype gerr =
    ApiError api_reason string
  | ErrorString string
  | Wrapped string gerr
  | ErrBrokenMachine
  | ErrVMComposing
  | ErrRequeueDNS
  | ErrNotFound
  | ErrEmptyProviderID
  | ErrInvalidProviderID
  | GoPanic string

type_synonym 'a res = "gerr + 'a"

fun err_Error :: "gerr \<Rightarrow> string" where
  "err_Error (ApiError _ msg) = msg"
| "err_Error (ErrorString msg) = msg"
| "err_Error (Wrapped msg e) = msg @ '': '' @ err_Error e"
| "err_Error ErrBrokenMachine = ''broken machine encountered''"
| "err_Error ErrVMComposing = ''vm composing/commissioning''"
| "err_Error ErrRequeueDNS = ''need to requeue DNS''"
| "err_Error ErrNotFound = ''resource not found''"
| "err_Error ErrEmptyProviderID = ''providerID is empty''"
| "err_Error ErrInvalidProviderID =
     ''providerID must be of the form <cloudProvider>://<optional>/<segments>/<provider id>''"
| "err_Error (GoPanic msg) = msg"

text \<open>\<open>errors.Is\<close> and the reason test of apimachinery both look through the wrapping.\<close>

fun err_root :: "gerr \<Rightarrow> gerr" where
  "err_root (Wrapped _ e) = err_root e"
| "err_root e = e"

definition errors_Is :: "gerr \<Rightarrow> gerr \<Rightarrow> bool" where
  "errors_Is e target = (err_root e = target)"

definition IsNotFound :: "gerr \<Rightarrow> bool" where
  "IsNotFound e = (case err_root e of ApiError NotFoundReason _ \<Rightarrow> True | _ \<Rightarrow> False)"

definition IsAlreadyExists :: "gerr \<Rightarrow> bool" where
  "IsAlreadyExists e = (case err_root e of ApiError AlreadyExistsReason _ \<Rightarrow> True | _ \<Rightarrow> False)"

definition is_panic :: "gerr \<Rightarrow> bool" where
  "is_panic e = (case e of GoPanic _ \<Rightarrow> True | _ \<Rightarrow> False)"

definition is_ok :: "'e + 'a \<Rightarrow> bool" where
  "is_ok r = (case r of Inl _ \<Rightarrow> False | Inr _ \<Rightarrow> True)"

lemma is_ok_simps [simp]: "is_ok (Inl e) = False" "is_ok (Inr x) = True"
  by (simp_all add: is_ok_def)

lemma is_ok_iff: "is_ok r \<longleftrightarrow> (\<exists>x. r = Inr x)"
  by (cases r) simp_all

lemma err_root_Wrapped [simp]: "errors_Is (Wrapped m e) t = errors_Is e t"
  by (simp add: errors_Is_def)

section \<open>MAAS machine states and power states (types.go)\<close>

type_synonym machine_state = string

definition MachineStateAllocated :: machine_state where "MachineStateAllocated = ''Allocated''"
definition MachineStateDeploying :: machine_state where "MachineStateDeploying = ''Deploying''"
definition MachineStateDeployed :: machine_state where "MachineStateDeployed = ''Deployed''"
definition MachineStateReady :: machine_state where "MachineStateReady = ''Ready''"
definition MachineStateDiskErasing :: machine_state where
  "MachineStateDiskErasing = ''Disk erasing''"
definition MachineStateReleasing :: machine_state where "MachineStateReleasing = ''Releasing''"
definition MachineStateNew :: machine_state where "MachineStateNew = ''New''"

lemmas machine_state_defs = MachineStateAllocated_def MachineStateDeploying_def
  MachineStateDeployed_def MachineStateReady_def MachineStateDiskErasing_def
  MachineStateReleasing_def MachineStateNew_def

definition MachineRunningStates :: "machine_state list" where
  "MachineRunningStates = [MachineStateDeploying, MachineStateDeployed]"

definition MachineOperationalStates :: "machine_state list" where
  "MachineOperationalStates = MachineRunningStates @ [MachineStateAllocated]"

definition MachineKnownStates :: "machine_state list" where
  "MachineKnownStates = MachineOperationalStates @
     [MachineStateDiskErasing, MachineStateReleasing, MachineStateReady, MachineStateNew]"

definition MachinePowerStateOn :: string where "MachinePowerStateOn = ''on''"
definition MachinePowerStateOff :: string where "MachinePowerStateOff = ''off''"
definition MachinePowerStateError :: string where "MachinePowerStateError = ''error''"
definition MachinePowerStateUnknown :: string where "MachinePowerStateUnknown = ''unknown''"

datatype addr_type =
    MachineHostName | MachineExternalIP | MachineInternalIP | MachineExternalDNS | MachineInternalDNS

record machine_address =
  ma_Type :: addr_type
  ma_Address :: string

text \<open>The provider's own view of a MAAS machine (\<open>infrav1beta1.Machine\<close>).\<close>

record machine =
  m_ID :: string
  m_Hostname :: string
  m_State :: machine_state
  m_Powered :: bool
  m_PowerState :: string
  m_AvailabilityZone :: string
  m_Addresses :: "machine_address list"
  m_DeployedInMemory :: bool

section \<open>Conditions (condition_consts.go)\<close>

datatype condition_status = ConditionTrue | ConditionFalse | ConditionUnknown

record condition =
  c_Type :: string
  c_Status :: condition_status
  c_Reason :: string
  c_Message :: string

definition MachineDeployedCondition :: string where "MachineDeployedCondition = ''MachineDeployed''"
definition MachineDeployedReason :: string where "MachineDeployedReason = ''MachineDeployed''"
definition DeletedReason :: string where "DeletedReason = ''Deleted''"
definition WaitingForClusterInfrastructureReason :: string where
  "WaitingForClusterInfrastructureReason = ''WaitingForClusterInfrastructure''"
definition WaitingForBootstrapDataReason :: string where
  "WaitingForBootstrapDataReason = ''WaitingForBootstrapData''"
definition MachineDeployingReason :: string where "MachineDeployingReason = ''MachineDeploying''"
definition MachineTerminatedReason :: string where
  "MachineTerminatedReason = ''MachineTerminatedReason''"
definition MachinePoweredOffReason :: string where "MachinePoweredOffReason = ''MachinePoweredOff''"
definition MachineStateUndefinedReason :: string where
  "MachineStateUndefinedReason = ''MachineStateUndefined''"
definition MachineNotFoundReason :: string where "MachineNotFoundReason = ''MachineNotFound''"
definition MachineDeployFailedReason :: string where
  "MachineDeployFailedReason = ''MachineDeployFailed''"
definition MachineDeployStartedReason :: string where
  "MachineDeployStartedReason = ''MachineDeployStartedReason''"
definition DNSAttachedCondition :: string where "DNSAttachedCondition = ''DNSAttached''"
definition DNSAttachedReason :: string where "DNSAttachedReason = ''DNSAttached''"
definition DNSDetachPending :: string where "DNSDetachPending = ''DNSDetachPending''"
definition DNSAttachPending :: string where "DNSAttachPending = ''DNSAttachPending''"
definition DNSReadyCondition :: string where "DNSReadyCondition = ''LoadBalancerReady''"
definition DNSReadyReason :: string where "DNSReadyReason = ''LoadBalancerReady''"
definition DNSFailedReason :: string where "DNSFailedReason = ''LoadBalancerFailed''"
definition WaitForDNSNameReason :: string where "WaitForDNSNameReason = ''WaitForDNSName''"
definition APIServerAvailableCondition :: string where
  "APIServerAvailableCondition = ''APIServerAvailable''"
definition APIServerAvailableReason :: string where
  "APIServerAvailableReason = ''APIServerAvailable''"
definition APIServerNotReadyReason :: string where "APIServerNotReadyReason = ''APIServerNotReady''"
definition LXDReadyCondition :: string where "LXDReadyCondition = ''LXDReady''"
definition LXDReadyReason :: string where "LXDReadyReason = ''LXDReady''"
definition LXDFailedReason :: string where "LXDFailedReason = ''LXDFailed''"
definition LXDSetupPendingReason :: string where "LXDSetupPendingReason = ''LXDSetupPending''"

section \<open>MaasMachine (maasmachine_types.go)\<close>

text \<open>
  A \<open>metav1.Time\<close> is read from the API server in whole Unix seconds (\<open>gtime\<close>); a nil deletion timestamp
  is \<open>None\<close>. A \<open>time.Time\<close> whose sub-second part the code keeps is in Unix nanoseconds (\<open>gtime_ns\<close>).
\<close>

type_synonym gtime = int
type_synonym gtime_ns = int

record object_meta =
  om_Name :: string
  om_Namespace :: string
  om_UID :: string
  om_Labels :: strmap
  om_Annotations :: strmap
  om_Finalizers :: "string list"
  om_DeletionTimestamp :: "gtime option"
  om_OwnerReferences :: "(string \<times> string \<times> string) list" \<comment> \<open>kind, apiVersion, name\<close>

record vm_config =
  vc_DiskSize :: "int option"
  vc_StoragePool :: string
  vc_Network :: string
  vc_InterfaceLinkModes :: strmap
  vc_AutoStart :: "bool option"

record machine_lxd_config =
  ml_Enabled :: "bool option"
  ml_VMConfig :: "vm_config option"

record maas_machine_spec =
  FailureDomain :: "string option"
  SystemID :: "string option"
  Parent :: "string option"
  ProviderID :: "string option"
  ResourcePool :: "string option"
  MinCPU :: "int option"
  MinMemoryInMB :: "int option"
  MinDiskSizeInGB :: "int option"
  Tags :: "string list"
  Image :: string
  DeployInMemory :: bool
  LXD :: "machine_lxd_config option"

record maas_machine_status =
  Ready :: bool
  Provisioned :: "bool option"
  MachineState :: "machine_state option"
  MachinePowered :: bool
  Hostname :: "string option"
  DNSAttached :: bool
  Addresses :: "machine_address list"
  Conditions :: "condition list"
  FailureReason :: "string option"
  FailureMessage :: "string option"

record maas_machine =
  mm_Meta :: object_meta
  mm_Spec :: maas_machine_spec
  mm_Status :: maas_machine_status

definition MachineFinalizer :: string where
  "MachineFinalizer = ''maasmachine.infrastructure.cluster.x-k8s.io''"

record maas_machine_template =
  mt_Name :: string
  mt_Namespace :: string
  mt_Labels :: strmap
  mt_Spec :: maas_machine_spec

section \<open>MaasCluster (maascluster_types.go)\<close>

definition ClusterFinalizer :: string where
  "ClusterFinalizer = ''maascluster.infrastructure.cluster.x-k8s.io''"

record lxd_config =
  lc_Enabled :: "bool option"
  lc_ResourcePool :: string
  lc_Zone :: string
  lc_StorageBackend :: string
  lc_StorageSize :: string
  lc_NICType :: string
  lc_NICParent :: string
  lc_NetworkBridge :: string
  lc_SkipNetworkUpdate :: "bool option"

record api_endpoint =
  ep_Host :: string
  ep_Port :: int

definition IsZero :: "api_endpoint \<Rightarrow> bool" where
  "IsZero ep = (ep_Host ep = [] \<and> ep_Port ep = 0)"

record maas_cluster_spec =
  DNSDomain :: string
  ControlPlaneEndpoint :: api_endpoint
  FailureDomains :: "string list"
  LXDConfig :: "lxd_config option"

record maas_cluster_status =
  mcs_Ready :: bool
  mcs_Provisioned :: "bool option"
  mcs_DNSName :: string
  mcs_FailureDomains :: "(string \<times> bool) list" \<comment> \<open>name, controlPlane\<close>
  mcs_Conditions :: "condition list"

record maas_cluster =
  mc_Meta :: object_meta
  mc_Spec :: maas_cluster_spec
  mc_Status :: maas_cluster_status

end
