(* ===== verification/World.thy ===== *)
theory World
  imports Api_Types Complex_Main
begin

text \<open>
  The outside world. The MAAS server (through maas-client-go), the Kubernetes API servers
  (through controller-runtime), the Cluster API helper library and the clock are not code of this
  repository: they are the parameter \<open>env\<close> of the model. Each call is a field of a record that
  gives the response as a function of the trace of everything that was called before, so a
  definition that takes an \<open>env\<close> is run against every possible behaviour of the servers, including
  other clients that change them between two calls. A call appends one event to the trace; the
  event of a write carries whether it succeeded. Nothing is assumed of the responses here; the
  properties that need documented behaviour of a server state it as a hypothesis.
\<close>

section \<open>What the MAAS client hands out\<close>

text \<open>
  \<open>Zone()\<close> returns an interface: nil, an interface around a nil pointer, or a zone (id and name).
\<close>

datatype zone_ref = ZoneNil | ZoneTypedNil | ZoneOf int string

record sdk_machine =
  sdk_SystemID :: string
  sdk_Hostname :: string
  sdk_FQDN :: string
  sdk_State :: string
  sdk_PowerState :: string
  sdk_PowerType :: string
  sdk_Zone :: zone_ref
  sdk_ZoneName :: string
  sdk_ResourcePoolName :: string
  sdk_Parent :: string
  sdk_Tags :: "string list"
  sdk_IPAddresses :: "string list"
  sdk_DeployedInMemory :: bool
  sdk_BootInterfaceType :: string
  sdk_BootInterfaceName :: string
  sdk_TotalStorageGB :: rat

record storage_pool =
  sp_Remote :: bool
  sp_Available :: "64 word"
  sp_Pending :: "64 word"

record vm_host =
  vmh_SystemID :: string
  vmh_Name :: string
  vmh_HostSystemID :: string
  vmh_Zone :: zone_ref
  vmh_ResourcePool :: "(int \<times> string) option"
  vmh_Tags :: "string list"
  vmh_AvailableCores :: int
  vmh_AvailableMemory :: int
  vmh_StoragePools :: "storage_pool list"
  vmh_PowerAddress :: string
  vmh_Projects :: "string list"

type_synonym params = "(string \<times> string) list"

record alloc_params =
  al_CPUCount :: int
  al_Memory :: int
  al_Zone :: "string option"
  al_ResourcePool :: "string option"
  al_NotPod :: bool
  al_NotPodType :: "string option"
  al_Tags :: "string list"

record deploy_params =
  dp_UserData :: string
  dp_OSSystem :: string
  dp_DistroSeries :: string
  dp_EphemeralDeploy :: bool

section \<open>Kubernetes and Cluster API objects\<close>

record configmap =
  cm_Namespace :: string
  cm_Name :: string
  cm_UID :: string
  cm_Data :: strmap

record capi_machine =
  cam_Name :: string
  cam_Namespace :: string
  cam_UID :: string
  cam_Labels :: strmap
  cam_DeletionTimestamp :: "gtime option"
  cam_InfraRefName :: string
  cam_FailureDomain :: string
  cam_DataSecretName :: "string option"

record capi_cluster =
  cl_Name :: string
  cl_Namespace :: string
  cl_UID :: string
  cl_InfraRefName :: string
  cl_DeletionTimestamp :: "gtime option"
  cl_ControlPlaneEndpoint :: api_endpoint
  cl_APIServerPort :: int
  cl_ControlPlaneRef :: "string option" \<comment> \<open>None when the reference is not defined\<close>
  cl_InfrastructureProvisioned :: "bool option"
  cl_ControlPlaneInitialized :: "bool option"

text \<open>
  The KubeadmControlPlane is read as an unstructured object: each field is \<open>None\<close> when the nested
  lookup does not find it. The infrastructure reference of the machine template is a map; its name
  is \<open>None\<close> when it is missing or not a string.
\<close>

record kcp =
  kcp_Name :: string
  kcp_Namespace :: string
  kcp_paused :: "bool option"
  kcp_specReplicas :: "int option"
  kcp_readyReplicas :: "int option"
  kcp_updatedReplicas :: "int option"
  kcp_statusReplicas :: "int option"
  kcp_unavailableReplicas :: "int option"
  kcp_generation :: "int option"
  kcp_observedGeneration :: "int option"
  kcp_infrastructureRef :: "string option option"
  kcp_maxSurge :: "int option"

record node =
  n_Name :: string
  n_Labels :: strmap
  n_Ready :: bool \<comment> \<open>some condition has type Ready and status True\<close>
  n_ProviderID :: string

text \<open>
  The DaemonSet fields the controller reads or writes; the pod template beside its labels is opaque.
  A selector is \<open>None\<close> when the pointer or its \<open>matchLabels\<close> is nil.
\<close>

record daemonset =
  ds_Name :: string
  ds_Namespace :: string
  ds_Labels :: strmap
  ds_Annotations :: strmap
  ds_Selector :: "strmap option"
  ds_TemplateLabels :: "strmap option"
  ds_Template :: string
  ds_UpdateStrategy :: string
  ds_MinReadySeconds :: int
  ds_RevisionHistoryLimit :: "int option"

text \<open>
  The \<open>status.failureDomains\<close> of a MaasCluster read as an unstructured object: absent, a list, some
  other value, or a path that does not lead to a field.
\<close>

datatype fd_shape = FdAbsent | FdSlice | FdOther | FdPathError

section \<open>Events\<close>

datatype maas_event =
    TagsList
  | TagCreate string bool
  | TagAssign string string bool
  | TagUnassign string string bool
  | MachinesList params
  | MachineGet string
  | MachineRelease string bool bool
  | MachineAllocate alloc_params bool
  | MachineSetSwap string int bool
  | MachineSetHostname string string bool
  | MachineDeploy string deploy_params bool
  | MachinePowerOn string bool
  | MachineDelete string bool
  | CreateBootBridge string string bool
  | VMHostsList
  | VMHostGet string
  | VMHostCreate params bool
  | VMHostDelete string bool
  | VMHostUpdate string params bool
  | VMHostCompose string params bool
  | VMHostMachines string
  | DNSList string
  | DNSCreate string bool
  | DNSModify string "string list" bool

datatype kube_event =
    CMGet string string
  | CMList string
  | CMCreate configmap bool
  | CMUpdate configmap bool
  | SecretGet string string
  | MaasMachineGet string string
  | MaasMachineUpdate maas_machine bool
  | MaasMachinePatch maas_machine bool
  | MaasMachinesList string string
  | MaasClusterGet string string
  | MaasClusterPatch maas_cluster bool
  | CapiMachineGet string string
  | CapiMachinesList string string
  | CapiMachineDelete string string bool
  | OwnerMachineGet string
  | ClusterFromMetadata string
  | OwnerClusterGet string
  | CapiClusterGet string string
  | KCPGet string string
  | KCPList string string
  | KCPUpdate kcp bool
  | MDList string string
  | TemplateGet string string
  | TemplateCreate maas_machine_template bool
  | RecordEvent string string
  | MCListRaw
  | MCStatusPatch string string bool

datatype remote_event =
    RemoteClient string string
  | NodeGet string
  | NodesList
  | NodePatch string string bool
  | NamespaceGet string
  | NamespaceUpdate string strmap bool
  | NamespaceApply string bool
  | SecretApply string string string bool
  | RBACApply string string bool
  | DaemonSetList string string
  | DaemonSetDelete string string bool
  | DaemonSetGet string string
  | DaemonSetApply daemonset bool

text \<open>
  What the LXD initializer does on its node: commands, the LXD server behind its socket, the wait,
  and the writes to its own node object.
\<close>

datatype init_event =
    SocketStat string bool
  | LookPath string
  | RunCommand "string list" bool
  | Sleep nat
  | InClusterClient
  | SecretsListAll
  | NodeUpdate string strmap bool
  | LxdConnect string
  | LxdServerGet
  | LxdProjectsList
  | LxdProjectCreate string bool
  | LxdPoolsList
  | LxdPoolGet string
  | LxdPoolCreate string string string bool
  | LxdPoolUpdate string string bool
  | LxdNetworksList
  | LxdNetworkGet string
  | LxdNetworkCreate string strmap bool
  | LxdNetworkUpdate string strmap bool
  | LxdProfilesList string
  | LxdProfileCreate string string "(string \<times> strmap) list" bool

text \<open>
  What \<open>main\<close> asks of controller-runtime before it starts the manager: the options of the manager and
  of the controllers, and what each controller watches, as pairs of a kind and the function that maps
  its objects to requests.
\<close>

record manager_options =
  mo_MetricsBindAddress :: string
  mo_LeaderElection :: bool
  mo_LeaderElectionID :: string
  mo_SyncPeriod :: int \<comment> \<open>seconds\<close>
  mo_HealthProbeBindAddress :: string
  mo_WebhookPort :: int
  mo_CacheNamespaces :: "string list" \<comment> \<open>empty: all namespaces\<close>

record controller_options =
  co_MaxConcurrentReconciles :: int
  co_RecoverPanic :: "bool option"

record controller_spec =
  cs_Name :: string \<comment> \<open>empty: the default name\<close>
  cs_For :: string
  cs_ForPredicate :: string \<comment> \<open>empty: none\<close>
  cs_Watches :: "(string \<times> string) list"
  cs_Options :: controller_options
  cs_NotPaused :: bool \<comment> \<open>filtered by \<open>predicates.ResourceNotPaused\<close>\<close>

datatype setup_step =
    GetConfig
  | NewManager manager_options
  | AddReadyzCheck string
  | AddHealthzCheck string
  | SetupClusterCache string controller_options
  | ClusterMapper string
  | BuildController controller_spec
  | WatchChannel string
  | BuildWebhook string
  | NewDirectClient
  | StartManager

datatype event =
    Maas maas_event
  | Kube kube_event
  | Remote remote_event
  | Init init_event
  | Setup setup_step bool
  | Clock
  | NewUUID
  | MapRange
  | PollRequest string

type_synonym trace = "event list"

section \<open>The environment\<close>

type_synonym api_err = "api_reason \<times> string"
type_synonym 'a resp = "trace \<Rightarrow> api_err + 'a"

record maas_api =
  tags_list_r :: "string list resp"
  tag_create_r :: "string \<Rightarrow> unit resp"
  tag_assign_r :: "string \<Rightarrow> string \<Rightarrow> unit resp"
  tag_unassign_r :: "string \<Rightarrow> string \<Rightarrow> unit resp"
  machines_list_r :: "params \<Rightarrow> sdk_machine list resp"
  machine_get_r :: "string \<Rightarrow> sdk_machine resp"
  machine_release_r :: "string \<Rightarrow> bool \<Rightarrow> unit resp"
  machine_allocate_r :: "alloc_params \<Rightarrow> sdk_machine resp"
  machine_set_swap_r :: "string \<Rightarrow> int \<Rightarrow> unit resp"
  machine_set_hostname_r :: "string \<Rightarrow> string \<Rightarrow> unit resp"
  machine_deploy_r :: "string \<Rightarrow> deploy_params \<Rightarrow> sdk_machine resp"
  machine_power_on_r :: "string \<Rightarrow> unit resp"
  machine_delete_r :: "string \<Rightarrow> unit resp"
  boot_bridge_r :: "string \<Rightarrow> string \<Rightarrow> unit resp"
  vmhosts_list_r :: "vm_host list resp"
  vmhost_get_r :: "string \<Rightarrow> vm_host resp"
  vmhost_create_r :: "params \<Rightarrow> vm_host resp"
  vmhost_update_r :: "string \<Rightarrow> params \<Rightarrow> unit resp"
  vmhost_delete_r :: "string \<Rightarrow> unit resp"
  vmhost_compose_r :: "string \<Rightarrow> params \<Rightarrow> sdk_machine resp"
  vmhost_machines_r :: "string \<Rightarrow> sdk_machine list resp"
  dns_list_r :: "string \<Rightarrow> (string \<times> string list) list resp" \<comment> \<open>id and IP addresses\<close>
  dns_create_r :: "string \<Rightarrow> unit resp"
  dns_modify_r :: "string \<Rightarrow> string list \<Rightarrow> unit resp"
  tags_client_nil :: bool \<comment> \<open>\<open>client.Tags()\<close> is nil\<close>

record kube_api =
  cm_get_r :: "string \<Rightarrow> string \<Rightarrow> configmap resp"
  cm_list_r :: "string \<Rightarrow> configmap list resp"
  cm_create_r :: "configmap \<Rightarrow> unit resp"
  cm_update_r :: "configmap \<Rightarrow> unit resp"
  secret_get_r :: "string \<Rightarrow> string \<Rightarrow> strmap resp"
  maasmachine_get_r :: "string \<Rightarrow> string \<Rightarrow> maas_machine resp"
  maasmachine_update_r :: "maas_machine \<Rightarrow> unit resp"
  maasmachine_patch_r :: "maas_machine \<Rightarrow> unit resp"
  maasmachines_list_r :: "string \<Rightarrow> string \<Rightarrow> maas_machine list resp"
  maascluster_get_r :: "string \<Rightarrow> string \<Rightarrow> maas_cluster resp"
  maascluster_patch_r :: "maas_cluster \<Rightarrow> unit resp"
  capi_machine_get_r :: "string \<Rightarrow> string \<Rightarrow> capi_machine resp"
  capi_machines_list_r :: "string \<Rightarrow> string \<Rightarrow> capi_machine list resp"
  capi_machine_delete_r :: "string \<Rightarrow> string \<Rightarrow> unit resp"
  owner_machine_r :: "maas_machine \<Rightarrow> capi_machine option resp"
  cluster_from_metadata_r :: "strmap \<Rightarrow> string \<Rightarrow> capi_cluster resp"
  owner_cluster_r :: "maas_cluster \<Rightarrow> capi_cluster option resp"
  capi_cluster_get_r :: "string \<Rightarrow> string \<Rightarrow> capi_cluster resp"
  kcp_get_r :: "string \<Rightarrow> string \<Rightarrow> kcp resp"
  kcp_list_r :: "string \<Rightarrow> string \<Rightarrow> kcp list resp"
  kcp_update_r :: "kcp \<Rightarrow> unit resp"
  md_list_r :: "string \<Rightarrow> string \<Rightarrow> int option list resp" \<comment> \<open>spec.replicas of each\<close>
  template_get_r :: "string \<Rightarrow> string \<Rightarrow> maas_machine_template resp"
  template_create_r :: "maas_machine_template \<Rightarrow> unit resp"
  mc_list_raw_r :: "(string \<times> string \<times> fd_shape) list resp"
  mc_status_patch_r :: "string \<Rightarrow> string \<Rightarrow> unit resp"

record remote_api =
  remote_client_r :: "string \<Rightarrow> string \<Rightarrow> unit resp"
  node_get_r :: "string \<Rightarrow> node resp"
  nodes_list_r :: "node list resp"
  node_patch_r :: "string \<Rightarrow> string \<Rightarrow> unit resp"
  namespace_get_r :: "string \<Rightarrow> strmap resp" \<comment> \<open>the labels\<close>
  namespace_update_r :: "string \<Rightarrow> strmap \<Rightarrow> unit resp"
  namespace_apply_r :: "string \<Rightarrow> unit resp"
  secret_apply_r :: "string \<Rightarrow> string \<Rightarrow> string \<Rightarrow> unit resp"
  rbac_apply_r :: "string \<Rightarrow> string \<Rightarrow> unit resp"
  daemonset_list_r :: "string \<Rightarrow> string \<Rightarrow> string list resp"
  daemonset_delete_r :: "string \<Rightarrow> string \<Rightarrow> unit resp"
  daemonset_get_r :: "string \<Rightarrow> string \<Rightarrow> daemonset resp"
  daemonset_apply_r :: "daemonset \<Rightarrow> unit resp"

text \<open>
  The node of the LXD initializer: whether a path exists, the output of a command and whether it
  succeeded, and the LXD server, whose pools and networks are named with their driver or type. The
  server is used in a project for the profiles.
\<close>

record init_api =
  stat_r :: "string \<Rightarrow> trace \<Rightarrow> bool"
  lookpath_r :: "string \<Rightarrow> trace \<Rightarrow> bool"
  command_r :: "string list \<Rightarrow> trace \<Rightarrow> bool \<times> string"
  in_cluster_r :: "unit resp"
  all_secrets_r :: "(string \<times> strmap) list resp"
  node_update_r :: "string \<Rightarrow> strmap \<Rightarrow> unit resp"
  lxd_connect_r :: "string \<Rightarrow> unit resp"
  lxd_server_r :: "unit resp"
  lxd_projects_r :: "string list resp"
  lxd_project_create_r :: "string \<Rightarrow> unit resp"
  lxd_pools_r :: "(string \<times> string) list resp"
  lxd_pool_get_r :: "string \<Rightarrow> strmap resp"
  lxd_pool_create_r :: "string \<Rightarrow> string \<Rightarrow> string \<Rightarrow> unit resp"
  lxd_pool_update_r :: "string \<Rightarrow> string \<Rightarrow> unit resp"
  lxd_networks_r :: "(string \<times> string) list resp"
  lxd_network_get_r :: "string \<Rightarrow> strmap resp"
  lxd_network_create_r :: "string \<Rightarrow> strmap \<Rightarrow> unit resp"
  lxd_network_update_r :: "string \<Rightarrow> strmap \<Rightarrow> unit resp"
  lxd_profiles_r :: "string \<Rightarrow> string list resp"
  lxd_profile_create_r :: "string \<Rightarrow> string \<Rightarrow> (string \<times> strmap) list \<Rightarrow> unit resp"

text \<open>
  Library functions of Cluster API and controller-runtime, the hash of \<open>crypto/sha256\<close> in hex,
  the layout functions of \<open>time.RFC3339\<close>, the host and the path of \<open>url.Parse\<close> (none on an error),
  the rounding of a real number to the nearest \<open>float64\<close>, the DaemonSet template that the build
  generates from lxd_initializer_ds.yaml, and \<open>yaml.Unmarshal\<close> into a DaemonSet and into an object of
  which the code reads the kind and the name.
\<close>

record lib =
  ContainsFinalizer :: "string list \<Rightarrow> string \<Rightarrow> bool"
  AddFinalizer :: "string list \<Rightarrow> string \<Rightarrow> string list"
  RemoveFinalizer :: "string list \<Rightarrow> string \<Rightarrow> string list"
  cond_Set :: "condition list \<Rightarrow> condition \<Rightarrow> condition list"
  cond_SetSummary :: "condition list \<Rightarrow> string list \<Rightarrow> condition list"
  cond_GetReason :: "condition list \<Rightarrow> string \<Rightarrow> string"
  IsControlPlaneMachine_capi :: "capi_machine \<Rightarrow> bool"
  IsPaused :: "capi_cluster \<Rightarrow> maas_machine \<Rightarrow> bool"
  sha256_hex :: "string \<Rightarrow> string"
  time_Format :: "gtime_ns \<Rightarrow> string" \<comment> \<open>with the layout \<open>time.RFC3339\<close>\<close>
  time_Parse :: "string \<Rightarrow> gtime_ns option"
  url_Parse :: "string \<Rightarrow> (string \<times> string) option"
  float64_round :: "rat \<Rightarrow> rat"
  lxdInitTemplate :: string
  yaml_DaemonSet :: "string \<Rightarrow> daemonset option"
  yaml_Object :: "string \<Rightarrow> (string \<times> string) option"

record env =
  maas :: maas_api
  kube :: kube_api
  remote :: remote_api
  init :: init_api
  lib_of :: lib
  os_Getenv :: "string \<Rightarrow> string"
  clock_r :: "trace \<Rightarrow> gtime" \<comment> \<open>the clock in whole seconds\<close>
  clock_nanos_r :: "trace \<Rightarrow> nat" \<comment> \<open>its part below a second\<close>
  uuid_r :: "trace \<Rightarrow> string"
  map_range_r :: "trace \<Rightarrow> nat" \<comment> \<open>which key a range over a map yields first\<close>

section \<open>The state of a reconcile and the calls\<close>

text \<open>
  A reconcile holds the object it works on in memory (a \<open>MaasMachine\<close> or a \<open>MaasCluster\<close>, changed
  through pointers in the Go code) and extends the trace.
\<close>

record sys =
  trace :: trace
  the_mm :: maas_machine
  the_mc :: maas_cluster

type_synonym 'a io = "(sys, 'a) state"

definition call :: "(trace \<Rightarrow> 'r) \<Rightarrow> ('r \<Rightarrow> event) \<Rightarrow> 'r io" where
  "call f ev = State (\<lambda>s. let r = f (trace s) in (r, s\<lparr>trace := trace s @ [ev r]\<rparr>))"

lemma run_call:
  "run_state (call f ev) s = (f (trace s), s\<lparr>trace := trace s @ [ev (f (trace s))]\<rparr>)"
  by (simp add: call_def Let_def)

definition lift_err :: "api_err + 'a \<Rightarrow> 'a res" where
  "lift_err r = (case r of Inl (reason, msg) \<Rightarrow> Inl (ApiError reason msg) | Inr x \<Rightarrow> Inr x)"

definition api :: "'a resp \<Rightarrow> ('a res \<Rightarrow> event) \<Rightarrow> 'a res io" where
  "api f ev = call (\<lambda>tr. lift_err (f tr)) ev"

lemma run_api:
  "run_state (api f ev) s =
     (lift_err (f (trace s)), s\<lparr>trace := trace s @ [ev (lift_err (f (trace s)))]\<rparr>)"
  by (simp add: api_def run_call)

lemma lift_err_simps [simp]:
  "lift_err (Inr x) = Inr x" "lift_err (Inl (r, m)) = Inl (ApiError r m)"
  by (simp_all add: lift_err_def)

lemma lift_err_Inl: "lift_err r = Inl e \<Longrightarrow> \<exists>k m. r = Inl (k, m) \<and> e = ApiError k m"
  by (auto simp: lift_err_def split: sum.splits)

lemma lift_err_Inr [simp]: "lift_err r = Inr x \<longleftrightarrow> r = Inr x"
  by (auto simp: lift_err_def split: sum.splits)

definition Tags_List :: "env \<Rightarrow> string list res io" where
  "Tags_List E = api (tags_list_r (maas E)) (\<lambda>_. Maas TagsList)"

definition Tags_Create :: "env \<Rightarrow> string \<Rightarrow> unit res io" where
  "Tags_Create E t = api (tag_create_r (maas E) t) (\<lambda>r. Maas (TagCreate t (is_ok r)))"

definition Tags_Assign :: "env \<Rightarrow> string \<Rightarrow> string \<Rightarrow> unit res io" where
  "Tags_Assign E t sid = api (tag_assign_r (maas E) t sid) (\<lambda>r. Maas (TagAssign t sid (is_ok r)))"

definition Tags_Unassign :: "env \<Rightarrow> string \<Rightarrow> string \<Rightarrow> unit res io" where
  "Tags_Unassign E t sid =
     api (tag_unassign_r (maas E) t sid) (\<lambda>r. Maas (TagUnassign t sid (is_ok r)))"

definition Machines_List :: "env \<Rightarrow> params \<Rightarrow> sdk_machine list res io" where
  "Machines_List E ps = api (machines_list_r (maas E) ps) (\<lambda>_. Maas (MachinesList ps))"

definition Machine_Get :: "env \<Rightarrow> string \<Rightarrow> sdk_machine res io" where
  "Machine_Get E sid = api (machine_get_r (maas E) sid) (\<lambda>_. Maas (MachineGet sid))"

definition Machine_Release :: "env \<Rightarrow> string \<Rightarrow> bool \<Rightarrow> unit res io" where
  "Machine_Release E sid force =
     api (machine_release_r (maas E) sid force) (\<lambda>r. Maas (MachineRelease sid force (is_ok r)))"

definition Machine_Allocate :: "env \<Rightarrow> alloc_params \<Rightarrow> sdk_machine res io" where
  "Machine_Allocate E al =
     api (machine_allocate_r (maas E) al) (\<lambda>r. Maas (MachineAllocate al (is_ok r)))"

definition Machine_SetSwapSize :: "env \<Rightarrow> string \<Rightarrow> int \<Rightarrow> unit res io" where
  "Machine_SetSwapSize E sid n =
     api (machine_set_swap_r (maas E) sid n) (\<lambda>r. Maas (MachineSetSwap sid n (is_ok r)))"

definition Machine_SetHostname :: "env \<Rightarrow> string \<Rightarrow> string \<Rightarrow> unit res io" where
  "Machine_SetHostname E sid hn =
     api (machine_set_hostname_r (maas E) sid hn) (\<lambda>r. Maas (MachineSetHostname sid hn (is_ok r)))"

definition Machine_Deploy :: "env \<Rightarrow> string \<Rightarrow> deploy_params \<Rightarrow> sdk_machine res io" where
  "Machine_Deploy E sid dp =
     api (machine_deploy_r (maas E) sid dp) (\<lambda>r. Maas (MachineDeploy sid dp (is_ok r)))"

definition Machine_PowerOn :: "env \<Rightarrow> string \<Rightarrow> unit res io" where
  "Machine_PowerOn E sid =
     api (machine_power_on_r (maas E) sid) (\<lambda>r. Maas (MachinePowerOn sid (is_ok r)))"

definition Machine_Delete :: "env \<Rightarrow> string \<Rightarrow> unit res io" where
  "Machine_Delete E sid =
     api (machine_delete_r (maas E) sid) (\<lambda>r. Maas (MachineDelete sid (is_ok r)))"

definition Boot_Bridge :: "env \<Rightarrow> string \<Rightarrow> string \<Rightarrow> unit res io" where
  "Boot_Bridge E sid br =
     api (boot_bridge_r (maas E) sid br) (\<lambda>r. Maas (CreateBootBridge sid br (is_ok r)))"

definition VMHosts_List :: "env \<Rightarrow> vm_host list res io" where
  "VMHosts_List E = api (vmhosts_list_r (maas E)) (\<lambda>_. Maas VMHostsList)"

definition VMHost_Get :: "env \<Rightarrow> string \<Rightarrow> vm_host res io" where
  "VMHost_Get E i = api (vmhost_get_r (maas E) i) (\<lambda>_. Maas (VMHostGet i))"

definition VMHost_Create :: "env \<Rightarrow> params \<Rightarrow> vm_host res io" where
  "VMHost_Create E ps = api (vmhost_create_r (maas E) ps) (\<lambda>r. Maas (VMHostCreate ps (is_ok r)))"

definition VMHost_Update :: "env \<Rightarrow> string \<Rightarrow> params \<Rightarrow> unit res io" where
  "VMHost_Update E sid ps =
     api (vmhost_update_r (maas E) sid ps) (\<lambda>r. Maas (VMHostUpdate sid ps (is_ok r)))"

definition VMHost_Delete :: "env \<Rightarrow> string \<Rightarrow> unit res io" where
  "VMHost_Delete E i = api (vmhost_delete_r (maas E) i) (\<lambda>r. Maas (VMHostDelete i (is_ok r)))"

definition VMHost_Compose :: "env \<Rightarrow> string \<Rightarrow> params \<Rightarrow> sdk_machine res io" where
  "VMHost_Compose E i ps =
     api (vmhost_compose_r (maas E) i ps) (\<lambda>r. Maas (VMHostCompose i ps (is_ok r)))"

definition VMHost_Machines :: "env \<Rightarrow> string \<Rightarrow> sdk_machine list res io" where
  "VMHost_Machines E i = api (vmhost_machines_r (maas E) i) (\<lambda>_. Maas (VMHostMachines i))"

definition DNS_List :: "env \<Rightarrow> string \<Rightarrow> (string \<times> string list) list res io" where
  "DNS_List E fqdn = api (dns_list_r (maas E) fqdn) (\<lambda>_. Maas (DNSList fqdn))"

definition DNS_Create :: "env \<Rightarrow> string \<Rightarrow> unit res io" where
  "DNS_Create E fqdn = api (dns_create_r (maas E) fqdn) (\<lambda>r. Maas (DNSCreate fqdn (is_ok r)))"

definition DNS_Modify :: "env \<Rightarrow> string \<Rightarrow> string list \<Rightarrow> unit res io" where
  "DNS_Modify E i ips =
     api (dns_modify_r (maas E) i ips) (\<lambda>r. Maas (DNSModify i ips (is_ok r)))"

definition CM_Get :: "env \<Rightarrow> string \<Rightarrow> string \<Rightarrow> configmap res io" where
  "CM_Get E ns nm =
     api (cm_get_r (kube E) ns nm) (\<lambda>_. Kube (CMGet ns nm))"

definition CM_List :: "env \<Rightarrow> string \<Rightarrow> configmap list res io" where
  "CM_List E ns =
     api (cm_list_r (kube E) ns) (\<lambda>_. Kube (CMList ns))"

definition CM_Create :: "env \<Rightarrow> configmap \<Rightarrow> unit res io" where
  "CM_Create E cm =
     api (cm_create_r (kube E) cm) (\<lambda>r. Kube (CMCreate cm (is_ok r)))"

definition CM_Update :: "env \<Rightarrow> configmap \<Rightarrow> unit res io" where
  "CM_Update E cm =
     api (cm_update_r (kube E) cm) (\<lambda>r. Kube (CMUpdate cm (is_ok r)))"

definition Secret_Get :: "env \<Rightarrow> string \<Rightarrow> string \<Rightarrow> strmap res io" where
  "Secret_Get E ns nm =
     api (secret_get_r (kube E) ns nm) (\<lambda>_. Kube (SecretGet ns nm))"

definition MaasMachine_Get :: "env \<Rightarrow> string \<Rightarrow> string \<Rightarrow> maas_machine res io" where
  "MaasMachine_Get E ns nm =
     api (maasmachine_get_r (kube E) ns nm) (\<lambda>_. Kube (MaasMachineGet ns nm))"

definition MaasMachine_Update :: "env \<Rightarrow> maas_machine \<Rightarrow> unit res io" where
  "MaasMachine_Update E mm =
     api (maasmachine_update_r (kube E) mm) (\<lambda>r. Kube (MaasMachineUpdate mm (is_ok r)))"

definition MaasMachine_Patch :: "env \<Rightarrow> maas_machine \<Rightarrow> unit res io" where
  "MaasMachine_Patch E mm =
     api (maasmachine_patch_r (kube E) mm) (\<lambda>r. Kube (MaasMachinePatch mm (is_ok r)))"

definition MaasMachines_List :: "env \<Rightarrow> string \<Rightarrow> string \<Rightarrow> maas_machine list res io" where
  "MaasMachines_List E ns cn =
     api (maasmachines_list_r (kube E) ns cn) (\<lambda>_. Kube (MaasMachinesList ns cn))"

definition MaasCluster_Get :: "env \<Rightarrow> string \<Rightarrow> string \<Rightarrow> maas_cluster res io" where
  "MaasCluster_Get E ns nm =
     api (maascluster_get_r (kube E) ns nm) (\<lambda>_. Kube (MaasClusterGet ns nm))"

definition MaasCluster_Patch :: "env \<Rightarrow> maas_cluster \<Rightarrow> unit res io" where
  "MaasCluster_Patch E mc =
     api (maascluster_patch_r (kube E) mc) (\<lambda>r. Kube (MaasClusterPatch mc (is_ok r)))"

definition CapiMachine_Get :: "env \<Rightarrow> string \<Rightarrow> string \<Rightarrow> capi_machine res io" where
  "CapiMachine_Get E ns nm =
     api (capi_machine_get_r (kube E) ns nm) (\<lambda>_. Kube (CapiMachineGet ns nm))"

definition CapiMachines_List :: "env \<Rightarrow> string \<Rightarrow> string \<Rightarrow> capi_machine list res io" where
  "CapiMachines_List E ns cn =
     api (capi_machines_list_r (kube E) ns cn) (\<lambda>_. Kube (CapiMachinesList ns cn))"

definition CapiMachine_Delete :: "env \<Rightarrow> string \<Rightarrow> string \<Rightarrow> unit res io" where
  "CapiMachine_Delete E ns nm =
     api (capi_machine_delete_r (kube E) ns nm) (\<lambda>r. Kube (CapiMachineDelete ns nm (is_ok r)))"

definition GetOwnerMachine :: "env \<Rightarrow> maas_machine \<Rightarrow> capi_machine option res io" where
  "GetOwnerMachine E mm =
     api (owner_machine_r (kube E) mm) (\<lambda>_. Kube (OwnerMachineGet (om_Name (mm_Meta mm))))"

definition GetClusterFromMetadata :: "env \<Rightarrow> strmap \<Rightarrow> string \<Rightarrow> capi_cluster res io" where
  "GetClusterFromMetadata E labels ns =
     api (cluster_from_metadata_r (kube E) labels ns) (\<lambda>_. Kube (ClusterFromMetadata ns))"

definition GetOwnerCluster :: "env \<Rightarrow> maas_cluster \<Rightarrow> capi_cluster option res io" where
  "GetOwnerCluster E mc =
     api (owner_cluster_r (kube E) mc) (\<lambda>_. Kube (OwnerClusterGet (om_Name (mc_Meta mc))))"

definition CapiCluster_Get :: "env \<Rightarrow> string \<Rightarrow> string \<Rightarrow> capi_cluster res io" where
  "CapiCluster_Get E ns nm =
     api (capi_cluster_get_r (kube E) ns nm) (\<lambda>_. Kube (CapiClusterGet ns nm))"

definition KCP_Get :: "env \<Rightarrow> string \<Rightarrow> string \<Rightarrow> kcp res io" where
  "KCP_Get E ns nm =
     api (kcp_get_r (kube E) ns nm) (\<lambda>_. Kube (KCPGet ns nm))"

definition KCPs_List :: "env \<Rightarrow> string \<Rightarrow> string \<Rightarrow> kcp list res io" where
  "KCPs_List E ns cn =
     api (kcp_list_r (kube E) ns cn) (\<lambda>_. Kube (KCPList ns cn))"

definition KCP_Update :: "env \<Rightarrow> kcp \<Rightarrow> unit res io" where
  "KCP_Update E kcp =
     api (kcp_update_r (kube E) kcp) (\<lambda>r. Kube (KCPUpdate kcp (is_ok r)))"

definition MDs_List :: "env \<Rightarrow> string \<Rightarrow> string \<Rightarrow> int option list res io" where
  "MDs_List E ns cn =
     api (md_list_r (kube E) ns cn) (\<lambda>_. Kube (MDList ns cn))"

definition Template_Get :: "env \<Rightarrow> string \<Rightarrow> string \<Rightarrow> maas_machine_template res io" where
  "Template_Get E ns nm =
     api (template_get_r (kube E) ns nm) (\<lambda>_. Kube (TemplateGet ns nm))"

definition Template_Create :: "env \<Rightarrow> maas_machine_template \<Rightarrow> unit res io" where
  "Template_Create E tp =
     api (template_create_r (kube E) tp) (\<lambda>r. Kube (TemplateCreate tp (is_ok r)))"

definition Remote_Client :: "env \<Rightarrow> string \<Rightarrow> string \<Rightarrow> unit res io" where
  "Remote_Client E ns nm =
     api (remote_client_r (remote E) ns nm) (\<lambda>_. Remote (RemoteClient ns nm))"

definition Node_Get :: "env \<Rightarrow> string \<Rightarrow> node res io" where
  "Node_Get E nm =
     api (node_get_r (remote E) nm) (\<lambda>_. Remote (NodeGet nm))"

definition Nodes_List :: "env \<Rightarrow> node list res io" where
  "Nodes_List E =
     api (nodes_list_r (remote E)) (\<lambda>_. Remote NodesList)"

definition Node_PatchProviderID :: "env \<Rightarrow> string \<Rightarrow> string \<Rightarrow> unit res io" where
  "Node_PatchProviderID E nm pid =
     api (node_patch_r (remote E) nm pid) (\<lambda>r. Remote (NodePatch nm pid (is_ok r)))"

definition Namespace_Get :: "env \<Rightarrow> string \<Rightarrow> strmap res io" where
  "Namespace_Get E nm =
     api (namespace_get_r (remote E) nm) (\<lambda>_. Remote (NamespaceGet nm))"

definition Namespace_Update :: "env \<Rightarrow> string \<Rightarrow> strmap \<Rightarrow> unit res io" where
  "Namespace_Update E nm labels =
     api (namespace_update_r (remote E) nm labels) (\<lambda>r. Remote (NamespaceUpdate nm labels (is_ok r)))"

definition Namespace_Apply :: "env \<Rightarrow> string \<Rightarrow> unit res io" where
  "Namespace_Apply E nm =
     api (namespace_apply_r (remote E) nm) (\<lambda>r. Remote (NamespaceApply nm (is_ok r)))"

definition Secret_Apply :: "env \<Rightarrow> string \<Rightarrow> string \<Rightarrow> string \<Rightarrow> unit res io" where
  "Secret_Apply E ns ep key =
     api (secret_apply_r (remote E) ns ep key) (\<lambda>r. Remote (SecretApply ns ep key (is_ok r)))"

definition RBAC_Apply :: "env \<Rightarrow> string \<Rightarrow> string \<Rightarrow> unit res io" where
  "RBAC_Apply E kind nm =
     api (rbac_apply_r (remote E) kind nm) (\<lambda>r. Remote (RBACApply kind nm (is_ok r)))"

definition DaemonSets_List :: "env \<Rightarrow> string \<Rightarrow> string \<Rightarrow> string list res io" where
  "DaemonSets_List E ns app =
     api (daemonset_list_r (remote E) ns app) (\<lambda>_. Remote (DaemonSetList ns app))"

definition DaemonSet_Delete :: "env \<Rightarrow> string \<Rightarrow> string \<Rightarrow> unit res io" where
  "DaemonSet_Delete E ns nm =
     api (daemonset_delete_r (remote E) ns nm) (\<lambda>r. Remote (DaemonSetDelete ns nm (is_ok r)))"

definition DaemonSet_Get :: "env \<Rightarrow> string \<Rightarrow> string \<Rightarrow> daemonset res io" where
  "DaemonSet_Get E ns nm =
     api (daemonset_get_r (remote E) ns nm) (\<lambda>_. Remote (DaemonSetGet ns nm))"

definition DaemonSet_Apply :: "env \<Rightarrow> daemonset \<Rightarrow> unit res io" where
  "DaemonSet_Apply E ds =
     api (daemonset_apply_r (remote E) ds) (\<lambda>r. Remote (DaemonSetApply ds (is_ok r)))"

definition MC_List_Raw :: "env \<Rightarrow> (string \<times> string \<times> fd_shape) list res io" where
  "MC_List_Raw E = api (mc_list_raw_r (kube E)) (\<lambda>_. Kube MCListRaw)"

definition MC_Status_Patch :: "env \<Rightarrow> string \<Rightarrow> string \<Rightarrow> unit res io" where
  "MC_Status_Patch E ns nm =
     api (mc_status_patch_r (kube E) ns nm) (\<lambda>r. Kube (MCStatusPatch ns nm (is_ok r)))"

definition os_Stat :: "env \<Rightarrow> string \<Rightarrow> bool io" where
  "os_Stat E p = call (stat_r (init E) p) (\<lambda>b. Init (SocketStat p b))"

definition exec_LookPath :: "env \<Rightarrow> string \<Rightarrow> bool io" where
  "exec_LookPath E p = call (lookpath_r (init E) p) (\<lambda>_. Init (LookPath p))"

definition exec_Command :: "env \<Rightarrow> string list \<Rightarrow> (bool \<times> string) io" where
  "exec_Command E args = call (command_r (init E) args) (\<lambda>r. Init (RunCommand args (fst r)))"

definition time_Sleep :: "nat \<Rightarrow> unit io" where
  "time_Sleep n = call (\<lambda>_. ()) (\<lambda>_. Init (Sleep n))"

definition InCluster_Client :: "env \<Rightarrow> unit res io" where
  "InCluster_Client E = api (in_cluster_r (init E)) (\<lambda>_. Init InClusterClient)"

definition Secrets_ListAll :: "env \<Rightarrow> (string \<times> strmap) list res io" where
  "Secrets_ListAll E = api (all_secrets_r (init E)) (\<lambda>_. Init SecretsListAll)"

definition Node_Update :: "env \<Rightarrow> string \<Rightarrow> strmap \<Rightarrow> unit res io" where
  "Node_Update E nm labels =
     api (node_update_r (init E) nm labels) (\<lambda>r. Init (NodeUpdate nm labels (is_ok r)))"

definition Lxd_Connect :: "env \<Rightarrow> string \<Rightarrow> unit res io" where
  "Lxd_Connect E p = api (lxd_connect_r (init E) p) (\<lambda>_. Init (LxdConnect p))"

definition Lxd_GetServer :: "env \<Rightarrow> unit res io" where
  "Lxd_GetServer E = api (lxd_server_r (init E)) (\<lambda>_. Init LxdServerGet)"

definition Lxd_GetProjects :: "env \<Rightarrow> string list res io" where
  "Lxd_GetProjects E = api (lxd_projects_r (init E)) (\<lambda>_. Init LxdProjectsList)"

definition Lxd_CreateProject :: "env \<Rightarrow> string \<Rightarrow> unit res io" where
  "Lxd_CreateProject E p =
     api (lxd_project_create_r (init E) p) (\<lambda>r. Init (LxdProjectCreate p (is_ok r)))"

definition Lxd_GetStoragePools :: "env \<Rightarrow> (string \<times> string) list res io" where
  "Lxd_GetStoragePools E = api (lxd_pools_r (init E)) (\<lambda>_. Init LxdPoolsList)"

definition Lxd_GetStoragePool :: "env \<Rightarrow> string \<Rightarrow> strmap res io" where
  "Lxd_GetStoragePool E p = api (lxd_pool_get_r (init E) p) (\<lambda>_. Init (LxdPoolGet p))"

definition Lxd_CreateStoragePool :: "env \<Rightarrow> string \<Rightarrow> string \<Rightarrow> string \<Rightarrow> unit res io" where
  "Lxd_CreateStoragePool E p driver sz =
     api (lxd_pool_create_r (init E) p driver sz) (\<lambda>r. Init (LxdPoolCreate p driver sz (is_ok r)))"

definition Lxd_UpdateStoragePool :: "env \<Rightarrow> string \<Rightarrow> string \<Rightarrow> unit res io" where
  "Lxd_UpdateStoragePool E p sz =
     api (lxd_pool_update_r (init E) p sz) (\<lambda>r. Init (LxdPoolUpdate p sz (is_ok r)))"

definition Lxd_GetNetworks :: "env \<Rightarrow> (string \<times> string) list res io" where
  "Lxd_GetNetworks E = api (lxd_networks_r (init E)) (\<lambda>_. Init LxdNetworksList)"

definition Lxd_GetNetwork :: "env \<Rightarrow> string \<Rightarrow> strmap res io" where
  "Lxd_GetNetwork E n = api (lxd_network_get_r (init E) n) (\<lambda>_. Init (LxdNetworkGet n))"

definition Lxd_CreateNetwork :: "env \<Rightarrow> string \<Rightarrow> strmap \<Rightarrow> unit res io" where
  "Lxd_CreateNetwork E n cfg =
     api (lxd_network_create_r (init E) n cfg) (\<lambda>r. Init (LxdNetworkCreate n cfg (is_ok r)))"

definition Lxd_UpdateNetwork :: "env \<Rightarrow> string \<Rightarrow> strmap \<Rightarrow> unit res io" where
  "Lxd_UpdateNetwork E n cfg =
     api (lxd_network_update_r (init E) n cfg) (\<lambda>r. Init (LxdNetworkUpdate n cfg (is_ok r)))"

definition Lxd_GetProfiles :: "env \<Rightarrow> string \<Rightarrow> string list res io" where
  "Lxd_GetProfiles E proj = api (lxd_profiles_r (init E) proj) (\<lambda>_. Init (LxdProfilesList proj))"

definition Lxd_CreateProfile :: "env \<Rightarrow> string \<Rightarrow> string \<Rightarrow> (string \<times> strmap) list \<Rightarrow> unit res io" where
  "Lxd_CreateProfile E proj p devices =
     api (lxd_profile_create_r (init E) proj p devices)
       (\<lambda>r. Init (LxdProfileCreate proj p devices (is_ok r)))"

definition Poll_Request :: "string \<Rightarrow> unit io" where
  "Poll_Request uid = call (\<lambda>_. ()) (\<lambda>_. PollRequest uid)"

definition Eventf :: "string \<Rightarrow> string \<Rightarrow> unit io" where
  "Eventf etype reason = call (\<lambda>_. ()) (\<lambda>_. Kube (RecordEvent etype reason))"

definition time_Now :: "env \<Rightarrow> gtime io" where
  "time_Now E = call (clock_r E) (\<lambda>_. Clock)"

text \<open>\<open>time.Now().UTC()\<close> with its nanoseconds, where the code stores or prints it.\<close>

definition time_Now_UTC :: "env \<Rightarrow> gtime_ns io" where
  "time_Now_UTC E =
     call (\<lambda>tr. clock_r E tr * 10 ^ 9 + int (clock_nanos_r E tr mod 10 ^ 9)) (\<lambda>_. Clock)"

definition NewUUID_str :: "env \<Rightarrow> string io" where
  "NewUUID_str E = call (uuid_r E) (\<lambda>_. NewUUID)"

text \<open>\<open>for k := range m\<close> left after the first key: any key of a non-empty map.\<close>

definition first_key :: "env \<Rightarrow> 'k list \<Rightarrow> 'k io" where
  "first_key E ks = call (\<lambda>tr. ks ! (map_range_r E tr mod length ks)) (\<lambda>_. MapRange)"

text \<open>
  \<open>for k := range m\<close> over all keys: the keys in an order the environment chooses, one by one.
\<close>

primrec range_keys_n :: "env \<Rightarrow> nat \<Rightarrow> 'k list \<Rightarrow> 'k list io" where
  "range_keys_n E 0 ks = ret []"
| "range_keys_n E (Suc n) ks = do {
     k \<leftarrow> first_key E ks;
     rest \<leftarrow> range_keys_n E n (remove1 k ks);
     ret (k # rest) }"

definition range_keys :: "env \<Rightarrow> 'k list \<Rightarrow> 'k list io" where
  "range_keys E ks = range_keys_n E (length ks) ks"

text \<open>The result of a reconcile: when to requeue, and the error if there is one.\<close>

datatype ctrl_result = NoRequeue | RequeueNow | RequeueAfter nat \<comment> \<open>seconds\<close>

type_synonym reconcile_result = "ctrl_result \<times> gerr option"

abbreviation (input) reconcile_done :: "reconcile_result io" where
  "reconcile_done \<equiv> ret (NoRequeue, None)"

definition IgnoreNotFound :: "gerr \<Rightarrow> gerr option" where
  "IgnoreNotFound e = (if IsNotFound e then None else Some e)"

lemmas api_call_defs = Tags_List_def Tags_Create_def Tags_Assign_def Tags_Unassign_def
  Machines_List_def Machine_Get_def Machine_Release_def Machine_Allocate_def
  Machine_SetSwapSize_def Machine_SetHostname_def Machine_Deploy_def Machine_PowerOn_def
  Machine_Delete_def Boot_Bridge_def VMHosts_List_def VMHost_Get_def VMHost_Create_def
  VMHost_Delete_def VMHost_Compose_def VMHost_Machines_def DNS_List_def DNS_Create_def
  DNS_Modify_def CM_Get_def CM_List_def CM_Create_def CM_Update_def Secret_Get_def
  MaasMachine_Get_def MaasMachine_Update_def MaasMachine_Patch_def MaasMachines_List_def
  MaasCluster_Get_def MaasCluster_Patch_def CapiMachine_Get_def CapiMachines_List_def
  CapiMachine_Delete_def GetOwnerMachine_def GetClusterFromMetadata_def GetOwnerCluster_def
  CapiCluster_Get_def KCP_Get_def KCPs_List_def KCP_Update_def MDs_List_def Template_Get_def
  Template_Create_def Remote_Client_def Node_Get_def Nodes_List_def Node_PatchProviderID_def
  Namespace_Get_def Namespace_Update_def Namespace_Apply_def Secret_Apply_def RBAC_Apply_def
  DaemonSets_List_def DaemonSet_Delete_def DaemonSet_Get_def
  DaemonSet_Apply_def

lemmas init_call_defs = os_Stat_def exec_LookPath_def exec_Command_def time_Sleep_def InCluster_Client_def
  Secrets_ListAll_def Node_Update_def Lxd_Connect_def Lxd_GetServer_def Lxd_GetProjects_def
  Lxd_CreateProject_def Lxd_GetStoragePools_def Lxd_GetStoragePool_def Lxd_CreateStoragePool_def
  Lxd_UpdateStoragePool_def Lxd_GetNetworks_def Lxd_GetNetwork_def Lxd_CreateNetwork_def
  Lxd_UpdateNetwork_def Lxd_GetProfiles_def Lxd_CreateProfile_def VMHost_Update_def

lemmas call_defs = api_call_defs MC_List_Raw_def MC_Status_Patch_def Eventf_def time_Now_def time_Now_UTC_def NewUUID_str_def first_key_def Poll_Request_def

text \<open>What the finalizer functions of controller-runtime are documented to do.\<close>

definition finalizer_laws :: "lib \<Rightarrow> bool" where
  "finalizer_laws L \<longleftrightarrow> (\<forall>fs f. ContainsFinalizer L fs f = (f \<in> set fs) \<and>
     set (RemoveFinalizer L fs f) = set fs - {f} \<and> set (AddFinalizer L fs f) = insert f (set fs))"

section \<open>What a program may call\<close>

text \<open>
  \<open>emits P m\<close>: every event that \<open>m\<close> appends to the trace satisfies \<open>P\<close>, whatever the state. The
  rules are closed under the structure of a program, so \<open>intro emits_intros\<close> reduces a program to
  its calls.
\<close>

definition emits :: "(event \<Rightarrow> bool) \<Rightarrow> 'a io \<Rightarrow> bool" where
  "emits P m \<longleftrightarrow> (\<forall>s. \<exists>es. trace (snd (run_state m s)) = trace s @ es \<and> list_all P es)"

lemma emitsD:
  "emits P m \<Longrightarrow> run_state m s = (r, t) \<Longrightarrow> \<exists>es. trace t = trace s @ es \<and> list_all P es"
  unfolding emits_def by (metis snd_conv)

lemma emits_ret [emits_intros]: "emits P (ret x)"
  by (simp add: emits_def)

lemma emits_call [emits_intros]: "(\<And>r. P (ev r)) \<Longrightarrow> emits P (call f ev)"
  by (simp add: emits_def run_call)

lemma emits_api [emits_intros]: "(\<And>r. P (ev r)) \<Longrightarrow> emits P (api f ev)"
  by (simp add: emits_def run_api)

lemma emits_bind [emits_intros]:
  assumes "emits P m" and "\<And>x. emits P (f x)"
  shows "emits P (m \<bind> f)"
  unfolding emits_def
proof
  fix s
  obtain r t where m: "run_state m s = (r, t)" by fastforce
  from emitsD [OF assms(1) m] obtain es where es: "trace t = trace s @ es" "list_all P es" by blast
  obtain q u where f: "run_state (f r) t = (q, u)" by fastforce
  from emitsD [OF assms(2) f] obtain fs where fs: "trace u = trace t @ fs" "list_all P fs" by blast
  have "trace u = trace s @ (es @ fs)" "list_all P (es @ fs)" using es fs by simp_all
  then show "\<exists>es. trace (snd (run_state (m \<bind> f) s)) = trace s @ es \<and> list_all P es"
    using m f by auto
qed

lemma emits_modify: "(\<And>s. trace (f s) = trace s) \<Longrightarrow> emits P (modify f)"
  by (simp add: emits_def)

lemma emits_modify_mm [emits_intros]: "emits P (modify (\<lambda>s. the_mm_update (g s) s))"
  by (rule emits_modify) simp

lemma emits_modify_mc [emits_intros]: "emits P (modify (\<lambda>s. the_mc_update (g s) s))"
  by (rule emits_modify) simp

lemma emits_gets [emits_intros]: "emits P (gets f)"
  by (simp add: emits_def)

lemma emits_if [emits_intros]:
  "(b \<Longrightarrow> emits P m) \<Longrightarrow> (\<not> b \<Longrightarrow> emits P n) \<Longrightarrow> emits P (if b then m else n)"
  by simp

lemma emits_case_sum [emits_intros]:
  "(\<And>e. r = Inl e \<Longrightarrow> emits P (f e)) \<Longrightarrow> (\<And>x. r = Inr x \<Longrightarrow> emits P (g x)) \<Longrightarrow>
   emits P (case r of Inl e \<Rightarrow> f e | Inr x \<Rightarrow> g x)"
  by (cases r) simp_all

lemma emits_ok_then [emits_intros]:
  "emits P m \<Longrightarrow> (\<And>x. emits P (f x)) \<Longrightarrow> emits P (ok_then m f)"
  unfolding ok_then_def by (intro emits_bind emits_case_sum emits_ret)

lemma emits_case_option [emits_intros]:
  "(x = None \<Longrightarrow> emits P m) \<Longrightarrow> (\<And>y. x = Some y \<Longrightarrow> emits P (f y)) \<Longrightarrow>
   emits P (case x of None \<Rightarrow> m | Some y \<Rightarrow> f y)"
  by (cases x) simp_all

lemma emits_case_list [emits_intros]:
  "(xs = [] \<Longrightarrow> emits P m) \<Longrightarrow> (\<And>y ys. xs = y # ys \<Longrightarrow> emits P (f y ys)) \<Longrightarrow>
   emits P (case xs of [] \<Rightarrow> m | y # ys \<Rightarrow> f y ys)"
  by (cases xs) simp_all

lemma emits_case_prod [emits_intros]:
  "(\<And>a b. p = (a, b) \<Longrightarrow> emits P (f a b)) \<Longrightarrow> emits P (case p of (a, b) \<Rightarrow> f a b)"
  by (cases p) simp

lemma emits_Let [emits_intros]: "emits P (f x) \<Longrightarrow> emits P (let y = x in f y)"
  by simp

lemma emits_mono: "emits P m \<Longrightarrow> (\<And>e. P e \<Longrightarrow> Q e) \<Longrightarrow> emits Q m"
  unfolding emits_def by (metis (mono_tags) list.pred_mono_strong)

lemma emits_range_keys [emits_intros]:
  assumes "P MapRange" shows "emits P (range_keys E ks)"
proof -
  have "emits P (range_keys_n E n ks)" for n
    by (induction n arbitrary: ks) (auto simp: first_key_def assms intro!: emits_intros)
  then show ?thesis by (simp add: range_keys_def)
qed

lemma set_remove1_insert: "k \<in> set ks \<Longrightarrow> set ks = insert k (set (remove1 k ks))"
  by (induction ks) auto

lemma set_range_keys:
  "run_state (range_keys E ks) s = (out, t) \<Longrightarrow> set out = set ks"
proof -
  have "run_state (range_keys_n E n ks) s = (out, t) \<Longrightarrow> n = length ks \<Longrightarrow> set out = set ks" for n
  proof (induction n arbitrary: ks s out t)
    case 0
    then show ?case by simp
  next
    case (Suc n)
    let ?k = "ks ! (map_range_r E (trace s) mod length ks)"
    have k: "?k \<in> set ks" using Suc.prems(2) by (metis mod_less_divisor nth_mem zero_less_Suc)
    obtain rest u where r: "run_state (range_keys_n E n (remove1 ?k ks))
        (s\<lparr>trace := trace s @ [MapRange]\<rparr>) = (rest, u)" by fastforce
    with Suc.prems(1) have "out = ?k # rest" by (auto simp: first_key_def run_call)
    moreover have "set rest = set (remove1 ?k ks)"
      using Suc.IH [OF r] Suc.prems(2) k by (auto simp: length_remove1)
    moreover have "set ks = insert ?k (set (remove1 ?k ks))"
      using k set_remove1_insert by metis
    ultimately show ?case by simp
  qed
  then show "run_state (range_keys E ks) s = (out, t) \<Longrightarrow> set out = set ks"
    by (simp add: range_keys_def)
qed

text \<open>\<open>keeps f m\<close>: the program \<open>m\<close> leaves the component \<open>f\<close> of the state as it was.\<close>

definition keeps :: "(sys \<Rightarrow> 'b) \<Rightarrow> 'a io \<Rightarrow> bool" where
  "keeps f m \<longleftrightarrow> (\<forall>s. f (snd (run_state m s)) = f s)"

lemma keepsD: "keeps f m \<Longrightarrow> run_state m s = (r, t) \<Longrightarrow> f t = f s"
  unfolding keeps_def by (metis snd_conv)

lemma keeps_ret [emits_intros]: "keeps f (ret x)"
  by (simp add: keeps_def)

lemma keeps_bind [emits_intros]:
  "keeps f m \<Longrightarrow> (\<And>x. keeps f (g x)) \<Longrightarrow> keeps f (m \<bind> g)"
  by (simp add: keeps_def split: prod.splits) (metis snd_conv)

lemma keeps_call_mm [emits_intros]: "keeps the_mm (call g ev)"
  by (simp add: keeps_def run_call)

lemma keeps_call_mc [emits_intros]: "keeps the_mc (call g ev)"
  by (simp add: keeps_def run_call)

lemma keeps_api_mm [emits_intros]: "keeps the_mm (api g ev)"
  by (simp add: keeps_def run_api)

lemma keeps_api_mc [emits_intros]: "keeps the_mc (api g ev)"
  by (simp add: keeps_def run_api)

lemma keeps_modify: "(\<And>s. f (g s) = f s) \<Longrightarrow> keeps f (modify g)"
  by (simp add: keeps_def)

lemma keeps_modify_mm [emits_intros]: "keeps the_mc (modify (\<lambda>s. the_mm_update (g s) s))"
  by (simp add: keeps_def)

lemma keeps_modify_mc [emits_intros]: "keeps the_mm (modify (\<lambda>s. the_mc_update (g s) s))"
  by (simp add: keeps_def)

lemma keeps_range_keys [emits_intros]:
  assumes "\<And>s es. f (s\<lparr>trace := es\<rparr>) = f s" shows "keeps f (range_keys E ks)"
proof -
  have "f (snd (run_state (range_keys_n E n ks) s)) = f s" for n s
  proof (induction n arbitrary: ks s)
    case (Suc n)
    then show ?case
      by (simp add: first_key_def run_call split: prod.splits) (metis assms snd_conv)
  qed simp
  then show ?thesis by (simp add: range_keys_def keeps_def)
qed

lemma keeps_gets [emits_intros]: "keeps f (gets g)"
  by (simp add: keeps_def)

lemma keeps_if [emits_intros]:
  "(b \<Longrightarrow> keeps f m) \<Longrightarrow> (\<not> b \<Longrightarrow> keeps f n) \<Longrightarrow> keeps f (if b then m else n)"
  by simp

lemma keeps_case_sum [emits_intros]:
  "(\<And>e. r = Inl e \<Longrightarrow> keeps h (f e)) \<Longrightarrow> (\<And>x. r = Inr x \<Longrightarrow> keeps h (g x)) \<Longrightarrow>
   keeps h (case r of Inl e \<Rightarrow> f e | Inr x \<Rightarrow> g x)"
  by (cases r) simp_all

lemma keeps_ok_then [emits_intros]:
  "keeps f m \<Longrightarrow> (\<And>x. keeps f (g x)) \<Longrightarrow> keeps f (ok_then m g)"
  unfolding ok_then_def by (intro keeps_bind keeps_case_sum keeps_ret)

lemma keeps_case_option [emits_intros]:
  "(x = None \<Longrightarrow> keeps h m) \<Longrightarrow> (\<And>y. x = Some y \<Longrightarrow> keeps h (f y)) \<Longrightarrow>
   keeps h (case x of None \<Rightarrow> m | Some y \<Rightarrow> f y)"
  by (cases x) simp_all

lemma keeps_case_list [emits_intros]:
  "(xs = [] \<Longrightarrow> keeps h m) \<Longrightarrow> (\<And>y ys. xs = y # ys \<Longrightarrow> keeps h (f y ys)) \<Longrightarrow>
   keeps h (case xs of [] \<Rightarrow> m | y # ys \<Rightarrow> f y ys)"
  by (cases xs) simp_all

lemma keeps_case_prod [emits_intros]:
  "(\<And>a b. p = (a, b) \<Longrightarrow> keeps h (f a b)) \<Longrightarrow> keeps h (case p of (a, b) \<Rightarrow> f a b)"
  by (cases p) simp

end
