(* ===== verification/Tags.thy ===== *)
theory Tags
  imports World
begin

text \<open>
  The tag vocabulary of host maintenance, \<open>pkg/maas/maintenance/tags.go\<close>: the constants, the
  builders and the parser of the session tag, the sanitiser of cluster identifiers, and the two
  operations that read and write tags through the MAAS client. The lemmas give the shape of a
  sanitised identifier and the round trip of the session tag.
\<close>

section \<open>Constants and builders\<close>

definition TagHostMaintenance :: string where
  "TagHostMaintenance = ''maas-lxd-host-maintenance''"
definition TagHostNoSchedule :: string where
  "TagHostNoSchedule = ''maas-lxd-host-noschedule''"
definition TagHostOpPrefix :: string where "TagHostOpPrefix = ''maas-lxd-hcp-op-''"
definition TagVMControlPlane :: string where "TagVMControlPlane = ''maas-lxd-wlc-cp''"
definition TagVMClusterPrefix :: string where "TagVMClusterPrefix = ''maas-lxd-wlc-''"
definition TagVMReadyOpPrefix :: string where "TagVMReadyOpPrefix = ''maas-lxd-ready-op-''"

lemmas tag_defs = TagHostMaintenance_def TagHostNoSchedule_def TagHostOpPrefix_def
  TagVMControlPlane_def TagVMClusterPrefix_def TagVMReadyOpPrefix_def

definition BuildOpTag :: "string \<Rightarrow> string" where
  "BuildOpTag opID = TagHostOpPrefix @ opID"

fun ParseOpTag :: "string list \<Rightarrow> string \<times> bool" where
  "ParseOpTag [] = ([], False)"
| "ParseOpTag (t # ts) =
     (if HasPrefix t TagHostOpPrefix \<and> length t > length TagHostOpPrefix
      then (drop (length TagHostOpPrefix) t, True) else ParseOpTag ts)"

definition is_token_char :: "char \<Rightarrow> bool" where
  "is_token_char r =
     ((CHR ''a'' \<le> r \<and> r \<le> CHR ''z'') \<or> (CHR ''0'' \<le> r \<and> r \<le> CHR ''9''))"

text \<open>The loop of \<open>SanitizeID\<close>: \<open>prevDash\<close> says that the last character written is a dash.\<close>

fun sanitize_loop :: "bool \<Rightarrow> string \<Rightarrow> string" where
  "sanitize_loop prevDash [] = []"
| "sanitize_loop prevDash (r # rs) =
     (if is_token_char r then r # sanitize_loop False rs
      else if \<not> prevDash then CHR ''-'' # sanitize_loop True rs
      else sanitize_loop prevDash rs)"

definition SanitizeID :: "string \<Rightarrow> string" where
  "SanitizeID i =
     (if i = [] then i
      else let s = Trim_set (\<lambda>c. c = CHR ''-'') (sanitize_loop False (ToLower i));
               s' = (if length s > 63 then TrimRight_set (\<lambda>c. c = CHR ''-'') (take 63 s) else s)
           in if s' = [] then ''x'' else s')"

definition BuildReadyHostTag :: "string \<Rightarrow> string \<Rightarrow> string" where
  "BuildReadyHostTag clusterID opID =
     TagVMReadyOpPrefix @ SanitizeID clusterID @ ''-op-'' @ opID"

definition BuildVMReadyOpTag :: "string \<Rightarrow> string" where
  "BuildVMReadyOpTag opID = TagVMReadyOpPrefix @ opID"

text \<open>The tag operations take a client that may be nil.\<close>

definition GetHostOpID :: "env option \<Rightarrow> string \<Rightarrow> (string \<times> bool) res io" where
  "GetHostOpID client hostSystemID =
     (case client of
        None \<Rightarrow> ret (Inr ([], False))
      | Some E \<Rightarrow>
          if hostSystemID = [] then ret (Inr ([], False))
          else do {
            r \<leftarrow> Machine_Get E hostSystemID;
            ret (case r of Inl e \<Rightarrow> Inl e | Inr m \<Rightarrow> Inr (ParseOpTag (sdk_Tags m)))
          })"

definition TagVMReadyOp :: "env option \<Rightarrow> string \<Rightarrow> string \<Rightarrow> unit res io" where
  "TagVMReadyOp client systemID opID =
     (case client of
        None \<Rightarrow> ret (Inr ())
      | Some E \<Rightarrow>
          if systemID = [] \<or> opID = [] then ret (Inr ())
          else if tags_client_nil (maas E) then ret (Inr ())
          else do {
            _ \<leftarrow> Tags_Create E (BuildVMReadyOpTag opID);
            Tags_Assign E (BuildVMReadyOpTag opID) systemID
          })"

section \<open>The tags against each other\<close>

lemma cp_tag_has_cluster_prefix [simp]: "HasPrefix TagVMControlPlane TagVMClusterPrefix"
  by (simp add: tag_defs HasPrefix_def)

lemma tags_distinct [simp]:
  "TagHostMaintenance \<noteq> TagHostNoSchedule" "TagHostNoSchedule \<noteq> TagHostMaintenance"
  "TagVMControlPlane \<noteq> TagHostMaintenance" "TagVMControlPlane \<noteq> TagHostNoSchedule"
  "TagHostMaintenance \<noteq> TagVMControlPlane" "TagHostNoSchedule \<noteq> TagVMControlPlane"
  "TagVMControlPlane \<noteq> []" "TagVMClusterPrefix \<noteq> []" "TagHostOpPrefix \<noteq> []"
  by (simp_all add: tag_defs)

lemma static_tags_no_op_prefix [simp]:
  "\<not> HasPrefix TagHostMaintenance TagHostOpPrefix" "\<not> HasPrefix TagHostNoSchedule TagHostOpPrefix"
  "\<not> HasPrefix TagVMControlPlane TagHostOpPrefix"
  by (simp_all add: tag_defs HasPrefix_def)

lemma HasPrefix_BuildOpTag [simp]: "HasPrefix (BuildOpTag op) TagHostOpPrefix"
  by (simp add: BuildOpTag_def)

lemma BuildOpTag_neq [simp]:
  "BuildOpTag op \<noteq> TagHostMaintenance" "BuildOpTag op \<noteq> TagHostNoSchedule"
  "TagHostMaintenance \<noteq> BuildOpTag op" "TagHostNoSchedule \<noteq> BuildOpTag op"
  by (metis HasPrefix_BuildOpTag static_tags_no_op_prefix)+

lemma BuildOpTag_inject [simp]: "BuildOpTag a = BuildOpTag b \<longleftrightarrow> a = b"
  by (simp add: BuildOpTag_def)

lemma ParseOpTag_skip:
  "(\<And>t. t \<in> set ts \<Longrightarrow> \<not> HasPrefix t TagHostOpPrefix) \<Longrightarrow> ParseOpTag (ts @ us) = ParseOpTag us"
  by (induction ts) auto

lemma ParseOpTag_Build: "op \<noteq> [] \<Longrightarrow> ParseOpTag (BuildOpTag op # ts) = (op, True)"
  by (simp add: BuildOpTag_def)

lemma ParseOpTag_sound:
  "ParseOpTag ts = (op, True) \<Longrightarrow> op \<noteq> [] \<and> BuildOpTag op \<in> set ts"
proof (induction ts)
  case Nil
  then show ?case by simp
next
  case (Cons t ts)
  then show ?case
    by (auto simp: BuildOpTag_def HasPrefix_drop split: if_splits)
qed

lemma ParseOpTag_complete:
  "op \<noteq> [] \<Longrightarrow> BuildOpTag op \<in> set ts \<Longrightarrow> snd (ParseOpTag ts)"
  by (induction ts) (auto simp: BuildOpTag_def)

section \<open>Sanitised identifiers\<close>

definition no_double_dash :: "string \<Rightarrow> bool" where
  "no_double_dash s = successively (\<lambda>a b. \<not> (a = CHR ''-'' \<and> b = CHR ''-'')) s"

definition tag_safe :: "string \<Rightarrow> bool" where
  "tag_safe s = (s \<noteq> [] \<and> length s \<le> 63 \<and> list_all (\<lambda>c. is_token_char c \<or> c = CHR ''-'') s \<and>
     hd s \<noteq> CHR ''-'' \<and> last s \<noteq> CHR ''-'' \<and> no_double_dash s)"

lemma dash_not_token [simp]: "\<not> is_token_char (CHR ''-'')"
  by (simp add: is_token_char_def)

lemma token_lower: "is_token_char c \<Longrightarrow> lower_char c = c"
proof -
  assume "is_token_char c"
  moreover have "CHR ''Z'' < CHR ''a''" "CHR ''9'' < CHR ''A''" by simp_all
  ultimately have "\<not> (CHR ''A'' \<le> c \<and> c \<le> CHR ''Z'')"
    unfolding is_token_char_def by (metis leD order.strict_trans2 order_trans)
  then show ?thesis by (auto simp: lower_char_def)
qed

lemma dash_lower [simp]: "lower_char (CHR ''-'') = CHR ''-''"
  by (simp add: lower_char_def)

lemma sanitize_loop_chars:
  "list_all (\<lambda>c. is_token_char c \<or> c = CHR ''-'') (sanitize_loop b s)"
  by (induction b s rule: sanitize_loop.induct) auto

lemma sanitize_loop_no_double:
  "no_double_dash (sanitize_loop b s) \<and> (b \<longrightarrow> sanitize_loop b s = [] \<or> hd (sanitize_loop b s) \<noteq> CHR ''-'')"
proof (induction b s rule: sanitize_loop.induct)
  case (1 b)
  then show ?case by (simp add: no_double_dash_def)
next
  case (2 b r rs)
  then show ?case
    by (auto simp: no_double_dash_def successively_Cons dest: dash_not_token [THEN notE])
qed

lemma sanitize_loop_id:
  "list_all (\<lambda>c. is_token_char c \<or> c = CHR ''-'') s \<Longrightarrow> no_double_dash s \<Longrightarrow>
   (b \<longrightarrow> s = [] \<or> hd s \<noteq> CHR ''-'') \<Longrightarrow> sanitize_loop b s = s"
proof (induction b s rule: sanitize_loop.induct)
  case (1 b)
  then show ?case by simp
next
  case (2 b r rs)
  then show ?case
    by (cases "is_token_char r") (auto simp: no_double_dash_def successively_Cons)
qed

lemma no_double_dash_sublist: "no_double_dash (xs @ ys @ zs) \<Longrightarrow> no_double_dash ys"
  by (simp add: no_double_dash_def successively_append_iff)

lemma Trim_set_split:
  "\<exists>xs zs. s = xs @ Trim_set p s @ zs \<and> list_all p xs \<and> list_all p zs"
proof -
  let ?t = "dropWhile p s"
  have s: "s = takeWhile p s @ ?t" by simp
  have "rev ?t = takeWhile p (rev ?t) @ dropWhile p (rev ?t)" by simp
  then have t: "?t = Trim_set p s @ rev (takeWhile p (rev ?t))"
    unfolding Trim_set_def TrimRight_set_def TrimLeft_set_def
    by (metis rev_append rev_rev_ident)
  have "list_all p (takeWhile p s)" "list_all p (rev (takeWhile p (rev ?t)))"
    by (auto simp: list_all_iff dest: set_takeWhileD)
  with s t show ?thesis by metis
qed

lemma hd_Trim_set: "Trim_set p s \<noteq> [] \<Longrightarrow> \<not> p (hd (Trim_set p s))"
proof -
  assume ne: "Trim_set p s \<noteq> []"
  let ?t = "dropWhile p s"
  have "prefix (Trim_set p s) ?t"
    unfolding Trim_set_def TrimRight_set_def TrimLeft_set_def
    by (metis rev_rev_ident suffix_dropWhile suffix_to_prefix)
  then obtain zs where t: "?t = Trim_set p s @ zs" by (blast elim: prefixE)
  have "?t \<noteq> []" using ne t by (metis append_is_Nil_conv)
  moreover have "hd (Trim_set p s) = hd ?t" using ne t by (metis hd_append2)
  ultimately show ?thesis using hd_dropWhile by metis
qed

lemma last_TrimRight_set: "TrimRight_set p s \<noteq> [] \<Longrightarrow> \<not> p (last (TrimRight_set p s))"
  unfolding TrimRight_set_def by (metis hd_dropWhile last_rev rev.simps(1) rev_rev_ident)

lemma TrimRight_set_prefix: "prefix (TrimRight_set p s) s"
  unfolding TrimRight_set_def by (metis rev_rev_ident suffix_dropWhile suffix_to_prefix)

lemma TrimRight_set_id: "s \<noteq> [] \<Longrightarrow> \<not> p (last s) \<Longrightarrow> TrimRight_set p s = s"
  unfolding TrimRight_set_def by (cases s rule: rev_cases) auto

lemma Trim_set_id: "s \<noteq> [] \<Longrightarrow> \<not> p (hd s) \<Longrightarrow> \<not> p (last s) \<Longrightarrow> Trim_set p s = s"
  unfolding Trim_set_def TrimLeft_set_def
  by (cases s) (auto simp: TrimRight_set_id)

lemma tag_safe_SanitizeID:
  assumes "i \<noteq> []" shows "tag_safe (SanitizeID i)"
proof -
  let ?dash = "\<lambda>c. c = CHR ''-''"
  let ?ok = "list_all (\<lambda>c. is_token_char c \<or> c = CHR ''-'')"
  define l where "l = sanitize_loop False (ToLower i)"
  define s where "s = Trim_set ?dash l"
  obtain xs zs where l: "l = xs @ s @ zs" using Trim_set_split s_def by blast
  have "?ok l" "no_double_dash l"
    using sanitize_loop_chars sanitize_loop_no_double l_def by blast+
  then have s1: "?ok s" "no_double_dash s"
    using l no_double_dash_sublist by auto
  have s2: "s \<noteq> [] \<Longrightarrow> hd s \<noteq> CHR ''-''" "s \<noteq> [] \<Longrightarrow> last s \<noteq> CHR ''-''"
    using hd_Trim_set [of ?dash l] last_TrimRight_set [of ?dash "TrimLeft_set ?dash l"]
    unfolding s_def Trim_set_def by simp_all
  define u where "u = (if length s > 63 then TrimRight_set ?dash (take 63 s) else s)"
  have pre: "prefix u s"
    unfolding u_def using prefix_order.trans [OF TrimRight_set_prefix take_is_prefix] by simp
  then obtain v where v: "s = u @ v" by (auto simp: prefix_def)
  have u1: "?ok u" using s1(1) v by simp
  have u2: "no_double_dash u" using s1(2) v no_double_dash_sublist [of "[]" u v] by simp
  have u3: "u \<noteq> [] \<Longrightarrow> hd u \<noteq> CHR ''-''" using s2(1) v by auto
  have u4: "u \<noteq> [] \<Longrightarrow> last u \<noteq> CHR ''-''"
    unfolding u_def using s2(2) last_TrimRight_set by (auto split: if_splits)
  have "length (TrimRight_set ?dash (take 63 s)) \<le> 63"
    using prefix_length_le [OF TrimRight_set_prefix, of ?dash "take 63 s"] by simp
  then have u5: "length u \<le> 63" unfolding u_def by auto
  have "SanitizeID i = (if u = [] then ''x'' else u)"
    using assms unfolding SanitizeID_def u_def s_def l_def by (simp add: Let_def)
  moreover have "tag_safe ''x''"
    by (simp add: tag_safe_def is_token_char_def no_double_dash_def)
  ultimately show ?thesis using u1 u2 u3 u4 u5 by (simp add: tag_safe_def)
qed

lemma ToLower_safe: "list_all (\<lambda>c. is_token_char c \<or> c = CHR ''-'') s \<Longrightarrow> ToLower s = s"
  unfolding ToLower_def by (induction s) (auto simp: token_lower)

lemma SanitizeID_safe: "tag_safe s \<Longrightarrow> SanitizeID s = s"
  by (simp add: SanitizeID_def tag_safe_def ToLower_safe sanitize_loop_id Trim_set_id)

text \<open>
  Every non-empty cluster identifier is turned into a MAAS tag token: between 1 and 63
  characters, only \<open>a-z\<close>, \<open>0-9\<close> and single dashes, no dash at either end; and sanitising a token
  again changes nothing, so builders that sanitise twice agree.
\<close>

lemma SanitizeID_correct:
  assumes "i \<noteq> []"
  shows "tag_safe (SanitizeID i) \<and> SanitizeID (SanitizeID i) = SanitizeID i"
  using tag_safe_SanitizeID [OF assms] by (simp add: SanitizeID_safe)

text \<open>
  The session tag round trip. A tag list whose first session tag is the one built for a
  non-empty operation id parses to this id, whatever other tags surround it; and whatever the
  parser returns was built by \<open>BuildOpTag\<close> from a tag of the list.
\<close>

lemma ParseOpTag_roundtrip:
  assumes "op \<noteq> []" and "\<And>t. t \<in> set before \<Longrightarrow> \<not> HasPrefix t TagHostOpPrefix"
  shows "ParseOpTag (before @ BuildOpTag op # after) = (op, True) \<and>
    (\<forall>ts op'. ParseOpTag ts = (op', True) \<longrightarrow> op' \<noteq> [] \<and> BuildOpTag op' \<in> set ts)"
  using assms ParseOpTag_skip [of before] ParseOpTag_Build ParseOpTag_sound by simp

end
