(* ===== verification/Sample_World.thy ===== *)
theory Sample_World
  imports World
begin

text \<open>
  A concrete environment for the witnesses: servers that accept every write and answer every read
  from the small inventory below. The witnesses change single responses of it by record update.
  No property is stated about it.
\<close>

definition sample_machine :: sdk_machine where
  "sample_machine = \<lparr>sdk_SystemID = ''abc123'', sdk_Hostname = ''node-1'', sdk_FQDN = ''node-1.maas'',
     sdk_State = ''Deployed'', sdk_PowerState = ''on'', sdk_PowerType = ''ipmi'',
     sdk_Zone = ZoneOf 1 ''az1'', sdk_ZoneName = ''az1'', sdk_ResourcePoolName = ''pool'',
     sdk_Parent = [], sdk_Tags = [], sdk_IPAddresses = [''10.0.0.5''], sdk_DeployedInMemory = False,
     sdk_BootInterfaceType = ''physical'',
     sdk_BootInterfaceName = ''eth0'', sdk_TotalStorageGB = 500\<rparr>"

definition sample_vm_host :: vm_host where
  "sample_vm_host = \<lparr>vmh_SystemID = ''7'', vmh_Name = ''lxd-host-node-1'', vmh_HostSystemID = ''abc123'',
     vmh_Zone = ZoneOf 1 ''az1'', vmh_ResourcePool = Some (2, ''pool''), vmh_Tags = [],
     vmh_AvailableCores = 16, vmh_AvailableMemory = 32768,
     vmh_StoragePools = [], vmh_PowerAddress = ''https://10.0.0.5:8443'',
     vmh_Projects = [''maas'']\<rparr>"

definition sample_meta :: "string \<Rightarrow> object_meta" where
  "sample_meta nm = \<lparr>om_Name = nm, om_Namespace = ''cluster-1'', om_UID = ''uid-1'', om_Labels = [],
     om_Annotations = [], om_Finalizers = [], om_DeletionTimestamp = None, om_OwnerReferences = []\<rparr>"

definition sample_spec :: maas_machine_spec where
  "sample_spec = \<lparr>FailureDomain = None, SystemID = None, Parent = None, ProviderID = None,
     ResourcePool = None, MinCPU = Some 4, MinMemoryInMB = Some 8192, MinDiskSizeInGB = None,
     Tags = [], Image = ''custom/img'', DeployInMemory = False, LXD = None\<rparr>"

definition sample_status :: maas_machine_status where
  "sample_status = \<lparr>Ready = False, Provisioned = None, MachineState = None, MachinePowered = False,
     Hostname = None, DNSAttached = False, Addresses = [], Conditions = [], FailureReason = None,
     FailureMessage = None\<rparr>"

definition sample_mm :: maas_machine where
  "sample_mm = \<lparr>mm_Meta = sample_meta ''m-1'', mm_Spec = sample_spec, mm_Status = sample_status\<rparr>"

definition sample_mc :: maas_cluster where
  "sample_mc = \<lparr>mc_Meta = sample_meta ''c-1'',
     mc_Spec = \<lparr>DNSDomain = ''maas'', ControlPlaneEndpoint = \<lparr>ep_Host = [], ep_Port = 0\<rparr>,
       FailureDomains = [], LXDConfig = None\<rparr>,
     mc_Status = \<lparr>mcs_Ready = False, mcs_Provisioned = None, mcs_DNSName = ''c-1.maas'',
       mcs_FailureDomains = [], mcs_Conditions = []\<rparr>\<rparr>"

definition sample_capi_machine :: capi_machine where
  "sample_capi_machine = \<lparr>cam_Name = ''m-1'', cam_Namespace = ''cluster-1'', cam_UID = ''uid-m1'',
     cam_Labels = [], cam_DeletionTimestamp = None, cam_InfraRefName = ''m-1'',
     cam_FailureDomain = [], cam_DataSecretName = Some ''boot''\<rparr>"

definition sample_cluster :: capi_cluster where
  "sample_cluster = \<lparr>cl_Name = ''c-1'', cl_Namespace = ''cluster-1'', cl_UID = ''uid-c1'',
     cl_InfraRefName = ''c-1'', cl_DeletionTimestamp = None,
     cl_ControlPlaneEndpoint = \<lparr>ep_Host = [], ep_Port = 0\<rparr>, cl_APIServerPort = 0,
     cl_ControlPlaneRef = Some ''kcp-1'', cl_InfrastructureProvisioned = Some True,
     cl_ControlPlaneInitialized = Some True\<rparr>"

definition sample_kcp :: kcp where
  "sample_kcp = \<lparr>kcp_Name = ''kcp-1'', kcp_Namespace = ''cluster-1'', kcp_paused = None,
     kcp_specReplicas = Some 3, kcp_readyReplicas = Some 3, kcp_updatedReplicas = Some 3,
     kcp_statusReplicas = Some 3, kcp_unavailableReplicas = None, kcp_generation = Some 1,
     kcp_observedGeneration = Some 1, kcp_infrastructureRef = Some (Some ''tmpl''),
     kcp_maxSurge = None\<rparr>"

definition sample_template :: maas_machine_template where
  "sample_template = \<lparr>mt_Name = ''tmpl'', mt_Namespace = ''cluster-1'', mt_Labels = [],
     mt_Spec = sample_spec\<lparr>LXD := Some \<lparr>ml_Enabled = Some True, ml_VMConfig = None\<rparr>\<rparr>\<rparr>"

definition sample_daemonset :: daemonset where
  "sample_daemonset = \<lparr>ds_Name = ''lxd-initializer'', ds_Namespace = [], ds_Labels = [], ds_Annotations = [],
     ds_Selector = Some [(''app'', ''lxd-initializer'')], ds_TemplateLabels = Some [(''app'', ''lxd-initializer'')],
     ds_Template = [], ds_UpdateStrategy = [], ds_MinReadySeconds = 0, ds_RevisionHistoryLimit = None\<rparr>"

definition not_found :: "'a resp" where
  "not_found = (\<lambda>_. Inl (NotFoundReason, ''not found''))"

definition sample_maas :: maas_api where
  "sample_maas = \<lparr>tags_list_r = (\<lambda>_. Inr []), tag_create_r = (\<lambda>_ _. Inr ()),
     tag_assign_r = (\<lambda>_ _ _. Inr ()), tag_unassign_r = (\<lambda>_ _ _. Inr ()),
     machines_list_r = (\<lambda>_ _. Inr []), machine_get_r = (\<lambda>_ _. Inr sample_machine),
     machine_release_r = (\<lambda>_ _ _. Inr ()), machine_allocate_r = (\<lambda>_ _. Inr sample_machine),
     machine_set_swap_r = (\<lambda>_ _ _. Inr ()), machine_set_hostname_r = (\<lambda>_ _ _. Inr ()),
     machine_deploy_r = (\<lambda>_ _ _. Inr sample_machine), machine_power_on_r = (\<lambda>_ _. Inr ()),
     machine_delete_r = (\<lambda>_ _. Inr ()), boot_bridge_r = (\<lambda>_ _ _. Inr ()),
     vmhosts_list_r = (\<lambda>_. Inr [sample_vm_host]), vmhost_get_r = (\<lambda>_ _. Inr sample_vm_host),
     vmhost_create_r = (\<lambda>_ _. Inr sample_vm_host),
     vmhost_update_r = (\<lambda>_ _ _. Inr ()), vmhost_delete_r = (\<lambda>_ _. Inr ()),
     vmhost_compose_r = (\<lambda>_ _ _. Inr sample_machine), vmhost_machines_r = (\<lambda>_ _. Inr []),
     dns_list_r = (\<lambda>_ _. Inr [(''1'', [''10.0.0.5''])]), dns_create_r = (\<lambda>_ _. Inr ()),
     dns_modify_r = (\<lambda>_ _ _. Inr ()), tags_client_nil = False\<rparr>"

definition sample_kube :: kube_api where
  "sample_kube = \<lparr>cm_get_r = (\<lambda>_ _. not_found), cm_list_r = (\<lambda>_ _. Inr []),
     cm_create_r = (\<lambda>_ _. Inr ()), cm_update_r = (\<lambda>_ _. Inr ()),
     secret_get_r = (\<lambda>_ _ _. Inr [(''MAAS_ENDPOINT'', ''http://maas''), (''MAAS_API_KEY'', ''k'')]),
     maasmachine_get_r = (\<lambda>_ _ _. Inr sample_mm), maasmachine_update_r = (\<lambda>_ _. Inr ()),
     maasmachine_patch_r = (\<lambda>_ _. Inr ()), maasmachines_list_r = (\<lambda>_ _ _. Inr []),
     maascluster_get_r = (\<lambda>_ _ _. Inr sample_mc), maascluster_patch_r = (\<lambda>_ _. Inr ()),
     capi_machine_get_r = (\<lambda>_ _ _. Inr sample_capi_machine),
     capi_machines_list_r = (\<lambda>_ _ _. Inr []), capi_machine_delete_r = (\<lambda>_ _ _. Inr ()),
     owner_machine_r = (\<lambda>_ _. Inr (Some sample_capi_machine)),
     cluster_from_metadata_r = (\<lambda>_ _ _. Inr sample_cluster),
     owner_cluster_r = (\<lambda>_ _. Inr (Some sample_cluster)),
     capi_cluster_get_r = (\<lambda>_ _ _. Inr sample_cluster), kcp_get_r = (\<lambda>_ _ _. Inr sample_kcp),
     kcp_list_r = (\<lambda>_ _ _. Inr [sample_kcp]), kcp_update_r = (\<lambda>_ _. Inr ()),
     md_list_r = (\<lambda>_ _ _. Inr []), template_get_r = (\<lambda>_ _ _. Inr sample_template),
     template_create_r = (\<lambda>_ _. Inr ()), mc_list_raw_r = (\<lambda>_. Inr []),
     mc_status_patch_r = (\<lambda>_ _ _. Inr ())\<rparr>"

definition sample_remote :: remote_api where
  "sample_remote = \<lparr>remote_client_r = (\<lambda>_ _ _. Inr ()), node_get_r = (\<lambda>_. not_found),
     nodes_list_r = (\<lambda>_. Inr []), node_patch_r = (\<lambda>_ _ _. Inr ()),
     namespace_get_r = (\<lambda>_ _. Inr []), namespace_update_r = (\<lambda>_ _ _. Inr ()),
     namespace_apply_r = (\<lambda>_ _. Inr ()), secret_apply_r = (\<lambda>_ _ _ _. Inr ()),
     rbac_apply_r = (\<lambda>_ _ _. Inr ()), daemonset_list_r = (\<lambda>_ _ _. Inr []),
     daemonset_delete_r = (\<lambda>_ _ _. Inr ()), daemonset_get_r = (\<lambda>_ _. not_found),
     daemonset_apply_r = (\<lambda>_ _. Inr ())\<rparr>"

definition sample_init :: init_api where
  "sample_init = \<lparr>stat_r = (\<lambda>_ _. True), lookpath_r = (\<lambda>_ _. True), command_r = (\<lambda>_ _. (True, ''true'')),
     in_cluster_r = (\<lambda>_. Inr ()), all_secrets_r = (\<lambda>_. Inr []), node_update_r = (\<lambda>_ _ _. Inr ()),
     lxd_connect_r = (\<lambda>_ _. Inr ()), lxd_server_r = (\<lambda>_. Inr ()), lxd_projects_r = (\<lambda>_. Inr [''maas'']),
     lxd_project_create_r = (\<lambda>_ _. Inr ()), lxd_pools_r = (\<lambda>_. Inr [(''default'', ''zfs'')]),
     lxd_pool_get_r = (\<lambda>_ _. Inr []), lxd_pool_create_r = (\<lambda>_ _ _ _. Inr ()),
     lxd_pool_update_r = (\<lambda>_ _ _. Inr ()), lxd_networks_r = (\<lambda>_. Inr [(''lxdbr0'', ''bridge'')]),
     lxd_network_get_r = (\<lambda>_ _. Inr []), lxd_network_create_r = (\<lambda>_ _ _. Inr ()),
     lxd_network_update_r = (\<lambda>_ _ _. Inr ()), lxd_profiles_r = (\<lambda>_ _. Inr [''maas-kvm'']),
     lxd_profile_create_r = (\<lambda>_ _ _ _. Inr ())\<rparr>"

definition sample_lib :: lib where
  "sample_lib = \<lparr>ContainsFinalizer = (\<lambda>fs f. f \<in> set fs),
     AddFinalizer = (\<lambda>fs f. if f \<in> set fs then fs else fs @ [f]),
     RemoveFinalizer = (\<lambda>fs f. filter (\<lambda>g. g \<noteq> f) fs),
     cond_Set = (\<lambda>cs c. c # filter (\<lambda>d. c_Type d \<noteq> c_Type c) cs),
     cond_SetSummary = (\<lambda>cs _. cs),
     cond_GetReason = (\<lambda>cs ty. case find (\<lambda>d. c_Type d = ty) cs of None \<Rightarrow> [] | Some d \<Rightarrow> c_Reason d),
     IsControlPlaneMachine_capi = (\<lambda>m. map_has (cam_Labels m) ''cluster.x-k8s.io/control-plane''),
     IsPaused = (\<lambda>_ _. False), sha256_hex = (\<lambda>s. s),
     time_Format = (\<lambda>t. replicate (nat (t div 10 ^ 9)) CHR ''i''),
     time_Parse = (\<lambda>s. Some (int (length s) * 10 ^ 9)),
     url_Parse = (\<lambda>s. Some (drop 8 s, [])), float64_round = (\<lambda>x. x), lxdInitTemplate = ''pass: ${TRUST_PASSWORD}'',
     yaml_DaemonSet = (\<lambda>s. Some sample_daemonset), yaml_Object = (\<lambda>s. Some (''ServiceAccount'', ''lxd-initializer''))\<rparr>"

definition sample_env :: env where
  "sample_env = \<lparr>maas = sample_maas, kube = sample_kube, remote = sample_remote, init = sample_init,
     lib_of = sample_lib,
     os_Getenv = (\<lambda>k. if k = ''MAAS_ENDPOINT'' then ''http://maas''
       else if k = ''MAAS_API_KEY'' then ''key'' else []),
     clock_r = (\<lambda>_. 1000), clock_nanos_r = (\<lambda>_. 25), uuid_r = (\<lambda>_. ''0b5ed4a2-7f2c-4f0e-9d55-1c1a2b3c4d5e''),
     map_range_r = (\<lambda>_. 0)\<rparr>"

definition sample_sys :: sys where
  "sample_sys = \<lparr>trace = [], the_mm = sample_mm, the_mc = sample_mc\<rparr>"

lemmas sample_defs = sample_machine_def sample_vm_host_def sample_meta_def sample_spec_def
  sample_status_def sample_mm_def sample_mc_def sample_capi_machine_def sample_cluster_def
  sample_kcp_def sample_template_def sample_daemonset_def not_found_def sample_maas_def sample_kube_def
  sample_remote_def sample_init_def sample_lib_def sample_env_def sample_sys_def

lemma sample_finalizer_laws: "finalizer_laws sample_lib"
  by (auto simp: finalizer_laws_def sample_lib_def)

end
