(* ===== verification/Tag_Service.thy ===== *)
theory Tag_Service
  imports Tags Sample_World
begin

text \<open>
  The interface \<open>TagService\<close> (\<open>maintenance_interface.go\<close>), its implementation over the MAAS client
  (\<open>maasTagService\<close> in \<open>common.go\<close>) and its clients in \<open>host_tagging.go\<close>. The Go interface value is
  a record of functions. The locale states what a client may rely on in terms of the trace; the
  tags a host carries are what the successful assignments and removals of the trace make of them.
\<close>

record tag_service =
  EnsureTagInInventory :: "string \<Rightarrow> unit res io"
  AddTagToMachine :: "string \<Rightarrow> string \<Rightarrow> unit res io"
  RemoveTagFromMachine :: "string \<Rightarrow> string \<Rightarrow> unit res io"
  AddTagToHost :: "string \<Rightarrow> string \<Rightarrow> unit res io"
  RemoveTagFromHost :: "string \<Rightarrow> string \<Rightarrow> unit res io"

section \<open>The implementation over MAAS (common.go)\<close>

definition maas_EnsureTagInInventory :: "env \<Rightarrow> string \<Rightarrow> unit res io" where
  "maas_EnsureTagInInventory E name = do {
     r \<leftarrow> Tags_List E;
     case r of
       Inl e \<Rightarrow> ret (Inl e)
     | Inr existingTags \<Rightarrow>
         if name \<in> set existingTags then ret (Inr ()) else Tags_Create E name }"

definition maas_AddTagToHost :: "env \<Rightarrow> string \<Rightarrow> string \<Rightarrow> unit res io" where
  "maas_AddTagToHost E systemID tag = Tags_Assign E tag systemID"

definition maas_AddTagToMachine :: "env \<Rightarrow> string \<Rightarrow> string \<Rightarrow> unit res io" where
  "maas_AddTagToMachine E systemID tag = Tags_Assign E tag systemID"

definition maas_RemoveTagFromMachine :: "env \<Rightarrow> string \<Rightarrow> string \<Rightarrow> unit res io" where
  "maas_RemoveTagFromMachine E systemID tag = Tags_Unassign E tag systemID"

definition maas_RemoveTagFromHost :: "env \<Rightarrow> string \<Rightarrow> string \<Rightarrow> unit res io" where
  "maas_RemoveTagFromHost E systemID tag = Tags_Unassign E tag systemID"

definition NewTagService :: "env \<Rightarrow> tag_service" where
  "NewTagService E = \<lparr>EnsureTagInInventory = maas_EnsureTagInInventory E,
     AddTagToMachine = maas_AddTagToMachine E, RemoveTagFromMachine = maas_RemoveTagFromMachine E,
     AddTagToHost = maas_AddTagToHost E, RemoveTagFromHost = maas_RemoveTagFromHost E\<rparr>"

section \<open>The clients (host_tagging.go)\<close>

definition EnsureHostMaintenanceTags :: "tag_service \<Rightarrow> string \<Rightarrow> string \<Rightarrow> unit res io" where
  "EnsureHostMaintenanceTags tags hostSystemID opID = do {
     r \<leftarrow> EnsureTagInInventory tags TagHostMaintenance;
     case r of Inl e \<Rightarrow> ret (Inl e) | Inr _ \<Rightarrow> do {
     r \<leftarrow> EnsureTagInInventory tags TagHostNoSchedule;
     case r of Inl e \<Rightarrow> ret (Inl e) | Inr _ \<Rightarrow> do {
     r \<leftarrow> EnsureTagInInventory tags (BuildOpTag opID);
     case r of Inl e \<Rightarrow> ret (Inl e) | Inr _ \<Rightarrow> do {
     r \<leftarrow> AddTagToHost tags hostSystemID TagHostMaintenance;
     case r of Inl e \<Rightarrow> ret (Inl e) | Inr _ \<Rightarrow> do {
     r \<leftarrow> AddTagToHost tags hostSystemID TagHostNoSchedule;
     case r of Inl e \<Rightarrow> ret (Inl e) | Inr _ \<Rightarrow> do {
     r \<leftarrow> AddTagToHost tags hostSystemID (BuildOpTag opID);
     case r of Inl e \<Rightarrow> ret (Inl e) | Inr _ \<Rightarrow> ret (Inr ()) }}}}}}"

definition EnsureHostReadyAckTag ::
    "tag_service \<Rightarrow> string \<Rightarrow> string \<Rightarrow> string \<Rightarrow> unit res io" where
  "EnsureHostReadyAckTag tags hostSystemID clusterID opID = do {
     r \<leftarrow> EnsureTagInInventory tags (BuildReadyHostTag clusterID opID);
     case r of Inl e \<Rightarrow> ret (Inl e) | Inr _ \<Rightarrow> do {
     r \<leftarrow> AddTagToHost tags hostSystemID (BuildReadyHostTag clusterID opID);
     case r of Inl e \<Rightarrow> ret (Inl e) | Inr _ \<Rightarrow> ret (Inr ()) }}"

definition ClearHostMaintenanceTags ::
    "tag_service \<Rightarrow> string \<Rightarrow> string \<Rightarrow> bool \<Rightarrow> unit res io" where
  "ClearHostMaintenanceTags tags hostSystemID opID removeMaintenance = do {
     r \<leftarrow> RemoveTagFromHost tags hostSystemID (BuildOpTag opID);
     case r of Inl e \<Rightarrow> ret (Inl e) | Inr _ \<Rightarrow>
     if removeMaintenance then do {
       r \<leftarrow> RemoveTagFromHost tags hostSystemID TagHostNoSchedule;
       case r of Inl e \<Rightarrow> ret (Inl e) | Inr _ \<Rightarrow> do {
       r \<leftarrow> RemoveTagFromHost tags hostSystemID TagHostMaintenance;
       case r of Inl e \<Rightarrow> ret (Inl e) | Inr _ \<Rightarrow> ret (Inr ()) }}
     else ret (Inr ()) }"

section \<open>The tags a machine carries after a trace\<close>

fun tag_effect :: "string \<Rightarrow> event \<Rightarrow> string set \<Rightarrow> string set" where
  "tag_effect h (Maas (TagAssign t sid ok)) T = (if ok \<and> sid = h then insert t T else T)"
| "tag_effect h (Maas (TagUnassign t sid ok)) T = (if ok \<and> sid = h then T - {t} else T)"
| "tag_effect h _ T = T"

definition tags_after :: "string \<Rightarrow> trace \<Rightarrow> string set \<Rightarrow> string set" where
  "tags_after h tr T = fold (tag_effect h) tr T"

lemma tags_after_append: "tags_after h (tr @ us) T = tags_after h us (tags_after h tr T)"
  by (simp add: tags_after_def)

lemma tags_after_simps [simp]:
  "tags_after h [] T = T" "tags_after h (e # es) T = tags_after h es (tag_effect h e T)"
  by (simp_all add: tags_after_def)

definition no_tag_write :: "event \<Rightarrow> bool" where
  "no_tag_write e = (case e of Maas (TagAssign _ _ _) \<Rightarrow> False | Maas (TagUnassign _ _ _) \<Rightarrow> False
     | _ \<Rightarrow> True)"

lemma no_tag_write_effect: "no_tag_write e \<Longrightarrow> tag_effect h e T = T"
  by (cases "(h, e, T)" rule: tag_effect.cases) (simp_all add: no_tag_write_def)

lemma tags_after_no_write: "list_all no_tag_write es \<Longrightarrow> tags_after h es T = T"
  by (induction es) (simp_all add: no_tag_write_effect)

section \<open>What a client may rely on\<close>

locale tag_service_laws =
  fixes svc :: tag_service
  assumes ensure_emits: "emits no_tag_write (EnsureTagInInventory svc name)"
    and add_host: "run_state (AddTagToHost svc sid tag) s = (r, t) \<Longrightarrow>
      trace t = trace s @ [Maas (TagAssign tag sid (is_ok r))]"
    and remove_host: "run_state (RemoveTagFromHost svc sid tag) s = (r, t) \<Longrightarrow>
      trace t = trace s @ [Maas (TagUnassign tag sid (is_ok r))]"
    and ensure_mm: "keeps the_mm (EnsureTagInInventory svc name)"
    and add_host_mm: "keeps the_mm (AddTagToHost svc sid tag)"
    and remove_host_mm: "keeps the_mm (RemoveTagFromHost svc sid tag)"
begin

lemma ensure_tags:
  assumes "run_state (EnsureTagInInventory svc name) s = (r, t)"
  shows "tags_after h (trace t) T = tags_after h (trace s) T"
  using emitsD [OF ensure_emits assms] by (auto simp: tags_after_append tags_after_no_write)

lemma add_host_tags:
  assumes "run_state (AddTagToHost svc sid tag) s = (r, t)"
  shows "tags_after h (trace t) T =
    (if is_ok r \<and> sid = h then insert tag (tags_after h (trace s) T) else tags_after h (trace s) T)"
  using add_host [OF assms] by (simp add: tags_after_append)

lemma remove_host_tags:
  assumes "run_state (RemoveTagFromHost svc sid tag) s = (r, t)"
  shows "tags_after h (trace t) T =
    (if is_ok r \<and> sid = h then tags_after h (trace s) T - {tag} else tags_after h (trace s) T)"
  using remove_host [OF assms] by (simp add: tags_after_append)

lemmas tag_ops = ensure_tags add_host_tags remove_host_tags

text \<open>The tags are assigned in the order maintenance, noschedule, session; an error stops.\<close>

lemma ensure_host_tags:
  assumes "run_state (EnsureHostMaintenanceTags svc sid op) s = (r, t)"
  shows "\<exists>k \<le> 3. (k = 3 \<longleftrightarrow> r = Inr ()) \<and> tags_after sid (trace t) T =
    tags_after sid (trace s) T \<union>
      set (take k [TagHostMaintenance, TagHostNoSchedule, BuildOpTag op])"
proof -
  let ?A = "tags_after sid (trace s) T"
  let ?ts = "[TagHostMaintenance, TagHostNoSchedule, BuildOpTag op]"
  consider (err) e where "r = Inl e" "tags_after sid (trace t) T = ?A"
    | (one) e where "r = Inl e" "tags_after sid (trace t) T = insert TagHostMaintenance ?A"
    | (two) e where "r = Inl e"
        "tags_after sid (trace t) T = insert TagHostNoSchedule (insert TagHostMaintenance ?A)"
    | (all) "r = Inr ()" "tags_after sid (trace t) T =
        insert (BuildOpTag op) (insert TagHostNoSchedule (insert TagHostMaintenance ?A))"
    using assms unfolding EnsureHostMaintenanceTags_def
    by (auto split: prod.splits sum.splits dest!: tag_ops [where T = T and h = sid])
  then show ?thesis
  proof cases
    case err then show ?thesis by (intro exI [of _ 0]) simp
  next
    case one then show ?thesis by (intro exI [of _ 1]) simp
  next
    case two then show ?thesis by (intro exI [of _ 2]) (simp add: numeral_2_eq_2 insert_commute)
  next
    case all then show ?thesis
      by (intro exI [of _ 3]) (simp add: numeral_3_eq_3 insert_commute)
  qed
qed

lemma clear_host_tags:
  assumes "run_state (ClearHostMaintenanceTags svc sid op rm) s = (Inr (), t)"
  shows "tags_after sid (trace t) T = tags_after sid (trace s) T -
    (if rm then {BuildOpTag op, TagHostNoSchedule, TagHostMaintenance} else {BuildOpTag op})"
  using assms unfolding ClearHostMaintenanceTags_def
  by (auto split: prod.splits sum.splits if_splits dest!: tag_ops [where T = T and h = sid])

end

lemma maas_ensure_mm: "keeps the_mm (maas_EnsureTagInInventory E name)"
  unfolding maas_EnsureTagInInventory_def call_defs by (intro emits_intros)

lemma maas_ensure_emits: "emits no_tag_write (maas_EnsureTagInInventory E name)"
  unfolding maas_EnsureTagInInventory_def call_defs
  by (intro emits_intros) (simp_all add: no_tag_write_def)

interpretation maas_tags: tag_service_laws "NewTagService E" for E
  by unfold_locales
    (auto simp: NewTagService_def maas_ensure_emits maas_ensure_mm maas_AddTagToHost_def
      maas_RemoveTagFromHost_def call_defs run_api keeps_api_mm)

section \<open>Properties\<close>

text \<open>
  \<open>EnsureHostMaintenanceTags\<close> over the MAAS tag service. On success the host carries the
  maintenance, the noschedule and the session tag beside what it had; on an error it carries a
  proper prefix of the three, so the session tag, which is what the workload clusters act on, is
  never on the host without the other two.
\<close>

lemma EnsureHostMaintenanceTags_effect:
  assumes "run_state (EnsureHostMaintenanceTags (NewTagService E) sid op) s = (r, t)"
  shows "\<exists>k \<le> 3. (k = 3 \<longleftrightarrow> r = Inr ()) \<and> tags_after sid (trace t) T =
    tags_after sid (trace s) T \<union>
      set (take k [TagHostMaintenance, TagHostNoSchedule, BuildOpTag op])"
  using assms by (rule maas_tags.ensure_host_tags)

lemma sample_ensure_run:
  "run_state (EnsureHostMaintenanceTags (NewTagService sample_env) ''h'' ''op'') sample_sys =
    (Inr (), sample_sys\<lparr>trace := trace (snd (run_state
       (EnsureHostMaintenanceTags (NewTagService sample_env) ''h'' ''op'') sample_sys))\<rparr>)"
  by (simp add: EnsureHostMaintenanceTags_def NewTagService_def maas_EnsureTagInInventory_def
      maas_AddTagToHost_def call_defs run_api sample_env_def sample_maas_def sample_sys_def)

text \<open>
  C34: clearing with \<open>removeMaintenance\<close> undoes the tagging: run after a successful
  \<open>EnsureHostMaintenanceTags\<close> for the same session, it leaves on the host exactly the tags it had
  before, less the three maintenance tags.
\<close>

theorem ClearHostMaintenanceTags_undoes_Ensure:
  assumes "run_state (EnsureHostMaintenanceTags (NewTagService E) sid op) s = (Inr (), t)"
    and "run_state (ClearHostMaintenanceTags (NewTagService E) sid op True) t = (Inr (), u)"
  shows "tags_after sid (trace u) T =
    tags_after sid (trace s) T - {TagHostMaintenance, TagHostNoSchedule, BuildOpTag op}"
proof -
  from maas_tags.ensure_host_tags [OF assms(1), of T]
  have "tags_after sid (trace t) T = tags_after sid (trace s) T \<union>
      {TagHostMaintenance, TagHostNoSchedule, BuildOpTag op}"
    by (auto simp: numeral_3_eq_3)
  with maas_tags.clear_host_tags [OF assms(2), of T] show ?thesis by auto
qed

theorem ClearHostMaintenanceTags_undoes_Ensure_witness:
  "\<exists>t u. run_state (EnsureHostMaintenanceTags (NewTagService sample_env) ''h'' ''op'') sample_sys =
       (Inr (), t) \<and>
     run_state (ClearHostMaintenanceTags (NewTagService sample_env) ''h'' ''op'' True) t = (Inr (), u) \<and>
     tags_after ''h'' (trace u) {''gpu''} = {''gpu''}"
proof -
  define t where "t = sample_sys\<lparr>trace := trace (snd (run_state
     (EnsureHostMaintenanceTags (NewTagService sample_env) ''h'' ''op'') sample_sys))\<rparr>"
  have run: "run_state (EnsureHostMaintenanceTags (NewTagService sample_env) ''h'' ''op'') sample_sys =
      (Inr (), t)"
    unfolding t_def by (rule sample_ensure_run)
  obtain u where u: "run_state (ClearHostMaintenanceTags (NewTagService sample_env) ''h'' ''op'' True) t =
      (Inr (), u)"
    by (simp add: ClearHostMaintenanceTags_def NewTagService_def maas_RemoveTagFromHost_def call_defs
        run_api sample_env_def sample_maas_def)
  from ClearHostMaintenanceTags_undoes_Ensure [OF run u, of "{''gpu''}"]
  have "tags_after ''h'' (trace u) {''gpu''} = {''gpu''}"
    by (simp add: sample_sys_def tag_defs BuildOpTag_def)
  with run u show ?thesis by blast
qed

end
