(* ===== verification/Inventory.thy ===== *)
theory Inventory
  imports Tag_Service
begin

text \<open>
  The interface \<open>InventoryService\<close> (\<open>maintenance_interface.go\<close>), its implementation over the MAAS
  client (\<open>maasInventoryService\<close> in \<open>common.go\<close>) and the credentials of the MAAS client. The locale
  states what the maintenance controllers rely on: the reads change nothing in MAAS, and a listing
  of the machines of a host holds machines of this host only. IP addresses are kept in their
  printed form.
\<close>

record inv_machine =
  im_SystemID :: string
  im_HostSystemID :: string
  im_Tags :: "string list"
  im_Zone :: string
  im_ResourcePool :: string
  im_FQDN :: string
  im_PowerState :: string
  im_PowerType :: string
  im_Hostname :: string
  im_IPAddresses :: "string list"

record inventory_service =
  ListHostVMs :: "string \<Rightarrow> inv_machine list res io"
  ListAllVMs :: "inv_machine list res io"
  ResolveSystemIDByHostname :: "string \<Rightarrow> string res io"
  GetMachine :: "string \<Rightarrow> inv_machine res io"
  GetHost :: "string \<Rightarrow> inv_machine res io"
  GetVM :: "string \<Rightarrow> inv_machine res io"
  GetVMHostForVM :: "string \<Rightarrow> string res io"

section \<open>The implementation over MAAS (common.go)\<close>

fun convertIPAddresses :: "string list \<Rightarrow> string list" where
  "convertIPAddresses [] = []"
| "convertIPAddresses (ip # ips) = ip # convertIPAddresses ips"

definition to_inv_machine :: "sdk_machine \<Rightarrow> inv_machine" where
  "to_inv_machine m = \<lparr>im_SystemID = sdk_SystemID m, im_HostSystemID = sdk_Parent m,
     im_Tags = sdk_Tags m, im_Zone = sdk_ZoneName m, im_ResourcePool = sdk_ResourcePoolName m,
     im_FQDN = sdk_FQDN m, im_PowerState = sdk_PowerState m, im_PowerType = sdk_PowerType m,
     im_Hostname = sdk_Hostname m, im_IPAddresses = convertIPAddresses (sdk_IPAddresses m)\<rparr>"

text \<open>The loops get the details of each listed machine and skip the ones that cannot be read.\<close>

fun collect_details ::
    "env \<Rightarrow> (sdk_machine \<Rightarrow> bool) \<Rightarrow> sdk_machine list \<Rightarrow> inv_machine list io" where
  "collect_details E keep [] = ret []"
| "collect_details E keep (m # ms) = do {
     r \<leftarrow> Machine_Get E (sdk_SystemID m);
     case r of
       Inl _ \<Rightarrow> collect_details E keep ms
     | Inr det \<Rightarrow>
         if \<not> keep det then collect_details E keep ms
         else do { out \<leftarrow> collect_details E keep ms; ret (to_inv_machine det # out) } }"

definition maas_ListHostVMs :: "env \<Rightarrow> string \<Rightarrow> inv_machine list res io" where
  "maas_ListHostVMs E hostSystemID = do {
     r \<leftarrow> Machines_List E [(''parent'', hostSystemID)];
     r \<leftarrow> (case r of
             Inr all \<Rightarrow> ret (Inr all)
           | Inl _ \<Rightarrow> Machines_List E []);
     case r of
       Inl e \<Rightarrow> ret (Inl (Wrapped ''failed to list machines'' e))
     | Inr all \<Rightarrow> do {
         out \<leftarrow> collect_details E (\<lambda>det. sdk_Parent det = hostSystemID) all;
         ret (Inr out) } }"

definition maas_ListAllVMs :: "env \<Rightarrow> inv_machine list res io" where
  "maas_ListAllVMs E = ok_then (Machines_List E []) (\<lambda>all. do {
     vms \<leftarrow> collect_details E (\<lambda>det. sdk_PowerType det = ''lxd'') all;
     ret (Inr vms) })"

fun resolve_hostname :: "env \<Rightarrow> string \<Rightarrow> sdk_machine list \<Rightarrow> string res io" where
  "resolve_hostname E hostname [] = ret (Inr [])"
| "resolve_hostname E hostname (m # ms) = do {
     r \<leftarrow> Machine_Get E (sdk_SystemID m);
     case r of
       Inl _ \<Rightarrow> resolve_hostname E hostname ms
     | Inr det \<Rightarrow>
         if sdk_Hostname det = hostname then ret (Inr (sdk_SystemID det))
         else resolve_hostname E hostname ms }"

definition maas_ResolveSystemIDByHostname :: "env \<Rightarrow> string \<Rightarrow> string res io" where
  "maas_ResolveSystemIDByHostname E hostname =
     ok_then (Machines_List E [(''hostname'', hostname)]) (resolve_hostname E hostname)"

definition maas_GetMachine :: "env \<Rightarrow> string \<Rightarrow> inv_machine res io" where
  "maas_GetMachine E systemID =
     ok_then (Machine_Get E systemID) (\<lambda>det. ret (Inr (to_inv_machine det)))"

definition maas_GetHost :: "env \<Rightarrow> string \<Rightarrow> inv_machine res io" where
  "maas_GetHost E systemID =
     ok_then (Machine_Get E systemID)
       (\<lambda>det. ret (Inr ((to_inv_machine det)\<lparr>im_HostSystemID := []\<rparr>)))"

definition maas_GetVM :: "env \<Rightarrow> string \<Rightarrow> inv_machine res io" where
  "maas_GetVM E systemID =
     ok_then (Machine_Get E systemID) (\<lambda>det. ret (Inr (to_inv_machine det)))"

definition maas_GetVMHostForVM :: "env \<Rightarrow> string \<Rightarrow> string res io" where
  "maas_GetVMHostForVM E vmSystemID =
     ok_then (Machine_Get E vmSystemID) (\<lambda>det. ret (Inr (sdk_Parent det)))"

definition NewInventoryService :: "env \<Rightarrow> inventory_service" where
  "NewInventoryService E = \<lparr>ListHostVMs = maas_ListHostVMs E, ListAllVMs = maas_ListAllVMs E,
     ResolveSystemIDByHostname = maas_ResolveSystemIDByHostname E, GetMachine = maas_GetMachine E,
     GetHost = maas_GetHost E, GetVM = maas_GetVM E, GetVMHostForVM = maas_GetVMHostForVM E\<rparr>"

section \<open>Credentials (common.go)\<close>

definition MAASBootstrapCredentialsSecretName :: string where
  "MAASBootstrapCredentialsSecretName = ''capmaas-manager-bootstrap-credentials''"

text \<open>The Kubernetes client may be nil: \<open>client_nil\<close>.\<close>

definition GetMAASCredentials :: "env \<Rightarrow> bool \<Rightarrow> string \<Rightarrow> (string \<times> string) res io" where
  "GetMAASCredentials E client_nil namespace = do {
     fromSecret \<leftarrow>
       (if \<not> client_nil \<and> namespace \<noteq> [] then do {
          r \<leftarrow> Secret_Get E namespace MAASBootstrapCredentialsSecretName;
          ret (case r of
            Inl _ \<Rightarrow> None
          | Inr data \<Rightarrow>
              let endpoint = map_get data ''MAAS_ENDPOINT''; apiKey = map_get data ''MAAS_API_KEY''
              in if endpoint \<noteq> [] \<and> apiKey \<noteq> [] then Some (endpoint, apiKey) else None) }
        else ret None);
     case fromSecret of
       Some creds \<Rightarrow> ret (Inr creds)
     | None \<Rightarrow>
         let endpoint = (if os_Getenv E ''MAAS_ENDPOINT'' = [] then os_Getenv E ''MAAS_API_URL''
                         else os_Getenv E ''MAAS_ENDPOINT'');
             apiKey = (if os_Getenv E ''MAAS_API_KEY'' = [] then os_Getenv E ''MAAS_API_TOKEN''
                       else os_Getenv E ''MAAS_API_KEY'')
         in ret (if endpoint = [] then Inl (ErrorString ''MAAS endpoint not found: check capmaas-manager-bootstrap-credentials secret (MAAS_ENDPOINT) or MAAS_ENDPOINT/MAAS_API_URL environment variable'')
                 else if apiKey = [] then Inl (ErrorString ''MAAS API key not found: check capmaas-manager-bootstrap-credentials secret (MAAS_API_KEY) or MAAS_API_KEY/MAAS_API_TOKEN environment variable'')
                 else Inr (endpoint, apiKey)) }"

text \<open>
  \<open>NewMAASClient\<close>: the client library's constructor cannot fail, so only the credentials can. The
  client that results talks to the MAAS of the environment.
\<close>

definition NewMAASClient :: "env \<Rightarrow> bool \<Rightarrow> string \<Rightarrow> unit res io" where
  "NewMAASClient E client_nil namespace =
     ok_then (GetMAASCredentials E client_nil namespace) (\<lambda>_. ret (Inr ()))"

section \<open>What a client may rely on\<close>

text \<open>An event that writes to MAAS or to an API server, or records a Kubernetes event.\<close>

fun maas_write :: "maas_event \<Rightarrow> bool" where
  "maas_write TagsList = False"
| "maas_write (MachinesList _) = False"
| "maas_write (MachineGet _) = False"
| "maas_write VMHostsList = False"
| "maas_write (VMHostGet _) = False"
| "maas_write (VMHostMachines _) = False"
| "maas_write (DNSList _) = False"
| "maas_write _ = True"

fun maas_read :: "event \<Rightarrow> bool" where
  "maas_read (Maas e) = (\<not> maas_write e)"
| "maas_read _ = False"

locale inventory_laws =
  fixes svc :: inventory_service
  assumes list_host_reads: "emits maas_read (ListHostVMs svc h)"
    and list_all_reads: "emits maas_read (ListAllVMs svc)"
    and get_host_reads: "emits maas_read (GetHost svc sid)"
    and get_host_mm: "keeps the_mm (GetHost svc sid)"
    and list_host_mm: "keeps the_mm (ListHostVMs svc h)"
    and list_all_mm: "keeps the_mm (ListAllVMs svc)"
    and list_host_parent: "run_state (ListHostVMs svc h) s = (Inr vms, t) \<Longrightarrow> vm \<in> set vms \<Longrightarrow>
      im_HostSystemID vm = h"
    and list_all_lxd: "run_state (ListAllVMs svc) s = (Inr vms, t) \<Longrightarrow> vm \<in> set vms \<Longrightarrow>
      im_PowerType vm = ''lxd''"
begin

lemma list_host_trace:
  "run_state (ListHostVMs svc h) s = (r, t) \<Longrightarrow>
   \<exists>es. trace t = trace s @ es \<and> list_all maas_read es"
  by (rule emitsD [OF list_host_reads])

lemma list_all_trace:
  "run_state (ListAllVMs svc) s = (r, t) \<Longrightarrow>
   \<exists>es. trace t = trace s @ es \<and> list_all maas_read es"
  by (rule emitsD [OF list_all_reads])

end

lemma collect_details_reads: "emits maas_read (collect_details E keep ms)"
  by (induction ms) (auto intro!: emits_intros simp: call_defs)

lemma collect_details_mm: "keeps the_mm (collect_details E keep ms)"
  by (induction ms) (auto intro!: emits_intros simp: call_defs)

lemma collect_details_keep:
  "run_state (collect_details E keep ms) s = (out, t) \<Longrightarrow> vm \<in> set out \<Longrightarrow>
   \<exists>det. keep det \<and> vm = to_inv_machine det"
  by (induction ms arbitrary: s out t) (auto split: prod.splits sum.splits if_splits)

lemma maas_ListHostVMs_reads: "emits maas_read (maas_ListHostVMs E h)"
  unfolding maas_ListHostVMs_def call_defs by (intro emits_intros collect_details_reads) simp_all

lemma maas_ListAllVMs_reads: "emits maas_read (maas_ListAllVMs E)"
  unfolding maas_ListAllVMs_def call_defs by (intro emits_intros collect_details_reads) simp_all

interpretation maas_inv: inventory_laws "NewInventoryService E" for E
proof
  show "emits maas_read (ListHostVMs (NewInventoryService E) h)" for h
    by (simp add: NewInventoryService_def maas_ListHostVMs_reads)
  show "emits maas_read (ListAllVMs (NewInventoryService E))"
    by (simp add: NewInventoryService_def maas_ListAllVMs_reads)
  show "emits maas_read (GetHost (NewInventoryService E) sid)" for sid
    unfolding NewInventoryService_def maas_GetHost_def call_defs
    by simp (intro emits_intros; simp)
  show "keeps the_mm (GetHost (NewInventoryService E) sid)" for sid
    unfolding NewInventoryService_def maas_GetHost_def call_defs
    by simp (intro emits_intros)
  show "keeps the_mm (ListHostVMs (NewInventoryService E) h)" for h
    unfolding NewInventoryService_def maas_ListHostVMs_def call_defs
    by simp (intro emits_intros collect_details_mm)
  show "keeps the_mm (ListAllVMs (NewInventoryService E))"
    unfolding NewInventoryService_def maas_ListAllVMs_def call_defs
    by simp (intro emits_intros collect_details_mm)
  show "im_HostSystemID vm = h"
    if "run_state (ListHostVMs (NewInventoryService E) h) s = (Inr vms, t)" "vm \<in> set vms"
    for h s vms t vm
    using that unfolding NewInventoryService_def maas_ListHostVMs_def
    by (auto simp: to_inv_machine_def split: prod.splits sum.splits dest!: collect_details_keep)
  show "im_PowerType vm = ''lxd''"
    if "run_state (ListAllVMs (NewInventoryService E)) s = (Inr vms, t)" "vm \<in> set vms"
    for s vms t vm
    using that unfolding NewInventoryService_def maas_ListAllVMs_def
    by (auto simp: to_inv_machine_def split: prod.splits sum.splits dest!: collect_details_keep)
qed

end
