(* ===== verification/Go_Codec.thy ===== *)
theory Go_Codec
  imports Prelude
begin

text \<open>
  The text formats of Go's standard library that the program stores state in: \<open>fmt.Sprintf\<close> and
  \<open>fmt.Sscanf\<close> with \<open>%d\<close>, and \<open>encoding/json\<close> for a list of strings. Strings are valid UTF-8
  without the two Unicode line separators, so bytes above 127 are written and read unchanged. Both
  directions are shown to be inverse to each other.
\<close>

section \<open>Decimal integers\<close>

definition digit_char :: "nat \<Rightarrow> char" where
  "digit_char d = char_of (48 + d)"

definition is_digit :: "char \<Rightarrow> bool" where
  "is_digit c = (48 \<le> (of_char c :: nat) \<and> (of_char c :: nat) \<le> 57)"

definition digit_val :: "char \<Rightarrow> nat" where
  "digit_val c = of_char c - 48"

fun show_nat :: "nat \<Rightarrow> string" where
  "show_nat n = (if n < 10 then [digit_char n] else show_nat (n div 10) @ [digit_char (n mod 10)])"

declare show_nat.simps [simp del]

definition Sprintf_d :: "int \<Rightarrow> string" where
  "Sprintf_d i = (if i < 0 then CHR ''-'' # show_nat (nat (- i)) else show_nat (nat i))"

definition digits_val :: "string \<Rightarrow> nat" where
  "digits_val ds = foldl (\<lambda>n c. 10 * n + digit_val c) 0 ds"

text \<open>
  \<open>Sscanf(s, "%d", &n)\<close> into a 64-bit int: blanks are skipped but a newline is not, then an
  optional sign and at least one digit; what follows the digits is ignored, a value that does not
  fit is an error.
\<close>

definition Sscanf_d :: "string \<Rightarrow> int option" where
  "Sscanf_d s =
     (let s1 = dropWhile (\<lambda>c. is_space c \<and> c \<noteq> CHR 0x0A) s;
          neg = (s1 \<noteq> [] \<and> hd s1 = CHR ''-'');
          s2 = (if s1 \<noteq> [] \<and> (hd s1 = CHR ''-'' \<or> hd s1 = CHR ''+'') then tl s1 else s1);
          ds = takeWhile is_digit s2;
          n = (if neg then - int (digits_val ds) else int (digits_val ds))
      in if ds = [] \<or> n < - (2 ^ 63) \<or> n \<ge> 2 ^ 63 then None else Some n)"

lemma of_char_digit [simp]: "d < 10 \<Longrightarrow> (of_char (digit_char d) :: nat) = 48 + d"
  by (simp add: digit_char_def)

lemma digit_char_props [simp]:
  "d < 10 \<Longrightarrow> is_digit (digit_char d)" "d < 10 \<Longrightarrow> digit_val (digit_char d) = d"
  by (simp_all add: is_digit_def digit_val_def)

lemma show_nat_digits: "list_all is_digit (show_nat n)"
  by (induction n rule: show_nat.induct) (subst show_nat.simps, simp)

lemma show_nat_neq_Nil [simp]: "show_nat n \<noteq> []"
  by (subst show_nat.simps) simp

lemma digits_val_snoc [simp]: "digits_val (ds @ [c]) = 10 * digits_val ds + digit_val c"
  by (simp add: digits_val_def)

lemma digits_val_show [simp]: "digits_val (show_nat n) = n"
proof (induction n rule: show_nat.induct)
  case (1 n)
  then show ?case by (subst show_nat.simps) (simp add: digits_val_def)
qed

lemma takeWhile_show [simp]: "takeWhile is_digit (show_nat n) = show_nat n"
  using show_nat_digits by (simp add: takeWhile_eq_all_conv list_all_iff)

lemma is_digit_not_special:
  "is_digit c \<Longrightarrow> \<not> is_space c \<and> c \<noteq> CHR ''-'' \<and> c \<noteq> CHR ''+''"
  by (auto simp: is_digit_def is_space_def less_eq_char_def)

lemma hd_show_nat: "is_digit (hd (show_nat n))"
  using show_nat_digits [of n] show_nat_neq_Nil [of n] by (cases "show_nat n") simp_all

lemma Sscanf_Sprintf:
  assumes "- (2 ^ 63) \<le> i" "i < 2 ^ 63"
  shows "Sscanf_d (Sprintf_d i) = Some i"
proof (cases "i < 0")
  case True
  have "\<not> is_space (CHR ''-'')" by (simp add: is_space_def less_eq_char_def)
  with True assms show ?thesis
    by (simp add: Sprintf_d_def Sscanf_d_def Let_def)
next
  case False
  obtain c cs where s: "show_nat (nat i) = c # cs" by (cases "show_nat (nat i)") simp_all
  have c: "is_digit c" using hd_show_nat [of "nat i"] s by simp
  have t: "takeWhile is_digit cs = cs" "digits_val (c # cs) = nat i"
    using takeWhile_show [of "nat i"] digits_val_show [of "nat i"] s c by simp_all
  show ?thesis
    using False assms c is_digit_not_special [OF c]
    by (simp add: Sprintf_d_def Sscanf_d_def s t Let_def)
qed

section \<open>JSON lists of strings\<close>

definition hex_digit :: "nat \<Rightarrow> char" where
  "hex_digit d = (if d < 10 then char_of (48 + d) else char_of (87 + d))"

definition hex_val :: "char \<Rightarrow> nat option" where
  "hex_val c = (let n = of_char c in
     if 48 \<le> n \<and> n \<le> 57 then Some (n - 48)
     else if 97 \<le> n \<and> n \<le> 102 then Some (n - 87)
     else if 65 \<le> n \<and> n \<le> 70 then Some (n - 55) else None)"

definition json_escape :: "char \<Rightarrow> string" where
  "json_escape c =
     (let n = of_char c :: nat in
      if n = 34 then [CHR 0x5C, c] else if n = 92 then [CHR 0x5C, c]
      else if n = 8 then [CHR 0x5C, CHR ''b''] else if n = 12 then [CHR 0x5C, CHR ''f'']
      else if n = 10 then [CHR 0x5C, CHR ''n''] else if n = 13 then [CHR 0x5C, CHR ''r'']
      else if n = 9 then [CHR 0x5C, CHR ''t'']
      else if n < 32 \<or> n = 60 \<or> n = 62 \<or> n = 38
        then [CHR 0x5C, CHR ''u'', CHR ''0'', CHR ''0'', hex_digit (n div 16), hex_digit (n mod 16)]
      else [c])"

definition json_string :: "string \<Rightarrow> string" where
  "json_string s = CHR 0x22 # concat (map json_escape s) @ [CHR 0x22]"

definition json_Marshal_strings :: "string list \<Rightarrow> string" where
  "json_Marshal_strings xs = CHR ''['' # Join (map json_string xs) '','' @ '']''"

definition utf8 :: "nat \<Rightarrow> string" where
  "utf8 n = map char_of
     (if n < 128 then [n]
      else if n < 2048 then [192 + n div 64, 128 + n mod 64]
      else if n < 65536 then [224 + n div 4096, 128 + n div 64 mod 64, 128 + n mod 64]
      else [240 + n div 262144, 128 + n div 4096 mod 64, 128 + n div 64 mod 64, 128 + n mod 64])"

definition hex4 :: "string \<Rightarrow> nat option" where
  "hex4 s = (case map hex_val (take 4 s) of
       [Some a, Some b, Some c, Some d] \<Rightarrow> Some (4096 * a + 256 * b + 16 * c + d)
     | _ \<Rightarrow> None)"

text \<open>
  The text after \<open>\u\<close>: a pair of surrogates is one code point, a lone one the replacement
  character. The result is what is written and how many characters were read.
\<close>

definition json_unicode :: "string \<Rightarrow> (string \<times> nat) option" where
  "json_unicode s = (case hex4 s of
       None \<Rightarrow> None
     | Some n \<Rightarrow>
         if n < 0xD800 \<or> 0xE000 \<le> n then Some (utf8 n, 4)
         else case (if n < 0xDC00 \<and> take 2 (drop 4 s) = [CHR 0x5C, CHR ''u''] then hex4 (drop 6 s) else None) of
             Some m \<Rightarrow> if 0xDC00 \<le> m \<and> m < 0xE000
                        then Some (utf8 (0x10000 + (n - 0xD800) * 1024 + (m - 0xDC00)), 10)
                        else Some (utf8 0xFFFD, 4)
           | None \<Rightarrow> Some (utf8 0xFFFD, 4))"

definition json_unescape :: "char \<Rightarrow> char option" where
  "json_unescape c = map_of [(CHR 0x22, CHR 0x22), (CHR 0x5C, CHR 0x5C), (CHR ''/'', CHR ''/''),
     (CHR ''b'', CHR 0x08), (CHR ''f'', CHR 0x0C), (CHR ''n'', CHR 0x0A), (CHR ''r'', CHR 0x0D),
     (CHR ''t'', CHR 0x09)] c"

text \<open>The characters of a string after the opening quote, and the rest after the closing one.\<close>

function json_chars :: "string \<Rightarrow> (string \<times> string) option" where
  "json_chars s = (case s of
       [] \<Rightarrow> None
     | c # cs \<Rightarrow>
         if c = CHR 0x22 then Some ([], cs)
         else if c = CHR 0x5C then
           (case cs of
              [] \<Rightarrow> None
            | e # es \<Rightarrow>
                if e = CHR ''u'' then
                  (case json_unicode es of
                     None \<Rightarrow> None
                   | Some (out, k) \<Rightarrow> map_option (apfst ((@) out)) (json_chars (drop k es)))
                else (case json_unescape e of
                     None \<Rightarrow> None
                   | Some x \<Rightarrow> map_option (apfst (Cons x)) (json_chars es)))
         else if (of_char c :: nat) < 32 then None
         else map_option (apfst (Cons c)) (json_chars cs))"
  by pat_completeness auto
termination by (relation "measure length") auto

declare json_chars.simps [simp del]

definition json_ws :: "char \<Rightarrow> bool" where
  "json_ws c = (c = CHR '' '' \<or> c = CHR 0x09 \<or> c = CHR 0x0A \<or> c = CHR 0x0D)"

definition json_elem :: "string \<Rightarrow> (string \<times> string) option" where
  "json_elem s = (case s of
       [] \<Rightarrow> None
     | c # cs \<Rightarrow> if c = CHR 0x22 then json_chars cs
                 else if HasPrefix s ''null'' then Some ([], drop 4 s) else None)"

text \<open>
  The elements up to the closing bracket; each of them takes at least one character, so the length
  of the text is enough fuel.
\<close>

primrec json_elems :: "nat \<Rightarrow> string \<Rightarrow> (string list \<times> string) option" where
  "json_elems 0 s = None"
| "json_elems (Suc k) s = (case json_elem (dropWhile json_ws s) of
       None \<Rightarrow> None
     | Some (x, rest) \<Rightarrow>
         (case dropWhile json_ws rest of
            [] \<Rightarrow> None
          | c # cs \<Rightarrow>
              if c = CHR '']'' then Some ([x], cs)
              else if c = CHR '','' then map_option (apfst (Cons x)) (json_elems k cs)
              else None))"

definition json_array :: "string \<Rightarrow> (string list \<times> string) option" where
  "json_array s = (case dropWhile json_ws s of
       [] \<Rightarrow> None
     | c # cs \<Rightarrow>
         if c = CHR ''['' then
           (case dropWhile json_ws cs of
              d # ds \<Rightarrow> if d = CHR '']'' then Some ([], ds) else json_elems (length s) cs
            | [] \<Rightarrow> None)
         else if HasPrefix (c # cs) ''null'' then Some ([], drop 4 (c # cs)) else None)"

definition json_Unmarshal_strings :: "string \<Rightarrow> string list option" where
  "json_Unmarshal_strings s = (case json_array s of
       None \<Rightarrow> None
     | Some (xs, rest) \<Rightarrow> if list_all json_ws rest then Some xs else None)"

section \<open>The JSON round trip\<close>

lemma hex_val_hex_digit [simp]: "d < 16 \<Longrightarrow> hex_val (hex_digit d) = Some d"
  by (simp add: hex_val_def hex_digit_def Let_def)

lemma hex4_zero: "n < 256 \<Longrightarrow>
    hex4 (CHR ''0'' # CHR ''0'' # hex_digit (n div 16) # hex_digit (n mod 16) # r) = Some n"
proof -
  assume n: "n < 256"
  have z: "hex_val (CHR ''0'') = Some 0" by (simp add: hex_val_def)
  have "n div 16 < 16" using n by simp
  then show ?thesis by (simp add: hex4_def z)
qed

lemma json_chars_quote [simp]: "json_chars (CHR 0x22 # r) = Some ([], r)"
  by (subst json_chars.simps) simp

lemma json_chars_escape:
  "json_chars (json_escape c @ r) = map_option (apfst (Cons c)) (json_chars r)"
proof -
  define n where "n = (of_char c :: nat)"
  have c: "c = char_of n" and n: "n < 256" by (simp_all add: n_def)
  consider "n \<in> {8, 9, 10, 12, 13, 34, 92}"
    | "n \<notin> {8, 9, 10, 12, 13, 34, 92}" "n < 32 \<or> n \<in> {38, 60, 62}"
    | "n \<notin> {8, 9, 10, 12, 13, 34, 92}" "32 \<le> n" "n \<notin> {38, 60, 62}" by fastforce
  then show ?thesis
  proof cases
    case 1
    moreover have "char_of (8::nat) = CHR 0x08" "char_of (9::nat) = CHR 0x09"
      "char_of (10::nat) = CHR 0x0A" "char_of (12::nat) = CHR 0x0C" "char_of (13::nat) = CHR 0x0D"
      "char_of (34::nat) = CHR 0x22" "char_of (92::nat) = CHR 0x5C"
      by code_simp+
    ultimately have "c \<in> {CHR 0x08, CHR 0x09, CHR 0x0A, CHR 0x0C, CHR 0x0D, CHR 0x22, CHR 0x5C}"
      unfolding c by auto
    then show ?thesis
      by (auto simp: json_escape_def json_chars.simps [of "CHR 0x5C # _"] json_unescape_def)
  next
    case 2
    have e: "json_escape c = [CHR 0x5C, CHR ''u'', CHR ''0'', CHR ''0'', hex_digit (n div 16), hex_digit (n mod 16)]"
      using 2 by (auto simp: json_escape_def n_def [symmetric] Let_def)
    have "n < 128" using 2(2) by auto
    then have u: "json_unicode (CHR ''0'' # CHR ''0'' # hex_digit (n div 16) # hex_digit (n mod 16) # r) = Some ([c], 4)"
      unfolding json_unicode_def hex4_zero [OF n] using c by (simp add: utf8_def)
    have "(@) [c] = (#) c" by auto
    then show ?thesis unfolding e by (simp add: json_chars.simps [of "CHR 0x5C # _"] u)
  next
    case 3
    have e: "json_escape c = [c]" using 3 by (auto simp: json_escape_def n_def [symmetric] Let_def)
    have "c \<noteq> CHR 0x22" "c \<noteq> CHR 0x5C" using 3(1) by (auto simp: n_def)
    then show ?thesis unfolding e using 3(2) by (simp add: json_chars.simps [of "c # _"] n_def)
  qed
qed

lemma json_chars_concat: "json_chars (concat (map json_escape s) @ CHR 0x22 # r) = Some (s, r)"
  by (induction s) (simp_all add: json_chars_escape)

lemma json_elem_string [simp]: "json_elem (json_string s @ r) = Some (s, r)"
  by (simp add: json_elem_def json_string_def json_chars_concat)

lemma dropWhile_ws_string [simp]: "dropWhile json_ws (json_string s @ r) = json_string s @ r"
  by (simp add: json_string_def json_ws_def)

lemma json_elems_join:
  "xs \<noteq> [] \<Longrightarrow> length xs \<le> k \<Longrightarrow>
   json_elems k (Join (map json_string xs) '','' @ CHR '']'' # r) = Some (xs, r)"
proof (induction xs arbitrary: k)
  case Nil
  then show ?case by simp
next
  case (Cons x xs)
  then obtain k' where k: "k = Suc k'" by (cases k) auto
  show ?case
  proof (cases xs)
    case Nil
    then show ?thesis by (simp add: k json_ws_def)
  next
    case (Cons y ys)
    have "json_elems k' (Join (map json_string xs) '','' @ CHR '']'' # r) = Some (xs, r)"
      using Cons.IH [of k'] Cons.prems k Cons by simp
    then show ?thesis using Cons by (simp add: k json_ws_def)
  qed
qed

lemma length_Join: "length xs \<le> length (Join (map json_string xs) sep)"
proof (induction xs)
  case (Cons x xs)
  have "1 \<le> length (json_string x)" by (simp add: json_string_def)
  with Cons show ?case by (cases xs) auto
qed simp

lemma json_roundtrip: "json_Unmarshal_strings (json_Marshal_strings xs) = Some xs"
proof (cases xs)
  case Nil
  then show ?thesis
    by (simp add: json_Unmarshal_strings_def json_Marshal_strings_def json_array_def json_ws_def)
next
  case (Cons x ys)
  let ?j = "Join (map json_string xs) '',''"
  have ws: "dropWhile json_ws (?j @ '']'') = ?j @ '']''"
    using Cons by (cases ys) simp_all
  obtain d ds where d: "?j @ '']'' = d # ds" "d = CHR 0x22"
    using Cons by (cases ys) (simp_all add: json_string_def)
  have "xs \<noteq> []" "length xs \<le> length (CHR ''['' # ?j @ '']'')"
    using Cons length_Join [of xs "'',''"] by simp_all
  then have el: "json_elems (length (CHR ''['' # ?j @ '']'')) (?j @ '']'') = Some (xs, [])"
    by (rule json_elems_join)
  have "json_array (CHR ''['' # ?j @ '']'') = Some (xs, [])"
    unfolding json_array_def using ws d el by (simp add: json_ws_def del: json_elems.simps)
  then show ?thesis
    by (simp add: json_Unmarshal_strings_def json_Marshal_strings_def)
qed

end
