(* ===== verification/Session.thy ===== *)
theory Session
  imports Go_Codec Sample_World
begin

text \<open>
  The maintenance session, \<open>pkg/maas/maintenance/session.go\<close>: the state, its encoding in the data of
  the session ConfigMap, and the operations that start, complete and update it. The session lives
  in one ConfigMap per namespace; every operation reads it, and at most one write follows.
\<close>

section \<open>State and keys\<close>

definition SessionCMName :: string where "SessionCMName = ''hcp-maintenance-session''"

definition StatusActive :: string where "StatusActive = ''Active''"
definition StatusCompleted :: string where "StatusCompleted = ''Completed''"
definition StatusAborted :: string where "StatusAborted = ''Aborted''"

record session =
  ss_OpID :: string
  ss_Status :: string
  ss_StartedAt :: gtime_ns
  ss_CurrentHost :: string
  ss_ActiveSessions :: int
  ss_AffectedWLCClusters :: "string list"
  ss_PendingReadyVMReplacements :: "string list"

text \<open>The zero \<open>time.Time\<close> is the start of year 1.\<close>

definition zero_time :: gtime_ns where "zero_time = - 62135596800 * 10 ^ 9"

definition empty_session :: session where
  "empty_session = \<lparr>ss_OpID = [], ss_Status = [], ss_StartedAt = zero_time, ss_CurrentHost = [],
     ss_ActiveSessions = 0, ss_AffectedWLCClusters = [], ss_PendingReadyVMReplacements = []\<rparr>"

definition cmKeyOpID :: string where "cmKeyOpID = ''opId''"
definition cmKeyStatus :: string where "cmKeyStatus = ''status''"
definition cmKeyStartedAt :: string where "cmKeyStartedAt = ''startedAt''"
definition cmKeyCurrentHost :: string where "cmKeyCurrentHost = ''currentHost''"
definition cmKeyProgress :: string where "cmKeyProgress = ''progress''"
definition cmKeyActiveSessions :: string where "cmKeyActiveSessions = ''activeSessions''"
definition cmKeyAffectedWLCClusters :: string where
  "cmKeyAffectedWLCClusters = ''affectedWLCClusters''"
definition cmKeyPendingReadyVMReplacements :: string where
  "cmKeyPendingReadyVMReplacements = ''pendingReadyVMReplacements''"
definition cmKeyNewVMSystemID :: string where "cmKeyNewVMSystemID = ''newVMSystemID''"
definition CmKeyTriggerStart :: string where "CmKeyTriggerStart = ''start''"
definition CmKeyTriggerHost :: string where "CmKeyTriggerHost = ''hostSystemID''"

lemmas session_key_defs = cmKeyOpID_def cmKeyStatus_def cmKeyStartedAt_def cmKeyCurrentHost_def
  cmKeyProgress_def cmKeyActiveSessions_def cmKeyAffectedWLCClusters_def
  cmKeyPendingReadyVMReplacements_def cmKeyNewVMSystemID_def CmKeyTriggerStart_def
  CmKeyTriggerHost_def

section \<open>Loading and saving\<close>

text \<open>The data part of \<open>LoadSession\<close>: a field that does not parse keeps its zero value.\<close>

definition parse_session :: "lib \<Rightarrow> strmap \<Rightarrow> session" where
  "parse_session L data =
     (let ts = map_get data cmKeyStartedAt;
          activeSessions = map_get data cmKeyActiveSessions;
          affectedClusters = map_get data cmKeyAffectedWLCClusters;
          pendingVMs = map_get data cmKeyPendingReadyVMReplacements
      in \<lparr>ss_OpID = map_get data cmKeyOpID, ss_Status = map_get data cmKeyStatus,
          ss_StartedAt = (if ts = [] then zero_time
             else case time_Parse L ts of None \<Rightarrow> zero_time | Some t \<Rightarrow> t),
          ss_CurrentHost = map_get data cmKeyCurrentHost,
          ss_ActiveSessions = (if activeSessions = [] then 0
             else case Sscanf_d activeSessions of None \<Rightarrow> 0 | Some count \<Rightarrow> count),
          ss_AffectedWLCClusters = (if affectedClusters = [] then []
             else case json_Unmarshal_strings affectedClusters of None \<Rightarrow> [] | Some xs \<Rightarrow> xs),
          ss_PendingReadyVMReplacements = (if pendingVMs = [] then []
             else case json_Unmarshal_strings pendingVMs of None \<Rightarrow> [] | Some xs \<Rightarrow> xs)\<rparr>)"

definition LoadSession :: "env \<Rightarrow> string \<Rightarrow> (session \<times> configmap option) res io" where
  "LoadSession E namespace = do {
     r \<leftarrow> CM_Get E namespace SessionCMName;
     ret (case r of
        Inl e \<Rightarrow> if IsNotFound e then Inr (empty_session, None) else Inl e
      | Inr cm \<Rightarrow> Inr (parse_session (lib_of E) (cm_Data cm), Some cm)) }"

text \<open>The data part of \<open>SaveSession\<close>; \<open>json.Marshal\<close> of a list of strings cannot fail.\<close>

definition write_session :: "lib \<Rightarrow> session \<Rightarrow> strmap \<Rightarrow> strmap" where
  "write_session L st data0 =
     (let data1 = map_put cmKeyOpID (ss_OpID st) data0;
          data2 = map_put cmKeyStatus (ss_Status st) data1;
          data3 = map_put cmKeyCurrentHost (ss_CurrentHost st) data2;
          data4 = map_put cmKeyStartedAt (time_Format L (ss_StartedAt st)) data3;
          data5 = map_put cmKeyActiveSessions (Sprintf_d (ss_ActiveSessions st)) data4;
          data6 = map_put cmKeyAffectedWLCClusters
             (if length (ss_AffectedWLCClusters st) > 0
              then json_Marshal_strings (ss_AffectedWLCClusters st) else ''[]'') data5;
          data7 = map_put cmKeyPendingReadyVMReplacements
             (if length (ss_PendingReadyVMReplacements st) > 0
              then json_Marshal_strings (ss_PendingReadyVMReplacements st) else ''[]'') data6
      in if map_get data7 cmKeyProgress = [] then map_put cmKeyProgress ''{}'' data7 else data7)"

definition SaveSession :: "env \<Rightarrow> string \<Rightarrow> session \<Rightarrow> unit res io" where
  "SaveSession E namespace st = do {
     r \<leftarrow> CM_Get E namespace SessionCMName;
     case (case r of
             Inl e \<Rightarrow> if IsNotFound e
                then Inr \<lparr>cm_Namespace = namespace, cm_Name = SessionCMName, cm_UID = [], cm_Data = []\<rparr>
                else Inl e
           | Inr cm \<Rightarrow> Inr cm) of
       Inl e \<Rightarrow> ret (Inl e)
     | Inr cm \<Rightarrow>
         let cm = cm\<lparr>cm_Data := write_session (lib_of E) st (cm_Data cm)\<rparr>
         in if cm_UID cm = [] then CM_Create E cm else CM_Update E cm }"

definition StartSession :: "env \<Rightarrow> string \<Rightarrow> string \<Rightarrow> session res io" where
  "StartSession E namespace currentHost =
     ok_then (LoadSession E namespace) (\<lambda>(st, cm).
       if cm \<noteq> None \<and> ss_Status st = StatusActive \<and> ss_ActiveSessions st = 1
       then ret (Inr st)
       else do {
         newID \<leftarrow> NewUUID_str E;
         now \<leftarrow> time_Now_UTC E;
         let st = \<lparr>ss_OpID = newID, ss_Status = StatusActive, ss_StartedAt = now,
           ss_CurrentHost = currentHost, ss_ActiveSessions = 1, ss_AffectedWLCClusters = [],
           ss_PendingReadyVMReplacements = []\<rparr>;
         ok_then (SaveSession E namespace st) (\<lambda>_. ret (Inr st)) })"

definition CompleteSession :: "env \<Rightarrow> string \<Rightarrow> unit res io" where
  "CompleteSession E namespace =
     ok_then (LoadSession E namespace) (\<lambda>(st, _).
       if ss_Status st = StatusCompleted then ret (Inr ())
       else SaveSession E namespace
         (st\<lparr>ss_Status := StatusCompleted, ss_ActiveSessions := 0, ss_CurrentHost := [],
             ss_AffectedWLCClusters := [], ss_PendingReadyVMReplacements := []\<rparr>))"

definition ShouldStartFromTrigger :: "configmap option \<Rightarrow> bool \<times> string" where
  "ShouldStartFromTrigger cm = (case cm of
       None \<Rightarrow> (False, [])
     | Some cm \<Rightarrow>
         if map_get (cm_Data cm) CmKeyTriggerStart = ''true''
         then (True, map_get (cm_Data cm) CmKeyTriggerHost) else (False, []))"

section \<open>Lemmas\<close>

lemma write_session_other:
  assumes "k \<notin> {cmKeyOpID, cmKeyStatus, cmKeyCurrentHost, cmKeyStartedAt, cmKeyActiveSessions,
     cmKeyAffectedWLCClusters, cmKeyPendingReadyVMReplacements, cmKeyProgress}"
  shows "map_get (write_session L st data) k = map_get data k"
  using assms by (simp add: write_session_def Let_def)

lemma Sprintf_d_neq_Nil [simp]: "Sprintf_d i \<noteq> []"
  by (simp add: Sprintf_d_def)

lemma json_Marshal_neq_Nil [simp]: "json_Marshal_strings xs \<noteq> []"
  by (simp add: json_Marshal_strings_def)

lemma json_Unmarshal_empty [simp]: "json_Unmarshal_strings ''[]'' = Some []"
  by code_simp

lemma Sprintf_d_1 [simp]: "Sprintf_d 1 = ''1''"
  by code_simp

text \<open>
  What is needed of the layout \<open>time.RFC3339\<close>, as documented: it has no fraction of a second, so a time
  of the years 0 to 9999 is printed as a non-empty string that parses to its whole second.
\<close>

definition whole_seconds :: "gtime_ns \<Rightarrow> gtime_ns" where "whole_seconds t = t - t mod 10 ^ 9"

definition time_ok :: "lib \<Rightarrow> gtime_ns \<Rightarrow> bool" where
  "time_ok L t \<longleftrightarrow> time_Format L t \<noteq> [] \<and> time_Parse L (time_Format L t) = Some (whole_seconds t)"

lemma parse_write_session:
  assumes "time_ok L (ss_StartedAt st)"
    and "- (2 ^ 63) \<le> ss_ActiveSessions st" "ss_ActiveSessions st < 2 ^ 63"
  shows "parse_session L (write_session L st data) =
    st\<lparr>ss_StartedAt := whole_seconds (ss_StartedAt st)\<rparr>"
proof -
  have f: "map_get (write_session L st data) cmKeyOpID = ss_OpID st"
    "map_get (write_session L st data) cmKeyStatus = ss_Status st"
    "map_get (write_session L st data) cmKeyCurrentHost = ss_CurrentHost st"
    "map_get (write_session L st data) cmKeyStartedAt = time_Format L (ss_StartedAt st)"
    "map_get (write_session L st data) cmKeyActiveSessions = Sprintf_d (ss_ActiveSessions st)"
    "map_get (write_session L st data) cmKeyAffectedWLCClusters =
       (if ss_AffectedWLCClusters st = [] then ''[]'' else json_Marshal_strings (ss_AffectedWLCClusters st))"
    "map_get (write_session L st data) cmKeyPendingReadyVMReplacements =
       (if ss_PendingReadyVMReplacements st = [] then ''[]''
        else json_Marshal_strings (ss_PendingReadyVMReplacements st))"
    by (simp_all add: write_session_def Let_def session_key_defs)
  show ?thesis
    using assms by (simp add: parse_session_def f time_ok_def Sscanf_Sprintf json_roundtrip Let_def)
qed

text \<open>The ConfigMap a save writes.\<close>

definition session_write :: "event \<Rightarrow> configmap option" where
  "session_write e = (case e of Kube (CMCreate cm True) \<Rightarrow> Some cm | Kube (CMUpdate cm True) \<Rightarrow> Some cm
     | _ \<Rightarrow> None)"

text \<open>The ConfigMap a save starts from.\<close>

definition session_base :: "env \<Rightarrow> string \<Rightarrow> trace \<Rightarrow> configmap" where
  "session_base E ns tr = (case cm_get_r (kube E) ns SessionCMName tr of
       Inr cm \<Rightarrow> cm
     | Inl _ \<Rightarrow> \<lparr>cm_Namespace = ns, cm_Name = SessionCMName, cm_UID = [], cm_Data = []\<rparr>)"

lemma SaveSession_writes:
  assumes "run_state (SaveSession E ns st) s = (Inr (), t)"
  shows "\<exists>e. trace t = trace s @ [Kube (CMGet ns SessionCMName), e] \<and>
    session_write e = Some ((session_base E ns (trace s))\<lparr>cm_Data :=
      write_session (lib_of E) st (cm_Data (session_base E ns (trace s)))\<rparr>)"
  using assms unfolding SaveSession_def call_defs Let_def session_base_def
  by (auto simp: run_api session_write_def is_ok_iff split: sum.splits if_splits)

lemma LoadSession_run:
  "run_state (LoadSession E ns) s =
     ((case cm_get_r (kube E) ns SessionCMName (trace s) of
         Inl (NotFoundReason, _) \<Rightarrow> Inr (empty_session, None)
       | Inl (k, m) \<Rightarrow> Inl (ApiError k m)
       | Inr cm \<Rightarrow> Inr (parse_session (lib_of E) (cm_Data cm), Some cm)),
      s\<lparr>trace := trace s @ [Kube (CMGet ns SessionCMName)]\<rparr>)"
  unfolding LoadSession_def call_defs
  by (auto simp: run_api IsNotFound_def split: sum.splits prod.splits api_reason.splits)

text \<open>
  What is needed of the API server: with no other writer, a read of the session ConfigMap returns the
  last one written, with the uid the server gave it, and before the first write a fixed response.
\<close>

fun last_session_write :: "trace \<Rightarrow> configmap option" where
  "last_session_write [] = None"
| "last_session_write (e # es) = (case last_session_write es of
       Some cm \<Rightarrow> Some cm | None \<Rightarrow> session_write e)"

definition session_server :: "env \<Rightarrow> string \<Rightarrow> (api_err + configmap) \<Rightarrow> string \<Rightarrow> bool" where
  "session_server E ns cm0 uid \<longleftrightarrow> uid \<noteq> [] \<and>
     (\<forall>tr. cm_get_r (kube E) ns SessionCMName tr =
        (case last_session_write tr of None \<Rightarrow> cm0 | Some cm \<Rightarrow> Inr (cm\<lparr>cm_UID := uid\<rparr>)))"

lemma last_session_write_append:
  "last_session_write (xs @ ys) =
     (case last_session_write ys of Some cm \<Rightarrow> Some cm | None \<Rightarrow> last_session_write xs)"
  by (induction xs) (auto split: option.splits)

lemma session_write_simps [simp]:
  "session_write (Kube (CMGet n m)) = None" "session_write NewUUID = None" "session_write Clock = None"
  by (simp_all add: session_write_def)

text \<open>The active session the server shows, and the ConfigMap writes that are attempted.\<close>

definition shown_active :: "env \<Rightarrow> string \<Rightarrow> trace \<Rightarrow> session option" where
  "shown_active E ns tr = (case cm_get_r (kube E) ns SessionCMName tr of
       Inl _ \<Rightarrow> None
     | Inr cm \<Rightarrow> let st = parse_session (lib_of E) (cm_Data cm)
         in if ss_Status st = StatusActive \<and> ss_ActiveSessions st = 1 then Some st else None)"

definition cm_write :: "event \<Rightarrow> (configmap \<times> bool) option" where
  "cm_write e = (case e of Kube (CMCreate cm ok) \<Rightarrow> Some (cm, ok) | Kube (CMUpdate cm ok) \<Rightarrow> Some (cm, ok)
     | _ \<Rightarrow> None)"

definition new_session :: "env \<Rightarrow> string \<Rightarrow> string \<Rightarrow> trace \<Rightarrow> session" where
  "new_session E ns h tr = (let g = Kube (CMGet ns SessionCMName) in
     \<lparr>ss_OpID = uuid_r E (tr @ [g]), ss_Status = StatusActive,
      ss_StartedAt = clock_r E (tr @ [g, NewUUID]) * 10 ^ 9 + int (clock_nanos_r E (tr @ [g, NewUUID]) mod 10 ^ 9),
      ss_CurrentHost = h, ss_ActiveSessions = 1, ss_AffectedWLCClusters = [],
      ss_PendingReadyVMReplacements = []\<rparr>)"

lemma SaveSession_run:
  assumes "run_state (SaveSession E ns st) s = (r, t)"
  obtains (no_base) e where "t = s\<lparr>trace := trace s @ [Kube (CMGet ns SessionCMName)]\<rparr>" "r = Inl e"
  | (written) e ok where "t = s\<lparr>trace := trace s @ [Kube (CMGet ns SessionCMName), e]\<rparr>"
      "cm_write e = Some ((session_base E ns (trace s))\<lparr>cm_Data :=
         write_session (lib_of E) st (cm_Data (session_base E ns (trace s)))\<rparr>, ok)" "ok \<longleftrightarrow> is_ok r"
proof -
  have "(\<exists>e. t = s\<lparr>trace := trace s @ [Kube (CMGet ns SessionCMName)]\<rparr> \<and> r = Inl e) \<or>
    (\<exists>e. t = s\<lparr>trace := trace s @ [Kube (CMGet ns SessionCMName), e]\<rparr> \<and>
      cm_write e = Some ((session_base E ns (trace s))\<lparr>cm_Data :=
         write_session (lib_of E) st (cm_Data (session_base E ns (trace s)))\<rparr>, is_ok r))"
    using assms unfolding SaveSession_def call_defs Let_def session_base_def
    by (auto simp: run_api cm_write_def split: sum.splits if_splits)
  with that show thesis by blast
qed

section \<open>Properties\<close>

text \<open>
  C32: the session survives the ConfigMap, except for the fraction of its start second. The ConfigMap
  that a successful \<open>SaveSession\<close> writes parses back to the state it was given with \<open>StartedAt\<close> cut to
  whole seconds (RFC 3339 prints none of the nanoseconds \<open>StartSession\<close> stores), and every key that is
  not part of the session, the start trigger and the replacement VM among them, keeps the value the
  server had.
\<close>

theorem SaveSession_roundtrip:
  assumes "run_state (SaveSession E ns st) s = (Inr (), t)" and "time_ok (lib_of E) (ss_StartedAt st)"
    and "- (2 ^ 63) \<le> ss_ActiveSessions st" "ss_ActiveSessions st < 2 ^ 63"
  shows "\<exists>cm. session_write (last (trace t)) = Some cm \<and>
    parse_session (lib_of E) (cm_Data cm) = st\<lparr>ss_StartedAt := whole_seconds (ss_StartedAt st)\<rparr> \<and>
    (\<forall>k \<in> {cmKeyNewVMSystemID, CmKeyTriggerStart, CmKeyTriggerHost}. map_get (cm_Data cm) k =
      (case cm_get_r (kube E) ns SessionCMName (trace s) of
         Inr cm0 \<Rightarrow> map_get (cm_Data cm0) k | Inl _ \<Rightarrow> []))"
proof -
  let ?base = "session_base E ns (trace s)"
  have "session_write (last (trace t)) =
      Some (?base\<lparr>cm_Data := write_session (lib_of E) st (cm_Data ?base)\<rparr>)"
    using SaveSession_writes [OF assms(1)] by auto
  moreover have "map_get [] k = []" for k by (simp add: map_get_def)
  then have "map_get (cm_Data ?base) k = (case cm_get_r (kube E) ns SessionCMName (trace s) of
      Inr cm0 \<Rightarrow> map_get (cm_Data cm0) k | Inl _ \<Rightarrow> [])" for k
    by (simp add: session_base_def split: sum.split)
  ultimately show ?thesis using parse_write_session [OF assms(2-4)]
    by (simp add: write_session_other session_key_defs)
qed

text \<open>A session that was started 25 ns after a whole second.\<close>

definition sample_session :: session where
  "sample_session = \<lparr>ss_OpID = ''op'', ss_Status = StatusActive, ss_StartedAt = 1000000000025,
     ss_CurrentHost = ''h'', ss_ActiveSessions = 1, ss_AffectedWLCClusters = [''a<b'', ''c''],
     ss_PendingReadyVMReplacements = []\<rparr>"

lemma sample_time_ok: "time_ok sample_lib 1000000000025" "time_ok sample_lib 1000000000000"
  by (simp_all add: time_ok_def sample_lib_def whole_seconds_def)

theorem SaveSession_roundtrip_witness:
  "\<exists>t cm. run_state (SaveSession sample_env ''ns'' sample_session) sample_sys = (Inr (), t) \<and>
     session_write (last (trace t)) = Some cm \<and>
     parse_session sample_lib (cm_Data cm) = sample_session\<lparr>ss_StartedAt := 1000000000000\<rparr>"
proof -
  obtain t where run: "run_state (SaveSession sample_env ''ns'' sample_session) sample_sys = (Inr (), t)"
    by (simp add: SaveSession_def call_defs run_api sample_env_def sample_kube_def not_found_def
        IsNotFound_def Let_def)
  then show ?thesis
    using SaveSession_roundtrip [OF run] sample_time_ok
    by (auto simp: sample_session_def sample_env_def whole_seconds_def)
qed

text \<open>
  C31: a session in progress is never replaced. In every environment, when the server shows an active
  session, \<open>StartSession\<close> returns that session, whatever host it is asked for, and writes nothing;
  otherwise it makes at most one write, and it succeeds exactly when that write does: the result is
  then a new active session for the host with the new operation id, and the ConfigMap written carries
  these values, with the start trigger as the server had it. An error leaves no successful write.
\<close>

theorem StartSession_spec:
  "case run_state (StartSession E ns h) s of (r, t) \<Rightarrow> \<exists>es. t = s\<lparr>trace := trace s @ es\<rparr> \<and>
    (case shown_active E ns (trace s) of
       Some st \<Rightarrow> r = Inr st \<and> es = [Kube (CMGet ns SessionCMName)]
     | None \<Rightarrow> (case r of
         Inl _ \<Rightarrow> List.map_filter cm_write es = [] \<or> (\<exists>cm. List.map_filter cm_write es = [(cm, False)])
       | Inr st \<Rightarrow> st = new_session E ns h (trace s) \<and>
           (\<exists>cm cm0. List.map_filter cm_write es = [(cm, True)] \<and>
              cm0 = session_base E ns (trace s @ [Kube (CMGet ns SessionCMName), NewUUID, Clock]) \<and>
              cm = cm0\<lparr>cm_Data := cm_Data cm\<rparr> \<and>
              map_get (cm_Data cm) cmKeyOpID = ss_OpID st \<and>
              map_get (cm_Data cm) cmKeyStatus = StatusActive \<and>
              map_get (cm_Data cm) cmKeyActiveSessions = ''1'' \<and>
              map_get (cm_Data cm) cmKeyCurrentHost = h \<and>
              map_get (cm_Data cm) cmKeyStartedAt = time_Format (lib_of E) (ss_StartedAt st) \<and>
              ShouldStartFromTrigger (Some cm) = ShouldStartFromTrigger (Some cm0))))"
proof -
  let ?g = "Kube (CMGet ns SessionCMName)" and ?u = "s\<lparr>trace := trace s @ [Kube (CMGet ns SessionCMName)]\<rparr>"
  obtain r t where run: "run_state (StartSession E ns h) s = (r, t)" by fastforce
  let ?sv = "new_session E ns h (trace s)" and ?v = "s\<lparr>trace := trace s @ [?g, NewUUID, Clock]\<rparr>"
  let ?base = "session_base E ns (trace ?v)"
  let ?cm = "?base\<lparr>cm_Data := write_session (lib_of E) ?sv (cm_Data ?base)\<rparr>"
  consider (active) st where "shown_active E ns (trace s) = Some st" "r = Inr st" "t = ?u"
    | (unread) e where "shown_active E ns (trace s) = None" "r = Inl e" "t = ?u"
    | (fresh) q where "shown_active E ns (trace s) = None" "run_state (SaveSession E ns ?sv) ?v = (q, t)"
        "r = (case q of Inl e \<Rightarrow> Inl e | Inr _ \<Rightarrow> Inr ?sv)"
    using run unfolding StartSession_def shown_active_def new_session_def Let_def
    by (auto simp: LoadSession_run NewUUID_str_def time_Now_UTC_def run_call empty_session_def
        StatusActive_def split: sum.splits prod.splits api_reason.splits if_splits)
  then show ?thesis
  proof cases
    case active then show ?thesis by (simp add: run)
  next
    case unread then show ?thesis
      by (auto simp: run map_filter_simps cm_write_def intro!: exI [of _ "[?g]"])
  next
    case fresh
    from fresh(2) show ?thesis
    proof (cases rule: SaveSession_run)
      case (no_base e) then show ?thesis using fresh
        by (auto simp: run map_filter_simps cm_write_def intro!: exI [of _ "[?g, NewUUID, Clock, ?g]"])
    next
      case (written e ok)
      have w: "List.map_filter cm_write [?g, NewUUID, Clock, ?g, e] = [(?cm, ok)]"
        using written by (simp add: map_filter_simps cm_write_def)
      show ?thesis
      proof (cases q)
        case (Inl a)
        then show ?thesis using fresh written w
          by (auto simp: run is_ok_def intro!: exI [of _ "[?g, NewUUID, Clock, ?g, e]"])
      next
        case (Inr a)
        then have ok: "r = Inr ?sv" "ok" using fresh(3) written(3) by (simp_all add: is_ok_def)
        have keys: "map_get (cm_Data ?cm) cmKeyOpID = ss_OpID ?sv"
          "map_get (cm_Data ?cm) cmKeyStatus = StatusActive"
          "map_get (cm_Data ?cm) cmKeyActiveSessions = ''1''" "map_get (cm_Data ?cm) cmKeyCurrentHost = h"
          "map_get (cm_Data ?cm) cmKeyStartedAt = time_Format (lib_of E) (ss_StartedAt ?sv)"
          by (simp_all add: write_session_def Let_def session_key_defs new_session_def)
        have trig: "ShouldStartFromTrigger (Some ?cm) = ShouldStartFromTrigger (Some ?base)"
          by (simp add: ShouldStartFromTrigger_def write_session_other session_key_defs)
        have t: "t = s\<lparr>trace := trace s @ [?g, NewUUID, Clock, ?g, e]\<rparr>" using written(1) by simp
        have cm: "?cm = ?base\<lparr>cm_Data := cm_Data ?cm\<rparr>" by simp
        have base: "?base = session_base E ns (trace s @ [?g, NewUUID, Clock])" by simp
        have w': "List.map_filter cm_write [?g, NewUUID, Clock, ?g, e] = [(?cm, True)]"
          using w ok(2) by simp
        have "\<exists>cm cm0. List.map_filter cm_write [?g, NewUUID, Clock, ?g, e] = [(cm, True)] \<and>
            cm0 = session_base E ns (trace s @ [?g, NewUUID, Clock]) \<and> cm = cm0\<lparr>cm_Data := cm_Data cm\<rparr> \<and>
            map_get (cm_Data cm) cmKeyOpID = ss_OpID ?sv \<and> map_get (cm_Data cm) cmKeyStatus = StatusActive \<and>
            map_get (cm_Data cm) cmKeyActiveSessions = ''1'' \<and> map_get (cm_Data cm) cmKeyCurrentHost = h \<and>
            map_get (cm_Data cm) cmKeyStartedAt = time_Format (lib_of E) (ss_StartedAt ?sv) \<and>
            ShouldStartFromTrigger (Some cm) = ShouldStartFromTrigger (Some cm0)"
          by (rule exI [of _ ?cm], rule exI [of _ ?base]) (intro conjI w' base cm keys trig)
        then show ?thesis unfolding run prod.case ok(1) sum.case fresh(1) option.case
          by (intro exI [of _ "[?g, NewUUID, Clock, ?g, e]"] conjI t refl)
      qed
    qed
  qed
qed

text \<open>A server that returns what was written, from an empty namespace.\<close>

definition session_env :: env where
  "session_env = sample_env\<lparr>kube := sample_kube\<lparr>cm_get_r := (\<lambda>_ _ tr.
     case last_session_write tr of None \<Rightarrow> not_found tr
     | Some cm \<Rightarrow> Inr (cm\<lparr>cm_UID := ''uid-cm''\<rparr>))\<rparr>\<rparr>"

text \<open>On it, a session started for \<open>h1\<close> is the one a second start for \<open>h2\<close> returns.\<close>

theorem StartSession_spec_witness:
  "\<exists>st t. run_state (StartSession session_env ''ns'' ''h1'') sample_sys = (Inr st, t) \<and>
     ss_CurrentHost st = ''h1'' \<and> shown_active session_env ''ns'' (trace t) \<noteq> None \<and>
     run_state (StartSession session_env ''ns'' ''h2'') t =
       (Inr (st\<lparr>ss_StartedAt := 1000000000000\<rparr>), t\<lparr>trace := trace t @ [Kube (CMGet ''ns'' SessionCMName)]\<rparr>)"
proof -
  let ?st = "new_session session_env ''ns'' ''h1'' []"
  obtain t cm where t: "run_state (StartSession session_env ''ns'' ''h1'') sample_sys = (Inr ?st, t)"
      "last_session_write (trace t) = Some cm" "cm_Data cm = write_session sample_lib ?st []"
    by (simp add: StartSession_def SaveSession_def LoadSession_def call_defs run_api run_call
        session_env_def sample_env_def sample_kube_def sample_sys_def not_found_def IsNotFound_def Let_def
        empty_session_def StatusActive_def new_session_def session_write_def)
  have started: "ss_StartedAt ?st = 1000000000025" "ss_ActiveSessions ?st = 1" "ss_Status ?st = StatusActive"
    "ss_CurrentHost ?st = ''h1''"
    by (simp_all add: new_session_def Let_def session_env_def sample_env_def)
  have "parse_session sample_lib (write_session sample_lib ?st []) = ?st\<lparr>ss_StartedAt := 1000000000000\<rparr>"
    using parse_write_session [of sample_lib ?st "[]"] sample_time_ok(1) started
    by (simp add: whole_seconds_def)
  then have "shown_active session_env ''ns'' (trace t) = Some (?st\<lparr>ss_StartedAt := 1000000000000\<rparr>)"
    using t(2,3) started by (simp add: shown_active_def session_env_def sample_env_def Let_def)
  with StartSession_spec [where E = session_env and ns = "''ns''" and h = "''h2''" and s = t] t(1) started(4) show ?thesis
    by (auto split: prod.splits)
qed

end
