(* ===== verification/Provider_ID.thy ===== *)
theory Provider_ID
  imports Session
begin

text \<open>
  \<open>pkg/util\<close>: the parser of provider IDs (machine.go), the saturating conversion of replica counts
  (utils.go), the namespace label test (cluster.go) and the LXD trust password (trust/password.go).
  The provider ID written by the machine scope is parsed back here and by the evacuation
  controller, which splits it by hand; the lemmas show that the two parsers agree.
\<close>

section \<open>Provider IDs (machine.go)\<close>

record provider_id =
  pid_original :: string
  pid_cloudProvider :: string
  pid_id :: string

text \<open>
  The regular expression \<open>^[^:]+://.*[^/]$\<close>: the first part has no colon, so it ends at the first
  one; a dot does not match a newline.
\<close>

definition providerIDRegex_Match :: "string \<Rightarrow> bool" where
  "providerIDRegex_Match s =
     (let p = takeWhile (\<lambda>c. c \<noteq> CHR '':'') s; r = drop (length p) s; t = drop 3 r
      in p \<noteq> [] \<and> HasPrefix r ''://'' \<and> t \<noteq> [] \<and> last t \<noteq> CHR ''/'' \<and>
         CHR 0x0A \<notin> set (butlast t))"

text \<open>The text after the last slash.\<close>

definition after_last_slash :: "string \<Rightarrow> string" where
  "after_last_slash s = rev (takeWhile (\<lambda>c. c \<noteq> CHR ''/'') (rev s))"

definition pid_Validate :: "provider_id \<Rightarrow> bool" where
  "pid_Validate p = (pid_cloudProvider p \<noteq> [] \<and> pid_id p \<noteq> [])"

definition NewProviderID :: "string \<Rightarrow> provider_id res" where
  "NewProviderID i =
     (if i = [] then Inl ErrEmptyProviderID
      else if \<not> providerIDRegex_Match i then Inl ErrInvalidProviderID
      else let res = \<lparr>pid_original = i, pid_cloudProvider = takeWhile (\<lambda>c. c \<noteq> CHR '':'') i,
                      pid_id = after_last_slash i\<rparr>
           in if \<not> pid_Validate res then Inl ErrInvalidProviderID else Inr res)"

definition pid_String :: "provider_id \<Rightarrow> string" where
  "pid_String p = pid_original p"

definition pid_Equals :: "provider_id \<Rightarrow> provider_id \<Rightarrow> bool" where
  "pid_Equals p q = (pid_String p = pid_String q)"

definition pid_IndexKey :: "provider_id \<Rightarrow> string" where
  "pid_IndexKey p = pid_String p"

definition GetMAASMachinesInCluster :: "env \<Rightarrow> string \<Rightarrow> string \<Rightarrow> maas_machine list res io" where
  "GetMAASMachinesInCluster E namespace clusterName =
     ok_then (MaasMachines_List E namespace clusterName) (\<lambda>items. ret (Inr items))"

text \<open>The evacuation controller's own parser (vmevacuation_controller.go).\<close>

definition extractSystemIDFromProviderID :: "string \<Rightarrow> string" where
  "extractSystemIDFromProviderID providerID =
     (let parts = Split providerID (CHR ''/'') in if length parts < 2 then [] else last parts)"

text \<open>What the machine scope writes (scope/machine.go).\<close>

definition provider_id_string :: "string \<Rightarrow> string \<Rightarrow> string" where
  "provider_id_string systemID availabilityZone =
     ''maas:///'' @ availabilityZone @ ''/'' @ systemID"

lemma last_Split_slash: "last (Split s (CHR ''/'')) = after_last_slash s"
proof (cases "CHR ''/'' \<in> set s")
  case True
  then obtain u v where s: "s = u @ CHR ''/'' # v" "CHR ''/'' \<notin> set v"
    by (meson split_list_last)
  then have "takeWhile (\<lambda>c. c \<noteq> CHR ''/'') (rev v @ CHR ''/'' # rev u) = rev v"
    by (subst takeWhile_append2) auto
  with s show ?thesis by (simp add: last_Split after_last_slash_def)
next
  case False
  then have "takeWhile (\<lambda>c. c \<noteq> CHR ''/'') (rev s) = rev s"
    by (auto simp: takeWhile_eq_all_conv)
  then have "after_last_slash s = s" unfolding after_last_slash_def by (metis rev_rev_ident)
  with False show ?thesis by (simp add: Split_no_sep)
qed

lemma extract_eq:
  "extractSystemIDFromProviderID s = (if CHR ''/'' \<in> set s then after_last_slash s else [])"
  by (simp add: extractSystemIDFromProviderID_def Let_def length_Split last_Split_slash
      count_list_0_iff flip: neq0_conv)

lemma NewProviderID_Inr:
  "NewProviderID s = Inr p \<Longrightarrow> pid_id p = after_last_slash s \<and> pid_id p \<noteq> [] \<and> CHR ''/'' \<in> set s \<and>
     pid_String p = s"
proof -
  assume p: "NewProviderID s = Inr p"
  then have m: "providerIDRegex_Match s" by (auto simp: NewProviderID_def split: if_splits)
  let ?w = "takeWhile (\<lambda>c. c \<noteq> CHR '':'') s"
  have "HasPrefix (drop (length ?w) s) ''://''" using m by (simp add: providerIDRegex_Match_def Let_def)
  then have "CHR ''/'' \<in> set (drop (length ?w) s)" by (auto simp: HasPrefix_def prefix_def)
  then have "CHR ''/'' \<in> set s" by (rule in_set_dropD)
  then show ?thesis using p
    by (auto simp: NewProviderID_def Let_def pid_Validate_def pid_String_def split: if_splits)
qed

text \<open>
  C35: provider IDs round trip. The string the machine scope writes for a system ID and a zone parses
  to this system ID, in the library and in the evacuation controller; and whenever the library
  accepts a provider ID, both parsers return the same non-empty system ID.
\<close>

theorem provider_id_roundtrip:
  assumes "sid \<noteq> []" "CHR ''/'' \<notin> set sid" "CHR 0x0A \<notin> set az" "CHR 0x0A \<notin> set sid"
  shows "(\<exists>p. NewProviderID (provider_id_string sid az) = Inr p \<and> pid_id p = sid \<and>
      pid_cloudProvider p = ''maas'') \<and>
    extractSystemIDFromProviderID (provider_id_string sid az) = sid \<and>
    (\<forall>s p. NewProviderID s = Inr p \<longrightarrow> extractSystemIDFromProviderID s = pid_id p \<and> pid_id p \<noteq> [])"
proof -
  let ?s = "provider_id_string sid az"
  have w: "takeWhile (\<lambda>c. c \<noteq> CHR '':'') ?s = ''maas''" by (simp add: provider_id_string_def)
  have a: "after_last_slash ?s = sid"
    using last_Split [of "CHR ''/''" sid "''maas:///'' @ az"] assms(2)
    by (simp add: provider_id_string_def flip: last_Split_slash)
  have "CHR ''/'' \<noteq> last sid" using assms(1,2) by (metis last_in_set)
  then have "providerIDRegex_Match ?s"
    using assms by (auto simp: providerIDRegex_Match_def w Let_def provider_id_string_def
        HasPrefix_def butlast_append dest: in_set_butlastD)
  then have "NewProviderID ?s = Inr \<lparr>pid_original = ?s, pid_cloudProvider = ''maas'', pid_id = sid\<rparr>"
    using assms(1) by (simp add: NewProviderID_def w a pid_Validate_def)
      (simp add: provider_id_string_def)
  moreover have "extractSystemIDFromProviderID ?s = sid"
    unfolding extract_eq a by (simp add: provider_id_string_def)
  moreover have "extractSystemIDFromProviderID s = pid_id p \<and> pid_id p \<noteq> []"
    if "NewProviderID s = Inr p" for s p
    using NewProviderID_Inr [OF that] by (auto simp: extract_eq)
  ultimately show ?thesis by simp
qed

theorem provider_id_roundtrip_witness:
  "extractSystemIDFromProviderID ''maas:///az1/abc123'' = ''abc123'' \<and>
   (\<exists>p. NewProviderID ''maas:///az1/abc123'' = Inr p \<and> pid_id p = ''abc123'')"
  using provider_id_roundtrip [of "''abc123''" "''az1''"] by (auto simp: provider_id_string_def)

section \<open>Replica counts (utils.go)\<close>

definition MaxInt32 :: "64 word" where "MaxInt32 = word_of_int 2147483647"
definition MinInt32 :: "64 word" where "MinInt32 = word_of_int (- 2147483648)"

definition SafeInt64ToInt32 :: "64 word \<Rightarrow> 32 word" where
  "SafeInt64ToInt32 value =
     (if sint value > sint MaxInt32 then scast MaxInt32
      else if sint value < sint MinInt32 then scast MinInt32 else scast value)"

text \<open>
  The conversion of a 64-bit to a 32-bit integer saturates: the result is the nearest value that
  fits, never a wrapped one.
\<close>

lemma SafeInt64ToInt32_saturates:
  "sint (SafeInt64ToInt32 v) = max (- (2 ^ 31)) (min (2 ^ 31 - 1) (sint v))"
proof -
  have s: "sint (scast x :: 32 word) = sint x" if "- (2 ^ 31) \<le> sint x" "sint x < 2 ^ 31" for x :: "64 word"
  proof -
    have "sint (scast x :: 32 word) = signed_take_bit 31 (sint x)"
      unfolding scast_eq by (simp only: sint_sbintrunc') simp
    then show ?thesis using signed_take_bit_int_eq_self [of 31 "sint x"] that by simp
  qed
  have c: "sint MaxInt32 = 2147483647" "sint MinInt32 = - 2147483648"
    unfolding MaxInt32_def MinInt32_def by (transfer, subst signed_take_bit_int_eq_self; simp)+
  have m: "sint (scast MaxInt32 :: 32 word) = 2147483647"
    "sint (scast MinInt32 :: 32 word) = - 2147483648"
    using s [of MaxInt32] s [of MinInt32] by (simp_all add: c)
  consider "sint v > 2147483647" | "sint v < - 2147483648"
    | "- 2147483648 \<le> sint v" "sint v \<le> 2147483647" by linarith
  then show ?thesis
  proof cases
    case 3
    then have "sint (scast v :: 32 word) = sint v" by (intro s) simp_all
    with 3 show ?thesis unfolding SafeInt64ToInt32_def c by simp
  qed (simp_all add: SafeInt64ToInt32_def c m)
qed

section \<open>Namespace labels and the trust password\<close>

definition APIServerReadinessLabel :: string where
  "APIServerReadinessLabel = ''cluster-api-maas/api-server-ready''"

definition HasNamespaceLabel :: "env \<Rightarrow> string \<Rightarrow> string \<Rightarrow> string \<Rightarrow> bool res io" where
  "HasNamespaceLabel E namespaceName labelKey expectedValue = do {
     r \<leftarrow> Namespace_Get E namespaceName;
     ret (case r of
        Inl e \<Rightarrow> if IsNotFound e then Inr False else Inl e
      | Inr labels \<Rightarrow> Inr (map_has labels labelKey \<and> map_get labels labelKey = expectedValue)) }"

definition DeriveTrustPassword :: "lib \<Rightarrow> string \<Rightarrow> string" where
  "DeriveTrustPassword L seed =
     (let s = sha256_hex L (''lxd-trust:'' @ seed) in if length s > 32 then take 32 s else s)"

end
