(* ===== verification/Cluster_Scope.thy ===== *)
theory Cluster_Scope
  imports Inventory Provider_ID
begin

text \<open>
  The cluster scope, \<open>pkg/maas/scope/cluster.go\<close> and client.go: the accessors the controllers use on
  a cluster and its \<open>MaasCluster\<close> (held in memory as \<open>the_mc\<close>), the choice of the MAAS credentials,
  and the goroutines that wait for an API server to come online, as a step relation on the shared
  map of running pollers.
\<close>

section \<open>Clients and credentials\<close>

definition NewMaasClient :: "env \<Rightarrow> unit res" where
  "NewMaasClient E =
     (if os_Getenv E ''MAAS_ENDPOINT'' = []
      then Inl (GoPanic ''missing env MAAS_ENDPOINT; e.g: MAAS_ENDPOINT=http://10.11.130.11:5240/MAAS'')
      else if os_Getenv E ''MAAS_API_KEY'' = []
      then Inl (GoPanic ''missing env MAAS_API_KEY; e.g: MAAS_API_KEY=x:y:z>'')
      else Inr ())"

definition getEnvOrDefault :: "env \<Rightarrow> string \<Rightarrow> string \<Rightarrow> string" where
  "getEnvOrDefault E key defaultValue =
     (let value = os_Getenv E key in if value \<noteq> [] then value else defaultValue)"

definition GetMaasClientIdentity :: "env \<Rightarrow> (string \<times> string) io" where
  "GetMaasClientIdentity E = do {
     mc \<leftarrow> gets the_mc;
     r \<leftarrow> GetMAASCredentials E False (om_Namespace (mc_Meta mc));
     ret (case r of
        Inl _ \<Rightarrow> (getEnvOrDefault E ''MAAS_API_URL'' ''http://localhost:5240/MAAS'',
                  getEnvOrDefault E ''MAAS_API_TOKEN'' ''dummy-token'')
      | Inr creds \<Rightarrow> creds) }"

section \<open>The cluster and its MaasCluster\<close>

definition ReadyCondition :: string where "ReadyCondition = ''Ready''"

definition cluster_PatchObject :: "env \<Rightarrow> unit res io" where
  "cluster_PatchObject E = do {
     modify (the_mc_update (mc_Status_update (mcs_Conditions_update (\<lambda>cs.
       cond_SetSummary (lib_of E) cs [DNSReadyCondition, APIServerAvailableCondition]))));
     mc \<leftarrow> gets the_mc;
     MaasCluster_Patch E mc }"

definition APIServerPort :: "capi_cluster \<Rightarrow> int" where
  "APIServerPort cl = (if cl_APIServerPort cl \<noteq> 0 then cl_APIServerPort cl else 6443)"

definition SetDNSName :: "string \<Rightarrow> unit io" where
  "SetDNSName dnsName = modify (the_mc_update (mc_Status_update (mcs_DNSName_update (\<lambda>_. dnsName))))"

definition DnsSuffixLength :: nat where "DnsSuffixLength = 6"

definition GetDNSName :: "env \<Rightarrow> capi_cluster \<Rightarrow> string io" where
  "GetDNSName E cl =
     (if \<not> IsZero (cl_ControlPlaneEndpoint cl) then ret (ep_Host (cl_ControlPlaneEndpoint cl))
      else do {
        mc \<leftarrow> gets the_mc;
        if mcs_DNSName (mc_Status mc) \<noteq> [] then ret (mcs_DNSName (mc_Status mc))
        else do {
          uid \<leftarrow> NewUUID_str E;
          let dnsName = cl_Name cl @ ''-'' @ drop (length uid - DnsSuffixLength) uid @ ''.'' @
            DNSDomain (mc_Spec mc);
          SetDNSName dnsName;
          ret dnsName } })"

definition GetClusterMaasMachines :: "env \<Rightarrow> capi_cluster \<Rightarrow> maas_machine list res io" where
  "GetClusterMaasMachines E cl = do {
     r \<leftarrow> MaasMachines_List E (cl_Namespace cl) (cl_Name cl);
     ret (case r of
        Inl e \<Rightarrow> Inl (Wrapped ''failed to list machines'' e)
      | Inr items \<Rightarrow> Inr items) }"

definition MachineControlPlaneLabel :: string where
  "MachineControlPlaneLabel = ''cluster.x-k8s.io/control-plane''"

definition GetControlPlaneMaasMachines :: "env \<Rightarrow> capi_cluster \<Rightarrow> maas_machine list res io" where
  "GetControlPlaneMaasMachines E cl =
     ok_then (GetClusterMaasMachines E cl) (\<lambda>machines.
       ret (Inr (filter (\<lambda>m. map_has (om_Labels (mm_Meta m)) MachineControlPlaneLabel) machines)))"

definition GetPreferredSubnets :: "env \<Rightarrow> capi_cluster \<Rightarrow> string list res io" where
  "GetPreferredSubnets E cl = do {
     r \<leftarrow> CM_Get E (cl_Namespace cl) ''maas-preferred-subnet'';
     ret (case r of
        Inl e \<Rightarrow> if IsNotFound e then Inr [] else Inl e
      | Inr cm \<Rightarrow> Inr (map TrimSpace (Split (map_get (cm_Data cm) ''preferredSubnets'') (CHR '','')))) }"

definition IsAPIServerOnline :: "env \<Rightarrow> capi_cluster \<Rightarrow> bool res io" where
  "IsAPIServerOnline E cl =
     ok_then (CapiCluster_Get E (cl_Namespace cl) (cl_Name cl)) (\<lambda>cluster.
       if cl_DeletionTimestamp cluster \<noteq> None
       then ret (Inl (ErrorString ''Cluster is deleting; abort IsAPIServerOnline''))
       else do {
         r \<leftarrow> Remote_Client E (cl_Namespace cl) (cl_Name cl);
         case r of
           Inl _ \<Rightarrow> ret (Inr False)
         | Inr _ \<Rightarrow> do { r \<leftarrow> Nodes_List E; ret (Inr (is_ok r)) } })"

definition IsLXDHostEnabled :: "maas_cluster \<Rightarrow> bool" where
  "IsLXDHostEnabled mc = (case LXDConfig (mc_Spec mc) of
       None \<Rightarrow> False
     | Some cfg \<Rightarrow> (case lc_Enabled cfg of None \<Rightarrow> False | Some b \<Rightarrow> b))"

definition GetLXDConfig :: "maas_cluster \<Rightarrow> lxd_config option" where
  "GetLXDConfig mc = LXDConfig (mc_Spec mc)"

definition GetWorkloadClusterClient :: "env \<Rightarrow> capi_cluster \<Rightarrow> unit res io" where
  "GetWorkloadClusterClient E cl = Remote_Client E (cl_Namespace cl) (cl_Name cl)"

definition EnsureClusterReadinessLabel :: "env \<Rightarrow> capi_cluster \<Rightarrow> unit res io" where
  "EnsureClusterReadinessLabel E cl = do {
     r \<leftarrow> Remote_Client E (cl_Namespace cl) (cl_Name cl);
     case r of
       Inl _ \<Rightarrow> ret (Inr ())
     | Inr _ \<Rightarrow> do {
         r \<leftarrow> Namespace_Get E ''kube-system'';
         case r of
           Inl e \<Rightarrow> ret (if IsNotFound e then Inr () else Inl e)
         | Inr labels \<Rightarrow>
             if map_has labels APIServerReadinessLabel \<and>
                map_get labels APIServerReadinessLabel = ''true'' then ret (Inr ())
             else do {
               r \<leftarrow> Namespace_Update E ''kube-system'' (map_put APIServerReadinessLabel ''true'' labels);
               ret (case r of
                  Inl e \<Rightarrow> Inl (Wrapped ''failed to set API server readiness label on kube-system namespace'' e)
                | Inr _ \<Rightarrow> Inr ()) } } }"

section \<open>Which kind of cluster (vmevacuation_controller.go)\<close>

definition isHCPMaasCluster :: "maas_cluster option \<Rightarrow> bool" where
  "isHCPMaasCluster mc = (case mc of None \<Rightarrow> False | Some mc \<Rightarrow>
     (case LXDConfig (mc_Spec mc) of None \<Rightarrow> False | Some cfg \<Rightarrow>
        (case lc_Enabled cfg of None \<Rightarrow> False | Some b \<Rightarrow> b)))"

definition templateHasLXDEnabled :: "maas_machine_template option \<Rightarrow> bool" where
  "templateHasLXDEnabled tmpl = (case tmpl of None \<Rightarrow> False | Some t \<Rightarrow>
     (case LXD (mt_Spec t) of None \<Rightarrow> False | Some lxd \<Rightarrow>
        (case ml_Enabled lxd of None \<Rightarrow> False | Some b \<Rightarrow> b)))"

lemma isHCP_IsLXDHostEnabled: "isHCPMaasCluster (Some mc) = IsLXDHostEnabled mc"
  by (simp add: isHCPMaasCluster_def IsLXDHostEnabled_def)

section \<open>Waiting for the API server\<close>

text \<open>
  \<open>apiServerTriggers\<close> is a map shared by all reconciles and guarded by a mutex. A goroutine polls,
  sends one event when the poll ends, and only then takes the mutex to remove its key. The state
  holds the keys of the map, the goroutines with their stage, and the events sent.
\<close>

datatype poll_stage = Polling | Announced

record poll_state =
  ps_triggers :: "string list"
  ps_pollers :: "(string \<times> poll_stage) list"
  ps_events :: "string list"

definition wants_poll :: "capi_cluster \<Rightarrow> bool" where
  "wants_poll cl =
     (if (case cl_ControlPlaneInitialized cl of None \<Rightarrow> False | Some b \<Rightarrow> b) then False
      else cl_DeletionTimestamp cl = None)"

definition ReconcileMaasClusterWhenAPIServerIsOnline :: "capi_cluster \<Rightarrow> poll_state \<Rightarrow> poll_state" where
  "ReconcileMaasClusterWhenAPIServerIsOnline cl p =
     (if \<not> wants_poll cl then p
      else if cl_UID cl \<in> set (ps_triggers p) then p
      else p\<lparr>ps_triggers := cl_UID cl # ps_triggers p,
             ps_pollers := (cl_UID cl, Polling) # ps_pollers p\<rparr>)"

inductive poll_step :: "poll_state \<Rightarrow> poll_state \<Rightarrow> bool" where
  reconcile: "poll_step p (ReconcileMaasClusterWhenAPIServerIsOnline cl p)"
| announce: "ps_pollers p = xs @ (uid, Polling) # ys \<Longrightarrow>
    poll_step p (p\<lparr>ps_pollers := xs @ (uid, Announced) # ys, ps_events := ps_events p @ [uid]\<rparr>)"
| finish: "ps_pollers p = xs @ (uid, Announced) # ys \<Longrightarrow>
    poll_step p (p\<lparr>ps_pollers := xs @ ys, ps_triggers := removeAll uid (ps_triggers p)\<rparr>)"

inductive poll_reachable :: "poll_state \<Rightarrow> bool" where
  init: "poll_reachable \<lparr>ps_triggers = [], ps_pollers = [], ps_events = []\<rparr>"
| step: "poll_reachable p \<Longrightarrow> poll_step p q \<Longrightarrow> poll_reachable q"

definition poll_inv :: "poll_state \<Rightarrow> bool" where
  "poll_inv p \<longleftrightarrow> distinct (map fst (ps_pollers p)) \<and> distinct (ps_triggers p) \<and>
     set (ps_triggers p) = fst ` set (ps_pollers p)"

lemma poll_inv_step: "poll_step p q \<Longrightarrow> poll_inv p \<Longrightarrow> poll_inv q"
proof (induction rule: poll_step.induct)
  case (reconcile p cl)
  then show ?case by (auto simp: ReconcileMaasClusterWhenAPIServerIsOnline_def poll_inv_def)
next
  case (announce p xs uid ys)
  then show ?case by (simp add: poll_inv_def)
next
  case (finish p xs uid ys)
  then show ?case by (auto simp: poll_inv_def distinct_removeAll)
qed

text \<open>
  C28: at most one goroutine polls for a cluster. In every reachable state of the shared map the
  running goroutines belong to distinct clusters and the map holds exactly their keys, however
  reconciles and goroutines interleave.
\<close>

theorem one_poller_per_cluster:
  assumes "poll_reachable p"
  shows "distinct (map fst (ps_pollers p)) \<and> set (ps_triggers p) = fst ` set (ps_pollers p)"
proof -
  have "poll_inv p" using assms
  proof (induction rule: poll_reachable.induct)
    case init
    then show ?case by (simp add: poll_inv_def)
  next
    case (step p q)
    then show ?case by (rule_tac poll_inv_step)
  qed
  then show ?thesis by (simp add: poll_inv_def)
qed

lemma poll_reachable_start:
  "wants_poll cl \<Longrightarrow> poll_reachable \<lparr>ps_triggers = [cl_UID cl], ps_pollers = [(cl_UID cl, Polling)], ps_events = []\<rparr>"
  using poll_reachable.step [OF poll_reachable.init poll_step.reconcile [of _ cl]]
  by (simp add: ReconcileMaasClusterWhenAPIServerIsOnline_def)

theorem one_poller_per_cluster_witness:
  "poll_reachable \<lparr>ps_triggers = [''u''], ps_pollers = [(''u'', Polling)], ps_events = []\<rparr> \<and>
   distinct (map fst [(''u'', Polling)]) \<and> set [''u''] = fst ` set [(''u'', Polling)]"
proof -
  have "poll_reachable \<lparr>ps_triggers = [''u''], ps_pollers = [(''u'', Polling)], ps_events = []\<rparr>"
    using poll_reachable_start [of "sample_cluster\<lparr>cl_UID := ''u'', cl_ControlPlaneInitialized := None\<rparr>"]
    by (simp add: sample_cluster_def wants_poll_def)
  with one_poller_per_cluster [OF this] show ?thesis by simp
qed

end
