(* ===== verification/Host_Maintenance.thy ===== *)
theory Host_Maintenance
  imports Cluster_Scope
begin

text \<open>
  The host maintenance service, \<open>controllers/host_maintenance_service.go\<close>: the two evacuation gates of
  an LXD host that is being deleted, the clean-up of its maintenance tags and the evacuation
  finalizer. The machine is the one the reconcile holds (\<open>the_mm\<close>); the service is a record with the
  two MAAS interfaces, so the lemmas about the gates hold for any inventory.
\<close>

definition HostEvacuationFinalizer :: string where
  "HostEvacuationFinalizer = ''maas.lxd.io/host-evacuation''"

record host_maintenance_service =
  hms_namespace :: string
  hms_tags :: tag_service
  hms_inventory :: inventory_service
  hms_recorder :: bool \<comment> \<open>the event recorder is not nil\<close>

definition maas_host_service :: "env \<Rightarrow> string \<Rightarrow> bool \<Rightarrow> host_maintenance_service" where
  "maas_host_service E namespace recorder = \<lparr>hms_namespace = namespace,
     hms_tags = NewTagService E, hms_inventory = NewInventoryService E, hms_recorder = recorder\<rparr>"

definition NewHostMaintenanceService ::
    "env \<Rightarrow> string \<Rightarrow> bool \<Rightarrow> host_maintenance_service res io" where
  "NewHostMaintenanceService E namespace recorder = do {
     r \<leftarrow> NewMAASClient E False namespace;
     ret (case r of
        Inl e \<Rightarrow> Inl (Wrapped ''failed to create MAAS client'' e)
      | Inr _ \<Rightarrow> Inr (maas_host_service E namespace recorder)) }"

section \<open>Helpers\<close>

fun containsString :: "string list \<Rightarrow> string \<Rightarrow> bool" where
  "containsString [] s = False"
| "containsString (item # items) s = (if item = s then True else containsString items s)"

fun removeString :: "string list \<Rightarrow> string \<Rightarrow> string list" where
  "removeString [] s = []"
| "removeString (item # items) s =
     (if item \<noteq> s then item # removeString items s else removeString items s)"

definition isHostMachine :: "maas_machine \<Rightarrow> bool" where
  "isHostMachine mm = (Parent (mm_Spec mm) = None \<or> Parent (mm_Spec mm) = Some [])"

lemma containsString_iff [simp]: "containsString xs s \<longleftrightarrow> s \<in> set xs"
  by (induction xs) auto

lemma set_removeString [simp]: "set (removeString xs s) = set xs - {s}"
  by (induction xs) auto

section \<open>The operations\<close>

definition AddEvacuationFinalizer :: "env \<Rightarrow> unit res io" where
  "AddEvacuationFinalizer E = do {
     mm \<leftarrow> gets the_mm;
     if \<not> isHostMachine mm then ret (Inr ())
     else if \<not> containsString (om_Finalizers (mm_Meta mm)) HostEvacuationFinalizer then do {
       modify (the_mm_update (mm_Meta_update (om_Finalizers_update (\<lambda>fs. fs @ [HostEvacuationFinalizer]))));
       mm \<leftarrow> gets the_mm;
       MaasMachine_Update E mm }
     else ret (Inr ()) }"

definition isHostEmpty :: "host_maintenance_service \<Rightarrow> string \<Rightarrow> bool res io" where
  "isHostEmpty svc hostSystemID = do {
     r \<leftarrow> ListHostVMs (hms_inventory svc) hostSystemID;
     ret (case r of
        Inl e \<Rightarrow> Inl (Wrapped ''failed to list host VMs'' e)
      | Inr vms \<Rightarrow> Inr (vms = [])) }"

text \<open>The scan of the tags of a VM: is it a control plane, and its last cluster tag.\<close>

fun scan_vm_tags :: "string list \<Rightarrow> bool \<times> string \<Rightarrow> bool \<times> string" where
  "scan_vm_tags [] acc = acc"
| "scan_vm_tags (tag # tags) (isCPVM, clusterTag) =
     scan_vm_tags tags (isCPVM \<or> tag = TagVMControlPlane,
       if HasPrefix tag TagVMClusterPrefix then tag else clusterTag)"

text \<open>The VMs to replace: system ID and cluster tag.\<close>

fun vms_to_replace :: "inv_machine list \<Rightarrow> (string \<times> string) list" where
  "vms_to_replace [] = []"
| "vms_to_replace (vm # vms) =
     (let (isCPVM, clusterTag) = scan_vm_tags (im_Tags vm) (False, [])
      in if isCPVM \<and> clusterTag \<noteq> [] then (im_SystemID vm, clusterTag) # vms_to_replace vms
         else vms_to_replace vms)"

fun scan_candidate_tags ::
    "string \<Rightarrow> string list \<Rightarrow> bool \<times> bool \<times> bool \<Rightarrow> bool \<times> bool \<times> bool" where
  "scan_candidate_tags clusterTag [] acc = acc"
| "scan_candidate_tags clusterTag (tag # tags) (hasCP, hasCluster, hasReady) =
     scan_candidate_tags clusterTag tags
       (hasCP \<or> tag = TagVMControlPlane, hasCluster \<or> tag = clusterTag,
        hasReady \<or> HasPrefix tag TagVMReadyOpPrefix)"

fun found_replacement :: "inv_machine \<Rightarrow> string \<times> string \<Rightarrow> inv_machine list \<Rightarrow> bool" where
  "found_replacement host (systemID, clusterTag) [] = False"
| "found_replacement host (systemID, clusterTag) (c # cs) =
     (if im_ResourcePool c \<noteq> im_ResourcePool host \<or> im_Zone c \<noteq> im_Zone host
      then found_replacement host (systemID, clusterTag) cs
      else if im_SystemID c = systemID then found_replacement host (systemID, clusterTag) cs
      else (case scan_candidate_tags clusterTag (im_Tags c) (False, False, False) of
              (hasCP, hasCluster, hasReady) \<Rightarrow>
                if hasCP \<and> hasCluster \<and> hasReady then True
                else found_replacement host (systemID, clusterTag) cs))"

fun all_replaced :: "inv_machine \<Rightarrow> inv_machine list \<Rightarrow> (string \<times> string) list \<Rightarrow> bool" where
  "all_replaced host allVMs [] = True"
| "all_replaced host allVMs (v # vs) =
     (if found_replacement host v allVMs then all_replaced host allVMs vs else False)"

text \<open>Saving the session is best effort: its error is only logged.\<close>

definition update_session :: "env \<Rightarrow> string \<Rightarrow> session \<Rightarrow> unit io" where
  "update_session E namespace st =
     (if ss_OpID st \<noteq> [] then do { _ \<leftarrow> SaveSession E namespace st; ret () } else ret ())"

definition checkWLCReadyTags :: "env \<Rightarrow> host_maintenance_service \<Rightarrow> string \<Rightarrow> bool res io" where
  "checkWLCReadyTags E svc hostSystemID = do {
     r \<leftarrow> LoadSession E (hms_namespace svc);
     let session = (case r of Inl _ \<Rightarrow> empty_session | Inr (st, _) \<Rightarrow> st);
     r \<leftarrow> GetHost (hms_inventory svc) hostSystemID;
     case r of
       Inl e \<Rightarrow> ret (Inl (Wrapped ''failed to get host details'' e))
     | Inr hostDetails \<Rightarrow> do {
     r \<leftarrow> ListHostVMs (hms_inventory svc) hostSystemID;
     case r of
       Inl e \<Rightarrow> ret (Inl (Wrapped ''failed to list host VMs'' e))
     | Inr vmsOnCurrentHost \<Rightarrow>
     if vmsOnCurrentHost = [] then do {
       update_session E (hms_namespace svc)
         (session\<lparr>ss_AffectedWLCClusters := [], ss_PendingReadyVMReplacements := []\<rparr>);
       ret (Inr True) }
     else
     let vmsNeedingReplacement = vms_to_replace vmsOnCurrentHost in
     if vmsNeedingReplacement = [] then do {
       update_session E (hms_namespace svc)
         (session\<lparr>ss_AffectedWLCClusters := [], ss_PendingReadyVMReplacements := []\<rparr>);
       ret (Inr True) }
     else do {
       (if ss_OpID session \<noteq> [] then do {
          affected \<leftarrow> range_keys E (remdups (map snd vmsNeedingReplacement));
          update_session E (hms_namespace svc)
            (session\<lparr>ss_AffectedWLCClusters := affected,
                     ss_PendingReadyVMReplacements := map fst vmsNeedingReplacement\<rparr>) }
        else ret ());
       r \<leftarrow> ListAllVMs (hms_inventory svc);
       ret (case r of
          Inl e \<Rightarrow> Inl (Wrapped ''failed to list all VMs'' e)
        | Inr allVMs \<Rightarrow> Inr (all_replaced hostDetails allVMs vmsNeedingReplacement)) } } }"

definition record_warning :: "host_maintenance_service \<Rightarrow> string \<Rightarrow> unit io" where
  "record_warning svc reason = (if hms_recorder svc then Eventf ''Warning'' reason else ret ())"

definition CheckEvacuationGates :: "env \<Rightarrow> host_maintenance_service \<Rightarrow> bool res io" where
  "CheckEvacuationGates E svc = do {
     mm \<leftarrow> gets the_mm;
     case SystemID (mm_Spec mm) of
       None \<Rightarrow> ret (Inl (ErrorString ''maasMachine has no systemID''))
     | Some hostSystemID \<Rightarrow> do {
         r \<leftarrow> ListHostVMs (hms_inventory svc) hostSystemID;
         case r of
           Inl e \<Rightarrow> ret (Inl (Wrapped ''failed to list host VMs'' e))
         | Inr vms \<Rightarrow>
             if vms \<noteq> [] then do {
               _ \<leftarrow> GetHost (hms_inventory svc) hostSystemID;
               record_warning svc ''EvacuationBlocked'';
               ret (Inr False) }
             else do {
               r \<leftarrow> checkWLCReadyTags E svc hostSystemID;
               case r of
                 Inl e \<Rightarrow> ret (Inl (Wrapped ''failed to check WLC ready tags'' e))
               | Inr wlcReady \<Rightarrow>
                   if \<not> wlcReady then do {
                     _ \<leftarrow> GetHost (hms_inventory svc) hostSystemID;
                     record_warning svc ''WLCReplacementPending'';
                     ret (Inr False) }
                   else ret (Inr True) } } }"

fun clear_tags :: "tag_service \<Rightarrow> string \<Rightarrow> string list \<Rightarrow> unit res io" where
  "clear_tags tags hostSystemID [] = ret (Inr ())"
| "clear_tags tags hostSystemID (tag # ts) =
     ok_then (RemoveTagFromHost tags hostSystemID tag) (\<lambda>_. clear_tags tags hostSystemID ts)"

definition clearMaintenanceTags :: "host_maintenance_service \<Rightarrow> string \<Rightarrow> unit res io" where
  "clearMaintenanceTags svc hostSystemID =
     ok_then (GetHost (hms_inventory svc) hostSystemID) (\<lambda>hostDetails.
     ok_then (clear_tags (hms_tags svc) hostSystemID [TagHostMaintenance, TagHostNoSchedule]) (\<lambda>_.
       clear_tags (hms_tags svc) hostSystemID
         (filter (\<lambda>tag. HasPrefix tag TagHostOpPrefix) (im_Tags hostDetails))))"

definition ClearMaintenanceTagsAndRemoveFinalizer ::
    "env \<Rightarrow> host_maintenance_service \<Rightarrow> unit res io" where
  "ClearMaintenanceTagsAndRemoveFinalizer E svc = do {
     mm \<leftarrow> gets the_mm;
     case SystemID (mm_Spec mm) of
       None \<Rightarrow> ret (Inl (ErrorString ''maasMachine has no systemID''))
     | Some hostSystemID \<Rightarrow>
         ok_then (clearMaintenanceTags svc hostSystemID) (\<lambda>_. do {
           modify (the_mm_update (mm_Meta_update (om_Finalizers_update
             (\<lambda>fs. removeString fs HostEvacuationFinalizer))));
           mm \<leftarrow> gets the_mm;
           MaasMachine_Update E mm }) }"

section \<open>The gates, declaratively\<close>

definition is_cp_vm :: "inv_machine \<Rightarrow> bool" where
  "is_cp_vm vm \<longleftrightarrow> TagVMControlPlane \<in> set (im_Tags vm)"

definition cluster_tag :: "inv_machine \<Rightarrow> string" where
  "cluster_tag vm = last (filter (\<lambda>t. HasPrefix t TagVMClusterPrefix) (im_Tags vm))"

definition is_replacement :: "inv_machine \<Rightarrow> inv_machine \<Rightarrow> inv_machine \<Rightarrow> bool" where
  "is_replacement host vm c \<longleftrightarrow> im_ResourcePool c = im_ResourcePool host \<and> im_Zone c = im_Zone host \<and>
     im_SystemID c \<noteq> im_SystemID vm \<and> is_cp_vm c \<and> cluster_tag vm \<in> set (im_Tags c) \<and>
     (\<exists>t \<in> set (im_Tags c). HasPrefix t TagVMReadyOpPrefix)"

lemma HasPrefix_cluster_neq_Nil: "HasPrefix t TagVMClusterPrefix \<Longrightarrow> t \<noteq> []"
  by (auto simp: HasPrefix_def tag_defs)

lemma scan_vm_tags_eq:
  "scan_vm_tags ts (b, c) = (b \<or> TagVMControlPlane \<in> set ts,
     (case filter (\<lambda>t. HasPrefix t TagVMClusterPrefix) ts of [] \<Rightarrow> c | xs \<Rightarrow> last xs))"
  by (induction ts arbitrary: b c) (auto split: list.splits)

lemma scan_candidate_tags_eq:
  "scan_candidate_tags ct ts (a, b, c) = (a \<or> TagVMControlPlane \<in> set ts, b \<or> ct \<in> set ts,
     c \<or> (\<exists>t \<in> set ts. HasPrefix t TagVMReadyOpPrefix))"
  by (induction ts arbitrary: a b c) auto

text \<open>
  The control plane tag itself starts with the cluster prefix, so every control plane VM has a
  cluster tag for the scan, if only this one.
\<close>

lemma vms_to_replace_eq:
  "vms_to_replace vms = map (\<lambda>vm. (im_SystemID vm, cluster_tag vm)) (filter is_cp_vm vms)"
proof (induction vms)
  case Nil
  then show ?case by simp
next
  case (Cons vm vms)
  let ?f = "filter (\<lambda>t. HasPrefix t TagVMClusterPrefix) (im_Tags vm)"
  show ?case
  proof (cases "is_cp_vm vm")
    case True
    then have "TagVMControlPlane \<in> set ?f" by (simp add: is_cp_vm_def)
    then obtain x xs where f: "?f = x # xs" by (cases ?f) auto
    then have "HasPrefix (last ?f) TagVMClusterPrefix"
      using last_in_set [of ?f] by (metis (no_types, lifting) filter_is_subset f list.distinct(1)
          mem_Collect_eq set_filter)
    then show ?thesis using True Cons f HasPrefix_cluster_neq_Nil
      by (auto simp: scan_vm_tags_eq is_cp_vm_def cluster_tag_def)
  next
    case False
    then show ?thesis using Cons by (simp add: scan_vm_tags_eq is_cp_vm_def)
  qed
qed

lemma found_replacement_eq:
  "found_replacement host (im_SystemID vm, cluster_tag vm) cs \<longleftrightarrow> (\<exists>c \<in> set cs. is_replacement host vm c)"
  by (induction cs) (auto simp: scan_candidate_tags_eq is_replacement_def is_cp_vm_def)

lemma all_replaced_eq:
  "all_replaced host all (map (\<lambda>vm. (im_SystemID vm, cluster_tag vm)) vms) \<longleftrightarrow>
     (\<forall>vm \<in> set vms. \<exists>c \<in> set all. is_replacement host vm c)"
  by (induction vms) (auto simp: found_replacement_eq)

lemma run_update_session:
  "\<exists>t. run_state (update_session E ns st) s = ((), t)"
  by (cases "run_state (update_session E ns st) s") simp

lemma filter_cp_Nil: "filter is_cp_vm vms = [] \<longleftrightarrow> (\<forall>vm \<in> set vms. \<not> is_cp_vm vm)"
  by (simp add: filter_empty_conv)

text \<open>
  C22: the readiness gate. When \<open>checkWLCReadyTags\<close> returns, its answer is whether every control
  plane VM still on the host has a replacement: another control plane VM of the inventory in the
  pool and zone of the host that carries the VM's cluster tag and a ready tag. The host is the one
  the inventory returned first, the VMs are those listed next, and the replacements are looked for
  in the listing that ends the check. The cluster tag of a VM is the last of its tags that starts with
  \<open>maas-lxd-wlc-\<close>, which the control plane tag does too: where the control plane tag is the last one,
  it stands for the cluster, and a replacement of any cluster is accepted
  (\<open>foreign_replacement_accepted\<close>), against the comment that calls the tag \<open>maas-lxd-wlc-<cluster-id>\<close>.
\<close>

theorem checkWLCReadyTags_spec:
  assumes "run_state (checkWLCReadyTags E svc h) s = (Inr ready, t)"
  shows "\<exists>l host vms all s1 s2 s3 s4.
    run_state (LoadSession E (hms_namespace svc)) s = (l, s1) \<and>
    run_state (GetHost (hms_inventory svc) h) s1 = (Inr host, s2) \<and>
    run_state (ListHostVMs (hms_inventory svc) h) s2 = (Inr vms, s3) \<and>
    (filter is_cp_vm vms \<noteq> [] \<longrightarrow> run_state (ListAllVMs (hms_inventory svc)) s4 = (Inr all, t)) \<and>
    (ready \<longleftrightarrow> (\<forall>vm \<in> set vms. is_cp_vm vm \<longrightarrow> (\<exists>c \<in> set all. is_replacement host vm c)))"
proof -
  obtain l s1 where l: "run_state (LoadSession E (hms_namespace svc)) s = (l, s1)" by fastforce
  obtain g s2 where g: "run_state (GetHost (hms_inventory svc) h) s1 = (g, s2)" by fastforce
  obtain v s3 where v: "run_state (ListHostVMs (hms_inventory svc) h) s2 = (v, s3)" by fastforce
  from assms l g obtain host where host: "g = Inr host"
    by (auto simp: checkWLCReadyTags_def Let_def split: sum.splits)
  from assms l g v host obtain vms where vms: "v = Inr vms"
    by (auto simp: checkWLCReadyTags_def Let_def split: sum.splits)
  show ?thesis
  proof (cases "filter is_cp_vm vms = []")
    case True
    have ready
      using assms l g v host vms True
      by (auto simp: checkWLCReadyTags_def vms_to_replace_eq Let_def split: if_splits prod.splits)
    with l g v host vms True show ?thesis by (metis filter_cp_Nil)
  next
    case False
    then have ne: "vms \<noteq> []" "map (\<lambda>vm. (im_SystemID vm, cluster_tag vm)) (filter is_cp_vm vms) \<noteq> []"
      by auto
    obtain all s4 where all: "run_state (ListAllVMs (hms_inventory svc)) s4 = (Inr all, t)"
      "ready = all_replaced host all (map (\<lambda>vm. (im_SystemID vm, cluster_tag vm)) (filter is_cp_vm vms))"
      using assms l g v host vms ne
      by (auto simp: checkWLCReadyTags_def vms_to_replace_eq Let_def split: if_splits prod.splits sum.splits)
    then have "ready \<longleftrightarrow> (\<forall>vm \<in> set vms. is_cp_vm vm \<longrightarrow> (\<exists>c \<in> set all. is_replacement host vm c))"
      by (auto simp: all_replaced_eq)
    with l g v host vms all(1) show ?thesis by blast
  qed
qed

lemma CheckEvacuationGates_True:
  assumes "run_state (CheckEvacuationGates E svc) s = (Inr True, t)"
  obtains h u where "SystemID (mm_Spec (the_mm s)) = Some h"
    "run_state (ListHostVMs (hms_inventory svc) h) s = (Inr [], u)"
    "run_state (checkWLCReadyTags E svc h) u = (Inr True, t)"
  using assms unfolding CheckEvacuationGates_def
  by (auto split: option.splits prod.splits sum.splits if_splits)

text \<open>The gates only open on a host for which the inventory, asked first, returned no VM at all.\<close>

lemma gates_open_host_empty:
  "run_state (CheckEvacuationGates E svc) s = (Inr True, t) \<Longrightarrow>
   \<exists>h u. SystemID (mm_Spec (the_mm s)) = Some h \<and>
     run_state (ListHostVMs (hms_inventory svc) h) s = (Inr [], u)"
  by (erule CheckEvacuationGates_True) blast

text \<open>
  C30: with an inventory that does not change between two listings the second gate decides nothing:
  the gates are open exactly when the host is empty, and no ready tag is ever consulted. The gates
  documented as host empty and readiness proven are one gate.
\<close>

theorem gates_iff_host_empty:
  assumes host: "SystemID (mm_Spec (the_mm s)) = Some h"
    and list: "\<And>u. fst (run_state (ListHostVMs (hms_inventory svc) h) u) = Inr vms"
    and get: "\<And>u. is_ok (fst (run_state (GetHost (hms_inventory svc) h) u))"
    and run: "run_state (CheckEvacuationGates E svc) s = (r, t)"
  shows "r = Inr (vms = [])"
proof -
  obtain u where u: "run_state (ListHostVMs (hms_inventory svc) h) s = (Inr vms, u)"
    using list [of s] by (metis prod.collapse)
  show ?thesis
  proof (cases "vms = []")
    case False
    then show ?thesis using run host u
      by (auto simp: CheckEvacuationGates_def split: prod.splits)
  next
    case True
    have "fst (run_state (checkWLCReadyTags E svc h) u) = Inr True"
    proof -
      obtain l s1 where l: "run_state (LoadSession E (hms_namespace svc)) u = (l, s1)" by fastforce
      obtain d s2 where g: "run_state (GetHost (hms_inventory svc) h) s1 = (Inr d, s2)"
        using get [of s1] by (metis is_ok_iff prod.collapse)
      obtain s3 where v: "run_state (ListHostVMs (hms_inventory svc) h) s2 = (Inr [], s3)"
        using list [of s2] True by (metis prod.collapse)
      show ?thesis using l g v by (simp add: checkWLCReadyTags_def Let_def split: prod.splits)
    qed
    then show ?thesis using run host u True
      by (auto simp: CheckEvacuationGates_def split: prod.splits)
  qed
qed

text \<open>
  The cluster of a replacement is not always checked. For a control plane VM whose last tag
  with the cluster prefix is the control plane tag itself, any ready control plane VM of the same
  pool and zone counts as its replacement, of whatever cluster.
\<close>

lemma foreign_replacement_accepted:
  assumes "cluster_tag vm = TagVMControlPlane"
  shows "is_replacement host vm c \<longleftrightarrow> im_ResourcePool c = im_ResourcePool host \<and>
    im_Zone c = im_Zone host \<and> im_SystemID c \<noteq> im_SystemID vm \<and> is_cp_vm c \<and>
    (\<exists>t \<in> set (im_Tags c). HasPrefix t TagVMReadyOpPrefix)"
  using assms by (auto simp: is_replacement_def is_cp_vm_def)

section \<open>What the service writes\<close>

text \<open>The events of a gate check: MAAS reads, session reads and writes, Kubernetes events.\<close>

fun gate_event :: "event \<Rightarrow> bool" where
  "gate_event (Maas e) = (\<not> maas_write e)"
| "gate_event (Kube (CMGet _ n)) = (n = SessionCMName)"
| "gate_event (Kube (CMCreate _ _)) = True"
| "gate_event (Kube (CMUpdate _ _)) = True"
| "gate_event (Kube (RecordEvent _ _)) = True"
| "gate_event MapRange = True"
| "gate_event _ = False"

lemma maas_read_gate: "maas_read e \<Longrightarrow> gate_event e"
  by (cases e) simp_all

lemma LoadSession_emits [emits_intros]: "emits gate_event (LoadSession E ns)"
  unfolding LoadSession_def call_defs by (intro emits_intros) simp_all

lemma SaveSession_emits [emits_intros]: "emits gate_event (SaveSession E ns st)"
  unfolding SaveSession_def call_defs Let_def by (intro emits_intros) simp_all

lemma update_session_emits [emits_intros]: "emits gate_event (update_session E ns st)"
  unfolding update_session_def by (intro emits_intros)

lemma record_warning_emits [emits_intros]: "emits gate_event (record_warning svc reason)"
  unfolding record_warning_def Eventf_def by (intro emits_intros) simp_all

locale host_service = tag_service_laws "hms_tags svc" + inventory_laws "hms_inventory svc"
  for svc :: host_maintenance_service
begin

lemma inventory_emits:
  "emits gate_event (ListHostVMs (hms_inventory svc) h)"
  "emits gate_event (ListAllVMs (hms_inventory svc))"
  "emits gate_event (GetHost (hms_inventory svc) h)"
  using list_host_reads list_all_reads get_host_reads by (blast intro: emits_mono maas_read_gate)+

lemma gates_emit: "emits gate_event (CheckEvacuationGates E svc)"
  unfolding CheckEvacuationGates_def checkWLCReadyTags_def Let_def
  by (intro emits_intros inventory_emits) simp_all

lemma gates_mm: "keeps the_mm (CheckEvacuationGates E svc)"
  unfolding CheckEvacuationGates_def checkWLCReadyTags_def update_session_def LoadSession_def
    SaveSession_def record_warning_def call_defs Let_def
  by (intro emits_intros get_host_mm list_host_mm list_all_mm) simp_all

lemma clear_tags_run:
  assumes "run_state (clear_tags (hms_tags svc) h ts) s = (r, t)"
  shows "the_mm t = the_mm s \<and>
    (\<exists>es. trace t = trace s @ es \<and> list_all (\<lambda>e. \<exists>x ok. e = Maas (TagUnassign x h ok)) es) \<and>
    (r = Inr () \<longrightarrow> tags_after h (trace t) T = tags_after h (trace s) T - set ts)"
  using assms
proof (induction ts arbitrary: s)
  case Nil
  then show ?case by simp
next
  case (Cons x ts)
  obtain q u where q: "run_state (RemoveTagFromHost (hms_tags svc) h x) s = (q, u)" by fastforce
  have u: "the_mm u = the_mm s" "trace u = trace s @ [Maas (TagUnassign x h (is_ok q))]"
    using keepsD [OF remove_host_mm q] remove_host [OF q] by simp_all
  show ?case
  proof (cases q)
    case (Inl e)
    with Cons.prems q u show ?thesis by auto
  next
    case (Inr y)
    with Cons.prems q have "run_state (clear_tags (hms_tags svc) h ts) u = (r, t)" by simp
    from Cons.IH [OF this] remove_host_tags [OF q, of h T] u Inr show ?thesis by auto
  qed
qed

lemma clear_maas_only:
  "emits (\<lambda>e. \<exists>m. e = Maas m) (clearMaintenanceTags svc h)" "keeps the_mm (clearMaintenanceTags svc h)"
proof -
  have "emits (\<lambda>e. \<exists>m. e = Maas m) (clear_tags (hms_tags svc) h ts)" for ts
    unfolding emits_def
  proof
    fix s obtain r t where run: "run_state (clear_tags (hms_tags svc) h ts) s = (r, t)" by fastforce
    with clear_tags_run [OF run, of "{}"] show "\<exists>es. trace (snd (run_state (clear_tags (hms_tags svc) h ts) s)) = trace s @ es \<and>
        list_all (\<lambda>e. \<exists>m. e = Maas m) es" by (fastforce simp: list_all_iff)
  qed
  moreover have "emits (\<lambda>e. \<exists>m. e = Maas m) (GetHost (hms_inventory svc) h)"
    by (rule emits_mono [OF get_host_reads]) (auto elim: maas_read.elims)
  ultimately show "emits (\<lambda>e. \<exists>m. e = Maas m) (clearMaintenanceTags svc h)"
    unfolding clearMaintenanceTags_def by (intro emits_intros)
  have "keeps the_mm (clear_tags (hms_tags svc) h ts)" for ts
    unfolding keeps_def using clear_tags_run by (metis prod.collapse)
  then show "keeps the_mm (clearMaintenanceTags svc h)"
    unfolding clearMaintenanceTags_def by (intro emits_intros get_host_mm)
qed

lemma clear_extends: "emits (\<lambda>_. True) (ClearMaintenanceTagsAndRemoveFinalizer E svc)"
proof -
  have c: "emits (\<lambda>_. True) (clear_tags (hms_tags svc) h ts)" for h ts
    unfolding emits_def using clear_tags_run by (metis list.pred_True prod.collapse)
  have g: "emits (\<lambda>_. True) (GetHost (hms_inventory svc) h)" for h
    by (rule emits_mono [OF get_host_reads]) simp
  show ?thesis
    unfolding ClearMaintenanceTagsAndRemoveFinalizer_def clearMaintenanceTags_def MaasMachine_Update_def
    by (intro emits_intros c g) simp_all
qed

end

interpretation maas_host: host_service "maas_host_service E ns recorder" for E ns recorder
proof -
  have eqs: "hms_tags (maas_host_service E ns recorder) = NewTagService E"
    "hms_inventory (maas_host_service E ns recorder) = NewInventoryService E"
    by (simp_all add: maas_host_service_def)
  show "host_service (maas_host_service E ns recorder)"
    unfolding host_service_def eqs
    by (intro conjI maas_tags.tag_service_laws_axioms maas_inv.inventory_laws_axioms)
qed

text \<open>A tag that marks a host as under maintenance.\<close>

definition maintenance_tag :: "string \<Rightarrow> bool" where
  "maintenance_tag t \<longleftrightarrow> t = TagHostMaintenance \<or> t = TagHostNoSchedule \<or> HasPrefix t TagHostOpPrefix"

lemma clearMaintenanceTags_run:
  assumes "run_state (clearMaintenanceTags (maas_host_service E ns rec) h) s = (r, t)"
  shows "the_mm t = the_mm s \<and>
    (\<exists>es. trace t = trace s @ Maas (MachineGet h) # es \<and>
      list_all (\<lambda>e. \<exists>x ok. e = Maas (TagUnassign x h ok)) es) \<and>
    (r = Inr () \<longrightarrow> (\<exists>det. machine_get_r (maas E) h (trace s) = Inr det \<and>
      tags_after h (trace t) T = tags_after h (trace s) T -
        ({TagHostMaintenance, TagHostNoSchedule} \<union> {x \<in> set (sdk_Tags det). HasPrefix x TagHostOpPrefix})))"
proof -
  let ?svc = "maas_host_service E ns rec"
  define u where "u = s\<lparr>trace := trace s @ [Maas (MachineGet h)]\<rparr>"
  have get: "run_state (GetHost (hms_inventory ?svc) h) s =
      ((case machine_get_r (maas E) h (trace s) of Inl (k, m) \<Rightarrow> Inl (ApiError k m)
        | Inr det \<Rightarrow> Inr ((to_inv_machine det)\<lparr>im_HostSystemID := []\<rparr>)), u)"
    by (simp add: maas_host_service_def NewInventoryService_def maas_GetHost_def Machine_Get_def
        run_api u_def split: sum.split prod.split)
  show ?thesis
  proof (cases "machine_get_r (maas E) h (trace s)")
    case (Inl a)
    then show ?thesis using assms get unfolding clearMaintenanceTags_def
      by (cases a) (auto simp: u_def)
  next
    case (Inr det)
    let ?ops = "filter (\<lambda>tag. HasPrefix tag TagHostOpPrefix) (sdk_Tags det)"
    obtain q v where q: "run_state (clear_tags (hms_tags ?svc) h [TagHostMaintenance, TagHostNoSchedule]) u = (q, v)"
      by fastforce
    have c1: "the_mm v = the_mm s"
      "\<exists>es. trace v = trace u @ es \<and> list_all (\<lambda>e. \<exists>x ok. e = Maas (TagUnassign x h ok)) es"
      "q = Inr () \<longrightarrow> tags_after h (trace v) T = tags_after h (trace u) T - {TagHostMaintenance, TagHostNoSchedule}"
      using maas_host.clear_tags_run [OF q, of T] by (auto simp: u_def)
    have tu: "trace u = trace s @ [Maas (MachineGet h)]"
      "tags_after h (trace u) T = tags_after h (trace s) T"
      by (simp_all add: u_def tags_after_append)
    have ops: "im_Tags (to_inv_machine det) = sdk_Tags det"
      by (simp add: to_inv_machine_def)
    show ?thesis
    proof (cases q)
      case (Inl e)
      then have "r = Inl e" "t = v" using assms get q Inr by (auto simp: clearMaintenanceTags_def)
      then show ?thesis using c1 tu by auto
    next
      case q2: (Inr _)
      have "run_state (clear_tags (hms_tags ?svc) h ?ops) v = (r, t)"
        using assms get q Inr q2 by (simp add: clearMaintenanceTags_def ops del: clear_tags.simps)
      from maas_host.clear_tags_run [OF this, of T] c1 tu Inr q2
      show ?thesis by auto
    qed
  qed
qed

lemma removeString_filter: "removeString xs s = filter (\<lambda>x. x \<noteq> s) xs"
  by (induction xs) auto

definition without_evacuation :: "maas_machine \<Rightarrow> maas_machine" where
  "without_evacuation mm = mm\<lparr>mm_Meta := (mm_Meta mm)\<lparr>om_Finalizers :=
     filter (\<lambda>f. f \<noteq> HostEvacuationFinalizer) (om_Finalizers (mm_Meta mm))\<rparr>\<rparr>"

text \<open>
  C12: the clean-up of a host is ordered, whatever its result. Every event of the operation is the read
  of the host, the removal of a tag from it, or the update that removes the evacuation finalizer and
  changes nothing else of the machine; and the update, stored or not, is sent last and only when the
  host carries no maintenance tag any more. So a tag that could not be removed keeps the finalizer in
  place. The operation succeeds only if the update was stored. The hypothesis says that the
  session tags the host carries are among those MAAS reports for it.
\<close>

theorem ClearMaintenance_ordered:
  assumes run: "run_state (ClearMaintenanceTagsAndRemoveFinalizer E (maas_host_service E ns rec)) s = (r, t)"
    and seen: "\<And>h det. SystemID (mm_Spec (the_mm s)) = Some h \<Longrightarrow>
      machine_get_r (maas E) h (trace s) = Inr det \<Longrightarrow>
      {x \<in> tags_after h (trace s) T. HasPrefix x TagHostOpPrefix} \<subseteq> set (sdk_Tags det)"
  shows "\<exists>es. trace t = trace s @ es \<and>
    (\<forall>pre e post. es = pre @ e # post \<longrightarrow> (\<exists>h. SystemID (mm_Spec (the_mm s)) = Some h \<and>
       (e = Maas (MachineGet h) \<or> (\<exists>x ok. e = Maas (TagUnassign x h ok)) \<or>
        e = Kube (MaasMachineUpdate (without_evacuation (the_mm s)) (is_ok r)) \<and> post = [] \<and>
          (\<forall>x \<in> tags_after h (trace s @ pre) T. \<not> maintenance_tag x)))) \<and>
    (r = Inr () \<longrightarrow> the_mm t = without_evacuation (the_mm s) \<and> es \<noteq> [] \<and>
       last es = Kube (MaasMachineUpdate (the_mm t) True))"
proof (cases "SystemID (mm_Spec (the_mm s))")
  case None
  then show ?thesis using run by (auto simp: ClearMaintenanceTagsAndRemoveFinalizer_def)
next
  case (Some h)
  obtain q u where q: "run_state (clearMaintenanceTags (maas_host_service E ns rec) h) s = (q, u)"
    by fastforce
  from clearMaintenanceTags_run [OF q, of T] obtain es where es:
    "the_mm u = the_mm s" "trace u = trace s @ Maas (MachineGet h) # es"
    "list_all (\<lambda>e. \<exists>x ok. e = Maas (TagUnassign x h ok)) es"
    "q = Inr () \<longrightarrow> (\<exists>det. machine_get_r (maas E) h (trace s) = Inr det \<and>
      tags_after h (trace u) T = tags_after h (trace s) T -
        ({TagHostMaintenance, TagHostNoSchedule} \<union> {x \<in> set (sdk_Tags det). HasPrefix x TagHostOpPrefix}))"
    by blast
  have quiet: "e = Maas (MachineGet h) \<or> (\<exists>x ok. e = Maas (TagUnassign x h ok))"
    if "Maas (MachineGet h) # es = pre @ e # post" for pre e post
  proof -
    have "e \<in> set (Maas (MachineGet h) # es)" unfolding that by simp
    then show ?thesis using es(3) by (auto simp: list_all_iff)
  qed
  show ?thesis
  proof (cases q)
    case (Inl e)
    then have "t = u" "r = Inl e" using run q Some by (auto simp: ClearMaintenanceTagsAndRemoveFinalizer_def)
    then show ?thesis using es(2) Some
      by (intro exI [of _ "Maas (MachineGet h) # es"]) (auto dest: quiet)
  next
    case (Inr a)
    let ?up = "Kube (MaasMachineUpdate (without_evacuation (the_mm s)) (is_ok r))"
    have t: "trace t = trace u @ [?up]" "the_mm t = without_evacuation (the_mm s)"
      using run q Some Inr es(1)
      by (auto simp: ClearMaintenanceTagsAndRemoveFinalizer_def MaasMachine_Update_def run_api
          without_evacuation_def removeString_filter)
    from es(4) Inr obtain det where det: "machine_get_r (maas E) h (trace s) = Inr det"
      "tags_after h (trace u) T = tags_after h (trace s) T -
        ({TagHostMaintenance, TagHostNoSchedule} \<union> {x \<in> set (sdk_Tags det). HasPrefix x TagHostOpPrefix})"
      by auto
    have gone: "\<forall>x \<in> tags_after h (trace s @ Maas (MachineGet h) # es) T. \<not> maintenance_tag x"
      using det(2) seen [OF Some det(1)] es(2) by (auto simp: maintenance_tag_def)
    have "e = Maas (MachineGet h) \<or> (\<exists>x ok. e = Maas (TagUnassign x h ok)) \<or>
        e = ?up \<and> post = [] \<and> (\<forall>x \<in> tags_after h (trace s @ pre) T. \<not> maintenance_tag x)"
      if "Maas (MachineGet h) # es @ [?up] = pre @ e # post" for pre e post
    proof (cases post rule: rev_cases)
      case Nil
      then have "pre = Maas (MachineGet h) # es" "e = ?up" using that by (cases pre; auto)+
      with Nil gone show ?thesis by simp
    next
      case (snoc ys y)
      then have "(Maas (MachineGet h) # es) @ [?up] = (pre @ e # ys) @ [y]" using that by simp
      then have "Maas (MachineGet h) # es = pre @ e # ys" by (rule append1_eq_conv [THEN iffD1, THEN conjunct1])
      from quiet [OF this] show ?thesis by blast
    qed
    then show ?thesis using t es(2) Some
      by (intro exI [of _ "Maas (MachineGet h) # es @ [?up]"]) (auto simp: is_ok_def)
  qed
qed

section \<open>Witnesses\<close>

text \<open>
  A host \<open>h\<close> with the control plane VM \<open>vm1\<close> on it, and its ready replacement \<open>vm2\<close> on another
  host.
\<close>

definition vm1 :: sdk_machine where
  "vm1 = sample_machine\<lparr>sdk_SystemID := ''vm1'', sdk_Parent := ''h'', sdk_PowerType := ''lxd'',
     sdk_Tags := [TagVMControlPlane, ''maas-lxd-wlc-a'']\<rparr>"

definition vm2 :: sdk_machine where
  "vm2 = sample_machine\<lparr>sdk_SystemID := ''vm2'', sdk_Parent := ''h2'', sdk_PowerType := ''lxd'',
     sdk_Tags := [TagVMControlPlane, ''maas-lxd-wlc-a'', ''maas-lxd-ready-op-1'']\<rparr>"

definition host_env :: env where
  "host_env = sample_env\<lparr>maas := sample_maas\<lparr>machines_list_r := (\<lambda>_ _. Inr [vm1, vm2]),
     machine_get_r := (\<lambda>sid _. if sid = ''vm1'' then Inr vm1 else if sid = ''vm2'' then Inr vm2
       else Inr (sample_machine\<lparr>sdk_SystemID := ''h'', sdk_Tags := [TagHostMaintenance]\<rparr>))\<rparr>\<rparr>"

definition host_sys :: sys where
  "host_sys = sample_sys\<lparr>the_mm := sample_mm\<lparr>mm_Spec := sample_spec\<lparr>SystemID := Some ''h''\<rparr>,
     mm_Meta := (sample_meta ''m-1'')\<lparr>om_Finalizers := [MachineFinalizer, HostEvacuationFinalizer]\<rparr>\<rparr>\<rparr>"

lemmas host_env_defs = host_env_def host_sys_def vm1_def vm2_def sample_machine_def sample_env_def
  sample_maas_def sample_sys_def maas_host_service_def NewInventoryService_def NewTagService_def

lemma host_env_list:
  "fst (run_state (ListHostVMs (hms_inventory (maas_host_service host_env ns rec)) ''h'') u) =
     Inr [to_inv_machine vm1]"
  by (simp add: host_env_defs maas_ListHostVMs_def call_defs run_api)

lemma host_env_check:
  "\<exists>t. run_state (checkWLCReadyTags host_env (maas_host_service host_env ''ns'' True) ''h'') host_sys = (Inr True, t)"
  by (simp add: checkWLCReadyTags_def LoadSession_def update_session_def empty_session_def
      host_env_defs sample_kube_def not_found_def maas_ListHostVMs_def maas_ListAllVMs_def maas_GetHost_def
      to_inv_machine_def call_defs run_api IsNotFound_def Let_def tag_defs HasPrefix_def)

lemma host_env_inventory:
  "fst (run_state (GetHost (hms_inventory (maas_host_service host_env ns rec)) ''h'') u) =
     Inr (to_inv_machine (sample_machine\<lparr>sdk_SystemID := ''h'', sdk_Tags := [TagHostMaintenance]\<rparr>))"
  "fst (run_state (ListAllVMs (hms_inventory (maas_host_service host_env ns rec))) u) =
     Inr [to_inv_machine vm1, to_inv_machine vm2]"
  by (simp_all add: host_env_defs maas_GetHost_def maas_ListAllVMs_def to_inv_machine_def call_defs run_api)

lemma vm1_is_cp: "is_cp_vm (to_inv_machine vm1)"
  by (simp add: is_cp_vm_def to_inv_machine_def vm1_def)

text \<open>The gate opens with \<open>vm1\<close> still on the host, because \<open>vm2\<close> replaces it.\<close>

theorem checkWLCReadyTags_spec_witness:
  "\<exists>t. run_state (checkWLCReadyTags host_env (maas_host_service host_env ''ns'' True) ''h'') host_sys = (Inr True, t) \<and>
     (\<forall>u. fst (run_state (ListHostVMs (hms_inventory (maas_host_service host_env ''ns'' True)) ''h'') u) =
        Inr [to_inv_machine vm1]) \<and>
     is_cp_vm (to_inv_machine vm1) \<and>
     (\<exists>c \<in> {to_inv_machine vm1, to_inv_machine vm2}. is_replacement
        (to_inv_machine (sample_machine\<lparr>sdk_SystemID := ''h'', sdk_Tags := [TagHostMaintenance]\<rparr>))
        (to_inv_machine vm1) c)"
proof -
  obtain t where run: "run_state (checkWLCReadyTags host_env (maas_host_service host_env ''ns'' True) ''h'')
      host_sys = (Inr True, t)" using host_env_check by blast
  let ?inv = "hms_inventory (maas_host_service host_env ''ns'' True)"
  from checkWLCReadyTags_spec [OF run] obtain host vms all s1 s2 s3 s4 where
    c: "run_state (GetHost ?inv ''h'') s1 = (Inr host, s2)" "run_state (ListHostVMs ?inv ''h'') s2 = (Inr vms, s3)"
      "filter is_cp_vm vms \<noteq> [] \<longrightarrow> run_state (ListAllVMs ?inv) s4 = (Inr all, t)"
      "\<forall>vm \<in> set vms. is_cp_vm vm \<longrightarrow> (\<exists>c \<in> set all. is_replacement host vm c)" by blast
  have "host = to_inv_machine (sample_machine\<lparr>sdk_SystemID := ''h'', sdk_Tags := [TagHostMaintenance]\<rparr>)"
    using host_env_inventory(1) [of "''ns''" True s1] c(1) by simp
  moreover have vms: "vms = [to_inv_machine vm1]"
    using host_env_list [of "''ns''" True s2] c(2) by simp
  moreover have "all = [to_inv_machine vm1, to_inv_machine vm2]"
    using host_env_inventory(2) [of "''ns''" True s4] c(3) vms vm1_is_cp by simp
  ultimately show ?thesis using c(4) vm1_is_cp run host_env_list by auto
qed

theorem gates_iff_host_empty_witness:
  "fst (run_state (CheckEvacuationGates host_env (maas_host_service host_env ''ns'' True)) host_sys) = Inr False"
proof -
  obtain r t where run: "run_state (CheckEvacuationGates host_env (maas_host_service host_env ''ns'' True))
      host_sys = (r, t)" by fastforce
  have "r = Inr ([to_inv_machine vm1] = [])"
  proof (rule gates_iff_host_empty [OF _ host_env_list _ run])
    show "SystemID (mm_Spec (the_mm host_sys)) = Some ''h''" by (simp add: host_sys_def)
    show "is_ok (fst (run_state (GetHost (hms_inventory (maas_host_service host_env ''ns'' True)) ''h'') u))" for u
      by (simp add: host_env_defs maas_GetHost_def call_defs run_api)
  qed
  with run show ?thesis by simp
qed

lemma foreign_replacement_accepted_witness:
  "cluster_tag ((to_inv_machine vm1)\<lparr>im_Tags := [''maas-lxd-wlc-a'', TagVMControlPlane]\<rparr>) = TagVMControlPlane \<and>
   is_replacement (to_inv_machine vm1)
     ((to_inv_machine vm1)\<lparr>im_Tags := [''maas-lxd-wlc-a'', TagVMControlPlane]\<rparr>)
     ((to_inv_machine vm2)\<lparr>im_Tags := [''maas-lxd-wlc-b'', TagVMControlPlane, ''maas-lxd-ready-op-9'']\<rparr>)"
proof -
  have c: "cluster_tag ((to_inv_machine vm1)\<lparr>im_Tags := [''maas-lxd-wlc-a'', TagVMControlPlane]\<rparr>) = TagVMControlPlane"
    by (simp add: cluster_tag_def tag_defs HasPrefix_def)
  show ?thesis unfolding foreign_replacement_accepted [OF c] using c
    by (simp add: cluster_tag_def is_cp_vm_def to_inv_machine_def vm1_def vm2_def sample_machine_def tag_defs HasPrefix_def)
qed

theorem ClearMaintenance_ordered_witness:
  "\<exists>t. run_state (ClearMaintenanceTagsAndRemoveFinalizer host_env (maas_host_service host_env ''ns'' True))
       host_sys = (Inr (), t) \<and>
     TagHostMaintenance \<in> tags_after ''h'' (trace host_sys) {TagHostMaintenance, ''gpu''} \<and>
     (\<exists>pre. trace t = pre @ [Kube (MaasMachineUpdate (the_mm t) True)] \<and>
        (\<forall>x \<in> tags_after ''h'' pre {TagHostMaintenance, ''gpu''}. \<not> maintenance_tag x)) \<and>
     om_Finalizers (mm_Meta (the_mm t)) = [MachineFinalizer]"
proof -
  obtain t where run: "run_state (ClearMaintenanceTagsAndRemoveFinalizer host_env (maas_host_service host_env ''ns'' True))
      host_sys = (Inr (), t)"
    and fin: "om_Finalizers (mm_Meta (the_mm t)) = [MachineFinalizer]"
    by (simp add: ClearMaintenanceTagsAndRemoveFinalizer_def clearMaintenanceTags_def host_env_defs
        maas_GetHost_def maas_RemoveTagFromHost_def to_inv_machine_def sample_kube_def call_defs run_api
        MachineFinalizer_def HostEvacuationFinalizer_def)
  have "{x \<in> tags_after h (trace host_sys) {TagHostMaintenance, ''gpu''}. HasPrefix x TagHostOpPrefix} \<subseteq> S" for h S
    by (auto simp: host_sys_def sample_sys_def tag_defs HasPrefix_def)
  from ClearMaintenance_ordered [OF run this] obtain es where es: "trace t = trace host_sys @ es" "es \<noteq> []"
    "last es = Kube (MaasMachineUpdate (the_mm t) True)"
    "\<And>pre e post. es = pre @ e # post \<Longrightarrow> \<exists>h. SystemID (mm_Spec (the_mm host_sys)) = Some h \<and>
       (e = Maas (MachineGet h) \<or> (\<exists>x ok. e = Maas (TagUnassign x h ok)) \<or>
        e = Kube (MaasMachineUpdate (without_evacuation (the_mm host_sys)) True) \<and> post = [] \<and>
          (\<forall>x \<in> tags_after h (trace host_sys @ pre) {TagHostMaintenance, ''gpu''}. \<not> maintenance_tag x))"
    by (auto simp: is_ok_def)
  have "es = butlast es @ [Kube (MaasMachineUpdate (the_mm t) True)]"
    using es(2,3) by (metis append_butlast_last_id)
  with es(4) [of "butlast es" "Kube (MaasMachineUpdate (the_mm t) True)" "[]"] es(1) run fin show ?thesis
    by (intro exI [of _ t] conjI exI [of _ "trace host_sys @ butlast es"])
      (auto simp: host_sys_def sample_sys_def)
qed

end
