(* ===== verification/Guards.thy ===== *)
theory Guards
  imports World
begin

text \<open>
  Guarded writes. Many properties of the controllers say that a dangerous call is only made after a
  check succeeded, with nothing dangerous before. \<open>quiet P f s0\<close> holds of the states reached from
  \<open>s0\<close> by events that satisfy \<open>P\<close> with the component \<open>f\<close> unchanged; \<open>guards I Q m\<close> says that \<open>m\<close>,
  started in \<open>I\<close>, either stays in \<open>I\<close> or ends in \<open>Q\<close>. The rules follow the structure of a program, so
  that only the point where the check is made is left to prove by hand.
\<close>

lemma Inr_lift_err [simp]: "Inr x = lift_err r \<longleftrightarrow> r = Inr x"
  by (auto simp flip: lift_err_Inr)

definition since :: "(event \<Rightarrow> bool) \<Rightarrow> sys \<Rightarrow> sys \<Rightarrow> bool" where
  "since P s0 s \<longleftrightarrow> (\<exists>es. trace s = trace s0 @ es \<and> list_all P es)"

definition quiet :: "(event \<Rightarrow> bool) \<Rightarrow> (sys \<Rightarrow> 'b) \<Rightarrow> sys \<Rightarrow> sys \<Rightarrow> bool" where
  "quiet P f s0 s \<longleftrightarrow> since P s0 s \<and> f s = f s0"

definition invar :: "(sys \<Rightarrow> bool) \<Rightarrow> 'a io \<Rightarrow> bool" where
  "invar I m \<longleftrightarrow> (\<forall>s. I s \<longrightarrow> I (snd (run_state m s)))"

definition guards :: "(sys \<Rightarrow> bool) \<Rightarrow> (sys \<Rightarrow> bool) \<Rightarrow> 'a io \<Rightarrow> bool" where
  "guards I Q m \<longleftrightarrow> (\<forall>s. I s \<longrightarrow> I (snd (run_state m s)) \<or> Q (snd (run_state m s)))"

lemma since_refl [simp]: "since P s s"
  by (simp add: since_def)

lemma since_trans: "since P a b \<Longrightarrow> since P b c \<Longrightarrow> since P a c"
  by (auto simp: since_def)

lemma since_prefix: "since P a b \<Longrightarrow> prefix (trace a) (trace b)"
  by (auto simp: since_def)

lemma since_not_in:
  "since P a b \<Longrightarrow> e \<in> set (drop (length (trace a)) (trace b)) \<Longrightarrow> P e"
  by (auto simp: since_def list_all_iff)

lemma in_new_mono:
  "prefix xs ys \<Longrightarrow> e \<in> set (drop (length ys) zs) \<Longrightarrow> e \<in> set (drop (length xs) zs)"
  by (meson prefix_length_le set_drop_subset_set_drop subsetD)

lemma quiet_refl [simp]: "quiet P f s s"
  by (simp add: quiet_def)

lemma emits_since: "emits P m \<Longrightarrow> run_state m s = (r, t) \<Longrightarrow> since P s t"
  unfolding since_def by (rule emitsD)

lemma invar_quiet: "emits P m \<Longrightarrow> keeps f m \<Longrightarrow> invar (quiet P f s0) m"
  unfolding invar_def quiet_def
  by (metis emits_since keepsD prod.collapse since_trans)

lemma invarD: "invar I m \<Longrightarrow> I s \<Longrightarrow> run_state m s = (r, t) \<Longrightarrow> I t"
  unfolding invar_def by (metis snd_conv)

lemma guardsD: "guards I Q m \<Longrightarrow> I s \<Longrightarrow> run_state m s = (r, t) \<Longrightarrow> I t \<or> Q t"
  unfolding guards_def by (metis snd_conv)

lemma guardsI: "(\<And>s r t. I s \<Longrightarrow> run_state m s = (r, t) \<Longrightarrow> I t \<or> Q t) \<Longrightarrow> guards I Q m"
  unfolding guards_def by (metis prod.collapse)

lemma guards_invar: "invar I m \<Longrightarrow> guards I Q m"
  by (simp add: invar_def guards_def)

lemma guards_ret [guard_intros]: "guards I Q (ret x)"
  by (simp add: guards_def)

lemma guards_gets [guard_intros]: "guards I Q (gets g)"
  by (simp add: guards_def)

lemma guards_bind [guard_intros]:
  assumes "invar I m" "\<And>x. guards I Q (f x)" shows "guards I Q (m \<bind> f)"
proof (rule guardsI)
  fix s r t
  assume "I s" "run_state (m \<bind> f) s = (r, t)"
  then obtain x u where "run_state m s = (x, u)" "run_state (f x) u = (r, t)"
    by (auto split: prod.splits)
  with \<open>I s\<close> show "I t \<or> Q t" using invarD [OF assms(1)] guardsD [OF assms(2)] by blast
qed

text \<open>The same with the result of the first part at hand.\<close>

lemma guards_bind_res:
  assumes "invar I m" "\<And>x s t. run_state m s = (x, t) \<Longrightarrow> guards I Q (f x)"
  shows "guards I Q (m \<bind> f)"
proof (rule guardsI)
  fix s r t
  assume "I s" "run_state (m \<bind> f) s = (r, t)"
  then obtain x u where u: "run_state m s = (x, u)" "run_state (f x) u = (r, t)"
    by (auto split: prod.splits)
  with \<open>I s\<close> show "I t \<or> Q t" using invarD [OF assms(1)] guardsD [OF assms(2) [OF u(1)]] by blast
qed

lemma guards_gets_bind:
  assumes "\<And>s. I s \<Longrightarrow> g s = x" "guards I Q (f x)" shows "guards I Q (gets g \<bind> f)"
proof (rule guardsI)
  fix s r t
  assume "I s" "run_state (gets g \<bind> f) s = (r, t)"
  with assms show "I t \<or> Q t" using guardsD [OF assms(2)] by simp
qed

lemma guards_ok_then [guard_intros]:
  "invar I m \<Longrightarrow> (\<And>x. guards I Q (f x)) \<Longrightarrow> guards I Q (ok_then m f)"
  unfolding ok_then_def by (rule guards_bind) (auto intro: guards_ret split: sum.split)

lemma guards_if [guard_intros]:
  "(b \<Longrightarrow> guards I Q m) \<Longrightarrow> (\<not> b \<Longrightarrow> guards I Q n) \<Longrightarrow> guards I Q (if b then m else n)"
  by simp

lemma guards_case_sum [guard_intros]:
  "(\<And>e. r = Inl e \<Longrightarrow> guards I Q (f e)) \<Longrightarrow> (\<And>x. r = Inr x \<Longrightarrow> guards I Q (g x)) \<Longrightarrow>
   guards I Q (case r of Inl e \<Rightarrow> f e | Inr x \<Rightarrow> g x)"
  by (cases r) simp_all

lemma guards_case_option [guard_intros]:
  "(x = None \<Longrightarrow> guards I Q m) \<Longrightarrow> (\<And>y. x = Some y \<Longrightarrow> guards I Q (f y)) \<Longrightarrow>
   guards I Q (case x of None \<Rightarrow> m | Some y \<Rightarrow> f y)"
  by (cases x) simp_all

lemma guards_case_list [guard_intros]:
  "(xs = [] \<Longrightarrow> guards I Q m) \<Longrightarrow> (\<And>y ys. xs = y # ys \<Longrightarrow> guards I Q (f y ys)) \<Longrightarrow>
   guards I Q (case xs of [] \<Rightarrow> m | y # ys \<Rightarrow> f y ys)"
  by (cases xs) simp_all

lemma guards_case_prod [guard_intros]:
  "(\<And>a b. p = (a, b) \<Longrightarrow> guards I Q (f a b)) \<Longrightarrow> guards I Q (case p of (a, b) \<Rightarrow> f a b)"
  by (cases p) simp

lemma guards_Let [guard_intros]: "guards I Q (f x) \<Longrightarrow> guards I Q (let y = x in f y)"
  by simp

lemma invar_ret [guard_intros]: "invar I (ret x)"
  by (simp add: invar_def)

lemma invar_gets [guard_intros]: "invar I (gets g)"
  by (simp add: invar_def)

lemma invar_if [guard_intros]:
  "(b \<Longrightarrow> invar I m) \<Longrightarrow> (\<not> b \<Longrightarrow> invar I n) \<Longrightarrow> invar I (if b then m else n)"
  by simp

lemma invar_case_option [guard_intros]:
  "(x = None \<Longrightarrow> invar I m) \<Longrightarrow> (\<And>y. x = Some y \<Longrightarrow> invar I (f y)) \<Longrightarrow>
   invar I (case x of None \<Rightarrow> m | Some y \<Rightarrow> f y)"
  by (cases x) simp_all

lemma invar_case_sum [guard_intros]:
  "(\<And>e. r = Inl e \<Longrightarrow> invar I (f e)) \<Longrightarrow> (\<And>x. r = Inr x \<Longrightarrow> invar I (g x)) \<Longrightarrow>
   invar I (case r of Inl e \<Rightarrow> f e | Inr x \<Rightarrow> g x)"
  by (cases r) simp_all

lemma invar_bind [guard_intros]:
  assumes "invar I m" "\<And>x. invar I (f x)" shows "invar I (m \<bind> f)"
  using assms unfolding invar_def by (auto split: prod.splits)

lemma invar_ok_then [guard_intros]: "invar I m \<Longrightarrow> (\<And>x. invar I (f x)) \<Longrightarrow> invar I (ok_then m f)"
  unfolding ok_then_def by (intro guard_intros)

lemma invar_case_list [guard_intros]:
  "(xs = [] \<Longrightarrow> invar I m) \<Longrightarrow> (\<And>y ys. xs = y # ys \<Longrightarrow> invar I (f y ys)) \<Longrightarrow>
   invar I (case xs of [] \<Rightarrow> m | y # ys \<Rightarrow> f y ys)"
  by (cases xs) simp_all

lemma invar_case_prod [guard_intros]:
  "(\<And>a b. p = (a, b) \<Longrightarrow> invar I (f a b)) \<Longrightarrow> invar I (case p of (a, b) \<Rightarrow> f a b)"
  by (cases p) simp

lemma invar_Let [guard_intros]: "invar I (f x) \<Longrightarrow> invar I (let y = x in f y)"
  by simp

text \<open>Quiet calls.\<close>

lemma invar_quiet_api [guard_intros]:
  "(\<And>r. P (ev r)) \<Longrightarrow> invar (quiet P the_mm s0) (api f ev)"
  by (intro invar_quiet emits_api keeps_api_mm) simp

lemma invar_quiet_call [guard_intros]:
  "(\<And>r. P (ev r)) \<Longrightarrow> invar (quiet P the_mm s0) (call f ev)"
  by (intro invar_quiet emits_call keeps_call_mm) simp

section \<open>The first event of a kind\<close>

text \<open>
  When a program's trace shows an event that its first part cannot emit, the first part is over and
  the event belongs to the rest.
\<close>

abbreviation any_event :: "event \<Rightarrow> bool" where
  "any_event \<equiv> \<lambda>_. True"

lemma late_split:
  assumes "trace u = trace s @ zs" "list_all P zs" "trace t = trace u @ ws"
    "trace t = trace s @ xs @ e # ys" "\<not> P e"
  obtains us where "xs = zs @ us" "ws = us @ e # ys"
proof -
  have "zs @ ws = xs @ e # ys" using assms by simp
  then obtain us where "zs = xs @ us \<and> us @ ws = e # ys \<or> zs @ us = xs \<and> ws = us @ e # ys"
    by (auto simp: append_eq_append_conv2)
  then show thesis
  proof
    assume us: "zs = xs @ us \<and> us @ ws = e # ys"
    show thesis
    proof (cases us)
      case Nil
      with us that [of "[]"] show ?thesis by simp
    next
      case (Cons a as)
      with us have "e \<in> set zs" by simp
      with assms(2,5) show ?thesis by (simp add: list_all_iff)
    qed
  qed (use that in blast)
qed

lemma late_bind:
  assumes "run_state (m \<bind> f) s = (r, t)" "emits P m" "\<And>x. emits any_event (f x)"
    "trace t = trace s @ xs @ e # ys" "\<not> P e"
  obtains x u zs us where "run_state m s = (x, u)" "run_state (f x) u = (r, t)"
    "trace u = trace s @ zs" "xs = zs @ us" "trace t = trace u @ us @ e # ys"
proof -
  from assms(1) obtain x u where u: "run_state m s = (x, u)" "run_state (f x) u = (r, t)"
    by (auto split: prod.splits)
  from emitsD [OF assms(2) u(1)] obtain zs where zs: "trace u = trace s @ zs" "list_all P zs" by blast
  from emitsD [OF assms(3) u(2)] obtain ws where ws: "trace t = trace u @ ws" by blast
  from late_split [OF zs ws assms(4,5)] obtain us where "xs = zs @ us" "ws = us @ e # ys" .
  with that u zs ws show thesis by simp
qed

lemma late_ok_then:
  assumes "run_state (ok_then m f) s = (r, t)" "emits P m" "\<And>x. emits any_event (f x)"
    "trace t = trace s @ xs @ e # ys" "\<not> P e"
  obtains x u zs us where "run_state m s = (Inr x, u)" "run_state (f x) u = (r, t)"
    "trace u = trace s @ zs" "xs = zs @ us" "trace t = trace u @ us @ e # ys"
proof -
  have "emits any_event (case x of Inl e \<Rightarrow> ret (Inl e) | Inr x \<Rightarrow> f x)" for x
    by (intro emits_intros assms(3))
  from late_bind [OF assms(1) [unfolded ok_then_def] assms(2) this assms(4,5)]
  obtain x u zs us where u: "run_state m s = (x, u)"
    "run_state (case x of Inl e \<Rightarrow> ret (Inl e) | Inr x \<Rightarrow> f x) u = (r, t)"
    "trace u = trace s @ zs" "xs = zs @ us" "trace t = trace u @ us @ e # ys" .
  show thesis
  proof (cases x)
    case (Inl e')
    with u(2) have "t = u" by simp
    with u(5) show ?thesis by simp
  next
    case (Inr y)
    with u(2) have "run_state (f y) u = (r, t)" by simp
    from that [OF u(1) [unfolded Inr] this u(3,4,5)] show ?thesis .
  qed
qed

text \<open>
  \<open>before e Q m\<close>: whenever a run of \<open>m\<close> shows \<open>e\<close>, the events of the run before it satisfy \<open>Q\<close>.
\<close>

definition before :: "event \<Rightarrow> (event list \<Rightarrow> bool) \<Rightarrow> 'a io \<Rightarrow> bool" where
  "before e Q m \<longleftrightarrow> (\<forall>s r t xs ys. run_state m s = (r, t) \<longrightarrow> trace t = trace s @ xs @ e # ys \<longrightarrow> Q xs)"

lemma beforeI:
  "(\<And>s r t xs ys. run_state m s = (r, t) \<Longrightarrow> trace t = trace s @ xs @ e # ys \<Longrightarrow> Q xs) \<Longrightarrow> before e Q m"
  by (auto simp: before_def)

lemma beforeD:
  "before e Q m \<Longrightarrow> run_state m s = (r, t) \<Longrightarrow> trace t = trace s @ xs @ e # ys \<Longrightarrow> Q xs"
  by (auto simp: before_def)

lemma before_emits: "emits P m \<Longrightarrow> \<not> P e \<Longrightarrow> before e Q m"
  by (rule beforeI) (fastforce dest: emitsD simp: list_all_iff)

lemma before_ret: "before e Q (ret x)"
  by (rule before_emits [of "\<lambda>_. False"]) (auto intro: emits_ret)

lemma before_mono: "before e Q m \<Longrightarrow> (\<And>xs. Q xs \<Longrightarrow> R xs) \<Longrightarrow> before e R m"
  by (auto simp: before_def)

lemma before_if:
  "(b \<Longrightarrow> before e Q m) \<Longrightarrow> (\<not> b \<Longrightarrow> before e Q n) \<Longrightarrow> before e Q (if b then m else n)"
  by simp

lemma before_case_sum:
  "(\<And>a. r = Inl a \<Longrightarrow> before e Q (f a)) \<Longrightarrow> (\<And>x. r = Inr x \<Longrightarrow> before e Q (g x)) \<Longrightarrow>
   before e Q (case r of Inl a \<Rightarrow> f a | Inr x \<Rightarrow> g x)"
  by (cases r) simp_all

lemma before_case_option:
  "(x = None \<Longrightarrow> before e Q m) \<Longrightarrow> (\<And>y. x = Some y \<Longrightarrow> before e Q (f y)) \<Longrightarrow>
   before e Q (case x of None \<Rightarrow> m | Some y \<Rightarrow> f y)"
  by (cases x) simp_all

lemma before_case_prod:
  "(\<And>a b. p = (a, b) \<Longrightarrow> before e Q (f a b)) \<Longrightarrow> before e Q (case p of (a, b) \<Rightarrow> f a b)"
  by (cases p) simp

lemma before_bind_ret: "before e Q m \<Longrightarrow> before e Q (m \<bind> (\<lambda>x. ret (g x)))"
  unfolding before_def by (auto split: prod.splits)

lemma before_bind:
  assumes "emits P m" "\<not> P e" "\<And>x. emits any_event (f x)"
    "\<And>s x u zs. run_state m s = (x, u) \<Longrightarrow> trace u = trace s @ zs \<Longrightarrow> before e (\<lambda>us. Q (zs @ us)) (f x)"
  shows "before e Q (m \<bind> f)"
proof (rule beforeI)
  fix s r t xs ys
  assume run: "run_state (m \<bind> f) s = (r, t)" and new: "trace t = trace s @ xs @ e # ys"
  from late_bind [OF run assms(1,3) new assms(2)] obtain x u zs us where u: "run_state m s = (x, u)"
    "run_state (f x) u = (r, t)" "trace u = trace s @ zs" "xs = zs @ us" "trace t = trace u @ us @ e # ys" .
  from beforeD [OF assms(4) [OF u(1,3)] u(2,5)] u(4) show "Q xs" by simp
qed

lemma before_ok_then:
  assumes "emits P m" "\<not> P e" "\<And>x. emits any_event (f x)"
    "\<And>s x u zs. run_state m s = (Inr x, u) \<Longrightarrow> trace u = trace s @ zs \<Longrightarrow> before e (\<lambda>us. Q (zs @ us)) (f x)"
  shows "before e Q (ok_then m f)"
proof (rule beforeI)
  fix s r t xs ys
  assume run: "run_state (ok_then m f) s = (r, t)" and new: "trace t = trace s @ xs @ e # ys"
  from late_ok_then [OF run assms(1,3) new assms(2)] obtain x u zs us where u: "run_state m s = (Inr x, u)"
    "run_state (f x) u = (r, t)" "trace u = trace s @ zs" "xs = zs @ us" "trace t = trace u @ us @ e # ys" .
  from beforeD [OF assms(4) [OF u(1,3)] u(2,5)] u(4) show "Q xs" by simp
qed

end
