(* ===== verification/Vec_Controller.thy ===== *)
theory Vec_Controller
  imports Host_Maintenance Guards
begin

text \<open>
  The VM evacuation controller, \<open>controllers/vmevacuation_controller.go\<close>. For an LXD workload cluster
  it looks for control plane machines whose VM runs on a host under maintenance and replaces one of
  them: by deleting the CAPI machine when there are three or more replicas, by swapping the machine
  template with a surge of one when there is one. Sessions are kept in one ConfigMap per operation
  id; while one is active nothing new is started.
\<close>

definition VECMaintenanceConfigMapPrefix :: string where
  "VECMaintenanceConfigMapPrefix = ''vec-maintenance-''"

definition getMaintenanceConfigMapName :: "string \<Rightarrow> string" where
  "getMaintenanceConfigMapName opID = VECMaintenanceConfigMapPrefix @ opID"

section \<open>The control plane\<close>

definition getKubeadmControlPlane :: "env \<Rightarrow> capi_cluster \<Rightarrow> kcp res io" where
  "getKubeadmControlPlane E cl = (case cl_ControlPlaneRef cl of
       None \<Rightarrow> ret (Inl (ErrorString ''cluster has no controlPlaneRef''))
     | Some nm \<Rightarrow> do {
         r \<leftarrow> KCP_Get E (cl_Namespace cl) nm;
         ret (case r of Inl e \<Rightarrow> Inl (Wrapped ''failed to get KubeadmControlPlane'' e)
                | Inr kcp \<Rightarrow> Inr kcp) })"

definition isKCPStable :: "kcp option \<Rightarrow> bool" where
  "isKCPStable kcp = (case kcp of
       None \<Rightarrow> False
     | Some k \<Rightarrow>
         if kcp_paused k = Some True then False
         else (case (kcp_specReplicas k, kcp_readyReplicas k, kcp_updatedReplicas k, kcp_statusReplicas k) of
             (Some specReplicas, Some readyReplicas, Some updatedReplicas, Some replicas) \<Rightarrow>
               readyReplicas = updatedReplicas \<and> updatedReplicas = replicas \<and> replicas = specReplicas
           | _ \<Rightarrow> False))"

definition isWLCCluster :: "env \<Rightarrow> capi_cluster \<Rightarrow> bool res io" where
  "isWLCCluster E cl = ok_then (getKubeadmControlPlane E cl) (\<lambda>kcp.
     case kcp_infrastructureRef kcp of
       None \<Rightarrow> ret (Inr False)
     | Some nm \<Rightarrow>
         (let name = (case nm of None \<Rightarrow> [] | Some n \<Rightarrow> n) in
          if name = [] then ret (Inr False)
          else ok_then (Template_Get E (kcp_Namespace kcp) name) (\<lambda>tmpl.
            ret (Inr (templateHasLXDEnabled (Some tmpl))))))"

fun other_deleting :: "string \<Rightarrow> capi_machine list \<Rightarrow> bool" where
  "other_deleting uid [] = False"
| "other_deleting uid (m # ms) =
     (if cam_UID m = uid then other_deleting uid ms
      else if cam_DeletionTimestamp m \<noteq> None then True else other_deleting uid ms)"

definition hasOtherCPBeingDeleted :: "env \<Rightarrow> capi_cluster \<Rightarrow> capi_machine \<Rightarrow> bool io" where
  "hasOtherCPBeingDeleted E cl current = do {
     r \<leftarrow> CapiMachines_List E (cl_Namespace cl) (cl_Name cl);
     ret (case r of Inl _ \<Rightarrow> True | Inr ms \<Rightarrow> other_deleting (cam_UID current) ms) }"

definition deleteCPMachine :: "env \<Rightarrow> capi_machine \<Rightarrow> unit res io" where
  "deleteCPMachine E m = do {
     r \<leftarrow> CapiMachine_Delete E (cam_Namespace m) (cam_Name m);
     ret (case r of
        Inl e \<Rightarrow> if IsNotFound e then Inr () else Inl (Wrapped ''failed to delete machine'' e)
      | Inr _ \<Rightarrow> Inr ()) }"

definition createNewMaasMachineTemplate :: "env \<Rightarrow> kcp \<Rightarrow> string res io" where
  "createNewMaasMachineTemplate E kcp = (case kcp_infrastructureRef kcp of
       None \<Rightarrow> ret (Inl (ErrorString ''failed to get machineTemplate.spec.infrastructureRef from KCP''))
     | Some nm \<Rightarrow>
         (case nm of
            None \<Rightarrow> ret (Inl (ErrorString ''invalid template name in KCP''))
          | Some currentTemplateName \<Rightarrow>
              if currentTemplateName = [] then ret (Inl (ErrorString ''invalid template name in KCP''))
              else do {
                r \<leftarrow> Template_Get E (kcp_Namespace kcp) currentTemplateName;
                case r of
                  Inl e \<Rightarrow> ret (Inl (Wrapped ''failed to get current MaasMachineTemplate'' e))
                | Inr currentTemplate \<Rightarrow> do {
                    uid \<leftarrow> NewUUID_str E;
                    let newTemplateName = currentTemplateName @ ''-evac-'' @ take 8 uid;
                    let newTemplate = \<lparr>mt_Name = newTemplateName, mt_Namespace = kcp_Namespace kcp,
                      mt_Labels = mt_Labels currentTemplate, mt_Spec = mt_Spec currentTemplate\<rparr>;
                    r \<leftarrow> Template_Create E newTemplate;
                    case r of
                      Inr _ \<Rightarrow> ret (Inr newTemplateName)
                    | Inl e \<Rightarrow>
                        if \<not> IsAlreadyExists e
                        then ret (Inl (Wrapped ''failed to create new MaasMachineTemplate'' e))
                        else do {
                          r \<leftarrow> Template_Get E (kcp_Namespace kcp) newTemplateName;
                          ret (case r of
                             Inl e \<Rightarrow> Inl (Wrapped ''failed to get existing MaasMachineTemplate for validation'' e)
                           | Inr existing \<Rightarrow>
                               if mt_Spec existing \<noteq> mt_Spec currentTemplate
                               then Inl (ErrorString (''existing MaasMachineTemplate '' @ newTemplateName @
                                 '' has different spec than expected, this could lead to unexpected behavior''))
                               else Inr newTemplateName) } } }))"

definition swapKCPTemplateWithMaxSurge :: "env \<Rightarrow> kcp option \<Rightarrow> string \<Rightarrow> unit res io" where
  "swapKCPTemplateWithMaxSurge E kcp newTemplateName = (case kcp of
       None \<Rightarrow> ret (Inl (ErrorString ''KCP is nil''))
     | Some k \<Rightarrow> do {
         r \<leftarrow> KCP_Update E (k\<lparr>kcp_infrastructureRef := Some (Some newTemplateName), kcp_maxSurge := Some 1\<rparr>);
         ret (case r of Inl e \<Rightarrow> Inl (Wrapped ''failed to update KCP'' e) | Inr _ \<Rightarrow> Inr ()) })"

section \<open>Sessions\<close>

text \<open>The operation ids of the active sessions: the keys of a map, so each occurs once.\<close>

definition listMaintenanceSessions :: "env \<Rightarrow> string \<Rightarrow> string list res io" where
  "listMaintenanceSessions E namespace = do {
     r \<leftarrow> CM_List E namespace;
     ret (case r of
        Inl e \<Rightarrow> Inl (Wrapped ''failed to list ConfigMaps'' e)
      | Inr cms \<Rightarrow> Inr (remdups (map (\<lambda>cm. map_get (cm_Data cm) cmKeyOpID)
          (filter (\<lambda>cm. HasPrefix (cm_Name cm) VECMaintenanceConfigMapPrefix \<and>
             map_get (cm_Data cm) cmKeyOpID \<noteq> [] \<and>
             map_get (cm_Data cm) cmKeyStatus = StatusActive) cms)))) }"

definition saveMaintenanceSession ::
    "env \<Rightarrow> string \<Rightarrow> string \<Rightarrow> string \<Rightarrow> string \<Rightarrow> unit res io" where
  "saveMaintenanceSession E namespace opID hostSystemID status = do {
     now \<leftarrow> time_Now_UTC E;
     let cm = \<lparr>cm_Namespace = namespace, cm_Name = getMaintenanceConfigMapName opID, cm_UID = [],
       cm_Data = [(cmKeyOpID, opID), (cmKeyStatus, status), (cmKeyCurrentHost, hostSystemID),
         (cmKeyStartedAt, time_Format (lib_of E) now)]\<rparr>;
     r \<leftarrow> CM_Create E cm;
     case r of
       Inr _ \<Rightarrow> ret (Inr ())
     | Inl e \<Rightarrow>
         if \<not> IsAlreadyExists e
         then ret (Inl (Wrapped ''failed to create maintenance session ConfigMap'' e))
         else do {
           r \<leftarrow> CM_Get E namespace (getMaintenanceConfigMapName opID);
           case r of
             Inl e \<Rightarrow> ret (Inl (Wrapped ''failed to get existing ConfigMap'' e))
           | Inr existing \<Rightarrow> do {
               r \<leftarrow> CM_Update E (existing\<lparr>cm_Data := cm_Data cm\<rparr>);
               ret (case r of
                  Inl e \<Rightarrow> Inl (Wrapped ''failed to update maintenance session ConfigMap'' e)
                | Inr _ \<Rightarrow> Inr ()) } } }"

definition tagReplacementVMAndCompleteSession :: "env \<Rightarrow> capi_cluster \<Rightarrow> string \<Rightarrow> unit res io" where
  "tagReplacementVMAndCompleteSession E cl opID = do {
     r \<leftarrow> CM_Get E (cl_Namespace cl) (getMaintenanceConfigMapName opID);
     case r of
       Inl e \<Rightarrow> ret (Inl (Wrapped ''failed to get maintenance session ConfigMap'' e))
     | Inr cm \<Rightarrow>
         let newVMSystemID = map_get (cm_Data cm) cmKeyNewVMSystemID in
         if newVMSystemID = [] then ret (Inr ())
         else do {
           r \<leftarrow> TagVMReadyOp (Some E) newVMSystemID opID;
           case r of
             Inl e \<Rightarrow> ret (Inl (Wrapped ''failed to tag replacement VM with ready-op'' e))
           | Inr _ \<Rightarrow> do {
               r \<leftarrow> CM_Update E (cm\<lparr>cm_Data := map_put cmKeyStatus StatusCompleted (cm_Data cm)\<rparr>);
               ret (case r of Inl e \<Rightarrow> Inl (Wrapped ''failed to mark session as completed'' e)
                      | Inr _ \<Rightarrow> Inr ()) } } }"

section \<open>Machines on hosts under maintenance\<close>

definition getVMHostSystemID :: "env \<Rightarrow> string \<Rightarrow> string res io" where
  "getVMHostSystemID E vmSystemID = do {
     r \<leftarrow> Machine_Get E vmSystemID;
     ret (case r of
        Inl e \<Rightarrow> Inl (Wrapped ''failed to get VM machine details'' e)
      | Inr vm \<Rightarrow>
          if sdk_Parent vm = [] then Inl (ErrorString (''VM '' @ vmSystemID @ '' has no parent host''))
          else Inr (sdk_Parent vm)) }"

fun scan_host_tags :: "string list \<Rightarrow> bool \<times> bool \<times> string \<Rightarrow> bool \<times> bool \<times> string" where
  "scan_host_tags [] acc = acc"
| "scan_host_tags (tag # tags) (hasMaintenance, hasNoSchedule, opID) =
     scan_host_tags tags (hasMaintenance \<or> tag = TagHostMaintenance,
       hasNoSchedule \<or> tag = TagHostNoSchedule,
       if HasPrefix tag TagHostOpPrefix then TrimPrefix tag TagHostOpPrefix else opID)"

definition host_op :: "string list \<Rightarrow> string option" where
  "host_op tags = (case scan_host_tags tags (False, False, []) of
     (hasMaintenance, hasNoSchedule, opID) \<Rightarrow>
       if hasMaintenance \<and> hasNoSchedule \<and> opID \<noteq> [] then Some opID else None)"

record cp_info =
  ci_Machine :: capi_machine
  ci_HostSystemID :: string
  ci_OpID :: string

text \<open>
  One turn of the loop: the host and operation id when the machine is on a host under maintenance.
  Every error skips the machine.
\<close>

definition check_cp_machine :: "env \<Rightarrow> capi_machine \<Rightarrow> (string \<times> string) option io" where
  "check_cp_machine E m =
     (if cam_DeletionTimestamp m \<noteq> None then ret None
      else if cam_InfraRefName m = [] then ret None
      else do {
        r \<leftarrow> MaasMachine_Get E (cam_Namespace m) (cam_InfraRefName m);
        case r of
          Inl _ \<Rightarrow> ret None
        | Inr mm \<Rightarrow>
            (case ProviderID (mm_Spec mm) of
               None \<Rightarrow> ret None
             | Some pid \<Rightarrow>
                 if pid = [] \<or> extractSystemIDFromProviderID pid = [] then ret None
                 else do {
                   r \<leftarrow> getVMHostSystemID E (extractSystemIDFromProviderID pid);
                   case r of
                     Inl _ \<Rightarrow> ret None
                   | Inr hostSystemID \<Rightarrow> do {
                       r \<leftarrow> Machine_Get E hostSystemID;
                       ret (case r of
                          Inl _ \<Rightarrow> None
                        | Inr hostDetails \<Rightarrow>
                            if sdk_Tags hostDetails = [] then None
                            else map_option (Pair hostSystemID) (host_op (sdk_Tags hostDetails))) } }) })"

fun find_cp_machines :: "env \<Rightarrow> string \<Rightarrow> capi_machine list \<Rightarrow> cp_info list io" where
  "find_cp_machines E namespace [] = ret []"
| "find_cp_machines E namespace (m # ms) = do {
     found \<leftarrow> check_cp_machine E m;
     case found of
       None \<Rightarrow> find_cp_machines E namespace ms
     | Some (hostSystemID, opID) \<Rightarrow> do {
         _ \<leftarrow> saveMaintenanceSession E namespace opID hostSystemID StatusActive;
         rest \<leftarrow> find_cp_machines E namespace ms;
         ret (\<lparr>ci_Machine = m, ci_HostSystemID = hostSystemID, ci_OpID = opID\<rparr> # rest) } }"

definition findCPMachinesOnMaintenanceHosts ::
    "env \<Rightarrow> capi_cluster \<Rightarrow> string \<Rightarrow> cp_info list res io" where
  "findCPMachinesOnMaintenanceHosts E cl namespace = do {
     r \<leftarrow> CapiMachines_List E (cl_Namespace cl) (cl_Name cl);
     case r of
       Inl e \<Rightarrow> ret (Inl (Wrapped ''failed to list machines'' e))
     | Inr ms \<Rightarrow> do { found \<leftarrow> find_cp_machines E namespace ms; ret (Inr found) } }"

section \<open>Reconcile\<close>

text \<open>Every outcome of an evacuation step is a requeue after 30 seconds; errors are only logged.\<close>

abbreviation (input) requeue30 :: "reconcile_result io" where
  "requeue30 \<equiv> ret (RequeueAfter 30, None)"

definition vec_replicas :: "kcp \<Rightarrow> int" where
  "vec_replicas kcp = (case kcp_specReplicas kcp of
       None \<Rightarrow> 3 | Some r \<Rightarrow> if r < 0 \<or> r > 2147483647 then 3 else r)"

definition vec_execute :: "env \<Rightarrow> kcp \<Rightarrow> cp_info \<Rightarrow> reconcile_result io" where
  "vec_execute E kcp cpInfo =
     (if vec_replicas kcp \<ge> 3 then do {
        _ \<leftarrow> deleteCPMachine E (ci_Machine cpInfo);
        requeue30 }
      else if vec_replicas kcp = 1 then do {
        r \<leftarrow> createNewMaasMachineTemplate E kcp;
        case r of
          Inl _ \<Rightarrow> requeue30
        | Inr newTemplateName \<Rightarrow> do {
            _ \<leftarrow> swapKCPTemplateWithMaxSurge E (Some kcp) newTemplateName;
            requeue30 } }
      else requeue30)"

definition vec_active_session :: "env \<Rightarrow> capi_cluster \<Rightarrow> string list \<Rightarrow> reconcile_result io" where
  "vec_active_session E cl activeSessions = do {
     activeOpID \<leftarrow> first_key E activeSessions;
     r \<leftarrow> getKubeadmControlPlane E cl;
     case r of
       Inl _ \<Rightarrow> requeue30
     | Inr kcp \<Rightarrow>
         if \<not> isKCPStable (Some kcp) then requeue30
         else do {
           _ \<leftarrow> tagReplacementVMAndCompleteSession E cl activeOpID;
           requeue30 } }"

definition vec_new_session :: "env \<Rightarrow> capi_cluster \<Rightarrow> reconcile_result io" where
  "vec_new_session E cl = do {
     r \<leftarrow> findCPMachinesOnMaintenanceHosts E cl (cl_Namespace cl);
     case r of
       Inl _ \<Rightarrow> requeue30
     | Inr found \<Rightarrow>
         (case found of
            [] \<Rightarrow> ret (RequeueAfter 300, None)
          | cpInfo # _ \<Rightarrow> do {
              r \<leftarrow> getKubeadmControlPlane E cl;
              case r of
                Inl _ \<Rightarrow> requeue30
              | Inr kcp \<Rightarrow>
                  if \<not> isKCPStable (Some kcp) then requeue30
                  else do {
                    blocked \<leftarrow> hasOtherCPBeingDeleted E cl (ci_Machine cpInfo);
                    if blocked then requeue30 else vec_execute E kcp cpInfo } }) }"

definition vec_Reconcile :: "env \<Rightarrow> string \<Rightarrow> string \<Rightarrow> reconcile_result io" where
  "vec_Reconcile E ns nm = do {
     r \<leftarrow> MaasCluster_Get E ns nm;
     case r of
       Inl e \<Rightarrow> ret (NoRequeue, IgnoreNotFound e)
     | Inr mc \<Rightarrow> do {
         modify (the_mc_update (\<lambda>_. mc));
         r \<leftarrow> GetOwnerCluster E mc;
         case r of
           Inl _ \<Rightarrow> reconcile_done
         | Inr owner \<Rightarrow>
             (case owner of
                None \<Rightarrow> reconcile_done
              | Some cl \<Rightarrow> do {
                  r \<leftarrow> isWLCCluster E cl;
                  case r of
                    Inl _ \<Rightarrow> requeue30
                  | Inr isWLC \<Rightarrow>
                      if \<not> isWLC then reconcile_done
                      else do {
                        _ \<leftarrow> GetMaasClientIdentity E;
                        r \<leftarrow> listMaintenanceSessions E (cl_Namespace cl);
                        case r of
                          Inl _ \<Rightarrow> requeue30
                        | Inr activeSessions \<Rightarrow>
                            if length activeSessions > 0 then vec_active_session E cl activeSessions
                            else vec_new_session E cl } }) } }"

section \<open>What is destructive\<close>

fun is_delete :: "event \<Rightarrow> bool" where
  "is_delete (Kube (CapiMachineDelete _ _ _)) = True"
| "is_delete _ = False"

fun destructive :: "event \<Rightarrow> bool" where
  "destructive (Kube (CapiMachineDelete _ _ _)) = True"
| "destructive (Kube (TemplateCreate _ _)) = True"
| "destructive (Kube (KCPUpdate _ _)) = True"
| "destructive _ = False"

definition harmless :: "event \<Rightarrow> bool" where
  "harmless e \<longleftrightarrow> \<not> destructive e"

lemma harmless_simps [simp]:
  "harmless (Maas m)" "harmless (Remote x)" "harmless Clock" "harmless NewUUID" "harmless MapRange"
  "harmless (Kube (CMGet a b))" "harmless (Kube (CMList a))" "harmless (Kube (CMCreate cm ok))"
  "harmless (Kube (CMUpdate cm ok))" "harmless (Kube (SecretGet a b))"
  "harmless (Kube (MaasMachineGet a b))" "harmless (Kube (MaasClusterGet a b))"
  "harmless (Kube (CapiMachinesList a b))" "harmless (Kube (OwnerClusterGet a))"
  "harmless (Kube (KCPGet a b))" "harmless (Kube (TemplateGet a b))"
  by (simp_all add: harmless_def)

lemma harmless_parts [emits_intros]:
  "emits harmless (getKubeadmControlPlane E cl)" "emits harmless (isWLCCluster E cl)"
  "emits harmless (listMaintenanceSessions E ns)" "emits harmless (GetMaasClientIdentity E)"
  "emits harmless (saveMaintenanceSession E ns op h st)"
  "emits harmless (tagReplacementVMAndCompleteSession E cl op)"
  "emits harmless (hasOtherCPBeingDeleted E cl m)" "emits harmless (check_cp_machine E m)"
  unfolding isWLCCluster_def getKubeadmControlPlane_def listMaintenanceSessions_def
    GetMaasClientIdentity_def GetMAASCredentials_def saveMaintenanceSession_def
    tagReplacementVMAndCompleteSession_def TagVMReadyOp_def hasOtherCPBeingDeleted_def
    check_cp_machine_def getVMHostSystemID_def call_defs Let_def
  by (intro emits_intros; simp)+

lemma harmless_find [emits_intros]: "emits harmless (find_cp_machines E ns ms)"
  by (induction ms) (auto intro!: emits_intros)

lemma harmless_findCP [emits_intros]: "emits harmless (findCPMachinesOnMaintenanceHosts E cl ns)"
  unfolding findCPMachinesOnMaintenanceHosts_def CapiMachines_List_def by (intro emits_intros) simp

lemma harmless_active: "emits harmless (vec_active_session E cl sess)"
  unfolding vec_active_session_def first_key_def by (intro emits_intros) simp_all

text \<open>The events are harmless and no component of the state matters.\<close>

abbreviation tame :: "sys \<Rightarrow> sys \<Rightarrow> bool" where
  "tame \<equiv> quiet harmless (\<lambda>_. ())"

lemma invar_tame: "emits harmless m \<Longrightarrow> invar (tame s0) m"
  by (rule invar_quiet) (simp_all add: keeps_def)

text \<open>All checks passed at \<open>u\<close>, and the rest of the run is the evacuation step.\<close>

definition vec_checked :: "env \<Rightarrow> sys \<Rightarrow> sys \<Rightarrow> bool" where
  "vec_checked E s0 t \<longleftrightarrow> (\<exists>u r cl kcp info found. tame s0 u \<and>
     run_state (vec_execute E kcp info) u = (r, t) \<and> isKCPStable (Some kcp) \<and>
     (\<exists>a b. run_state (listMaintenanceSessions E (cl_Namespace cl)) a = (Inr [], b)) \<and>
     (\<exists>a b. run_state (findCPMachinesOnMaintenanceHosts E cl (cl_Namespace cl)) a = (Inr (info # found), b)) \<and>
     (\<exists>a b. run_state (getKubeadmControlPlane E cl) a = (Inr kcp, b)) \<and>
     (\<exists>a b. run_state (hasOtherCPBeingDeleted E cl (ci_Machine info)) a = (False, b)))"

lemma vec_new_guarded:
  assumes "run_state (listMaintenanceSessions E (cl_Namespace cl)) a = (Inr [], b)"
  shows "guards (tame s0) (vec_checked E s0) (vec_new_session E cl)"
proof -
  have leaf: "guards (tame s0) (vec_checked E s0) (vec_execute E kcp info)"
    if "run_state (findCPMachinesOnMaintenanceHosts E cl (cl_Namespace cl)) s1 = (Inr (info # found), t1)"
      "run_state (getKubeadmControlPlane E cl) s2 = (Inr kcp, t2)" "isKCPStable (Some kcp)"
      "run_state (hasOtherCPBeingDeleted E cl (ci_Machine info)) s3 = (False, t3)"
    for kcp info found s1 t1 s2 t2 s3 t3
  proof (rule guardsI)
    fix s r t
    assume "tame s0 s" "run_state (vec_execute E kcp info) s = (r, t)"
    with assms that have "vec_checked E s0 t"
      unfolding vec_checked_def
      by (rule_tac exI [of _ s], rule_tac exI [of _ r], rule_tac exI [of _ cl],
          rule_tac exI [of _ kcp], rule_tac exI [of _ info], rule_tac exI [of _ found]) blast
    then show "tame s0 t \<or> vec_checked E s0 t" by simp
  qed
  show ?thesis
    unfolding vec_new_session_def
    by (intro guards_bind_res guards_case_sum guards_case_list guards_if guards_ret
        invar_tame emits_intros) (auto intro: leaf)
qed

lemma vec_guarded: "guards (tame s) (vec_checked E s) (vec_Reconcile E ns nm)"
proof -
  have new: "guards (tame s) (vec_checked E s) (vec_new_session E cl)"
    if "run_state (listMaintenanceSessions E (cl_Namespace cl)) a = (Inr sess, b)" "\<not> 0 < length sess"
    for cl a sess b
    using that by (intro vec_new_guarded) simp
  have act: "guards (tame s) (vec_checked E s) (vec_active_session E cl sess)" for cl sess
    by (intro guards_invar invar_tame harmless_active)
  show ?thesis
    unfolding vec_Reconcile_def MaasCluster_Get_def GetOwnerCluster_def
    by (intro guards_bind_res guards_case_sum guards_case_option guards_if guards_ret act
        invar_tame emits_intros) (auto intro: new)
qed

lemma deleteCPMachine_trace:
  "run_state (deleteCPMachine E m) s = (r, t) \<Longrightarrow>
   \<exists>ok. trace t = trace s @ [Kube (CapiMachineDelete (cam_Namespace m) (cam_Name m) ok)]"
  by (auto simp: deleteCPMachine_def CapiMachine_Delete_def run_api)

lemma template_emits: "emits (\<lambda>e. \<not> is_delete e) (createNewMaasMachineTemplate E kcp)"
  unfolding createNewMaasMachineTemplate_def call_defs Let_def by (intro emits_intros) simp_all

lemma vec_execute_trace:
  assumes "run_state (vec_execute E kcp info) u = (r, t)"
  shows "\<exists>es. trace t = trace u @ es \<and>
    (if vec_replicas kcp \<ge> 3
     then \<exists>ok. es = [Kube (CapiMachineDelete (cam_Namespace (ci_Machine info)) (cam_Name (ci_Machine info)) ok)]
     else list_all (\<lambda>e. \<not> is_delete e) es \<and> (vec_replicas kcp \<noteq> 1 \<longrightarrow> es = []))"
proof -
  consider "vec_replicas kcp \<ge> 3" | "vec_replicas kcp = 1" | "\<not> vec_replicas kcp \<ge> 3" "vec_replicas kcp \<noteq> 1"
    by linarith
  then show ?thesis
  proof cases
    case 1
    then show ?thesis using assms
      by (auto simp: vec_execute_def dest!: deleteCPMachine_trace split: prod.splits)
  next
    case 2
    have "emits (\<lambda>e. \<not> is_delete e) (vec_execute E kcp info)"
      unfolding vec_execute_def swapKCPTemplateWithMaxSurge_def KCP_Update_def 2
      by (simp, intro emits_intros template_emits) simp_all
    with emitsD [OF this assms] 2 show ?thesis by auto
  next
    case 3
    then show ?thesis using assms by (auto simp: vec_execute_def)
  qed
qed

section \<open>Properties\<close>

text \<open>
  C6: one control plane machine at a time. A reconcile of the evacuation controller deletes at most
  one CAPI machine, whatever the servers answer, and only when no session was active, the control
  plane it read was stable with at least three replicas, no other control plane machine was being
  deleted, and the machine is the first of those found on a host under maintenance. Before the
  deletion nothing destructive was called.
\<close>

theorem vec_deletes_at_most_one:
  assumes run: "run_state (vec_Reconcile E ns nm) s = (r, t)"
    and ev: "e \<in> set (drop (length (trace s)) (trace t))" "is_delete e"
  shows "length (filter is_delete (drop (length (trace s)) (trace t))) = 1 \<and>
    last (trace t) = e \<and> list_all harmless (butlast (drop (length (trace s)) (trace t))) \<and>
    (\<exists>cl kcp info found ok. e = Kube (CapiMachineDelete (cam_Namespace (ci_Machine info)) (cam_Name (ci_Machine info)) ok) \<and>
       isKCPStable (Some kcp) \<and> vec_replicas kcp \<ge> 3 \<and>
       (\<exists>a b. run_state (listMaintenanceSessions E (cl_Namespace cl)) a = (Inr [], b)) \<and>
       (\<exists>a b. run_state (findCPMachinesOnMaintenanceHosts E cl (cl_Namespace cl)) a = (Inr (info # found), b)) \<and>
       (\<exists>a b. run_state (getKubeadmControlPlane E cl) a = (Inr kcp, b)) \<and>
       (\<exists>a b. run_state (hasOtherCPBeingDeleted E cl (ci_Machine info)) a = (False, b)))"
proof -
  have d: "\<not> harmless e" using ev(2) by (cases e rule: is_delete.cases) (simp_all add: harmless_def)
  have "tame s t \<or> vec_checked E s t" by (rule guardsD [OF vec_guarded quiet_refl run])
  moreover have "\<not> tame s t" using since_not_in [OF _ ev(1), of harmless] d by (auto simp: quiet_def)
  ultimately obtain u q cl kcp info found where c: "tame s u"
    "run_state (vec_execute E kcp info) u = (q, t)" "isKCPStable (Some kcp)"
    "\<exists>a b. run_state (listMaintenanceSessions E (cl_Namespace cl)) a = (Inr [], b)"
    "\<exists>a b. run_state (findCPMachinesOnMaintenanceHosts E cl (cl_Namespace cl)) a = (Inr (info # found), b)"
    "\<exists>a b. run_state (getKubeadmControlPlane E cl) a = (Inr kcp, b)"
    "\<exists>a b. run_state (hasOtherCPBeingDeleted E cl (ci_Machine info)) a = (False, b)"
    unfolding vec_checked_def by blast
  from c(1) obtain es where es: "trace u = trace s @ es" "list_all harmless es"
    by (auto simp: quiet_def since_def)
  have nd: "list_all (\<lambda>e. \<not> is_delete e) es"
    using es(2) by (rule list.pred_mono_strong) (auto simp: harmless_def elim: is_delete.elims)
  from vec_execute_trace [OF c(2)] obtain fs where fs: "trace t = trace u @ fs"
    "if vec_replicas kcp \<ge> 3
     then \<exists>ok. fs = [Kube (CapiMachineDelete (cam_Namespace (ci_Machine info)) (cam_Name (ci_Machine info)) ok)]
     else list_all (\<lambda>e. \<not> is_delete e) fs \<and> (vec_replicas kcp \<noteq> 1 \<longrightarrow> fs = [])" by blast
  have "vec_replicas kcp \<ge> 3"
  proof (rule ccontr)
    assume "\<not> vec_replicas kcp \<ge> 3"
    with fs nd ev es show False by (auto simp: list_all_iff)
  qed
  with fs(2) obtain ok where f: "fs = [Kube (CapiMachineDelete (cam_Namespace (ci_Machine info)) (cam_Name (ci_Machine info)) ok)]"
    by auto
  have new: "drop (length (trace s)) (trace t) = es @ fs" using es fs by simp
  have e: "e = Kube (CapiMachineDelete (cam_Namespace (ci_Machine info)) (cam_Name (ci_Machine info)) ok)"
    using ev nd f new by (auto simp: list_all_iff)
  have "filter is_delete es = []" using nd by (auto simp: filter_empty_conv list_all_iff)
  then have "length (filter is_delete (es @ fs)) = 1" by (simp add: f)
  moreover have "last (trace t) = e" using fs(1) f e by simp
  moreover have "list_all harmless (butlast (es @ fs))" using es(2) by (simp add: f)
  ultimately show ?thesis using c e \<open>vec_replicas kcp \<ge> 3\<close> unfolding new by blast
qed

text \<open>Calls that change nothing in MAAS or Kubernetes.\<close>

fun vec_read :: "event \<Rightarrow> bool" where
  "vec_read (Maas e) = (\<not> maas_write e)"
| "vec_read (Kube (CMGet _ _)) = True"
| "vec_read (Kube (CMList _)) = True"
| "vec_read (Kube (SecretGet _ _)) = True"
| "vec_read (Kube (MaasClusterGet _ _)) = True"
| "vec_read (Kube (OwnerClusterGet _)) = True"
| "vec_read (Kube (KCPGet _ _)) = True"
| "vec_read (Kube (TemplateGet _ _)) = True"
| "vec_read MapRange = True"
| "vec_read _ = False"

definition active_session_cm :: "configmap \<Rightarrow> bool" where
  "active_session_cm cm \<longleftrightarrow> HasPrefix (cm_Name cm) VECMaintenanceConfigMapPrefix \<and>
     map_get (cm_Data cm) cmKeyOpID \<noteq> [] \<and> map_get (cm_Data cm) cmKeyStatus = StatusActive"

lemma listMaintenanceSessions_active:
  assumes "cm_list_r (kube E) ns (trace s) = Inr cms" "cm \<in> set cms" "active_session_cm cm"
    and "run_state (listMaintenanceSessions E ns) s = (Inr sess, t)"
  shows "sess \<noteq> []"
  using assms by (auto simp: listMaintenanceSessions_def CM_List_def run_api active_session_cm_def
      filter_empty_conv)

text \<open>
  C36: a session without a replacement blocks for good. While the namespace lists an active session
  and the session's ConfigMap names no replacement VM, a reconcile changes nothing at all: it
  deletes no machine, swaps no template, completes no session. Only the provisioning of a new
  control plane VM, which the deletion of a machine would have caused, can end this state.
\<close>

theorem vec_active_session_blocks:
  assumes listed: "\<And>ns tr. \<exists>cms cm. cm_list_r (kube E) ns tr = Inr cms \<and> cm \<in> set cms \<and> active_session_cm cm"
    and no_vm: "\<And>ns nm tr cm. cm_get_r (kube E) ns nm tr = Inr cm \<Longrightarrow> map_get (cm_Data cm) cmKeyNewVMSystemID = []"
    and run: "run_state (vec_Reconcile E ns nm) s = (r, t)"
  shows "\<exists>es. trace t = trace s @ es \<and> list_all vec_read es"
proof -
  let ?I = "quiet vec_read (\<lambda>_. ()) s"
  have inv: "emits vec_read m \<Longrightarrow> invar ?I m" for m :: "'a io"
    by (rule invar_quiet) (simp_all add: keeps_def)
  have tagging: "emits vec_read (tagReplacementVMAndCompleteSession E cl op)" for cl op
  proof -
    have "trace (snd (run_state (tagReplacementVMAndCompleteSession E cl op) u)) =
        trace u @ [Kube (CMGet (cl_Namespace cl) (getMaintenanceConfigMapName op))]" for u
      using no_vm by (auto simp: tagReplacementVMAndCompleteSession_def CM_Get_def run_api Let_def
          split: sum.split)
    then show ?thesis by (simp add: emits_def)
  qed
  have kcp: "emits vec_read (getKubeadmControlPlane E cl)" for cl
    unfolding getKubeadmControlPlane_def KCP_Get_def by (intro emits_intros) simp_all
  have wlc: "emits vec_read (isWLCCluster E cl)" for cl
    unfolding isWLCCluster_def Template_Get_def Let_def by (intro emits_intros kcp) simp_all
  have ident: "emits vec_read (GetMaasClientIdentity E)"
    unfolding GetMaasClientIdentity_def GetMAASCredentials_def call_defs Let_def
    by (intro emits_intros) simp_all
  have lst: "emits vec_read (listMaintenanceSessions E ns)" for ns
    unfolding listMaintenanceSessions_def CM_List_def by (intro emits_intros) simp_all
  have act: "emits vec_read (vec_active_session E cl sess)" for cl sess
    unfolding vec_active_session_def first_key_def by (intro emits_intros kcp tagging) simp_all
  have none: "0 < length sess" if "run_state (listMaintenanceSessions E ns) a = (Inr sess, b)" for ns a sess b
    using listed [of ns "trace a"] listMaintenanceSessions_active [OF _ _ _ that] by auto
  have upd: "emits vec_read (modify (the_mc_update f))" for f
    by (rule emits_modify_mc)
  have "guards ?I ?I (vec_Reconcile E ns nm)"
    unfolding vec_Reconcile_def MaasCluster_Get_def GetOwnerCluster_def
    by (intro guards_bind_res guards_case_sum guards_case_option guards_if guards_ret inv
        emits_intros upd wlc ident lst guards_invar act) (auto dest: none)
  from guardsD [OF this quiet_refl run] show ?thesis by (auto simp: quiet_def since_def)
qed

text \<open>The creation of the active session of a machine that was found.\<close>

definition session_record :: "string \<Rightarrow> string \<Rightarrow> string \<Rightarrow> event \<Rightarrow> bool" where
  "session_record ns op h e \<longleftrightarrow> (\<exists>cm ok. e = Kube (CMCreate cm ok) \<and> cm_Namespace cm = ns \<and>
     cm_Name cm = getMaintenanceConfigMapName op \<and> map_get (cm_Data cm) cmKeyStatus = StatusActive \<and>
     map_get (cm_Data cm) cmKeyCurrentHost = h)"

lemma save_records:
  assumes "run_state (saveMaintenanceSession E ns op h StatusActive) s = (r, t)"
  obtains e es where "trace t = trace s @ Clock # e # es" "session_record ns op h e"
proof -
  have "\<exists>cm ok es. trace t = trace s @ Clock # Kube (CMCreate cm ok) # es \<and> cm_Namespace cm = ns \<and>
      cm_Name cm = getMaintenanceConfigMapName op \<and> map_get (cm_Data cm) cmKeyStatus = StatusActive \<and>
      map_get (cm_Data cm) cmKeyCurrentHost = h"
    using assms unfolding saveMaintenanceSession_def
    by (auto simp: time_Now_UTC_def run_call call_defs run_api Let_def map_get_def session_key_defs
        split: sum.splits if_splits)
  with that show thesis unfolding session_record_def by blast
qed

lemma find_records:
  "run_state (find_cp_machines E ns ms) s = (out, t) \<Longrightarrow>
   \<exists>es. trace t = trace s @ es \<and> (\<forall>info \<in> set out. \<exists>e \<in> set es. session_record ns (ci_OpID info) (ci_HostSystemID info) e)"
proof (induction ms arbitrary: s out t)
  case (Cons m ms)
  obtain f u where f: "run_state (check_cp_machine E m) s = (f, u)" by fastforce
  from emitsD [OF harmless_parts(8) f] obtain es1 where es1: "trace u = trace s @ es1" by blast
  show ?case
  proof (cases f)
    case None
    with Cons.prems f have "run_state (find_cp_machines E ns ms) u = (out, t)" by simp
    from Cons.IH [OF this] obtain es where "trace t = trace u @ es"
      "\<forall>info \<in> set out. \<exists>e \<in> set es. session_record ns (ci_OpID info) (ci_HostSystemID info) e" by blast
    with es1 show ?thesis by (intro exI [of _ "es1 @ es"]) auto
  next
    case (Some ho)
    obtain h op where ho: "ho = (h, op)" by fastforce
    obtain x v where v: "run_state (saveMaintenanceSession E ns op h StatusActive) u = (x, v)" by fastforce
    obtain rest w where rest: "run_state (find_cp_machines E ns ms) v = (rest, w)" by fastforce
    have o: "out = \<lparr>ci_Machine = m, ci_HostSystemID = h, ci_OpID = op\<rparr> # rest" "t = w"
      using Cons.prems f Some ho v rest by simp_all
    from save_records [OF v] obtain e es2 where e: "trace v = trace u @ Clock # e # es2" "session_record ns op h e" .
    from Cons.IH [OF rest] obtain es3 where es3: "trace w = trace v @ es3"
      "\<forall>info \<in> set rest. \<exists>e \<in> set es3. session_record ns (ci_OpID info) (ci_HostSystemID info) e" by blast
    have "trace t = trace s @ (es1 @ Clock # e # es2 @ es3)" using es1 e(1) es3(1) o by simp
    moreover have "\<forall>info \<in> set out. \<exists>e' \<in> set (es1 @ Clock # e # es2 @ es3).
        session_record ns (ci_OpID info) (ci_HostSystemID info) e'" using o(1) e(2) es3(2) by auto
    ultimately show ?thesis by blast
  qed
qed simp

text \<open>
  The session is recorded before the checks. Every machine found on a host under maintenance has
  had an active session ConfigMap written for its operation id, one per machine, before the control
  plane is looked at; so a reconcile that then finds the control plane unstable leaves an active
  session behind although nothing was evacuated.
\<close>

lemma vec_session_before_checks:
  assumes "run_state (findCPMachinesOnMaintenanceHosts E cl ns) s = (Inr found, t)" and "info \<in> set found"
  shows "\<exists>e \<in> set (drop (length (trace s)) (trace t)). session_record ns (ci_OpID info) (ci_HostSystemID info) e"
proof -
  obtain ms u where u: "run_state (find_cp_machines E ns ms) u = (found, t)"
    "trace u = trace s @ [Kube (CapiMachinesList (cl_Namespace cl) (cl_Name cl))]"
    using assms(1) by (auto simp: findCPMachinesOnMaintenanceHosts_def CapiMachines_List_def run_api
        split: sum.splits prod.splits)
  from find_records [OF u(1)] assms(2) u(2) show ?thesis by auto
qed

text \<open>
  C26: a session is completed only for a VM that acknowledged it. When the completion of a session
  writes the ConfigMap, it names a replacement VM, the status it writes is completed, and just before
  the ready tag of this operation, one that the readiness gate of the host looks for, was assigned
  to that VM with success.
\<close>

theorem vec_completes_after_ready_tag:
  assumes "run_state (tagReplacementVMAndCompleteSession E cl op) s = (r, t)"
    and "op \<noteq> []" and "\<not> tags_client_nil (maas E)"
    and "Kube (CMUpdate cm ok) \<in> set (drop (length (trace s)) (trace t))"
  shows "map_get (cm_Data cm) cmKeyNewVMSystemID \<noteq> [] \<and>
    map_get (cm_Data cm) cmKeyStatus = StatusCompleted \<and>
    (\<exists>es. trace t = es @ [Maas (TagAssign (BuildVMReadyOpTag op) (map_get (cm_Data cm) cmKeyNewVMSystemID) True),
       Kube (CMUpdate cm ok)]) \<and>
    HasPrefix (BuildVMReadyOpTag op) TagVMReadyOpPrefix \<and> (r = Inr () \<longleftrightarrow> ok)"
  using assms unfolding tagReplacementVMAndCompleteSession_def TagVMReadyOp_def
  by (auto simp: run_api call_defs Let_def session_key_defs BuildVMReadyOpTag_def is_ok_iff
      split: sum.splits if_splits)

section \<open>Witnesses\<close>

text \<open>
  A workload cluster with a stable control plane of three replicas and one control plane VM \<open>vm1\<close> on
  the host \<open>h\<close>, which is under maintenance.
\<close>

definition vec_env :: env where
  "vec_env = sample_env\<lparr>
     maas := sample_maas\<lparr>machine_get_r := (\<lambda>sid _. if sid = ''vm1'' then Inr vm1
       else Inr (sample_machine\<lparr>sdk_Tags := [TagHostMaintenance, TagHostNoSchedule, BuildOpTag ''op'']\<rparr>))\<rparr>,
     kube := sample_kube\<lparr>capi_machines_list_r := (\<lambda>_ _ _. Inr [sample_capi_machine]),
       maasmachine_get_r := (\<lambda>_ _ _. Inr (sample_mm\<lparr>mm_Spec := sample_spec\<lparr>ProviderID := Some ''maas:///az/vm1''\<rparr>\<rparr>))\<rparr>\<rparr>"

lemmas vec_eval = vec_Reconcile_def isWLCCluster_def getKubeadmControlPlane_def
  templateHasLXDEnabled_def GetMaasClientIdentity_def GetMAASCredentials_def listMaintenanceSessions_def
  vec_active_session_def vec_new_session_def findCPMachinesOnMaintenanceHosts_def check_cp_machine_def
  getVMHostSystemID_def host_op_def saveMaintenanceSession_def hasOtherCPBeingDeleted_def
  isKCPStable_def vec_execute_def vec_replicas_def deleteCPMachine_def call_defs run_api run_call
  Let_def vec_env_def sample_env_def sample_kube_def sample_maas_def sample_sys_def sample_cluster_def
  sample_kcp_def sample_template_def sample_mc_def sample_meta_def sample_capi_machine_def
  sample_spec_def sample_mm_def sample_machine_def vm1_def map_get_def
  extractSystemIDFromProviderID_def

lemma sample_op_tags:
  "HasPrefix (BuildOpTag ''op'') TagHostOpPrefix" "TrimPrefix (BuildOpTag ''op'') TagHostOpPrefix = ''op''"
  by (simp_all add: BuildOpTag_def)

lemma vec_run:
  "\<exists>r t. run_state (vec_Reconcile vec_env ''ns'' ''c-1'') sample_sys = (r, t) \<and>
     Kube (CapiMachineDelete ''cluster-1'' ''m-1'' True) \<in> set (trace t)"
  by (simp add: vec_eval sample_op_tags)

theorem vec_deletes_at_most_one_witness:
  "\<exists>t. last (trace t) = Kube (CapiMachineDelete ''cluster-1'' ''m-1'' True) \<and>
     length (filter is_delete (trace t)) = 1 \<and>
     t = snd (run_state (vec_Reconcile vec_env ''ns'' ''c-1'') sample_sys)"
proof -
  obtain r t where t: "run_state (vec_Reconcile vec_env ''ns'' ''c-1'') sample_sys = (r, t)"
    "Kube (CapiMachineDelete ''cluster-1'' ''m-1'' True) \<in> set (trace t)" using vec_run by blast
  have "Kube (CapiMachineDelete ''cluster-1'' ''m-1'' True) \<in> set (drop (length (trace sample_sys)) (trace t))"
    using t(2) by (simp add: sample_sys_def)
  from vec_deletes_at_most_one [OF t(1) this] t(1) show ?thesis by (simp add: sample_sys_def)
qed

definition stuck_cm :: configmap where
  "stuck_cm = \<lparr>cm_Namespace = ''cluster-1'', cm_Name = ''vec-maintenance-op'', cm_UID = ''u'',
     cm_Data = [(cmKeyOpID, ''op''), (cmKeyStatus, StatusActive), (cmKeyCurrentHost, ''h'')]\<rparr>"

definition stuck_env :: env where
  "stuck_env = vec_env\<lparr>kube := (kube vec_env)\<lparr>cm_list_r := (\<lambda>_ _. Inr [stuck_cm]),
     cm_get_r := (\<lambda>_ _ _. Inr stuck_cm)\<rparr>\<rparr>"

theorem vec_active_session_blocks_witness:
  "list_all vec_read (trace (snd (run_state (vec_Reconcile stuck_env ''ns'' ''c-1'') sample_sys)))"
proof -
  obtain r t where run: "run_state (vec_Reconcile stuck_env ''ns'' ''c-1'') sample_sys = (r, t)" by fastforce
  have "active_session_cm stuck_cm"
    by (simp add: active_session_cm_def stuck_cm_def VECMaintenanceConfigMapPrefix_def HasPrefix_def
        map_get_def session_key_defs)
  then have l: "\<exists>cms cm. cm_list_r (kube stuck_env) ns tr = Inr cms \<and> cm \<in> set cms \<and> active_session_cm cm" for ns tr
    by (simp add: stuck_env_def)
  have n: "cm_get_r (kube stuck_env) ns nm tr = Inr cm \<Longrightarrow> map_get (cm_Data cm) cmKeyNewVMSystemID = []" for ns nm tr cm
    by (auto simp: stuck_env_def stuck_cm_def map_get_def session_key_defs)
  from vec_active_session_blocks [OF l n run] run show ?thesis by (auto simp: sample_sys_def)
qed

lemma vec_session_before_checks_witness:
  "\<exists>e \<in> set (trace (snd (run_state (findCPMachinesOnMaintenanceHosts vec_env sample_cluster ''ns'') sample_sys))).
     session_record ''ns'' ''op'' ''h'' e"
proof -
  obtain t where run: "run_state (findCPMachinesOnMaintenanceHosts vec_env sample_cluster ''ns'') sample_sys =
      (Inr [\<lparr>ci_Machine = sample_capi_machine, ci_HostSystemID = ''h'', ci_OpID = ''op''\<rparr>], t)"
    by (simp add: vec_eval sample_op_tags)
  from vec_session_before_checks [OF run, of "\<lparr>ci_Machine = sample_capi_machine, ci_HostSystemID = ''h'', ci_OpID = ''op''\<rparr>"] run
  show ?thesis by (auto simp: sample_sys_def)
qed

definition done_env :: env where
  "done_env = stuck_env\<lparr>kube := (kube stuck_env)\<lparr>cm_get_r := (\<lambda>_ _ _. Inr (stuck_cm\<lparr>cm_Data :=
     [(cmKeyOpID, ''op''), (cmKeyStatus, StatusActive), (cmKeyNewVMSystemID, ''vm9'')]\<rparr>))\<rparr>\<rparr>"

theorem vec_completes_after_ready_tag_witness:
  "\<exists>t es cm. run_state (tagReplacementVMAndCompleteSession done_env sample_cluster ''op'') sample_sys = (Inr (), t) \<and>
     trace t = es @ [Maas (TagAssign (BuildVMReadyOpTag ''op'') ''vm9'' True), Kube (CMUpdate cm True)] \<and>
     map_get (cm_Data cm) cmKeyStatus = StatusCompleted"
proof -
  obtain t cm where t: "run_state (tagReplacementVMAndCompleteSession done_env sample_cluster ''op'') sample_sys = (Inr (), t)"
    "Kube (CMUpdate cm True) \<in> set (trace t)" "map_get (cm_Data cm) cmKeyNewVMSystemID = ''vm9''"
    by (simp add: tagReplacementVMAndCompleteSession_def TagVMReadyOp_def done_env_def stuck_env_def
        vec_eval session_key_defs) (auto simp: map_put_def)
  have "Kube (CMUpdate cm True) \<in> set (drop (length (trace sample_sys)) (trace t))"
    using t(2) by (simp add: sample_sys_def)
  moreover have "\<not> tags_client_nil (maas done_env)"
    by (simp add: done_env_def stuck_env_def vec_env_def sample_maas_def)
  ultimately show ?thesis using vec_completes_after_ready_tag [OF t(1)] t by (metis list.distinct(1))
qed

end
