(* ===== verification/Lxd_Daemonset.thy ===== *)
theory Lxd_Daemonset
  imports Cluster_Scope Guards
begin

text \<open>
  The DaemonSet that initialises LXD on the nodes of a workload cluster,
  \<open>controllers/lxd_initializer_ds.go\<close>: when it is created, patched and deleted, and what the
  controller puts on the target cluster before it. The rendered template comes from the build and
  the YAML parser from a library; both are parameters of the environment.
\<close>

section \<open>Strings and rendering\<close>

text \<open>\<open>strings.ReplaceAll\<close> and \<open>strings.Split\<close> for a non-empty pattern.\<close>

function ReplaceAll :: "string \<Rightarrow> string \<Rightarrow> string \<Rightarrow> string" where
  "ReplaceAll [] old new = []"
| "ReplaceAll (c # cs) old new =
     (if old \<noteq> [] \<and> prefix old (c # cs) then new @ ReplaceAll (drop (length old) (c # cs)) old new
      else c # ReplaceAll cs old new)"
  by pat_completeness auto
termination by (relation "measure (\<lambda>(s, _). length s)") (auto simp: Suc_le_eq)

function SplitStr :: "string \<Rightarrow> string \<Rightarrow> string \<Rightarrow> string list" where
  "SplitStr acc [] sep = [acc]"
| "SplitStr acc (c # cs) sep =
     (if sep \<noteq> [] \<and> prefix sep (c # cs) then acc # SplitStr [] (drop (length sep) (c # cs)) sep
      else SplitStr (acc @ [c]) cs sep)"
  by pat_completeness auto
termination by (relation "measure (\<lambda>(_, s, _). length s)") (auto simp: Suc_le_eq)

text \<open>The range over the replacements visits them in an order the runtime chooses.\<close>

definition render :: "env \<Rightarrow> strmap \<Rightarrow> string \<Rightarrow> string io" where
  "render E replacements tmpl = do {
     ks \<leftarrow> range_keys E (map fst replacements);
     ret (fold (\<lambda>k t. ReplaceAll t k (map_get replacements k)) ks tmpl) }"

definition newline :: string where "newline = [CHR 0x0A]"

definition lxdInitRBACTemplate :: string where
  "lxdInitRBACTemplate = Join [''---'', ''apiVersion: v1'', ''kind: ServiceAccount'', ''metadata:'',
     ''  name: lxd-initializer'', ''  labels:'', ''    app: lxd-initializer'',
     ''    cluster.x-k8s.io/provider: infrastructure-maas'', ''---'',
     ''apiVersion: rbac.authorization.k8s.io/v1'', ''kind: ClusterRole'', ''metadata:'',
     ''  name: lxd-initializer'', ''  labels:'', ''    app: lxd-initializer'',
     ''    cluster.x-k8s.io/provider: infrastructure-maas'', ''rules:'', ''- apiGroups: [\"\"]'',
     ''  resources: [\"nodes\"]'', ''  verbs: [\"get\", \"list\", \"watch\", \"patch\", \"update\"]'',
     ''- apiGroups: [\"\"]'', ''  resources: [\"secrets\"]'', ''  verbs: [\"list\"]'', ''---'',
     ''apiVersion: rbac.authorization.k8s.io/v1'', ''kind: ClusterRoleBinding'', ''metadata:'',
     ''  name: lxd-initializer'', ''  labels:'', ''    app: lxd-initializer'',
     ''    cluster.x-k8s.io/provider: infrastructure-maas'', ''roleRef:'',
     ''  apiGroup: rbac.authorization.k8s.io'', ''  kind: ClusterRole'', ''  name: lxd-initializer'',
     ''subjects:'', ''- kind: ServiceAccount'', ''  name: lxd-initializer'', ''  namespace: default''] newline"

section \<open>What goes to the target cluster first\<close>

definition ensureNamespaceOnTarget :: "env \<Rightarrow> string \<Rightarrow> unit res io" where
  "ensureNamespaceOnTarget E namespace =
     (if namespace = [] \<or> namespace = ''default'' then ret (Inr ()) else Namespace_Apply E namespace)"

definition ensureLXDInitializerCredentialsOnTarget :: "env \<Rightarrow> string \<Rightarrow> unit res io" where
  "ensureLXDInitializerCredentialsOnTarget E namespace = do {
     r \<leftarrow> GetMAASCredentials E False namespace;
     case r of
       Inl e \<Rightarrow> ret (Inl (Wrapped ''failed to read MAAS credentials on management cluster'' e))
     | Inr (endpoint, apiKey) \<Rightarrow> Secret_Apply E namespace endpoint apiKey }"

fun apply_docs :: "env \<Rightarrow> string list \<Rightarrow> unit res io" where
  "apply_docs E [] = ret (Inr ())"
| "apply_docs E (d # ds) =
     (if TrimSpace d = [] then apply_docs E ds
      else case yaml_Object (lib_of E) (TrimSpace d) of
        None \<Rightarrow> ret (Inl (ErrorString ''failed to unmarshal RBAC resource''))
      | Some (kind, nm) \<Rightarrow> do {
          r \<leftarrow> RBAC_Apply E kind nm;
          case r of
            Inl e \<Rightarrow> ret (Inl (ErrorString (''failed to create/patch '' @ kind @ '' '' @ nm @ '': '' @ err_Error e)))
          | Inr _ \<Rightarrow> apply_docs E ds })"

definition ensureLXDInitializerRBACOnTarget :: "env \<Rightarrow> string \<Rightarrow> unit res io" where
  "ensureLXDInitializerRBACOnTarget E namespace =
     apply_docs E (SplitStr [] (ReplaceAll lxdInitRBACTemplate ''namespace: default'' (''namespace: '' @ namespace)) ''---'')"

definition getTargetClient :: "env \<Rightarrow> capi_cluster \<Rightarrow> unit res io" where
  "getTargetClient E cl = do {
     r \<leftarrow> GetWorkloadClusterClient E cl;
     ret (case r of Inl e \<Rightarrow> Inl (ErrorString (''failed to get target cluster client: '' @ err_Error e))
          | Inr _ \<Rightarrow> Inr ()) }"

section \<open>How many nodes there should be\<close>

definition positive_replicas :: "int option \<Rightarrow> 32 word option" where
  "positive_replicas v = (case v of None \<Rightarrow> None
     | Some n \<Rightarrow> if n > 0 then Some (SafeInt64ToInt32 (word_of_int n)) else None)"

definition computeDesiredControlPlane :: "env \<Rightarrow> string \<Rightarrow> string \<Rightarrow> (32 word \<times> 32 word) io" where
  "computeDesiredControlPlane E namespace clusterName = do {
     r \<leftarrow> KCPs_List E namespace clusterName;
     ret (case r of
        Inr (item # _) \<Rightarrow>
          (case positive_replicas (kcp_specReplicas item) of None \<Rightarrow> 1 | Some v \<Rightarrow> v,
           case kcp_readyReplicas item of None \<Rightarrow> 0
             | Some v \<Rightarrow> if v \<ge> 0 then SafeInt64ToInt32 (word_of_int v) else 0)
      | _ \<Rightarrow> (1, 0)) }"

definition int_or_0 :: "int option \<Rightarrow> int" where
  "int_or_0 v = (case v of None \<Rightarrow> 0 | Some n \<Rightarrow> n)"

definition controlPlaneReady :: "env \<Rightarrow> capi_cluster \<Rightarrow> bool io" where
  "controlPlaneReady E cl = (case cl_ControlPlaneRef cl of
       None \<Rightarrow> ret False
     | Some ref \<Rightarrow> do {
         r \<leftarrow> KCP_Get E (cl_Namespace cl) ref;
         case r of
           Inl _ \<Rightarrow> ret False
         | Inr cp \<Rightarrow>
             let replicas = int_or_0 (kcp_specReplicas cp)
             in if replicas = 0 then ret False
                else if int_or_0 (kcp_observedGeneration cp) < int_or_0 (kcp_generation cp) then ret False
                else if int_or_0 (kcp_unavailableReplicas cp) > 0 then ret False
                else if int_or_0 (kcp_readyReplicas cp) < replicas then ret False
                else ret True })"

definition sum_replicas :: "int option list \<Rightarrow> 32 word" where
  "sum_replicas vs = fold (\<lambda>v total. case positive_replicas v of None \<Rightarrow> total | Some w \<Rightarrow> total + w) vs 0"

definition desiredWorkerReplicas :: "env \<Rightarrow> string \<Rightarrow> string \<Rightarrow> 32 word io" where
  "desiredWorkerReplicas E namespace clusterName = do {
     r \<leftarrow> MDs_List E namespace clusterName;
     ret (case r of Inl _ \<Rightarrow> 0 | Inr items \<Rightarrow> sum_replicas items) }"

section \<open>Which nodes are initialised\<close>

definition node_initialized :: "node \<Rightarrow> bool" where
  "node_initialized n = (map_get (n_Labels n) ''lxdhost.cluster.com/initialized'' = ''true'')"

definition anyNodeNeedsInitialization :: "env \<Rightarrow> bool io" where
  "anyNodeNeedsInitialization E = do {
     r \<leftarrow> Nodes_List E;
     ret (case r of
        Inl _ \<Rightarrow> True
      | Inr nodes \<Rightarrow> nodes = [] \<or> list_ex (\<lambda>n. n_Ready n \<and> \<not> node_initialized n) nodes) }"

primrec delete_all_ds :: "env \<Rightarrow> string \<Rightarrow> string list \<Rightarrow> unit res io" where
  "delete_all_ds E ns [] = ret (Inr ())"
| "delete_all_ds E ns (d # ds) = do {
     r \<leftarrow> DaemonSet_Delete E ns d;
     case r of
       Inl e \<Rightarrow> ret (Inl (ErrorString (''failed to delete DaemonSet '' @ d @ '': '' @ err_Error e)))
     | Inr _ \<Rightarrow> delete_all_ds E ns ds }"

definition deleteExistingInitializerDS :: "env \<Rightarrow> string \<Rightarrow> unit res io" where
  "deleteExistingInitializerDS E namespace = do {
     r \<leftarrow> DaemonSets_List E namespace ''lxd-initializer'';
     case r of
       Inl e \<Rightarrow> ret (Inl (ErrorString (''failed to list DaemonSets: '' @ err_Error e)))
     | Inr ds \<Rightarrow> delete_all_ds E namespace ds }"

primrec try_delete_ds :: "env \<Rightarrow> string \<Rightarrow> string list \<Rightarrow> unit io" where
  "try_delete_ds E ns [] = ret ()"
| "try_delete_ds E ns (d # ds) = do { _ \<leftarrow> DaemonSet_Delete E ns d; try_delete_ds E ns ds }"

text \<open>\<open>int32(totalNodes) >= desiredTotal\<close> compares two signed 32-bit values.\<close>

definition enough_nodes :: "node list \<Rightarrow> 32 word \<Rightarrow> bool" where
  "enough_nodes nodes desiredTotal =
     (length (filter node_initialized nodes) = length nodes \<and>
      sint desiredTotal \<le> sint (word_of_int (int (length nodes)) :: 32 word))"

definition maybeShortCircuitDelete :: "env \<Rightarrow> string \<Rightarrow> 32 word \<Rightarrow> string \<Rightarrow> bool res io" where
  "maybeShortCircuitDelete E namespace desiredTotal dsName = do {
     r \<leftarrow> Nodes_List E;
     case r of
       Inl _ \<Rightarrow> ret (Inr False)
     | Inr nodes \<Rightarrow>
         if nodes = [] \<or> \<not> enough_nodes nodes desiredTotal then ret (Inr False)
         else do {
           r \<leftarrow> DaemonSets_List E namespace dsName;
           (case r of Inl _ \<Rightarrow> ret () | Inr ds \<Rightarrow> try_delete_ds E namespace ds);
           ret (Inr True) } }"

section \<open>The DaemonSet\<close>

definition or_default :: "string \<Rightarrow> string \<Rightarrow> string" where
  "or_default s d = (if s = [] then d else s)"

definition ds_replacements :: "lib \<Rightarrow> string \<Rightarrow> lxd_config \<Rightarrow> strmap" where
  "ds_replacements L uid cfg = [
     (''${STORAGE_BACKEND}'', or_default (lc_StorageBackend cfg) ''zfs''),
     (''${STORAGE_SIZE}'', or_default (lc_StorageSize cfg) ''50''),
     (''${NETWORK_BRIDGE}'', lc_NetworkBridge cfg),
     (''${SKIP_NETWORK_UPDATE}'', if lc_SkipNetworkUpdate cfg = Some False then ''false'' else ''true''),
     (''${TRUST_PASSWORD}'', DeriveTrustPassword L uid),
     (''${NIC_TYPE}'', or_default (lc_NICType cfg) ''bridged''),
     (''${NIC_PARENT}'', lc_NICParent cfg)]"

text \<open>The names and labels that tie the DaemonSet to its cluster; writing to a nil map panics.\<close>

definition rename_ds :: "string \<Rightarrow> string \<Rightarrow> daemonset \<Rightarrow> daemonset res" where
  "rename_ds dsName namespace ds = (case (ds_Selector ds, ds_TemplateLabels ds) of
       (Some sel, Some labels) \<Rightarrow> Inr (ds\<lparr>ds_Name := dsName, ds_Labels := map_put ''app'' dsName (ds_Labels ds),
         ds_Selector := Some (map_put ''app'' dsName sel),
         ds_TemplateLabels := Some (map_put ''app'' dsName labels), ds_Namespace := namespace\<rparr>)
     | _ \<Rightarrow> Inl (GoPanic ''assignment to entry in nil map''))"

definition renderDaemonSetForCluster :: "env \<Rightarrow> string \<Rightarrow> string \<Rightarrow> daemonset res io" where
  "renderDaemonSetForCluster E dsName namespace = do {
     mc \<leftarrow> gets the_mc;
     case GetLXDConfig mc of
       None \<Rightarrow> ret (Inl (GoPanic ''nil pointer dereference: LXDConfig''))
     | Some cfg \<Rightarrow> do {
         rendered \<leftarrow> render E (ds_replacements (lib_of E) (om_UID (mc_Meta mc)) cfg) (lxdInitTemplate (lib_of E));
         ret (case yaml_DaemonSet (lib_of E) rendered of
            None \<Rightarrow> Inl (ErrorString ''yaml: unmarshal errors'')
          | Some ds \<Rightarrow> rename_ds dsName namespace ds) } }"

text \<open>The mutate function of \<open>CreateOrPatch\<close>: an existing selector is kept and labels the template.\<close>

definition merge_ds :: "daemonset \<Rightarrow> daemonset \<Rightarrow> daemonset" where
  "merge_ds ds current =
     (let sel = (if ds_Selector current = None \<or> ds_Selector current = Some [] then ds_Selector ds
                 else ds_Selector current);
          labels = (case ds_TemplateLabels ds of None \<Rightarrow> [] | Some l \<Rightarrow> l)
      in current\<lparr>ds_Labels := ds_Labels ds, ds_Annotations := ds_Annotations ds,
           ds_Template := ds_Template ds, ds_UpdateStrategy := ds_UpdateStrategy ds,
           ds_MinReadySeconds := ds_MinReadySeconds ds, ds_RevisionHistoryLimit := ds_RevisionHistoryLimit ds,
           ds_Selector := sel,
           ds_TemplateLabels := (case sel of
              Some (kv # kvs) \<Rightarrow> Some (fold (\<lambda>(k, v). map_put k v) (kv # kvs) labels)
            | _ \<Rightarrow> ds_TemplateLabels ds)\<rparr>)"

definition empty_ds :: "string \<Rightarrow> string \<Rightarrow> daemonset" where
  "empty_ds ns nm = \<lparr>ds_Name = nm, ds_Namespace = ns, ds_Labels = [], ds_Annotations = [],
     ds_Selector = None, ds_TemplateLabels = None, ds_Template = [], ds_UpdateStrategy = [],
     ds_MinReadySeconds = 0, ds_RevisionHistoryLimit = None\<rparr>"

text \<open>controller-runtime's \<open>CreateOrPatch\<close>: read, mutate, then create or patch when something changed.\<close>

definition CreateOrPatch_ds :: "env \<Rightarrow> string \<Rightarrow> string \<Rightarrow> (daemonset \<Rightarrow> daemonset) \<Rightarrow> unit res io" where
  "CreateOrPatch_ds E ns nm mutate = do {
     r \<leftarrow> DaemonSet_Get E ns nm;
     case r of
       Inl e \<Rightarrow> if IsNotFound e then DaemonSet_Apply E (mutate (empty_ds ns nm)) else ret (Inl e)
     | Inr current \<Rightarrow> if mutate current = current then ret (Inr ()) else DaemonSet_Apply E (mutate current) }"

definition apply_ds :: "env \<Rightarrow> string \<Rightarrow> string \<Rightarrow> unit res io" where
  "apply_ds E dsName dsNamespace =
     ok_then (renderDaemonSetForCluster E dsName dsNamespace) (\<lambda>ds.
       CreateOrPatch_ds E dsNamespace dsName (merge_ds ds))"

definition fmt_err :: "string \<Rightarrow> unit res io \<Rightarrow> unit res io" where
  "fmt_err msg m = do {
     r \<leftarrow> m;
     ret (case r of Inl e \<Rightarrow> Inl (ErrorString (msg @ err_Error e)) | Inr _ \<Rightarrow> Inr ()) }"

text \<open>The part of \<open>ensureLXDInitializerDS\<close> after the gates: some node needs initialization.\<close>

definition deploy_ds :: "env \<Rightarrow> string \<Rightarrow> string \<Rightarrow> 32 word \<Rightarrow> unit res io" where
  "deploy_ds E dsName dsNamespace desiredTotal =
     ok_then (deleteExistingInitializerDS E dsNamespace) (\<lambda>_.
     ok_then (fmt_err (''failed to ensure namespace '' @ dsNamespace @ '' on target: '')
                (ensureNamespaceOnTarget E dsNamespace)) (\<lambda>_.
     ok_then (fmt_err ''failed to ensure MAAS credentials on target: ''
                (ensureLXDInitializerCredentialsOnTarget E dsNamespace)) (\<lambda>_.
     ok_then (fmt_err ''failed to ensure LXD initializer RBAC: ''
                (ensureLXDInitializerRBACOnTarget E dsNamespace)) (\<lambda>_.
     ok_then (maybeShortCircuitDelete E dsNamespace desiredTotal dsName) (\<lambda>done.
       if done then ret (Inr ()) else apply_ds E dsName dsNamespace)))))"

definition initializer_gates :: "env \<Rightarrow> capi_cluster \<Rightarrow> maas_cluster \<Rightarrow> unit res io" where
  "initializer_gates E cl mc =
     (let dsName = ''lxd-initializer-'' @ om_Name (mc_Meta mc);
          dsNamespace = om_Namespace (mc_Meta mc)
      in ok_then (getTargetClient E cl) (\<lambda>_.
       if \<not> IsLXDHostEnabled mc \<or> om_DeletionTimestamp (mc_Meta mc) \<noteq> None then ret (Inr ())
       else do {
         ready \<leftarrow> controlPlaneReady E cl;
         if \<not> ready then ret (Inr ())
         else do {
           desired \<leftarrow> computeDesiredControlPlane E dsNamespace (om_Name (mc_Meta mc));
           workers \<leftarrow> desiredWorkerReplicas E dsNamespace (om_Name (mc_Meta mc));
           needed \<leftarrow> anyNodeNeedsInitialization E;
           if \<not> needed then
             ok_then (maybeShortCircuitDelete E dsNamespace (fst desired + workers) dsName) (\<lambda>_. ret (Inr ()))
           else deploy_ds E dsName dsNamespace (fst desired + workers) } }))"

definition ensureLXDInitializerDS :: "env \<Rightarrow> capi_cluster \<Rightarrow> unit res io" where
  "ensureLXDInitializerDS E cl = do {
     mc \<leftarrow> gets the_mc;
     initializer_gates E cl mc }"

section \<open>The selector\<close>

lemma merge_ds_labels:
  "ds_Selector (merge_ds ds current) = Some sel \<Longrightarrow> sel \<noteq> [] \<Longrightarrow>
   \<exists>m. ds_TemplateLabels (merge_ds ds current) = Some (fold (\<lambda>(k, v). map_put k v) sel m)"
  unfolding merge_ds_def Let_def by (cases sel) (auto split: if_splits)

text \<open>
  The DaemonSet that is written is one Kubernetes accepts. The selector, which is immutable, is
  kept when there is one, and the labels of the pod template match it, whatever the template says.
\<close>

lemma merge_ds_selector:
  assumes "ds_Selector (merge_ds ds current) = Some sel" "distinct (map fst sel)"
  shows "(ds_Selector current \<noteq> None \<and> ds_Selector current \<noteq> Some [] \<longrightarrow> ds_Selector current = Some sel) \<and>
    (map_of sel k = Some v \<longrightarrow>
       (\<exists>labels. ds_TemplateLabels (merge_ds ds current) = Some labels \<and> map_of labels k = Some v))"
proof
  show "ds_Selector current \<noteq> None \<and> ds_Selector current \<noteq> Some [] \<longrightarrow> ds_Selector current = Some sel"
    using assms(1) by (auto simp: merge_ds_def Let_def split: if_splits)
next
  show "map_of sel k = Some v \<longrightarrow>
      (\<exists>labels. ds_TemplateLabels (merge_ds ds current) = Some labels \<and> map_of labels k = Some v)"
    using merge_ds_labels [OF assms(1)] map_of_fold_put_distinct [OF assms(2)] by (cases "sel = []") fastforce+
qed

section \<open>How many nodes there should be\<close>

definition replicas_of :: "int option \<Rightarrow> int" where
  "replicas_of v = (case v of None \<Rightarrow> 0 | Some n \<Rightarrow> max 0 n)"

lemma sint_small:
  assumes "0 \<le> n" "n < 2 ^ 31"
  shows "sint (word_of_int n :: 64 word) = n" "sint (word_of_int n :: 32 word) = n"
  using assms by (transfer, subst signed_take_bit_int_eq_self; simp)+

lemma SafeInt64_small:
  assumes "0 \<le> n" "n < 2 ^ 31" shows "SafeInt64ToInt32 (word_of_int n) = word_of_int n"
proof -
  have "sint MaxInt32 = 2147483647" "sint MinInt32 = - 2147483648"
    unfolding MaxInt32_def MinInt32_def by (transfer, subst signed_take_bit_int_eq_self; simp)+
  then show ?thesis
    using assms sint_small [OF assms] by (simp add: SafeInt64ToInt32_def scast_eq)
qed

lemma sum_replicas_word:
  assumes "\<forall>v \<in> set vs. replicas_of v < 2 ^ 31"
  shows "fold (\<lambda>v total. case positive_replicas v of None \<Rightarrow> total | Some w \<Rightarrow> total + w) vs w =
    w + word_of_int (\<Sum>v\<leftarrow>vs. replicas_of v)"
  using assms
proof (induction vs arbitrary: w)
  case (Cons v vs)
  show ?case
  proof (cases "v = None \<or> (\<exists>n. v = Some n \<and> n \<le> 0)")
    case True
    then have "positive_replicas v = None" "replicas_of v = 0"
      by (auto simp: positive_replicas_def replicas_of_def)
    with Cons show ?thesis by simp
  next
    case False
    then obtain n where n: "v = Some n" "n > 0" by (cases v) auto
    with Cons.prems have "positive_replicas v = Some (word_of_int n)" "replicas_of v = n"
      using SafeInt64_small [of n] by (auto simp: positive_replicas_def replicas_of_def)
    with Cons show ?thesis by simp
  qed
qed simp

lemma replicas_sum_bound:
  "(\<Sum>v\<leftarrow>vs. replicas_of v) < b \<Longrightarrow> v \<in> set vs \<Longrightarrow> replicas_of v < b"
proof (induction vs)
  case (Cons a vs)
  have "0 \<le> replicas_of a" "0 \<le> (\<Sum>v\<leftarrow>vs. replicas_of v)"
    by (auto simp: replicas_of_def intro!: sum_list_nonneg split: option.splits)
  with Cons show ?case by auto
qed simp

lemma sum_replicas_of_int:
  "(\<Sum>v\<leftarrow>vs. replicas_of v) < 2 ^ 31 \<Longrightarrow> sum_replicas vs = word_of_int (\<Sum>v\<leftarrow>vs. replicas_of v)"
  unfolding sum_replicas_def using sum_replicas_word [of vs 0] replicas_sum_bound by simp

text \<open>
  C38: the node count that allows the DaemonSet to be torn down is computed in 32 bits. As long as
  the desired total and the number of nodes fit, the test says what it should: every node is
  initialised and there are at least as many nodes as control plane and worker replicas together.
\<close>

theorem enough_nodes_exact:
  assumes "0 \<le> cp" "cp + (\<Sum>v\<leftarrow>vs. replicas_of v) < 2 ^ 31" "int (length nodes) < 2 ^ 31"
  shows "enough_nodes nodes (word_of_int cp + sum_replicas vs) \<longleftrightarrow>
    (\<forall>n \<in> set nodes. node_initialized n) \<and> cp + (\<Sum>v\<leftarrow>vs. replicas_of v) \<le> int (length nodes)"
proof -
  let ?S = "\<Sum>v\<leftarrow>vs. replicas_of v"
  have S: "0 \<le> ?S" by (auto simp: replicas_of_def intro!: sum_list_nonneg split: option.splits)
  have w: "word_of_int cp + sum_replicas vs = word_of_int (cp + ?S)"
    using assms sum_replicas_of_int [of vs] by simp
  have i: "sint (word_of_int (cp + ?S) :: 32 word) = cp + ?S"
    "sint (word_of_int (int (length nodes)) :: 32 word) = int (length nodes)"
    using assms S by (intro sint_small(2); simp)+
  have "length (filter node_initialized nodes) = length nodes \<longleftrightarrow> (\<forall>n \<in> set nodes. node_initialized n)"
    by (metis filter_True length_filter_less less_irrefl)
  with w i show ?thesis by (simp add: enough_nodes_def)
qed

text \<open>Beyond that the sum wraps: a total of two to the 31 reads as a negative one.\<close>

lemma enough_nodes_wraps:
  "enough_nodes nodes (1 + sum_replicas [Some (2 ^ 31 - 1)]) \<longleftrightarrow>
   (\<forall>n \<in> set nodes. node_initialized n)"
  if "int (length nodes) < 2 ^ 31"
proof -
  have "sum_replicas [Some (2 ^ 31 - 1)] = word_of_int (2 ^ 31 - 1)"
    by (subst sum_replicas_of_int) (simp_all add: replicas_of_def)
  moreover have "sint (1 + word_of_int (2 ^ 31 - 1) :: 32 word) = - (2 ^ 31)" by code_simp
  moreover have "sint (word_of_int (int (length nodes)) :: 32 word) = int (length nodes)"
    using that by (intro sint_small) simp_all
  moreover have "length (filter node_initialized nodes) = length nodes \<longleftrightarrow> (\<forall>n \<in> set nodes. node_initialized n)"
    by (metis filter_True length_filter_less less_irrefl)
  ultimately show ?thesis by (simp add: enough_nodes_def)
qed

definition sample_node :: node where
  "sample_node = \<lparr>n_Name = ''node-1'', n_Labels = [(''lxdhost.cluster.com/initialized'', ''true'')],
     n_Ready = True, n_ProviderID = []\<rparr>"

theorem enough_nodes_exact_witness:
  "enough_nodes [sample_node, sample_node] (word_of_int 1 + sum_replicas [Some 1]) \<and>
   \<not> enough_nodes [sample_node, sample_node] (word_of_int 1 + sum_replicas [Some 2])"
proof -
  have i: "node_initialized sample_node" by (simp add: node_initialized_def sample_node_def map_get_def)
  have r: "replicas_of (Some 1) = 1" "replicas_of (Some 2) = 2" by (simp_all add: replicas_of_def)
  show ?thesis
    using enough_nodes_exact [of 1 "[Some 1]" "[sample_node, sample_node]"]
      enough_nodes_exact [of 1 "[Some 2]" "[sample_node, sample_node]"] i r by simp
qed

section \<open>The gates\<close>

fun is_ds_apply :: "event \<Rightarrow> bool" where
  "is_ds_apply (Remote (DaemonSetApply ds ok)) = True"
| "is_ds_apply _ = False"

definition kcp_available :: "kcp \<Rightarrow> bool" where
  "kcp_available cp \<longleftrightarrow> int_or_0 (kcp_specReplicas cp) \<noteq> 0 \<and>
     int_or_0 (kcp_generation cp) \<le> int_or_0 (kcp_observedGeneration cp) \<and>
     int_or_0 (kcp_unavailableReplicas cp) \<le> 0 \<and>
     int_or_0 (kcp_specReplicas cp) \<le> int_or_0 (kcp_readyReplicas cp)"

lemma controlPlaneReady_true:
  assumes "run_state (controlPlaneReady E cl) s = (True, t)"
  shows "\<exists>ref tr cp. cl_ControlPlaneRef cl = Some ref \<and>
    kcp_get_r (kube E) (cl_Namespace cl) ref tr = Inr cp \<and> kcp_available cp"
  using assms unfolding controlPlaneReady_def KCP_Get_def kcp_available_def Let_def
  by (auto simp: run_api not_less split: option.splits sum.splits if_splits)

lemma anyNode_true:
  assumes "run_state (anyNodeNeedsInitialization E) s = (True, t)"
  shows "\<exists>tr. case nodes_list_r (remote E) tr of Inl _ \<Rightarrow> True
    | Inr nodes \<Rightarrow> nodes = [] \<or> (\<exists>n \<in> set nodes. n_Ready n \<and> \<not> node_initialized n)"
  using assms unfolding anyNodeNeedsInitialization_def Nodes_List_def
  by (auto simp: run_api list_ex_iff split: sum.splits intro!: exI [of _ "trace s"])

lemma no_apply_delete: "emits (\<lambda>e. \<not> is_ds_apply e) (delete_all_ds E ns ds)"
  "emits (\<lambda>e. \<not> is_ds_apply e) (try_delete_ds E ns ds)"
  by (induction ds) (auto simp: call_defs intro!: emits_intros)

lemma no_apply_docs: "emits (\<lambda>e. \<not> is_ds_apply e) (apply_docs E docs)"
  by (induction E docs rule: apply_docs.induct) (auto simp: call_defs intro!: emits_intros)

lemmas ds_small_defs = deleteExistingInitializerDS_def fmt_err_def ensureNamespaceOnTarget_def
  ensureLXDInitializerCredentialsOnTarget_def ensureLXDInitializerRBACOnTarget_def
  maybeShortCircuitDelete_def getTargetClient_def GetWorkloadClusterClient_def controlPlaneReady_def
  computeDesiredControlPlane_def desiredWorkerReplicas_def anyNodeNeedsInitialization_def
  GetMAASCredentials_def

lemma no_apply_small:
  "emits (\<lambda>e. \<not> is_ds_apply e) (deleteExistingInitializerDS E ns)"
  "emits (\<lambda>e. \<not> is_ds_apply e) (fmt_err m1 (ensureNamespaceOnTarget E ns))"
  "emits (\<lambda>e. \<not> is_ds_apply e) (fmt_err m2 (ensureLXDInitializerCredentialsOnTarget E ns))"
  "emits (\<lambda>e. \<not> is_ds_apply e) (fmt_err m3 (ensureLXDInitializerRBACOnTarget E ns))"
  "emits (\<lambda>e. \<not> is_ds_apply e) (maybeShortCircuitDelete E ns d nm)"
  "emits (\<lambda>e. \<not> is_ds_apply e) (getTargetClient E cl)"
  "emits (\<lambda>e. \<not> is_ds_apply e) (controlPlaneReady E cl)"
  "emits (\<lambda>e. \<not> is_ds_apply e) (computeDesiredControlPlane E ns nm)"
  "emits (\<lambda>e. \<not> is_ds_apply e) (desiredWorkerReplicas E ns nm)"
  "emits (\<lambda>e. \<not> is_ds_apply e) (anyNodeNeedsInitialization E)"
  unfolding ds_small_defs call_defs Let_def by (intro emits_intros no_apply_delete no_apply_docs; simp)+

lemma any_emits:
  "emits any_event (CreateOrPatch_ds E ns nm f)" "emits any_event (apply_ds E nm ns)"
  "emits any_event (deploy_ds E nm ns d)"
  unfolding apply_ds_def CreateOrPatch_ds_def deploy_ds_def renderDaemonSetForCluster_def render_def call_defs
  by (intro emits_intros TrueI emits_mono [OF no_apply_small(1)] emits_mono [OF no_apply_small(2)]
      emits_mono [OF no_apply_small(3)] emits_mono [OF no_apply_small(4)] emits_mono [OF no_apply_small(5)])+

lemma credentials_written:
  assumes "run_state (fmt_err m (ensureLXDInitializerCredentialsOnTarget E ns)) s = (Inr x, t)"
  shows "\<exists>zs ep key. trace t = trace s @ zs @ [Remote (SecretApply ns ep key True)]"
proof -
  from assms obtain u where u: "run_state (ensureLXDInitializerCredentialsOnTarget E ns) s = (Inr (), t)"
    unfolding fmt_err_def by (auto split: prod.splits sum.splits)
  obtain c v where c: "run_state (GetMAASCredentials E False ns) s = (c, v)" by fastforce
  have "emits any_event (GetMAASCredentials E False ns)"
    unfolding GetMAASCredentials_def call_defs Let_def by (intro emits_intros TrueI)
  from emitsD [OF this c] obtain zs where "trace v = trace s @ zs" by blast
  with u c show ?thesis
    unfolding ensureLXDInitializerCredentialsOnTarget_def Secret_Apply_def
    by (auto simp: run_api split: sum.splits)
qed

lemma rename_ds_app:
  "rename_ds nm ns ds = Inr ds' \<Longrightarrow> map_get (ds_Labels (merge_ds ds' c)) ''app'' = nm"
  by (auto simp: rename_ds_def merge_ds_def Let_def split: option.splits)

lemma ds_apply_late: "\<not> \<not> is_ds_apply (Remote (DaemonSetApply ds ok))"
  by simp

lemma apply_ds_labels:
  "before (Remote (DaemonSetApply ds ok)) (\<lambda>_. map_get (ds_Labels ds) ''app'' = nm) (apply_ds E nm ns)"
  unfolding apply_ds_def
proof (rule before_ok_then [where P = "\<lambda>e. \<not> is_ds_apply e"])
  show "emits (\<lambda>e. \<not> is_ds_apply e) (renderDaemonSetForCluster E nm ns)"
    unfolding renderDaemonSetForCluster_def render_def call_defs by (intro emits_intros; simp)
next
  fix s d u
  assume "run_state (renderDaemonSetForCluster E nm ns) s = (Inr d, u)"
  then obtain ds0 where "rename_ds nm ns ds0 = Inr d"
    unfolding renderDaemonSetForCluster_def by (auto split: option.splits prod.splits)
  then have lab: "map_get (ds_Labels (merge_ds d c)) ''app'' = nm" for c by (rule rename_ds_app)
  show "before (Remote (DaemonSetApply ds ok)) (\<lambda>us. map_get (ds_Labels ds) ''app'' = nm)
      (CreateOrPatch_ds E ns nm (merge_ds d))"
  proof (rule beforeI)
    fix v r t xs ys
    assume "run_state (CreateOrPatch_ds E ns nm (merge_ds d)) v = (r, t)"
      "trace t = trace v @ xs @ Remote (DaemonSetApply ds ok) # ys"
    then have "\<exists>c. ds = merge_ds d c"
      unfolding CreateOrPatch_ds_def DaemonSet_Get_def DaemonSet_Apply_def
      by (auto simp: run_api append_eq_Cons_conv Cons_eq_append_conv split: sum.splits if_splits)
    with lab show "map_get (ds_Labels ds) ''app'' = nm" by auto
  qed
qed (simp, rule any_emits)

lemma deploy_ds_spec:
  "before (Remote (DaemonSetApply ds ok)) (\<lambda>xs. (\<exists>ep key. Remote (SecretApply ns ep key True) \<in> set xs) \<and>
     map_get (ds_Labels ds) ''app'' = nm) (deploy_ds E nm ns d)"
proof -
  note any = emits_intros TrueI any_emits emits_mono [OF no_apply_small(1)] emits_mono [OF no_apply_small(2)]
    emits_mono [OF no_apply_small(3)] emits_mono [OF no_apply_small(4)] emits_mono [OF no_apply_small(5)]
  show ?thesis
    unfolding deploy_ds_def
    apply (rule before_ok_then [OF no_apply_small(1) ds_apply_late], (intro any; simp))
    apply (rule before_ok_then [OF no_apply_small(2) ds_apply_late], (intro any; simp))
    apply (rule before_ok_then [OF no_apply_small(3) ds_apply_late], (intro any; simp))
    apply (rule before_ok_then [OF no_apply_small(4) ds_apply_late], (intro any; simp))
    apply (rule before_ok_then [OF no_apply_small(5) ds_apply_late], (intro any; simp))
    apply (rule before_if [OF before_ret], rule before_mono [OF apply_ds_labels])
    using credentials_written by fastforce
qed

text \<open>
  C16: the initializer is only deployed through its gates. If a reconcile writes the DaemonSet to the
  target cluster, then LXD is enabled, the cluster is not being deleted, the control plane was read
  as current and fully available, a reading of the nodes failed, was empty or showed a ready node
  without the label, the MAAS credentials had been written to the target before, and the DaemonSet
  carries the label of this cluster.
\<close>

theorem initializer_deployed_through_gates:
  assumes run: "run_state (ensureLXDInitializerDS E cl) s = (r, t)"
    and new: "trace t = trace s @ xs @ Remote (DaemonSetApply ds ok) # ys"
  shows "IsLXDHostEnabled (the_mc s) \<and> om_DeletionTimestamp (mc_Meta (the_mc s)) = None \<and>
    (\<exists>ref tr cp. cl_ControlPlaneRef cl = Some ref \<and>
       kcp_get_r (kube E) (cl_Namespace cl) ref tr = Inr cp \<and> kcp_available cp) \<and>
    (\<exists>tr. case nodes_list_r (remote E) tr of Inl _ \<Rightarrow> True
       | Inr nodes \<Rightarrow> nodes = [] \<or> (\<exists>n \<in> set nodes. n_Ready n \<and> \<not> node_initialized n)) \<and>
    (\<exists>ep key. Remote (SecretApply (om_Namespace (mc_Meta (the_mc s))) ep key True) \<in> set xs) \<and>
    map_get (ds_Labels ds) ''app'' = ''lxd-initializer-'' @ om_Name (mc_Meta (the_mc s))"
proof -
  define mc where "mc = the_mc s"
  define ns where "ns = om_Namespace (mc_Meta mc)"
  define nm where "nm = ''lxd-initializer-'' @ om_Name (mc_Meta mc)"
  note any = emits_intros TrueI any_emits emits_mono [OF no_apply_small(5)] emits_mono [OF no_apply_small(7)]
    emits_mono [OF no_apply_small(8)] emits_mono [OF no_apply_small(9)] emits_mono [OF no_apply_small(10)]
  let ?Q = "\<lambda>xs. IsLXDHostEnabled mc \<and> om_DeletionTimestamp (mc_Meta mc) = None \<and>
    (\<exists>ref tr cp. cl_ControlPlaneRef cl = Some ref \<and>
       kcp_get_r (kube E) (cl_Namespace cl) ref tr = Inr cp \<and> kcp_available cp) \<and>
    (\<exists>tr. case nodes_list_r (remote E) tr of Inl _ \<Rightarrow> True
       | Inr nodes \<Rightarrow> nodes = [] \<or> (\<exists>n \<in> set nodes. n_Ready n \<and> \<not> node_initialized n)) \<and>
    (\<exists>ep key. Remote (SecretApply ns ep key True) \<in> set xs) \<and> map_get (ds_Labels ds) ''app'' = nm"
  have "before (Remote (DaemonSetApply ds ok)) ?Q (initializer_gates E cl mc)"
    unfolding initializer_gates_def Let_def
    apply (rule before_ok_then [OF no_apply_small(6) ds_apply_late], (intro any; simp))
    apply (rule before_if [OF before_ret])
    apply (rule before_bind [OF no_apply_small(7) ds_apply_late], (intro any; simp))
    apply (rule before_if [OF before_ret])
    apply (rule before_bind [OF no_apply_small(8) ds_apply_late], (intro any; simp))
    apply (rule before_bind [OF no_apply_small(9) ds_apply_late], (intro any; simp))
    apply (rule before_bind [OF no_apply_small(10) ds_apply_late], (intro any; simp))
    apply (rule before_if)
     apply (rule before_emits [where P = "\<lambda>e. \<not> is_ds_apply e"], intro emits_ok_then emits_ret no_apply_small, simp)
    apply (rule before_mono [OF deploy_ds_spec])
    unfolding ns_def [symmetric] nm_def [symmetric]
    apply (simp del: ex_simps)
    apply (intro conjI)
    using controlPlaneReady_true anyNode_true by (auto simp: nm_def ns_def)
  from beforeD [OF this _ new] run show ?thesis
    by (simp add: ensureLXDInitializerDS_def mc_def ns_def nm_def)
qed

definition sample_lxd_config :: lxd_config where
  "sample_lxd_config = \<lparr>lc_Enabled = Some True, lc_ResourcePool = ''pool'', lc_Zone = ''az1'',
     lc_StorageBackend = [], lc_StorageSize = [], lc_NICType = [], lc_NICParent = ''eth0'',
     lc_NetworkBridge = [], lc_SkipNetworkUpdate = None\<rparr>"

definition lxd_mc :: maas_cluster where
  "lxd_mc = sample_mc\<lparr>mc_Spec := (mc_Spec sample_mc)\<lparr>LXDConfig := Some sample_lxd_config\<rparr>\<rparr>"

lemma sample_answers:
  "remote_client_r (remote sample_env) a b tr = Inr ()"
  "kcp_get_r (kube sample_env) a b tr = Inr sample_kcp"
  "kcp_list_r (kube sample_env) a b tr = Inr [sample_kcp]"
  "md_list_r (kube sample_env) a b tr = Inr []"
  "nodes_list_r (remote sample_env) tr = Inr []"
  "namespace_apply_r (remote sample_env) a tr = Inr ()"
  "secret_get_r (kube sample_env) a b tr = Inr [(''MAAS_ENDPOINT'', ''http://maas''), (''MAAS_API_KEY'', ''k'')]"
  "secret_apply_r (remote sample_env) a b c tr = Inr ()"
  "daemonset_list_r (remote sample_env) a b tr = Inr []"
  "daemonset_get_r (remote sample_env) a b tr = Inl (NotFoundReason, ''not found'')"
  "daemonset_apply_r (remote sample_env) d tr = Inr ()"
  "rbac_apply_r (remote sample_env) a b tr = Inr ()"
  "yaml_Object (lib_of sample_env) a = Some (''ServiceAccount'', ''lxd-initializer'')"
  by (simp_all add: sample_lib_def sample_env_def sample_remote_def sample_kube_def not_found_def)

lemma sample_docs:
  "\<exists>t. run_state (apply_docs sample_env docs) s = (Inr (), t) \<and> the_mc t = the_mc s"
proof (induction docs arbitrary: s)
  case (Cons d docs)
  from Cons [of "s\<lparr>trace := trace s @ [Remote (RBACApply ''ServiceAccount'' ''lxd-initializer'' True)]\<rparr>"] Cons [of s]
  show ?case by (simp add: RBAC_Apply_def run_api sample_answers)
qed simp

lemma sample_rbac:
  "run_state (ensureLXDInitializerRBACOnTarget sample_env ns) s =
     (Inr (), snd (run_state (ensureLXDInitializerRBACOnTarget sample_env ns) s))"
  "the_mc (snd (run_state (ensureLXDInitializerRBACOnTarget sample_env ns) s)) = the_mc s"
  unfolding ensureLXDInitializerRBACOnTarget_def
  using sample_docs [of "SplitStr [] (ReplaceAll lxdInitRBACTemplate ''namespace: default'' (''namespace: '' @ ns)) ''---''" s]
  by auto

lemma sample_apply_ds:
  assumes "the_mc s = lxd_mc"
  shows "\<exists>ds ys. trace (snd (run_state (apply_ds sample_env nm ns) s)) = ys @ [Remote (DaemonSetApply ds True)]"
proof -
  obtain x u where u: "run_state (render sample_env (ds_replacements (lib_of sample_env) (om_UID (mc_Meta lxd_mc)) sample_lxd_config)
      (lxdInitTemplate (lib_of sample_env))) s = (x, u)" by fastforce
  then have r: "run_state (renderDaemonSetForCluster sample_env nm ns) s =
      (rename_ds nm ns sample_daemonset, u)"
    using assms by (simp add: renderDaemonSetForCluster_def GetLXDConfig_def lxd_mc_def)
      (simp add: sample_env_def sample_lib_def)
  moreover obtain ds where "rename_ds nm ns sample_daemonset = Inr ds"
    by (simp add: rename_ds_def sample_daemonset_def)
  ultimately show ?thesis
    by (auto simp: apply_ds_def CreateOrPatch_ds_def DaemonSet_Get_def DaemonSet_Apply_def run_api
        IsNotFound_def sample_answers)
qed

theorem initializer_deployed_through_gates_witness:
  "\<exists>r t xs ds ys ep key. run_state (ensureLXDInitializerDS sample_env sample_cluster) (sample_sys\<lparr>the_mc := lxd_mc\<rparr>) = (r, t) \<and>
     trace t = xs @ Remote (DaemonSetApply ds True) # ys \<and>
     Remote (SecretApply ''cluster-1'' ep key True) \<in> set xs \<and> map_get (ds_Labels ds) ''app'' = ''lxd-initializer-c-1''"
proof -
  let ?s = "sample_sys\<lparr>the_mc := lxd_mc\<rparr>"
  obtain r t where run: "run_state (ensureLXDInitializerDS sample_env sample_cluster) ?s = (r, t)"
    by fastforce
  define D where "D = (\<lambda>s. snd (run_state (ensureLXDInitializerRBACOnTarget sample_env ''cluster-1'') s))"
  have D: "run_state (ensureLXDInitializerRBACOnTarget sample_env ''cluster-1'') s = (Inr (), D s)"
    "the_mc (D s) = the_mc s" for s using sample_rbac by (simp_all add: D_def)
  have lxd: "IsLXDHostEnabled lxd_mc" "om_Name (mc_Meta lxd_mc) = ''c-1''" "om_Namespace (mc_Meta lxd_mc) = ''cluster-1''"
    "om_DeletionTimestamp (mc_Meta lxd_mc) = None"
    by (simp_all add: IsLXDHostEnabled_def lxd_mc_def sample_lxd_config_def sample_defs)
  obtain u where u: "run_state (ensureLXDInitializerDS sample_env sample_cluster) ?s =
      run_state (apply_ds sample_env ''lxd-initializer-c-1'' ''cluster-1'') u" "the_mc u = lxd_mc"
    by (simp add: ensureLXDInitializerDS_def initializer_gates_def deploy_ds_def getTargetClient_def
        GetWorkloadClusterClient_def controlPlaneReady_def computeDesiredControlPlane_def
        desiredWorkerReplicas_def anyNodeNeedsInitialization_def deleteExistingInitializerDS_def
        ensureNamespaceOnTarget_def ensureLXDInitializerCredentialsOnTarget_def GetMAASCredentials_def
        maybeShortCircuitDelete_def fmt_err_def call_defs run_api D lxd sample_answers map_get_def
        sample_cluster_def sample_kcp_def int_or_0_def Let_def)
  from sample_apply_ds [OF u(2)] run obtain ds xs where new: "trace t = trace ?s @ xs @ Remote (DaemonSetApply ds True) # []"
    by (metis append_Nil append_Nil2 sample_sys_def u(1) snd_conv sys.select_convs(1) sys.update_convs(3))
  from initializer_deployed_through_gates [OF run new] new show ?thesis
    using run by (auto simp: lxd sample_sys_def)
qed

section \<open>Taking the initializer down\<close>

fun is_ds_delete :: "event \<Rightarrow> bool" where
  "is_ds_delete (Remote (DaemonSetDelete ns nm ok)) = True"
| "is_ds_delete _ = False"

text \<open>
  The initializer is taken down early only when the work is done. If the short circuit answers
  that it deleted the DaemonSet, a listing of the nodes showed at least one node, all of them
  labelled initialised, and as many as the desired total; if it answers no, it deleted nothing; and
  it never fails.
\<close>

lemma short_circuit_only_when_done:
  assumes run: "run_state (maybeShortCircuitDelete E ns desiredTotal nm) s = (r, t)"
  shows "(r = Inr True \<and> (\<exists>nodes. nodes_list_r (remote E) (trace s) = Inr nodes \<and> nodes \<noteq> [] \<and>
      (\<forall>n \<in> set nodes. node_initialized n) \<and>
      (length nodes < 2 ^ 31 \<longrightarrow> sint desiredTotal \<le> int (length nodes)))) \<or>
    (r = Inr False \<and> (\<forall>e \<in> set (drop (length (trace s)) (trace t)). \<not> is_ds_delete e))"
proof (cases "nodes_list_r (remote E) (trace s)")
  case (Inl e)
  then show ?thesis using run
    by (auto simp: maybeShortCircuitDelete_def Nodes_List_def run_api lift_err_def split: prod.splits)
next
  case (Inr nodes)
  have all: "length (filter node_initialized nodes) = length nodes \<longleftrightarrow> (\<forall>n \<in> set nodes. node_initialized n)"
    by (metis filter_True length_filter_less less_irrefl)
  have "sint (word_of_int (int (length nodes)) :: 32 word) = int (length nodes)" if "length nodes < 2 ^ 31"
    using that by (intro sint_small) (simp_all add: zless_nat_eq_int_zless flip: of_nat_less_iff)
  with Inr all run show ?thesis
    by (auto simp: maybeShortCircuitDelete_def Nodes_List_def run_api enough_nodes_def
        split: prod.splits if_splits)
qed

end
