(* ===== verification/Lxd_Service.thy ===== *)
theory Lxd_Service
  imports Cluster_Scope
begin

text \<open>
  The LXD service, \<open>pkg/maas/lxd/service.go\<close>: whether the LXD hosts of a cluster are ready, judged
  from its machines and from the labels the initializer puts on the nodes of the workload cluster.
\<close>

definition set_cluster_cond :: "env \<Rightarrow> condition \<Rightarrow> unit io" where
  "set_cluster_cond E c = modify (the_mc_update (mc_Status_update (mcs_Conditions_update (\<lambda>cs.
     cond_Set (lib_of E) cs c))))"

definition cluster_cond :: "string \<Rightarrow> condition_status \<Rightarrow> string \<Rightarrow> string \<Rightarrow> condition" where
  "cluster_cond ty st reason msg = \<lparr>c_Type = ty, c_Status = st, c_Reason = reason, c_Message = msg\<rparr>"

definition LXDHostInitializedLabel :: string where
  "LXDHostInitializedLabel = ''lxdhost.cluster.com/initialized''"

text \<open>The host name is dereferenced before it is compared with nil.\<close>

definition isNodeLXDInitialized :: "env \<Rightarrow> capi_cluster \<Rightarrow> maas_machine \<Rightarrow> bool res io" where
  "isNodeLXDInitialized E cl machine = (case Hostname (mm_Status machine) of
       None \<Rightarrow> ret (Inl (GoPanic ''nil pointer dereference: Hostname''))
     | Some hostname \<Rightarrow>
         if hostname = [] then
           ret (Inl (ErrorString (''machine '' @ om_Name (mm_Meta machine) @ '' has no hostname set'')))
         else do {
           r \<leftarrow> GetWorkloadClusterClient E cl;
           case r of
             Inl e \<Rightarrow> ret (Inl (Wrapped ''failed to get workload cluster client'' e))
           | Inr _ \<Rightarrow> do {
               r \<leftarrow> Node_Get E (ToLower hostname);
               ret (case r of
                  Inl e \<Rightarrow> Inl (Wrapped (''failed to get node '' @ ToLower hostname) e)
                | Inr nd \<Rightarrow> Inr (map_has (n_Labels nd) LXDHostInitializedLabel \<and>
                    map_get (n_Labels nd) LXDHostInitializedLabel = ''true'')) } })"

primrec check_nodes :: "env \<Rightarrow> capi_cluster \<Rightarrow> maas_machine list \<Rightarrow> unit res io" where
  "check_nodes E cl [] = ret (Inr ())"
| "check_nodes E cl (m # ms) = do {
     r \<leftarrow> isNodeLXDInitialized E cl m;
     case r of
       Inl e \<Rightarrow> ret (Inl (if is_panic e then e
         else Wrapped (''failed LXD readiness check for '' @ om_Name (mm_Meta m)) e))
     | Inr _ \<Rightarrow> check_nodes E cl ms }"

definition ReconcileLXD :: "env \<Rightarrow> capi_cluster \<Rightarrow> unit res io" where
  "ReconcileLXD E cl = do {
     mc \<leftarrow> gets the_mc;
     if \<not> IsLXDHostEnabled mc then ret (Inr ())
     else do {
       set_cluster_cond E (cluster_cond LXDReadyCondition ConditionFalse LXDSetupPendingReason ''LXD setup is pending'');
       r \<leftarrow> GetClusterMaasMachines E cl;
       case r of
         Inl e \<Rightarrow> do {
           set_cluster_cond E (cluster_cond LXDReadyCondition ConditionFalse LXDFailedReason
             (''Failed to get cluster machines: '' @ err_Error e));
           ret (Inl (Wrapped ''failed to get cluster machines'' e)) }
       | Inr [] \<Rightarrow> do {
           set_cluster_cond E (cluster_cond LXDReadyCondition ConditionFalse LXDSetupPendingReason ''No machines found in cluster'');
           ret (Inr ()) }
       | Inr (m # ms) \<Rightarrow>
           (case find (\<lambda>m. \<not> Ready (mm_Status m)) (m # ms) of
              Some m \<Rightarrow> do {
                set_cluster_cond E (cluster_cond LXDReadyCondition ConditionFalse LXDSetupPendingReason
                  (''Machine '' @ om_Name (mm_Meta m) @ '' is not ready''));
                ret (Inr ()) }
            | None \<Rightarrow>
                ok_then (check_nodes E cl (m # ms)) (\<lambda>_. do {
                  set_cluster_cond E (cluster_cond LXDReadyCondition ConditionTrue LXDReadyReason []);
                  ret (Inr ()) })) } }"

text \<open>
  The loop looks at the error of each check and drops the answer: a node without the label passes.
\<close>

lemma check_nodes_ignores_label:
  assumes "\<forall>m \<in> set ms. \<exists>h. Hostname (mm_Status m) = Some h \<and> h \<noteq> []"
    "\<forall>tr. remote_client_r (remote E) (cl_Namespace cl) (cl_Name cl) tr = Inr ()"
    "\<forall>nm tr. \<exists>nd. node_get_r (remote E) nm tr = Inr nd"
  shows "fst (run_state (check_nodes E cl ms) s) = Inr ()"
  using assms(1)
proof (induction ms arbitrary: s)
  case (Cons m ms)
  then obtain h where "Hostname (mm_Status m) = Some h" "h \<noteq> []" by auto
  moreover obtain b t where "run_state (isNodeLXDInitialized E cl m) s = (Inr b, t)"
    using calculation assms(2) assms(3) [rule_format, of "ToLower h" "trace s @ [Remote (RemoteClient (cl_Namespace cl) (cl_Name cl))]"]
    by (auto simp: isNodeLXDInitialized_def GetWorkloadClusterClient_def call_defs run_api)
  ultimately show ?case using Cons by simp
qed simp

end
