(* ===== verification/Machine_Scope.thy ===== *)
theory Machine_Scope
  imports Cluster_Scope
begin

text \<open>
  The machine scope, \<open>pkg/maas/scope/machine.go\<close>: accessors and setters of the \<open>MaasMachine\<close> the
  reconcile holds in memory (\<open>the_mm\<close>), the patch that persists it, the bootstrap data and the search
  for the node of the workload cluster.
\<close>

section \<open>Accessors\<close>

definition mm_status_update :: "(maas_machine_status \<Rightarrow> maas_machine_status) \<Rightarrow> unit io" where
  "mm_status_update f = modify (the_mm_update (mm_Status_update f))"

definition mm_spec_update :: "(maas_machine_spec \<Rightarrow> maas_machine_spec) \<Rightarrow> unit io" where
  "mm_spec_update f = modify (the_mm_update (mm_Spec_update f))"

definition IsControlPlane :: "env \<Rightarrow> capi_machine \<Rightarrow> bool" where
  "IsControlPlane E m = IsControlPlaneMachine_capi (lib_of E) m"

definition Role :: "env \<Rightarrow> capi_machine \<Rightarrow> string" where
  "Role E m = (if IsControlPlaneMachine_capi (lib_of E) m then ''control-plane'' else ''node'')"

definition machine_PatchObject :: "env \<Rightarrow> capi_machine \<Rightarrow> unit res io" where
  "machine_PatchObject E m = do {
     let applicableConditions = [MachineDeployedCondition] @
       (if IsControlPlane E m then [DNSAttachedCondition] else []);
     mm_status_update (Conditions_update (\<lambda>cs. cond_SetSummary (lib_of E) cs applicableConditions));
     mm \<leftarrow> gets the_mm;
     MaasMachine_Patch E mm }"

definition SetAddresses :: "machine_address list \<Rightarrow> unit io" where
  "SetAddresses addrs = mm_status_update (Addresses_update (\<lambda>_. addrs))"

definition SetReady :: "unit io" where
  "SetReady = mm_status_update (\<lambda>st. st\<lparr>Ready := True, Provisioned := Some True\<rparr>)"

definition IsReady :: "maas_machine \<Rightarrow> bool" where
  "IsReady mm = Ready (mm_Status mm)"

definition SetNotReady :: "unit io" where
  "SetNotReady = mm_status_update (\<lambda>st. st\<lparr>Ready := False,
     Provisioned := (if Provisioned st = None then Some False else Provisioned st)\<rparr>)"

definition SetFailureMessage :: "gerr \<Rightarrow> unit io" where
  "SetFailureMessage v = mm_status_update (FailureMessage_update (\<lambda>_. Some (err_Error v)))"

definition SetFailureReason :: "string \<Rightarrow> unit io" where
  "SetFailureReason v = mm_status_update (FailureReason_update (\<lambda>_. Some v))"

definition GetProviderID :: "maas_machine \<Rightarrow> string" where
  "GetProviderID mm = (case ProviderID (mm_Spec mm) of Some p \<Rightarrow> p | None \<Rightarrow> [])"

definition GetInstanceID :: "maas_machine \<Rightarrow> string option" where
  "GetInstanceID mm = (case NewProviderID (GetProviderID mm) of
       Inl _ \<Rightarrow> None | Inr parsed \<Rightarrow> Some (pid_id parsed))"

definition SetProviderID :: "string \<Rightarrow> string \<Rightarrow> unit io" where
  "SetProviderID systemID availabilityZone =
     mm_spec_update (ProviderID_update (\<lambda>_. Some (provider_id_string systemID availabilityZone)))"

definition SetFailureDomain :: "string \<Rightarrow> unit io" where
  "SetFailureDomain availabilityZone =
     mm_spec_update (FailureDomain_update (\<lambda>_. Some availabilityZone))"

definition SetSystemID :: "string \<Rightarrow> unit io" where
  "SetSystemID systemID = mm_spec_update (SystemID_update (\<lambda>_. Some systemID))"

definition GetSystemID :: "maas_machine \<Rightarrow> string res" where
  "GetSystemID mm = (case SystemID (mm_Spec mm) of
       Some s \<Rightarrow> Inr s | None \<Rightarrow> Inl (GoPanic ''nil pointer dereference''))"

definition GetMachineState :: "maas_machine \<Rightarrow> machine_state option" where
  "GetMachineState mm = MachineState (mm_Status mm)"

definition SetMachineState :: "machine_state \<Rightarrow> unit io" where
  "SetMachineState v = mm_status_update (MachineState_update (\<lambda>_. Some v))"

definition SetPowered :: "bool \<Rightarrow> unit io" where
  "SetPowered powered = mm_status_update (MachinePowered_update (\<lambda>_. powered))"

definition GetMachineHostname :: "maas_machine \<Rightarrow> string" where
  "GetMachineHostname mm = (case Hostname (mm_Status mm) of Some h \<Rightarrow> h | None \<Rightarrow> [])"

definition SetMachineHostname :: "string \<Rightarrow> unit io" where
  "SetMachineHostname hostname = mm_status_update (Hostname_update (\<lambda>_. Some hostname))"

definition in_states :: "machine_state list \<Rightarrow> maas_machine \<Rightarrow> bool" where
  "in_states sts mm = (case GetMachineState mm of None \<Rightarrow> False | Some st \<Rightarrow> st \<in> set sts)"

definition MachineIsRunning :: "maas_machine \<Rightarrow> bool" where
  "MachineIsRunning mm = in_states MachineRunningStates mm"

definition MachineIsOperational :: "maas_machine \<Rightarrow> bool" where
  "MachineIsOperational mm = in_states MachineOperationalStates mm"

definition MachineIsInKnownState :: "maas_machine \<Rightarrow> bool" where
  "MachineIsInKnownState mm = in_states MachineKnownStates mm"

definition GetDynamicLXD :: "maas_machine \<Rightarrow> bool" where
  "GetDynamicLXD mm = (case LXD (mm_Spec mm) of None \<Rightarrow> False | Some l \<Rightarrow>
     (case ml_Enabled l of None \<Rightarrow> False | Some b \<Rightarrow> b))"

lemmas machine_setter_defs = mm_status_update_def mm_spec_update_def SetAddresses_def SetReady_def
  SetNotReady_def SetFailureMessage_def SetFailureReason_def SetProviderID_def SetFailureDomain_def
  SetSystemID_def SetMachineState_def SetPowered_def SetMachineHostname_def

lemma running_operational: "MachineIsRunning mm \<Longrightarrow> MachineIsOperational mm"
  by (auto simp: MachineIsRunning_def MachineIsOperational_def in_states_def
      MachineOperationalStates_def split: option.splits)

lemma operational_known: "MachineIsOperational mm \<Longrightarrow> MachineIsInKnownState mm"
  by (auto simp: MachineIsOperational_def MachineIsInKnownState_def in_states_def
      MachineKnownStates_def split: option.splits)

section \<open>Bootstrap data\<close>

definition GetRawBootstrapData :: "env \<Rightarrow> capi_machine \<Rightarrow> string res io" where
  "GetRawBootstrapData E m = (case cam_DataSecretName m of
       None \<Rightarrow> ret (Inl (ErrorString ''error retrieving bootstrap data: linked Machine's bootstrap.dataSecretName is nil''))
     | Some nm \<Rightarrow> do {
         r \<leftarrow> Secret_Get E (cam_Namespace m) nm;
         ret (case r of
            Inl e \<Rightarrow> Inl (Wrapped (''failed to retrieve bootstrap data secret for MaasMachine '' @
                cam_Namespace m @ ''/'' @ cam_Name m) e)
          | Inr data \<Rightarrow> (case map_of data ''value'' of
                None \<Rightarrow> Inl (ErrorString ''error retrieving bootstrap data: secret value key is missing'')
              | Some v \<Rightarrow> Inr v)) })"

section \<open>The node of the machine\<close>

definition node_with_prefix :: "string \<Rightarrow> node list \<Rightarrow> node option" where
  "node_with_prefix targetPrefix ns =
     find (\<lambda>n. HasPrefix (ToLower (n_Name n)) (targetPrefix @ ''.'')) ns"

definition findNodeByHostname :: "env \<Rightarrow> string \<Rightarrow> node res io" where
  "findNodeByHostname E hostname =
     (if hostname = [] then ret (Inl (ErrorString ''hostname cannot be empty''))
      else do {
        let nodeName = ToLower hostname;
        r1 \<leftarrow> Node_Get E nodeName;
        case r1 of
          Inr nd \<Rightarrow> ret (Inr nd)
        | Inl err1 \<Rightarrow> do {
            let shortHostname = ToLower (hd (Split hostname (CHR ''.'')));
            r2 \<leftarrow> (if Contains hostname ''.'' \<and> shortHostname \<noteq> nodeName
                   then Node_Get E shortHostname else ret (Inl err1));
            case r2 of
              Inr nd \<Rightarrow> ret (Inr nd)
            | Inl err2 \<Rightarrow> do {
                l \<leftarrow> Nodes_List E;
                ret (case l of
                   Inl _ \<Rightarrow> Inl err2
                 | Inr ns \<Rightarrow> (case node_with_prefix (ToLower hostname) ns of
                       Some n \<Rightarrow> Inr n | None \<Rightarrow> Inl err2)) } } })"

definition SetNodeProviderID :: "env \<Rightarrow> capi_cluster \<Rightarrow> unit res io" where
  "SetNodeProviderID E cl =
     ok_then (Remote_Client E (cl_Namespace cl) (cl_Name cl)) (\<lambda>_. do {
       mm \<leftarrow> gets the_mm;
       r \<leftarrow> findNodeByHostname E (GetMachineHostname mm);
       case r of
         Inl e \<Rightarrow> ret (Inl (Wrapped (''failed to find node for hostname '' @ GetMachineHostname mm) e))
       | Inr nd \<Rightarrow>
           if n_ProviderID nd = GetProviderID mm then ret (Inr ())
           else Node_PatchProviderID E (n_Name nd) (GetProviderID mm) })"

definition node_of_host :: "string \<Rightarrow> string \<Rightarrow> bool" where
  "node_of_host hostname nm \<longleftrightarrow> ToLower nm = ToLower hostname \<or>
     ToLower nm = ToLower (hd (Split hostname (CHR ''.''))) \<or>
     HasPrefix (ToLower nm) (ToLower hostname @ ''.'')"

lemma ToLower_idem [simp]: "ToLower (ToLower s) = ToLower s"
proof -
  have "lower_char (lower_char c) = lower_char c" for c
  proof -
    have "\<not> (CHR ''A'' \<le> (char_of (of_char c + 32 :: nat) :: char) \<and> char_of (of_char c + 32 :: nat) \<le> CHR ''Z'')"
      if "CHR ''A'' \<le> c" "c \<le> CHR ''Z''"
      using that by (simp add: less_eq_char_def)
    then show ?thesis by (auto simp: lower_char_def)
  qed
  then show ?thesis by (simp add: ToLower_def)
qed

text \<open>
  C29: the provider ID is only ever written to a node of this machine. If the search writes, then to
  exactly one node, whose name is the host name, its first label, or the host name followed by a
  dot, in lower case; and what is written is the provider ID of the machine.
\<close>

theorem SetNodeProviderID_writes_own_node:
  assumes get: "\<And>nm tr nd. node_get_r (remote E) nm tr = Inr nd \<Longrightarrow> n_Name nd = nm"
    and run: "run_state (SetNodeProviderID E cl) s = (r, t)"
    and ev: "Remote (NodePatch nm pid ok) \<in> set (drop (length (trace s)) (trace t))"
  shows "node_of_host (GetMachineHostname (the_mm s)) nm \<and> pid = GetProviderID (the_mm s) \<and>
    (r = Inr () \<longleftrightarrow> ok)"
proof -
  have find: "node_of_host h (n_Name nd)" if "run_state (findNodeByHostname E h) u = (Inr nd, v)" for h u v nd
    using that get unfolding findNodeByHostname_def call_defs
    by (auto simp: run_api Let_def node_of_host_def node_with_prefix_def find_Some_iff
        split: if_splits sum.splits option.splits)
  have quiet: "emits (\<lambda>e. \<forall>nm pid ok. e \<noteq> Remote (NodePatch nm pid ok)) (findNodeByHostname E h)" for h
    unfolding findNodeByHostname_def call_defs Let_def by (intro emits_intros) simp_all
  have keep: "keeps the_mm (findNodeByHostname E h)" for h
    unfolding findNodeByHostname_def call_defs Let_def by (intro emits_intros)
  define u where "u = s\<lparr>trace := trace s @ [Remote (RemoteClient (cl_Namespace cl) (cl_Name cl))]\<rparr>"
  obtain f v where f: "run_state (findNodeByHostname E (GetMachineHostname (the_mm s))) u = (f, v)"
    by fastforce
  obtain es where es: "trace v = trace u @ es"
    "list_all (\<lambda>e. \<forall>nm pid ok. e \<noteq> Remote (NodePatch nm pid ok)) es"
    using emitsD [OF quiet f] by blast
  have mm: "the_mm v = the_mm s" using keepsD [OF keep f] by (simp add: u_def)
  have mmu: "the_mm u = the_mm s" by (simp add: u_def)
  have no: "Remote (NodePatch nm pid ok) \<notin> set (drop (length (trace s)) (trace v))"
    using es by (auto simp: u_def list_all_iff)
  have "t \<noteq> u" using ev by (auto simp: u_def)
  moreover have "t \<noteq> v" using ev no by auto
  ultimately obtain nd where nd: "f = Inr nd" "n_ProviderID nd \<noteq> GetProviderID (the_mm s)"
    "run_state (Node_PatchProviderID E (n_Name nd) (GetProviderID (the_mm s))) v = (r, t)"
    using run f unfolding SetNodeProviderID_def Remote_Client_def
    by (auto simp: run_api u_def [symmetric] mm mmu split: sum.splits if_splits)
  show ?thesis
    using nd ev no find f es unfolding Node_PatchProviderID_def
    by (auto simp: run_api is_ok_iff u_def)
qed

definition node_env :: env where
  "node_env = sample_env\<lparr>remote := sample_remote\<lparr>node_get_r := (\<lambda>nm _.
     Inr \<lparr>n_Name = nm, n_Labels = [], n_Ready = True, n_ProviderID = []\<rparr>)\<rparr>\<rparr>"

definition node_sys :: sys where
  "node_sys = sample_sys\<lparr>the_mm := sample_mm\<lparr>mm_Spec := sample_spec\<lparr>ProviderID := Some ''maas:///az/x''\<rparr>,
     mm_Status := sample_status\<lparr>Hostname := Some ''Node-1.maas''\<rparr>\<rparr>\<rparr>"

theorem SetNodeProviderID_writes_own_node_witness:
  "\<exists>t. run_state (SetNodeProviderID node_env sample_cluster) node_sys = (Inr (), t) \<and>
     Remote (NodePatch ''node-1.maas'' ''maas:///az/x'' True) \<in> set (trace t) \<and>
     node_of_host ''Node-1.maas'' ''node-1.maas''"
proof -
  have low: "ToLower ''Node-1.maas'' = ''node-1.maas''" by code_simp
  obtain t where t: "run_state (SetNodeProviderID node_env sample_cluster) node_sys = (Inr (), t)"
    "trace t = [Remote (RemoteClient ''cluster-1'' ''c-1''), Remote (NodeGet ''node-1.maas''),
       Remote (NodePatch ''node-1.maas'' ''maas:///az/x'' True)]"
    by (simp add: SetNodeProviderID_def findNodeByHostname_def call_defs run_api node_env_def
        node_sys_def sample_env_def sample_remote_def sample_sys_def sample_cluster_def
        GetMachineHostname_def GetProviderID_def sample_status_def low Let_def)
  have "Remote (NodePatch ''node-1.maas'' ''maas:///az/x'' True) \<in>
      set (drop (length (trace node_sys)) (trace t))"
    using t(2) by (simp add: node_sys_def sample_sys_def)
  from SetNodeProviderID_writes_own_node [OF _ t(1) this] t show ?thesis
    by (simp add: node_env_def node_sys_def GetMachineHostname_def sample_remote_def)
qed

end
