(* ===== verification/Dns.thy ===== *)
theory Dns
  imports Machine_Scope
begin

text \<open>
  The DNS service, \<open>pkg/maas/dns/dns.go\<close>: the MAAS DNS resource of a cluster, its creation and the
  update of the addresses it resolves to. The service's constructor panics when the credentials are
  missing from the environment.
\<close>

type_synonym dns_resource = "string \<times> string list" \<comment> \<open>id, IP addresses\<close>

definition dns_NewService :: "env \<Rightarrow> unit res" where
  "dns_NewService E = NewMaasClient E"

definition GetDNSResource :: "env \<Rightarrow> capi_cluster \<Rightarrow> dns_resource res io" where
  "GetDNSResource E cl = do {
     dnsName \<leftarrow> GetDNSName E cl;
     if dnsName = [] then ret (Inl (ErrorString ''No DNS on the cluster set!''))
     else do {
       r \<leftarrow> DNS_List E dnsName;
       ret (case r of
          Inl e \<Rightarrow> Inl (Wrapped (''error retrieving dns resources '' @ dnsName) e)
        | Inr d \<Rightarrow>
            if length d > 1 then Inl (ErrorString (''expected 1 DNS Resource for '' @ dnsName))
            else (case d of [] \<Rightarrow> Inl ErrNotFound | x # _ \<Rightarrow> Inr x)) } }"

definition ReconcileDNS :: "env \<Rightarrow> capi_cluster \<Rightarrow> unit res io" where
  "ReconcileDNS E cl = do {
     r \<leftarrow> GetDNSResource E cl;
     case (case r of Inl e \<Rightarrow> if errors_Is e ErrNotFound then Inr None else Inl e
             | Inr d \<Rightarrow> Inr (Some d)) of
       Inl e \<Rightarrow> ret (Inl e)
     | Inr dnsResource \<Rightarrow> do {
         dnsName \<leftarrow> GetDNSName E cl;
         r \<leftarrow> (if dnsResource = None then do {
                 fqdn \<leftarrow> GetDNSName E cl;
                 r \<leftarrow> DNS_Create E fqdn;
                 ret (case r of Inl e \<Rightarrow> Inl (Wrapped ''Unable to create DNS Resources'' e)
                        | Inr _ \<Rightarrow> Inr ()) }
               else ret (Inr ()));
         case r of
           Inl e \<Rightarrow> ret (Inl e)
         | Inr _ \<Rightarrow> do { SetDNSName dnsName; ret (Inr ()) } } }"

definition UpdateDNSAttachments :: "env \<Rightarrow> capi_cluster \<Rightarrow> string list \<Rightarrow> unit res io" where
  "UpdateDNSAttachments E cl IPs =
     ok_then (GetDNSResource E cl) (\<lambda>dnsResource. do {
       r \<leftarrow> DNS_Modify E (fst dnsResource) IPs;
       ret (case r of Inl e \<Rightarrow> Inl (Wrapped ''Unable to update IPs'' e) | Inr _ \<Rightarrow> Inr ()) })"

definition GetAPIServerDNSRecords :: "env \<Rightarrow> capi_cluster \<Rightarrow> string set res io" where
  "GetAPIServerDNSRecords E cl =
     ok_then (GetDNSResource E cl) (\<lambda>dnsResource.
       ret (Inr (set (filter (\<lambda>ip. ip \<noteq> []) (snd dnsResource)))))"

definition MachineIsRegisteredWithAPIServerDNS :: "env \<Rightarrow> capi_cluster \<Rightarrow> machine \<Rightarrow> bool res io" where
  "MachineIsRegisteredWithAPIServerDNS E cl i =
     ok_then (GetAPIServerDNSRecords E cl) (\<lambda>ips.
       ret (Inr (list_ex (\<lambda>a. ma_Address a \<in> ips) (m_Addresses i))))"

lemmas dns_defs = GetDNSResource_def ReconcileDNS_def UpdateDNSAttachments_def
  GetAPIServerDNSRecords_def MachineIsRegisteredWithAPIServerDNS_def GetDNSName_def

section \<open>The name is stable\<close>

lemma GetDNSName_sets:
  assumes "run_state (GetDNSName E cl) s = (nm, t)"
  shows "run_state (GetDNSName E cl) (t\<lparr>trace := es\<rparr>) = (nm, t\<lparr>trace := es\<rparr>) \<or> nm = []"
  using assms unfolding GetDNSName_def SetDNSName_def NewUUID_str_def
  by (auto simp: run_call Let_def split: if_splits)

end
