(* ===== verification/Cluster_Controller.thy ===== *)
theory Cluster_Controller
  imports Lxd_Daemonset Lxd_Service Dns
begin

text \<open>
  The MaasCluster controller, \<open>controllers/maascluster_controller.go\<close>: it keeps the DNS name of the
  control plane and the addresses it resolves to, waits for the API server, prepares the workload
  cluster for LXD, and removes its finalizer when the last machine is gone. The cluster is always
  persisted at the end.
\<close>

section \<open>Machines and DNS\<close>

definition IsControlPlaneMachine :: "maas_machine \<Rightarrow> bool" where
  "IsControlPlaneMachine m = map_has (om_Labels (mm_Meta m)) MachineControlPlaneLabel"

definition IsRunning :: "maas_machine \<Rightarrow> bool" where
  "IsRunning m = (MachinePowered (mm_Status m) \<and>
     (case MachineState (mm_Status m) of None \<Rightarrow> False | Some st \<Rightarrow> st \<in> set MachineRunningStates))"

definition getExternalMachineIP :: "maas_machine \<Rightarrow> string" where
  "getExternalMachineIP m = (case find (\<lambda>a. ma_Type a = MachineExternalIP) (Addresses (mm_Status m)) of
     None \<Rightarrow> [] | Some a \<Rightarrow> ma_Address a)"

text \<open>The loop over the machines: the running addresses, and whether an attachment or detachment is pending.\<close>

fun dns_scan :: "string set \<Rightarrow> maas_machine list \<Rightarrow> string list \<times> bool" where
  "dns_scan currentIPs [] = ([], False)"
| "dns_scan currentIPs (m # ms) =
     (let (ips, pending) = dns_scan currentIPs ms;
          ip = getExternalMachineIP m;
          attached = ip \<in> currentIPs
      in if \<not> IsControlPlaneMachine m then (ips, pending)
         else if om_DeletionTimestamp (mm_Meta m) \<noteq> None \<or> \<not> IsRunning m then (ips, attached \<or> pending)
         else (ip # ips, \<not> attached \<or> pending))"

definition reconcileDNSAttachments :: "env \<Rightarrow> capi_cluster \<Rightarrow> unit res io" where
  "reconcileDNSAttachments E cl = do {
     r \<leftarrow> GetClusterMaasMachines E cl;
     case r of
       Inl e \<Rightarrow> ret (Inl (Wrapped ''Unable to list all maas machines'' e))
     | Inr machines \<Rightarrow> do {
         r \<leftarrow> GetAPIServerDNSRecords E cl;
         case r of
           Inl e \<Rightarrow> ret (Inl (Wrapped ''Unable to get the dns resources'' e))
         | Inr currentIPs \<Rightarrow> do {
             let scan = dns_scan currentIPs machines;
             r \<leftarrow> UpdateDNSAttachments E cl (fst scan);
             ret (case r of Inl e \<Rightarrow> Inl e | Inr _ \<Rightarrow> if snd scan then Inl ErrRequeueDNS else Inr ()) } } }"

section \<open>Deletion\<close>

definition set_cluster_finalizers :: "(string list \<Rightarrow> string list) \<Rightarrow> unit io" where
  "set_cluster_finalizers f = modify (the_mc_update (mc_Meta_update (om_Finalizers_update f)))"

definition cluster_reconcileDelete :: "env \<Rightarrow> capi_cluster \<Rightarrow> reconcile_result io" where
  "cluster_reconcileDelete E cl = do {
     r \<leftarrow> GetMAASMachinesInCluster E (cl_Namespace cl) (cl_Name cl);
     case r of
       Inl e \<Rightarrow> ret (NoRequeue, Some (Wrapped
         (''unable to list MAASMachines part of MAASCluster '' @ cl_Namespace cl @ ''/'' @ cl_Name cl) e))
     | Inr machines \<Rightarrow>
         if length machines > 0 then ret (RequeueAfter 10, None)
         else do {
           set_cluster_finalizers (\<lambda>fs. RemoveFinalizer (lib_of E) fs ClusterFinalizer);
           reconcile_done } }"

section \<open>The LXD part\<close>

definition lxd_pending :: "env \<Rightarrow> string \<Rightarrow> reconcile_result io" where
  "lxd_pending E msg = do {
     set_cluster_cond E (cluster_cond LXDReadyCondition ConditionFalse LXDSetupPendingReason msg);
     ret (RequeueAfter 30, None) }"

definition cluster_lxd :: "env \<Rightarrow> capi_cluster \<Rightarrow> reconcile_result io" where
  "cluster_lxd E cl = do {
     r \<leftarrow> GetWorkloadClusterClient E cl;
     case r of
       Inl _ \<Rightarrow> lxd_pending E ''Waiting for target cluster client''
     | Inr _ \<Rightarrow> do {
         r \<leftarrow> Namespace_Get E ''kube-system'';
         case r of
           Inl _ \<Rightarrow> lxd_pending E ''Waiting for kube-system on target cluster''
         | Inr labels \<Rightarrow>
             if map_get labels APIServerReadinessLabel \<noteq> ''true''
             then lxd_pending E ''Waiting for API server readiness label on target cluster''
             else do {
               r \<leftarrow> ensureLXDInitializerDS E cl;
               case r of
                 Inl e \<Rightarrow> ret (NoRequeue, Some e)
               | Inr _ \<Rightarrow> do {
                   r \<leftarrow> ReconcileLXD E cl;
                   case r of
                     Inl e \<Rightarrow>
                       if is_panic e then ret (NoRequeue, Some e)
                       else do {
                         set_cluster_cond E (cluster_cond LXDReadyCondition ConditionFalse LXDFailedReason (err_Error e));
                         ret (NoRequeue, Some e) }
                   | Inr _ \<Rightarrow> do {
                       set_cluster_cond E (cluster_cond LXDReadyCondition ConditionTrue LXDReadyReason []);
                       reconcile_done } } } } }"

section \<open>Normal reconcile\<close>

definition set_endpoint :: "capi_cluster \<Rightarrow> unit io" where
  "set_endpoint cl = modify (the_mc_update (\<lambda>mc. mc
     \<lparr>mc_Spec := (mc_Spec mc)\<lparr>ControlPlaneEndpoint :=
        \<lparr>ep_Host = mcs_DNSName (mc_Status mc), ep_Port = APIServerPort cl\<rparr>\<rparr>,
      mc_Status := (mc_Status mc)\<lparr>mcs_Ready := True, mcs_Provisioned := Some True\<rparr>\<rparr>))"

text \<open>
  From the wait for the API server on. The goroutine that polls it runs beside the reconciles, over
  the shared map of Cluster_Scope; here the request for one is an event.
\<close>

definition after_dns :: "env \<Rightarrow> capi_cluster \<Rightarrow> reconcile_result io" where
  "after_dns E cl = do {
     (if wants_poll cl then Poll_Request (cl_UID cl) else ret ());
     onl \<leftarrow> IsAPIServerOnline E cl;
     if onl \<noteq> Inr True then do {
       set_cluster_cond E (cluster_cond APIServerAvailableCondition ConditionFalse APIServerNotReadyReason []);
       reconcile_done }
     else do {
       set_cluster_cond E (cluster_cond APIServerAvailableCondition ConditionTrue APIServerAvailableReason []);
       r \<leftarrow> EnsureClusterReadinessLabel E cl;
       case r of
         Inl _ \<Rightarrow> ret (RequeueAfter 30, None)
       | Inr _ \<Rightarrow> do {
           mc \<leftarrow> gets the_mc;
           if IsLXDHostEnabled mc then cluster_lxd E cl else reconcile_done } } }"

definition publish_endpoint :: "env \<Rightarrow> capi_cluster \<Rightarrow> reconcile_result io" where
  "publish_endpoint E cl = do {
     set_endpoint cl;
     set_cluster_cond E (cluster_cond DNSReadyCondition ConditionTrue DNSReadyReason []);
     r \<leftarrow> reconcileDNSAttachments E cl;
     case r of
       Inl e \<Rightarrow> if errors_Is e ErrRequeueDNS then reconcile_done else ret (NoRequeue, Some e)
     | Inr _ \<Rightarrow> after_dns E cl }"

definition cluster_reconcileNormal :: "env \<Rightarrow> capi_cluster \<Rightarrow> reconcile_result io" where
  "cluster_reconcileNormal E cl = do {
     mc \<leftarrow> gets the_mc;
     if \<not> ContainsFinalizer (lib_of E) (om_Finalizers (mc_Meta mc)) ClusterFinalizer then do {
       set_cluster_finalizers (\<lambda>fs. AddFinalizer (lib_of E) fs ClusterFinalizer);
       reconcile_done }
     else case dns_NewService E of
       Inl e \<Rightarrow> ret (NoRequeue, Some e)
     | Inr _ \<Rightarrow> do {
     r \<leftarrow> ReconcileDNS E cl;
     case r of
       Inl e \<Rightarrow> do {
         set_cluster_cond E (cluster_cond DNSReadyCondition ConditionFalse DNSFailedReason (err_Error e));
         ret (NoRequeue, Some e) }
     | Inr _ \<Rightarrow> do {
     mc \<leftarrow> gets the_mc;
     if mcs_DNSName (mc_Status mc) = [] then do {
       set_cluster_cond E (cluster_cond DNSReadyCondition ConditionFalse WaitForDNSNameReason []);
       ret (RequeueAfter 15, None) }
     else publish_endpoint E cl } } }"

section \<open>Reconcile\<close>

definition cluster_with_close :: "env \<Rightarrow> reconcile_result io \<Rightarrow> reconcile_result io" where
  "cluster_with_close E body = do {
     (res, rerr) \<leftarrow> body;
     c \<leftarrow> cluster_PatchObject E;
     ret (res, case rerr of Some e \<Rightarrow> Some e | None \<Rightarrow> (case c of Inl e \<Rightarrow> Some e | Inr _ \<Rightarrow> None)) }"

definition set_failure_domains :: "unit io" where
  "set_failure_domains = modify (the_mc_update (\<lambda>mc. mc\<lparr>mc_Status :=
     (mc_Status mc)\<lparr>mcs_FailureDomains := map (\<lambda>az. (az, True)) (FailureDomains (mc_Spec mc))\<rparr>\<rparr>))"

definition cluster_body :: "env \<Rightarrow> maas_cluster \<Rightarrow> capi_cluster \<Rightarrow> reconcile_result io" where
  "cluster_body E maasCluster cluster = do {
     set_failure_domains;
     if om_DeletionTimestamp (mc_Meta maasCluster) \<noteq> None
     then cluster_reconcileDelete E cluster
     else cluster_reconcileNormal E cluster }"

definition cluster_Reconcile :: "env \<Rightarrow> string \<Rightarrow> string \<Rightarrow> reconcile_result io" where
  "cluster_Reconcile E ns nm = do {
     r \<leftarrow> MaasCluster_Get E ns nm;
     case r of
       Inl e \<Rightarrow> if IsNotFound e then reconcile_done else ret (NoRequeue, Some e)
     | Inr maasCluster \<Rightarrow> do {
     r \<leftarrow> GetOwnerCluster E maasCluster;
     case r of
       Inl e \<Rightarrow> ret (NoRequeue, Some e)
     | Inr None \<Rightarrow> reconcile_done
     | Inr (Some cluster) \<Rightarrow> do {
         modify (the_mc_update (\<lambda>_. maasCluster));
         cluster_with_close E (cluster_body E maasCluster cluster) } } }"

definition controlPlaneMachineToCluster :: "env \<Rightarrow> maas_machine \<Rightarrow> (string \<times> string) list io" where
  "controlPlaneMachineToCluster E m =
     (if \<not> IsControlPlaneMachine m then ret []
      else do {
        r \<leftarrow> GetClusterFromMetadata E (om_Labels (mm_Meta m)) (om_Namespace (mm_Meta m));
        case r of
          Inl _ \<Rightarrow> ret []
        | Inr cluster \<Rightarrow> do {
            r \<leftarrow> MaasCluster_Get E (om_Namespace (mm_Meta m)) (cl_InfraRefName cluster);
            ret (case r of Inl _ \<Rightarrow> []
              | Inr _ \<Rightarrow> [(om_Namespace (mm_Meta m), cl_InfraRefName cluster)]) } })"

section \<open>The addresses behind the DNS name\<close>

definition serving :: "maas_machine \<Rightarrow> bool" where
  "serving m \<longleftrightarrow> IsControlPlaneMachine m \<and> om_DeletionTimestamp (mm_Meta m) = None \<and> IsRunning m"

lemma dns_scan_spec:
  "dns_scan cur ms = (map getExternalMachineIP (filter serving ms),
     \<exists>m \<in> set ms. IsControlPlaneMachine m \<and> (getExternalMachineIP m \<in> cur) \<noteq> serving m)"
  by (induction ms) (auto simp: Let_def serving_def split: prod.splits)

fun is_dns_modify :: "event \<Rightarrow> bool" where
  "is_dns_modify (Maas (DNSModify i ips ok)) = True"
| "is_dns_modify _ = False"

lemma no_modify:
  "emits (\<lambda>e. \<not> is_dns_modify e) (GetClusterMaasMachines E cl)"
  "emits (\<lambda>e. \<not> is_dns_modify e) (GetAPIServerDNSRecords E cl)"
  "emits (\<lambda>e. \<not> is_dns_modify e) (GetDNSResource E cl)"
  unfolding GetClusterMaasMachines_def GetAPIServerDNSRecords_def dns_defs SetDNSName_def call_defs Let_def
  by (intro emits_intros; simp)+

text \<open>The DNS updates a run sends.\<close>

definition dns_updates :: "sys \<Rightarrow> sys \<Rightarrow> event list" where
  "dns_updates s t = filter is_dns_modify (drop (length (trace s)) (trace t))"

lemma dns_updates_none: "since (\<lambda>e. \<not> is_dns_modify e) s t \<Longrightarrow> dns_updates s t = []"
  by (auto simp: dns_updates_def since_def list_all_iff filter_empty_conv)

lemma GetDNSResource_error:
  assumes "run_state (GetDNSResource E cl) s = (Inl e, t)"
  shows "e \<noteq> ErrRequeueDNS"
proof -
  obtain nm u where u: "run_state (GetDNSName E cl) s = (nm, u)" by fastforce
  obtain d v where v: "run_state (DNS_List E nm) u = (d, v)" by fastforce
  show ?thesis
  proof (cases "nm = []")
    case True
    with assms u have "Inl (ErrorString ''No DNS on the cluster set!'') = (Inl e :: dns_resource res)"
      by (simp add: GetDNSResource_def)
    then show ?thesis by auto
  next
    case False
    then have eq: "(case d of Inl e \<Rightarrow> Inl (Wrapped (''error retrieving dns resources '' @ nm) e)
        | Inr d \<Rightarrow> if length d > 1 then Inl (ErrorString (''expected 1 DNS Resource for '' @ nm))
            else (case d of [] \<Rightarrow> Inl ErrNotFound | x # _ \<Rightarrow> Inr x)) = (Inl e :: dns_resource res)"
      using assms u v by (simp add: GetDNSResource_def)
    show ?thesis
    proof (cases d)
      case (Inl a)
      with eq show ?thesis by auto
    next
      case (Inr xs)
      with eq show ?thesis by (cases "length xs > 1"; cases xs; auto)
    qed
  qed
qed

lemma UpdateDNS_run:
  assumes "run_state (UpdateDNSAttachments E cl ips) s = (r, t)"
  obtains (unread) e where "since (\<lambda>e. \<not> is_dns_modify e) s t" "r = Inl e" "e \<noteq> ErrRequeueDNS"
  | (sent) i old u ok where "run_state (GetDNSResource E cl) s = (Inr (i, old), u)"
      "since (\<lambda>e. \<not> is_dns_modify e) s u" "trace t = trace u @ [Maas (DNSModify i ips ok)]"
      "ok \<longleftrightarrow> r = Inr ()" "r \<noteq> Inl ErrRequeueDNS"
proof -
  obtain d u where d: "run_state (GetDNSResource E cl) s = (d, u)" by fastforce
  have su: "since (\<lambda>e. \<not> is_dns_modify e) s u" using emits_since [OF no_modify(3) d] .
  show thesis
  proof (cases d)
    case (Inl e)
    then have "t = u" "r = Inl e" using assms d by (simp_all add: UpdateDNSAttachments_def)
    with su GetDNSResource_error [OF d [unfolded Inl]] show thesis by (intro unread) simp_all
  next
    case (Inr x)
    obtain i old where x: "x = (i, old)" by fastforce
    obtain m w where m: "run_state (DNS_Modify E i ips) u = (m, w)" by fastforce
    then have w: "trace w = trace u @ [Maas (DNSModify i ips (is_ok m))]"
      by (auto simp: DNS_Modify_def run_api)
    have t: "t = w \<and> (is_ok m \<longleftrightarrow> r = Inr ()) \<and> r \<noteq> Inl ErrRequeueDNS"
      using assms d Inr x m by (cases m) (simp_all add: UpdateDNSAttachments_def is_ok_def, auto)
    then have ok: "trace t = trace u @ [Maas (DNSModify i ips (is_ok m))]" "is_ok m \<longleftrightarrow> r = Inr ()"
      "r \<noteq> Inl ErrRequeueDNS" using w by simp_all
    have "run_state (GetDNSResource E cl) s = (Inr (i, old), u)" using d Inr x by simp
    from sent [OF this su ok] show thesis .
  qed
qed

text \<open>
  C25: the control plane's name is made to resolve to the machines that serve. A reconcile of the
  attachments sends at most one update, to the DNS resource of the cluster, and its addresses are
  exactly the external addresses of the running control plane machines that are not being deleted, so
  the address of a machine that is gone is not among them. When the reconcile ends without error, or
  asks for another round, this update was sent and MAAS accepted it; and it ends without asking for
  another round exactly when the records it read before the update held the address of each of those
  machines and of no other control plane machine it listed.
\<close>

theorem dns_addresses_are_serving:
  assumes run: "run_state (reconcileDNSAttachments E cl) s = (r, t)"
  shows "(dns_updates s t = [] \<and> r \<notin> {Inr (), Inl ErrRequeueDNS}) \<or>
    (\<exists>ms recs u v v' i old ok w.
       maasmachines_list_r (kube E) (cl_Namespace cl) (cl_Name cl) (trace s) = Inr ms \<and>
       run_state (GetClusterMaasMachines E cl) s = (Inr ms, u) \<and>
       run_state (GetAPIServerDNSRecords E cl) u = (Inr recs, v) \<and>
       run_state (GetDNSResource E cl) v = (Inr (i, old), w) \<and>
       dns_updates s t = [Maas (DNSModify i (map getExternalMachineIP (filter serving ms)) ok)] \<and>
       (ok \<longleftrightarrow> r \<in> {Inr (), Inl ErrRequeueDNS}) \<and>
       (ok \<longrightarrow> (r = Inr () \<longleftrightarrow>
          (\<forall>m \<in> set ms. IsControlPlaneMachine m \<longrightarrow> (getExternalMachineIP m \<in> recs \<longleftrightarrow> serving m)))))"
proof -
  obtain q u where u: "run_state (GetClusterMaasMachines E cl) s = (q, u)" by fastforce
  have su: "since (\<lambda>e. \<not> is_dns_modify e) s u" using emits_since [OF no_modify(1) u] .
  show ?thesis
  proof (cases q)
    case (Inl e)
    with run u have "r \<notin> {Inr (), Inl ErrRequeueDNS}" "t = u" by (auto simp: reconcileDNSAttachments_def)
    with dns_updates_none [OF su] show ?thesis by simp
  next
    case (Inr ms)
    then have ms: "maasmachines_list_r (kube E) (cl_Namespace cl) (cl_Name cl) (trace s) = Inr ms"
      using u by (auto simp: GetClusterMaasMachines_def MaasMachines_List_def run_api split: sum.splits)
    obtain p v where v: "run_state (GetAPIServerDNSRecords E cl) u = (p, v)" by fastforce
    have sv: "since (\<lambda>e. \<not> is_dns_modify e) s v" using su emits_since [OF no_modify(2) v] since_trans by blast
    show ?thesis
    proof (cases p)
      case (Inl e)
      with run u v Inr have "r \<notin> {Inr (), Inl ErrRequeueDNS}" "t = v" by (auto simp: reconcileDNSAttachments_def)
      with dns_updates_none [OF sv] show ?thesis by simp
    next
      case recs: (Inr recs)
      let ?ips = "map getExternalMachineIP (filter serving ms)"
      let ?agree = "\<forall>m \<in> set ms. IsControlPlaneMachine m \<longrightarrow> (getExternalMachineIP m \<in> recs \<longleftrightarrow> serving m)"
      obtain o' w where w: "run_state (UpdateDNSAttachments E cl ?ips) v = (o', w)" by fastforce
      have "t = w \<and> r = (case o' of Inl e \<Rightarrow> Inl e | Inr _ \<Rightarrow> if ?agree then Inr () else Inl ErrRequeueDNS)"
      proof (cases o')
        case (Inl e)
        then have "(r, t) = (Inl e, w)"
          using run u v w Inr recs by (simp add: reconcileDNSAttachments_def dns_scan_spec Let_def)
        with Inl show ?thesis by simp
      next
        case (Inr a)
        then have "(r, t) = (if ?agree then Inr () else Inl ErrRequeueDNS, w)"
          using run u v w \<open>q = Inr ms\<close> recs
          by (auto simp: reconcileDNSAttachments_def dns_scan_spec Let_def split: if_splits)
        with Inr show ?thesis by simp
      qed
      with w have o': "run_state (UpdateDNSAttachments E cl ?ips) v = (o', t)"
        "r = (case o' of Inl e \<Rightarrow> Inl e | Inr _ \<Rightarrow> if ?agree then Inr () else Inl ErrRequeueDNS)" by simp_all
      from o'(1) show ?thesis
      proof (cases rule: UpdateDNS_run)
        case (unread e)
        then show ?thesis using dns_updates_none [OF since_trans [OF sv unread(1)]] o'(2) by simp
      next
        case (sent i old w ok)
        from since_trans [OF sv sent(2)] obtain es where es: "trace w = trace s @ es"
          "list_all (\<lambda>e. \<not> is_dns_modify e) es" by (auto simp: since_def)
        then have "dns_updates s t = [Maas (DNSModify i ?ips ok)]"
          using sent(3) by (auto simp: dns_updates_def filter_empty_conv list_all_iff)
        moreover have "ok \<longleftrightarrow> r \<in> {Inr (), Inl ErrRequeueDNS}" "ok \<longrightarrow> (r = Inr () \<longleftrightarrow> ?agree)"
          using sent(4,5) o'(2) by (cases o'; simp)+
        ultimately show ?thesis using ms u v sent(1) Inr recs by blast
      qed
    qed
  qed
qed

definition serving_mm :: maas_machine where
  "serving_mm = sample_mm\<lparr>mm_Meta := (sample_meta ''m-1'')\<lparr>om_Labels := [(MachineControlPlaneLabel, [])]\<rparr>,
     mm_Status := sample_status\<lparr>MachinePowered := True, MachineState := Some MachineStateDeployed,
       Addresses := [\<lparr>ma_Type = MachineExternalIP, ma_Address = ''10.0.0.5''\<rparr>]\<rparr>\<rparr>"

definition serving_env :: env where
  "serving_env = sample_env\<lparr>kube := sample_kube\<lparr>maasmachines_list_r := \<lambda>_ _ _. Inr [serving_mm]\<rparr>\<rparr>"

lemma serving_mm_serves: "serving serving_mm" "getExternalMachineIP serving_mm = ''10.0.0.5''"
  by (simp_all add: serving_def serving_mm_def IsControlPlaneMachine_def IsRunning_def sample_meta_def map_has_def
      MachineRunningStates_def getExternalMachineIP_def)

theorem dns_addresses_are_serving_witness:
  "\<exists>t i. run_state (reconcileDNSAttachments serving_env sample_cluster) sample_sys = (Inr (), t) \<and>
     dns_updates sample_sys t = [Maas (DNSModify i [''10.0.0.5''] True)]"
proof -
  have dns: "dns_list_r (maas serving_env) a tr = Inr [(''1'', [''10.0.0.5''])]"
    "dns_modify_r (maas serving_env) a b tr = Inr ()"
    "maasmachines_list_r (kube serving_env) a c tr = Inr [serving_mm]" for a b c tr
    by (simp_all add: serving_env_def sample_env_def sample_maas_def)
  obtain t where t: "run_state (reconcileDNSAttachments serving_env sample_cluster) sample_sys = (Inr (), t)"
    using serving_mm_serves
    by (simp add: reconcileDNSAttachments_def GetClusterMaasMachines_def dns_defs call_defs run_api dns
        dns_scan_spec IsZero_def sample_cluster_def sample_sys_def sample_mc_def Let_def)
  from dns_addresses_are_serving [OF t] obtain i ok where
    "dns_updates sample_sys t = [Maas (DNSModify i (map getExternalMachineIP (filter serving [serving_mm])) ok)]" ok
    by (auto simp: dns(3))
  with t serving_mm_serves show ?thesis by auto
qed

section \<open>Ready and the finalizer\<close>

definition endpoint_ready :: "capi_cluster \<Rightarrow> sys \<Rightarrow> bool" where
  "endpoint_ready cl s \<longleftrightarrow> (let mc = the_mc s; nm = mcs_DNSName (mc_Status mc) in
     nm \<noteq> [] \<and> ControlPlaneEndpoint (mc_Spec mc) = \<lparr>ep_Host = nm, ep_Port = APIServerPort cl\<rparr> \<and>
     mcs_Ready (mc_Status mc) \<and> mcs_Provisioned (mc_Status mc) = Some True)"

lemma invar_keeps_mc: "keeps the_mc m \<Longrightarrow> invar (endpoint_ready cl) m"
  unfolding keeps_def invar_def endpoint_ready_def by simp

lemma invar_set_cond: "invar (endpoint_ready cl) (set_cluster_cond E c)"
  by (simp add: invar_def set_cluster_cond_def endpoint_ready_def Let_def)

lemma invar_api: "invar (endpoint_ready cl) (api f ev)" "invar (endpoint_ready cl) (call g ev')"
  by (auto intro: invar_keeps_mc keeps_api_mc keeps_call_mc)

lemma invar_GetDNSName: "invar (endpoint_ready cl) (GetDNSName E cl)"
  by (simp add: invar_def GetDNSName_def endpoint_ready_def Let_def)

lemma keeps_mc_lists:
  "keeps the_mc (delete_all_ds E ns ds)" "keeps the_mc (try_delete_ds E ns ds)"
  by (induction ds) (auto simp: call_defs intro!: emits_intros)

lemma keeps_mc_docs: "keeps the_mc (apply_docs E docs)"
  by (induction E docs rule: apply_docs.induct) (auto simp: call_defs intro!: emits_intros)

lemma keeps_mc_ds: "keeps the_mc (ensureLXDInitializerDS E cl)"
  unfolding ensureLXDInitializerDS_def initializer_gates_def deploy_ds_def apply_ds_def
    CreateOrPatch_ds_def renderDaemonSetForCluster_def render_def ds_small_defs call_defs Let_def
  by (intro emits_intros keeps_mc_lists keeps_mc_docs; simp)

lemma invar_ReconcileLXD: "invar (endpoint_ready cl') (ReconcileLXD E cl)"
proof -
  have "keeps the_mc (check_nodes E cl ms)" for ms
    by (induction ms) (auto simp: isNodeLXDInitialized_def GetWorkloadClusterClient_def call_defs intro!: emits_intros)
  then show ?thesis
    unfolding ReconcileLXD_def GetClusterMaasMachines_def call_defs
    by (intro guard_intros invar_set_cond invar_api invar_keeps_mc)
qed

lemma invar_after_dns: "invar (endpoint_ready cl) (after_dns E cl)"
proof -
  have k: "keeps the_mc (IsAPIServerOnline E cl)" "keeps the_mc (EnsureClusterReadinessLabel E cl)"
    "keeps the_mc (GetWorkloadClusterClient E cl)"
    unfolding IsAPIServerOnline_def EnsureClusterReadinessLabel_def GetWorkloadClusterClient_def call_defs
    by (intro emits_intros)+
  have "keeps the_mc (if wants_poll cl then Poll_Request (cl_UID cl) else ret ())"
    unfolding Poll_Request_def by (intro emits_intros)
  then show ?thesis
    unfolding after_dns_def cluster_lxd_def lxd_pending_def Namespace_Get_def
    by (intro guard_intros invar_set_cond invar_ReconcileLXD invar_api invar_keeps_mc k keeps_mc_ds)
qed

lemma invar_attachments: "invar (endpoint_ready cl) (reconcileDNSAttachments E cl)"
  unfolding reconcileDNSAttachments_def GetClusterMaasMachines_def GetAPIServerDNSRecords_def
    UpdateDNSAttachments_def GetDNSResource_def call_defs Let_def
  by (intro guard_intros invar_GetDNSName invar_api)

abbreviation cluster_ready :: "sys \<Rightarrow> bool" where
  "cluster_ready s \<equiv> mcs_Ready (mc_Status (the_mc s))"

lemma ReconcileDNS_keeps_ready: "keeps cluster_ready (ReconcileDNS E cl)"
  unfolding dns_defs SetDNSName_def call_defs Let_def
  by (intro emits_intros keeps_modify; simp add: keeps_def run_api run_call)

lemma publish_endpoint_ready:
  assumes "run_state (publish_endpoint E cl) u = (r, t)" "mcs_DNSName (mc_Status (the_mc u)) \<noteq> []"
  shows "endpoint_ready cl t"
proof -
  define v where "v = snd (run_state (set_endpoint cl) u)"
  have v: "run_state (set_endpoint cl) u = ((), v)" "endpoint_ready cl v"
    using assms(2) by (auto simp: v_def set_endpoint_def endpoint_ready_def Let_def)
  have "invar (endpoint_ready cl) (do {
       set_cluster_cond E (cluster_cond DNSReadyCondition ConditionTrue DNSReadyReason []);
       r \<leftarrow> reconcileDNSAttachments E cl;
       case r of
         Inl e \<Rightarrow> if errors_Is e ErrRequeueDNS then reconcile_done else ret (NoRequeue, Some e)
       | Inr _ \<Rightarrow> after_dns E cl })"
    by (intro guard_intros invar_set_cond invar_attachments invar_after_dns)
  from invarD [OF this v(2)] assms(1) v(1) show ?thesis by (simp add: publish_endpoint_def)
qed

text \<open>
  C24: a cluster becomes ready only with an endpoint. If a reconcile turns \<open>Status.Ready\<close> on, then
  the finalizer was in place, the DNS name was reconciled in MAAS without error, and at the end the
  name is not empty, the control plane endpoint is that name with the API server's port, and the
  provisioned flag of the contract with Cluster API is set; whatever happens to the attachments, the
  API server and LXD in the same reconcile.
\<close>

theorem ready_needs_endpoint:
  assumes run: "run_state (cluster_reconcileNormal E cl) s = (r, t)"
    and on: "\<not> cluster_ready s" "cluster_ready t"
  shows "ContainsFinalizer (lib_of E) (om_Finalizers (mc_Meta (the_mc s))) ClusterFinalizer \<and>
    fst (run_state (ReconcileDNS E cl) s) = Inr () \<and> endpoint_ready cl t"
proof -
  obtain q u where u: "run_state (ReconcileDNS E cl) s = (q, u)" by fastforce
  have nu: "\<not> cluster_ready u" using keepsD [OF ReconcileDNS_keeps_ready u] on(1) by simp
  note step = run [unfolded cluster_reconcileNormal_def]
  have fin: "ContainsFinalizer (lib_of E) (om_Finalizers (mc_Meta (the_mc s))) ClusterFinalizer"
  proof (rule ccontr)
    assume "\<not> ?thesis"
    with step on show False by (simp add: set_cluster_finalizers_def) auto
  qed
  obtain x where env: "dns_NewService E = Inr x"
    using step on fin by (cases "dns_NewService E") simp_all
  have q: "q = Inr ()"
  proof (cases q)
    case (Inl e)
    with step fin env u on(2) nu show ?thesis by (simp add: set_cluster_cond_def) auto
  qed simp
  have "mcs_DNSName (mc_Status (the_mc u)) \<noteq> []"
  proof
    assume "mcs_DNSName (mc_Status (the_mc u)) = []"
    with step fin env u q on(2) nu show False by (simp add: set_cluster_cond_def) auto
  qed
  with publish_endpoint_ready [of E cl u r t] step fin env u q show ?thesis by simp
qed

theorem ready_needs_endpoint_witness:
  "\<exists>t. let s = sample_sys\<lparr>the_mc := sample_mc\<lparr>mc_Meta := (sample_meta ''c-1'')\<lparr>om_Finalizers := [ClusterFinalizer]\<rparr>\<rparr>\<rparr> in
     t = snd (run_state (cluster_reconcileNormal sample_env sample_cluster) s) \<and>
     \<not> cluster_ready s \<and> cluster_ready t \<and> endpoint_ready sample_cluster t"
proof -
  let ?s = "sample_sys\<lparr>the_mc := sample_mc\<lparr>mc_Meta := (sample_meta ''c-1'')\<lparr>om_Finalizers := [ClusterFinalizer]\<rparr>\<rparr>\<rparr>"
  obtain r t where run: "run_state (cluster_reconcileNormal sample_env sample_cluster) ?s = (r, t)" by fastforce
  have dns: "dns_list_r (maas sample_env) a tr = Inr [(''1'', [''10.0.0.5''])]"
    "dns_modify_r (maas sample_env) a b tr = Inr ()" "dns_create_r (maas sample_env) a tr = Inr ()"
    "maasmachines_list_r (kube sample_env) a c tr = Inr []"
    "ContainsFinalizer (lib_of sample_env) fs f = (f \<in> set fs)" "dns_NewService sample_env = Inr ()" for a b c tr fs f
    by (simp_all add: sample_env_def sample_maas_def sample_kube_def sample_lib_def dns_NewService_def NewMaasClient_def)
  have s: "\<not> cluster_ready ?s" by (simp add: sample_sys_def sample_mc_def)
  obtain u where u: "run_state (cluster_reconcileNormal sample_env sample_cluster) ?s =
      run_state (publish_endpoint sample_env sample_cluster) u" "mcs_DNSName (mc_Status (the_mc u)) = ''c-1.maas''"
    by (simp add: cluster_reconcileNormal_def dns_defs SetDNSName_def DNS_List_def run_api dns Let_def
        sample_sys_def sample_mc_def sample_cluster_def sample_meta_def IsZero_def)
  then have "cluster_ready t"
    using publish_endpoint_ready [of sample_env sample_cluster u r t] run by (simp add: endpoint_ready_def Let_def)
  from ready_needs_endpoint [OF run s this] this run s show ?thesis by (simp add: Let_def)
qed

section \<open>The finalizer\<close>

abbreviation cluster_fin :: "sys \<Rightarrow> bool" where
  "cluster_fin s \<equiv> ClusterFinalizer \<in> set (om_Finalizers (mc_Meta (the_mc s)))"

lemma invar_fin_mc: "keeps the_mc m \<Longrightarrow> invar cluster_fin m"
  unfolding keeps_def invar_def by simp

lemma invar_fin_basic:
  "invar cluster_fin (api f ev)" "invar cluster_fin (call g ev')" "invar cluster_fin (set_cluster_cond E c)"
  "invar cluster_fin (set_endpoint cl)" "invar cluster_fin (SetDNSName nm)"
  by (auto intro: invar_fin_mc keeps_api_mc keeps_call_mc)
    (simp_all add: invar_def set_cluster_cond_def set_endpoint_def SetDNSName_def)

lemma invar_fin_GetDNSName: "invar cluster_fin (GetDNSName E cl)"
  unfolding GetDNSName_def call_defs Let_def by (intro guard_intros invar_fin_basic)

lemma invar_fin_normal:
  assumes "finalizer_laws (lib_of E)" shows "invar cluster_fin (cluster_reconcileNormal E cl)"
proof -
  have add: "invar cluster_fin (set_cluster_finalizers (\<lambda>fs. AddFinalizer (lib_of E) fs ClusterFinalizer))"
    using assms by (simp add: invar_def set_cluster_finalizers_def finalizer_laws_def)
  have k: "keeps the_mc (IsAPIServerOnline E cl)" "keeps the_mc (EnsureClusterReadinessLabel E cl)"
    "keeps the_mc (check_nodes E cl ms)" for ms
    unfolding IsAPIServerOnline_def EnsureClusterReadinessLabel_def call_defs
    by ((intro emits_intros)+, induction ms)
      (auto simp: isNodeLXDInitialized_def GetWorkloadClusterClient_def call_defs intro!: emits_intros)
  have lxd: "invar cluster_fin (cluster_lxd E cl)"
    unfolding cluster_lxd_def lxd_pending_def ReconcileLXD_def GetWorkloadClusterClient_def
      GetClusterMaasMachines_def call_defs
    by (intro guard_intros invar_fin_basic) (intro invar_fin_mc k keeps_mc_ds)+
  have after: "invar cluster_fin (after_dns E cl)"
    unfolding after_dns_def Poll_Request_def
    by (intro guard_intros invar_fin_basic lxd) (intro invar_fin_mc k)+
  have "invar cluster_fin (reconcileDNSAttachments E cl)" "invar cluster_fin (ReconcileDNS E cl)"
    unfolding reconcileDNSAttachments_def ReconcileDNS_def GetClusterMaasMachines_def GetAPIServerDNSRecords_def
      UpdateDNSAttachments_def GetDNSResource_def call_defs Let_def
    by (intro guard_intros invar_fin_basic invar_fin_GetDNSName)+
  with after show ?thesis
    unfolding cluster_reconcileNormal_def publish_endpoint_def
    by (intro guard_intros invar_fin_basic add)
qed

lemma reconcileDelete_waits:
  assumes "run_state (cluster_reconcileDelete E cl) s = (r, t)" "cluster_fin s" "\<not> cluster_fin t"
  shows "\<exists>tr. maasmachines_list_r (kube E) (cl_Namespace cl) (cl_Name cl) tr = Inr []"
  using assms unfolding cluster_reconcileDelete_def GetMAASMachinesInCluster_def MaasMachines_List_def
  by (auto simp: run_api split: sum.splits if_splits)

lemma close_patches:
  assumes "run_state (cluster_with_close E m) s = (r, t)" "last (trace t) = Kube (MaasClusterPatch mc ok)"
    "ClusterFinalizer \<notin> set (om_Finalizers (mc_Meta mc))"
  shows "\<exists>q u. run_state m s = (q, u) \<and> \<not> cluster_fin u"
  using assms unfolding cluster_with_close_def cluster_PatchObject_def MaasCluster_Patch_def
  by (auto simp: run_api split: prod.splits)

lemma body_drops_finalizer:
  assumes "finalizer_laws (lib_of E)" "run_state (cluster_body E mc0 cl) s = (q, u)" "cluster_fin s" "\<not> cluster_fin u"
  shows "om_DeletionTimestamp (mc_Meta mc0) \<noteq> None \<and>
    (\<exists>tr. maasmachines_list_r (kube E) (cl_Namespace cl) (cl_Name cl) tr = Inr [])"
proof -
  define s' where "s' = snd (run_state set_failure_domains s)"
  have s': "run_state set_failure_domains s = ((), s')" "cluster_fin s'"
    using assms(3) by (simp_all add: s'_def set_failure_domains_def)
  show ?thesis
  proof (cases "om_DeletionTimestamp (mc_Meta mc0)")
    case None
    with assms(2) s' have "run_state (cluster_reconcileNormal E cl) s' = (q, u)" by (simp add: cluster_body_def)
    from invarD [OF invar_fin_normal [OF assms(1)] s'(2) this] assms(4) show ?thesis by simp
  next
    case (Some ts)
    with assms(2) s' have "run_state (cluster_reconcileDelete E cl) s' = (q, u)" by (simp add: cluster_body_def)
    from reconcileDelete_waits [OF this s'(2) assms(4)] Some show ?thesis by simp
  qed
qed

text \<open>
  C13: a cluster keeps its finalizer until its machines are gone. If a reconcile persists a cluster
  that had the finalizer without it, then the cluster is being deleted and a listing of the machines
  of its owner was empty in this reconcile.
\<close>

theorem cluster_finalizer_waits_for_machines:
  assumes laws: "finalizer_laws (lib_of E)"
    and run: "run_state (cluster_Reconcile E ns nm) s = (r, t)"
    and got: "maascluster_get_r (kube E) ns nm (trace s) = Inr mc0"
      "ClusterFinalizer \<in> set (om_Finalizers (mc_Meta mc0))"
    and patched: "last (trace t) = Kube (MaasClusterPatch mc ok)"
      "ClusterFinalizer \<notin> set (om_Finalizers (mc_Meta mc))"
  shows "om_DeletionTimestamp (mc_Meta mc0) \<noteq> None \<and>
    (\<exists>cl tr tr'. owner_cluster_r (kube E) mc0 tr = Inr (Some cl) \<and>
       maasmachines_list_r (kube E) (cl_Namespace cl) (cl_Name cl) tr' = Inr [])"
proof -
  define tr where "tr = trace s @ [Kube (MaasClusterGet ns nm)]"
  obtain cl where owner: "owner_cluster_r (kube E) mc0 tr = Inr (Some cl)"
    using run got patched(1) unfolding cluster_Reconcile_def MaasCluster_Get_def GetOwnerCluster_def
    by (auto simp: run_api tr_def split: sum.splits option.splits prod.splits)
  define s1 where "s1 = s\<lparr>trace := tr @ [Kube (OwnerClusterGet (om_Name (mc_Meta mc0)))], the_mc := mc0\<rparr>"
  have "run_state (cluster_with_close E (cluster_body E mc0 cl)) s1 = (r, t)"
    using run got(1) owner unfolding cluster_Reconcile_def MaasCluster_Get_def GetOwnerCluster_def
    by (simp add: run_api tr_def s1_def)
  from close_patches [OF this patched] obtain q u where
    "run_state (cluster_body E mc0 cl) s1 = (q, u)" "\<not> cluster_fin u" by blast
  moreover have "cluster_fin s1" using got(2) by (simp add: s1_def)
  ultimately show ?thesis using body_drops_finalizer [OF laws] owner by blast
qed

theorem cluster_finalizer_waits_for_machines_witness:
  "let mc0 = sample_mc\<lparr>mc_Meta := (sample_meta ''c-1'')\<lparr>om_Finalizers := [ClusterFinalizer], om_DeletionTimestamp := Some 5\<rparr>\<rparr>;
       E = sample_env\<lparr>kube := sample_kube\<lparr>maascluster_get_r := \<lambda>_ _ _. Inr mc0\<rparr>\<rparr>
   in \<exists>t mc ok. t = snd (run_state (cluster_Reconcile E ''cluster-1'' ''c-1'') sample_sys) \<and>
      last (trace t) = Kube (MaasClusterPatch mc ok) \<and> ClusterFinalizer \<notin> set (om_Finalizers (mc_Meta mc)) \<and>
      (\<exists>(cl :: capi_cluster) tr. maasmachines_list_r (kube E) (cl_Namespace cl) (cl_Name cl) tr = Inr [])"
proof -
  define mc0 where "mc0 = sample_mc\<lparr>mc_Meta := (sample_meta ''c-1'')\<lparr>om_Finalizers := [ClusterFinalizer], om_DeletionTimestamp := Some 5\<rparr>\<rparr>"
  define E where "E = sample_env\<lparr>kube := sample_kube\<lparr>maascluster_get_r := \<lambda>_ _ _. Inr mc0\<rparr>\<rparr>"
  have laws: "finalizer_laws (lib_of E)" using sample_finalizer_laws by (simp add: E_def sample_env_def)
  have got: "maascluster_get_r (kube E) ''cluster-1'' ''c-1'' (trace sample_sys) = Inr mc0"
    "ClusterFinalizer \<in> set (om_Finalizers (mc_Meta mc0))" by (simp_all add: E_def mc0_def)
  obtain r t where run: "run_state (cluster_Reconcile E ''cluster-1'' ''c-1'') sample_sys = (r, t)" by fastforce
  have answers: "maascluster_get_r (kube E) a b tr = Inr mc0" "owner_cluster_r (kube E) mc tr = Inr (Some sample_cluster)"
    "maasmachines_list_r (kube E) a b tr = Inr []" "maascluster_patch_r (kube E) mc tr = Inr ()"
    "RemoveFinalizer (lib_of E) fs f = filter (\<lambda>g. g \<noteq> f) fs" "cond_SetSummary (lib_of E) cs ty = cs"
    for a b mc tr fs f cs ty
    by (simp_all add: E_def sample_env_def sample_kube_def sample_lib_def)
  have del: "om_DeletionTimestamp (mc_Meta mc0) = Some 5" "om_Finalizers (mc_Meta mc0) = [ClusterFinalizer]"
    by (simp_all add: mc0_def)
  obtain mc ok where p: "last (trace t) = Kube (MaasClusterPatch mc ok)"
    "ClusterFinalizer \<notin> set (om_Finalizers (mc_Meta mc))"
  proof
    show "last (trace t) = Kube (MaasClusterPatch (the_mc t) True)"
      "ClusterFinalizer \<notin> set (om_Finalizers (mc_Meta (the_mc t)))"
      using run by (auto simp: cluster_Reconcile_def cluster_with_close_def cluster_body_def set_failure_domains_def
        cluster_reconcileDelete_def GetMAASMachinesInCluster_def set_cluster_finalizers_def cluster_PatchObject_def
        MaasCluster_Get_def GetOwnerCluster_def MaasMachines_List_def MaasCluster_Patch_def run_api answers del)
  qed
  from cluster_finalizer_waits_for_machines [OF laws run got p]
  obtain cl :: capi_cluster and tr where "maasmachines_list_r (kube E) (cl_Namespace cl) (cl_Name cl) tr = Inr []" by blast
  moreover have "t = snd (run_state (cluster_Reconcile E ''cluster-1'' ''c-1'') sample_sys)" using run by simp
  ultimately show ?thesis
    unfolding Let_def E_def [symmetric] mc0_def [symmetric] using p by (intro exI conjI)
qed

section \<open>LXD readiness\<close>

text \<open>
  \<open>ReconcileLXD\<close> returns no error while the setup is pending, and the controller then overwrites
  the pending condition: a cluster without machines is reported LXD ready.
\<close>

lemma lxd_ready_without_machines:
  assumes "run_state (ensureLXDInitializerDS E cl) u = (Inr (), v)" "IsLXDHostEnabled (the_mc v)"
    "\<forall>tr. maasmachines_list_r (kube E) (cl_Namespace cl) (cl_Name cl) tr = Inr []"
    "\<forall>cs c. cond_GetReason (lib_of E) (cond_Set (lib_of E) cs c) (c_Type c) = c_Reason c"
    "remote_client_r (remote E) (cl_Namespace cl) (cl_Name cl) (trace s) = Inr ()"
    "namespace_get_r (remote E) ''kube-system'' (trace s @ [Remote (RemoteClient (cl_Namespace cl) (cl_Name cl))]) =
       Inr [(APIServerReadinessLabel, ''true'')]"
    "u = s\<lparr>trace := trace s @ [Remote (RemoteClient (cl_Namespace cl) (cl_Name cl)), Remote (NamespaceGet ''kube-system'')]\<rparr>"
    "run_state (cluster_lxd E cl) s = (r, t)"
  shows "r = (NoRequeue, None) \<and>
    cond_GetReason (lib_of E) (mcs_Conditions (mc_Status (the_mc t))) LXDReadyCondition = LXDReadyReason"
proof -
  have law: "cond_GetReason (lib_of E) (cond_Set (lib_of E) cs
      \<lparr>c_Type = ty, c_Status = st, c_Reason = rs, c_Message = msg\<rparr>) ty = rs" for cs ty st rs msg
    using assms(4) [rule_format, of cs "\<lparr>c_Type = ty, c_Status = st, c_Reason = rs, c_Message = msg\<rparr>"] by simp
  show ?thesis
    using assms(3,5-8) assms(1,2)
    by (auto simp: cluster_lxd_def GetWorkloadClusterClient_def Remote_Client_def Namespace_Get_def run_api law
        map_get_def ReconcileLXD_def GetClusterMaasMachines_def MaasMachines_List_def set_cluster_cond_def cluster_cond_def)
qed

end
