(* ===== verification/Lxd_Hosts.thy ===== *)
theory Lxd_Hosts
  imports Machine_Scope Guards
begin

text \<open>
  LXD VM hosts, \<open>pkg/maas/lxd/host_maas_client.go\<close>: registration of a node as a VM host of MAAS, its
  removal, and the selection of the host a new VM is composed on (filter by zone, pool, tags,
  resources, storage, health and maintenance; rank by control-plane spread, resources and
  management). Go's \<open>sort.Slice\<close> is not stable: the model lets the environment choose the order of
  the elements first and then sorts by insertion, so that equal elements come in any order. A
  \<open>float64\<close> is a rational number, each operation followed by the rounding of the library record.
\<close>

section \<open>Registration\<close>

record host_config =
  hc_NodeIP :: string
  hc_HostName :: string
  hc_MaasAPIKey :: string
  hc_MaasAPIEndpoint :: string
  hc_StorageBackend :: string
  hc_StorageSize :: string
  hc_NetworkBridge :: string
  hc_Zone :: string
  hc_ResourcePool :: string
  hc_TrustPassword :: string

definition validateHostConfig :: "host_config \<Rightarrow> unit res" where
  "validateHostConfig config =
     (if hc_NodeIP config = [] then Inl (ErrorString ''node IP is required'')
      else if hc_MaasAPIKey config = [] then Inl (ErrorString ''MAAS API key is required'')
      else if hc_MaasAPIEndpoint config = [] then Inl (ErrorString ''MAAS API endpoint is required'')
      else Inr ())"

text \<open>
  The host of \<open>net.SplitHostPort\<close>, none when it returns an error: the part before the last colon,
  without brackets; an address without a port, with several colons outside brackets or with stray
  brackets is an error.
\<close>

definition SplitHostPort_host :: "string \<Rightarrow> string option" where
  "SplitHostPort_host hp =
     (let before = rev (tl (dropWhile (\<lambda>c. c \<noteq> CHR '':'') (rev hp)));
          i = length before
      in if CHR '':'' \<notin> set hp then None
         else if hp \<noteq> [] \<and> hd hp = CHR ''['' then
           (let inner = takeWhile (\<lambda>c. c \<noteq> CHR '']'') (tl hp); end = length inner + 1
            in if CHR '']'' \<notin> set hp then None
               else if end + 1 \<noteq> i then None
               else if CHR ''['' \<in> set (drop 1 hp) \<or> CHR '']'' \<in> set (drop (end + 1) hp) then None
               else Some inner)
         else if CHR '':'' \<in> set before then None
         else if CHR ''['' \<in> set hp \<or> CHR '']'' \<in> set hp then None
         else Some before)"

definition normalizeHost :: "lib \<Rightarrow> string \<Rightarrow> string" where
  "normalizeHost L s =
     (if s = [] then []
      else let s = (if \<not> Contains s ''://'' then ''https://'' @ s else s)
        in case url_Parse L s of
             None \<Rightarrow> s
           | Some (host, path) \<Rightarrow>
               let h = (if host = [] then path else host)
               in case SplitHostPort_host h of Some hp \<Rightarrow> hp | None \<Rightarrow> h)"

definition host_matches :: "lib \<Rightarrow> string \<Rightarrow> string \<Rightarrow> string \<Rightarrow> vm_host \<Rightarrow> bool" where
  "host_matches L systemID wantName wantHost host \<longleftrightarrow>
     (TrimSpace systemID \<noteq> [] \<and> vmh_HostSystemID host = TrimSpace systemID) \<or>
     (wantName \<noteq> [] \<and> vmh_Name host = wantName) \<or>
     (wantHost \<noteq> [] \<and> normalizeHost L (vmh_PowerAddress host) = wantHost)"

definition isHostRegisteredWithMaasClientAdvanced ::
    "env \<Rightarrow> string \<Rightarrow> string \<Rightarrow> string \<Rightarrow> bool res io" where
  "isHostRegisteredWithMaasClientAdvanced E systemID desiredName nodeIP = do {
     r \<leftarrow> VMHosts_List E;
     ret (case r of
        Inl e \<Rightarrow> Inl (Wrapped ''failed to get VM hosts'' e)
      | Inr vmHosts \<Rightarrow> Inr (list_ex (host_matches (lib_of E) systemID (TrimSpace desiredName)
            (normalizeHost (lib_of E) (TrimSpace nodeIP))) vmHosts)) }"

definition register_params :: "host_config \<Rightarrow> params" where
  "register_params config =
     (let hn = TrimSpace (hc_HostName config);
          name = (if hn \<noteq> [] then ''lxd-host-'' @ hn else ''lxd-host-'' @ hc_NodeIP config)
      in [(''type'', ''lxd''), (''power_address'', ''https://'' @ hc_NodeIP config @ '':8443''),
          (''name'', name)] @
         (if hc_Zone config \<noteq> [] then [(''zone'', hc_Zone config)] else []) @
         (if hc_ResourcePool config \<noteq> [] then [(''pool'', hc_ResourcePool config)] else []) @
         (if hc_TrustPassword config \<noteq> [] then [(''password'', hc_TrustPassword config)] else []))"

definition registerWithMaasClient :: "env \<Rightarrow> host_config \<Rightarrow> unit res io" where
  "registerWithMaasClient E config = do {
     r \<leftarrow> VMHost_Create E (register_params config);
     ret (case r of
        Inl e \<Rightarrow> Inl (Wrapped ''failed to register host with MAAS'' e) | Inr _ \<Rightarrow> Inr ()) }"

definition SetupLXDHostWithMaasClient :: "env \<Rightarrow> host_config \<Rightarrow> unit res io" where
  "SetupLXDHostWithMaasClient E config =
     (case validateHostConfig config of
        Inl e \<Rightarrow> ret (Inl (Wrapped ''invalid host configuration'' e))
      | Inr _ \<Rightarrow> do {
          let hn = TrimSpace (hc_HostName config);
          let desiredName = (if hn = [] then ''lxd-host-'' @ hc_NodeIP config else ''lxd-host-'' @ hn);
          r \<leftarrow> isHostRegisteredWithMaasClientAdvanced E [] desiredName (hc_NodeIP config);
          case r of
            Inl e \<Rightarrow> ret (Inl (Wrapped ''failed to check if host is registered'' e))
          | Inr isRegistered \<Rightarrow>
              if isRegistered then ret (Inr ())
              else do {
                r \<leftarrow> registerWithMaasClient E config;
                ret (case r of
                   Inl e \<Rightarrow> Inl (Wrapped ''failed to register with MAAS'' e) | Inr _ \<Rightarrow> Inr ()) } })"

definition GetAvailableLXDHostsWithMaasClient :: "env \<Rightarrow> vm_host list res io" where
  "GetAvailableLXDHostsWithMaasClient E = do {
     r \<leftarrow> VMHosts_List E;
     ret (case r of Inl e \<Rightarrow> Inl (Wrapped ''failed to get VM hosts'' e) | Inr hs \<Rightarrow> Inr hs) }"

definition UnregisterLXDHostByNameWithMaasClient :: "env \<Rightarrow> string \<Rightarrow> unit res io" where
  "UnregisterLXDHostByNameWithMaasClient E hostName = do {
     r \<leftarrow> VMHosts_List E;
     case r of
       Inl e \<Rightarrow> ret (Inl (Wrapped ''failed to get VM hosts'' e))
     | Inr vmHosts \<Rightarrow>
         (case find (\<lambda>host. vmh_Name host = hostName) vmHosts of
            None \<Rightarrow> ret (Inr ())
          | Some host \<Rightarrow> do {
              r \<leftarrow> VMHost_Delete E (vmh_SystemID host);
              ret (case r of
                 Inl e \<Rightarrow> Inl (Wrapped (''failed to delete VM host '' @ vmh_Name host) e)
               | Inr _ \<Rightarrow> Inr ()) }) }"

definition CreateLXDVMWithMaasClient ::
    "env \<Rightarrow> string \<Rightarrow> string \<Rightarrow> string \<Rightarrow> string \<Rightarrow> string \<Rightarrow> string \<Rightarrow> string res io" where
  "CreateLXDVMWithMaasClient E vmHostID vmName vmCores vmMemory vmDisk staticIP = do {
     let ps = [(''hostname'', vmName), (''cores'', vmCores), (''memory'', vmMemory),
         (''storage'', vmDisk)] @
       (if staticIP \<noteq> [] then [(''interfaces'', ''name=eth0,ip='' @ staticIP)] else []);
     r \<leftarrow> VMHost_Compose E vmHostID ps;
     ret (case r of
        Inl e \<Rightarrow> Inl (Wrapped ''failed to create VM'' e) | Inr m \<Rightarrow> Inr (sdk_SystemID m)) }"

definition DeleteLXDVMWithMaasClient :: "env \<Rightarrow> string \<Rightarrow> unit res io" where
  "DeleteLXDVMWithMaasClient E systemID = do {
     r \<leftarrow> Machine_Get E systemID;
     case r of
       Inl e \<Rightarrow> ret (Inl (Wrapped (''failed to get machine '' @ systemID) e))
     | Inr m \<Rightarrow>
         if sdk_PowerType m \<noteq> ''lxd''
         then ret (Inl (ErrorString (''machine '' @ systemID @ '' is not an LXD VM'')))
         else do {
           r \<leftarrow> Machine_Delete E systemID;
           ret (case r of
              Inl e \<Rightarrow> Inl (Wrapped ''failed to delete LXD VM'' e) | Inr _ \<Rightarrow> Inr ()) } }"

section \<open>Placement\<close>

text \<open>The name of a zone; a method call on a nil zone is a panic.\<close>

definition zone_Name :: "zone_ref \<Rightarrow> string res" where
  "zone_Name z = (case z of ZoneOf _ n \<Rightarrow> Inr n | _ \<Rightarrow> Inl (GoPanic ''nil pointer dereference''))"

record select_options =
  so_Zone :: string
  so_ResourcePool :: string
  so_Tags :: "string list"
  so_MinCores :: int
  so_MinMemory :: int
  so_MinDiskSizeGB :: int
  so_ClusterID :: string

record candidate_host =
  ca_host :: vm_host
  ca_cpCount :: int
  ca_resourceScore :: rat

definition computeResourceScore :: "lib \<Rightarrow> int \<Rightarrow> int \<Rightarrow> int \<Rightarrow> int \<Rightarrow> rat" where
  "computeResourceScore L availableCores availableMemory minCores minMemory =
     (let rnd = float64_round L;
          coreRatio = (if minCores > 0 then rnd (rnd (of_int availableCores) / rnd (of_int minCores)) else 0);
          memRatio = (if minMemory > 0 then rnd (rnd (of_int availableMemory) / rnd (of_int minMemory)) else 0)
      in rnd (coreRatio + memRatio))"

definition hostHasAllTags :: "vm_host \<Rightarrow> string list \<Rightarrow> bool" where
  "hostHasAllTags host requiredTags = list_all (\<lambda>t. t \<in> set (vmh_Tags host)) requiredTags"

definition hasMaintenanceTag :: "string list \<Rightarrow> bool" where
  "hasMaintenanceTag tags = list_ex (\<lambda>t. t = TagHostMaintenance \<or> t = TagHostNoSchedule) tags"

definition isHostUnderMaintenance :: "env \<Rightarrow> string \<Rightarrow> bool io" where
  "isHostUnderMaintenance E hostSystemID =
     (if hostSystemID = [] then ret False
      else do {
        r \<leftarrow> Machine_Get E hostSystemID;
        ret (case r of Inl _ \<Rightarrow> False | Inr m \<Rightarrow> hasMaintenanceTag (sdk_Tags m)) })"

definition isManagedHost :: "vm_host \<Rightarrow> bool" where
  "isManagedHost h = HasPrefix (ToLower (TrimSpace (vmh_Name h))) ''lxd-host-''"

text \<open>\<open>counts[parentID]++\<close> over the machines with both tags.\<close>

definition count_of :: "(string \<times> int) list \<Rightarrow> string \<Rightarrow> int" where
  "count_of counts k = (case map_of counts k of None \<Rightarrow> 0 | Some n \<Rightarrow> n)"

primrec count_loop :: "string \<Rightarrow> (string \<times> int) list \<Rightarrow> sdk_machine list \<Rightarrow> (string \<times> int) list" where
  "count_loop clusterTag counts [] = counts"
| "count_loop clusterTag counts (m # ms) =
     count_loop clusterTag
       (let parentID = sdk_Parent m; tags = sdk_Tags m;
            hasCP = list_ex (\<lambda>t. t = TagVMControlPlane) tags;
            hasCluster = list_ex (\<lambda>t. t = clusterTag) tags
        in if parentID = [] then counts
           else if hasCP \<and> hasCluster
                then AList.update parentID (count_of counts parentID + 1) counts
                else counts) ms"

definition computeCPCountsByHost :: "sdk_machine list \<Rightarrow> string \<Rightarrow> (string \<times> int) list" where
  "computeCPCountsByHost ms clusterTag = count_loop clusterTag [] ms"

definition hasStorage :: "select_options \<Rightarrow> vm_host \<Rightarrow> bool" where
  "hasStorage opts host =
     (let requiredBytes = (word_of_int (so_MinDiskSizeGB opts) :: 64 word) * 1000 * 1000 * 1000
      in list_ex (\<lambda>pool. \<not> sp_Remote pool \<and>
           sint requiredBytes \<le> sint (sp_Available pool - sp_Pending pool)) (vmh_StoragePools host))"

definition consider_host ::
    "env \<Rightarrow> select_options \<Rightarrow> (string \<times> int) list \<Rightarrow> vm_host \<Rightarrow> candidate_host option res io" where
  "consider_host E opts counts host =
     (case (if vmh_Zone host = ZoneNil then Inr [] else zone_Name (vmh_Zone host)) of
        Inl e \<Rightarrow> ret (Inl e)
      | Inr hostZone \<Rightarrow>
          let hostPool = (case vmh_ResourcePool host of None \<Rightarrow> [] | Some (_, n) \<Rightarrow> n)
          in if so_Zone opts \<noteq> [] \<and> hostZone \<noteq> so_Zone opts then ret (Inr None)
             else if so_ResourcePool opts \<noteq> [] \<and> hostPool \<noteq> so_ResourcePool opts then ret (Inr None)
             else if so_Tags opts \<noteq> [] \<and> \<not> hostHasAllTags host (so_Tags opts) then ret (Inr None)
             else if so_MinCores opts > 0 \<and> vmh_AvailableCores host < so_MinCores opts then ret (Inr None)
             else if so_MinMemory opts > 0 \<and> vmh_AvailableMemory host < so_MinMemory opts
               then ret (Inr None)
             else if so_MinDiskSizeGB opts > 0 \<and> \<not> hasStorage opts host then ret (Inr None)
             else if vmh_HostSystemID host = [] then ret (Inr None)
             else do {
               r \<leftarrow> Machine_Get E (vmh_HostSystemID host);
               ret (Inr (case r of
                  Inl _ \<Rightarrow> None
                | Inr m \<Rightarrow>
                    if sdk_PowerState m \<noteq> ''on'' \<or> sdk_State m \<noteq> ''Deployed'' then None
                    else if hasMaintenanceTag (sdk_Tags m) then None
                    else Some \<lparr>ca_host = host, ca_cpCount = count_of counts (vmh_HostSystemID host),
                      ca_resourceScore = computeResourceScore (lib_of E) (vmh_AvailableCores host)
                        (vmh_AvailableMemory host) (so_MinCores opts) (so_MinMemory opts)\<rparr>)) })"

primrec filter_hosts ::
    "env \<Rightarrow> select_options \<Rightarrow> (string \<times> int) list \<Rightarrow> vm_host list \<Rightarrow> candidate_host list res io" where
  "filter_hosts E opts counts [] = ret (Inr [])"
| "filter_hosts E opts counts (h # hs) =
     ok_then (consider_host E opts counts h) (\<lambda>c.
       ok_then (filter_hosts E opts counts hs) (\<lambda>cs.
         ret (Inr (case c of None \<Rightarrow> cs | Some x \<Rightarrow> x # cs))))"

definition cand_less :: "candidate_host \<Rightarrow> candidate_host \<Rightarrow> bool" where
  "cand_less a b =
     (if ca_cpCount a \<noteq> ca_cpCount b then ca_cpCount a < ca_cpCount b
      else if ca_resourceScore a \<noteq> ca_resourceScore b then ca_resourceScore a > ca_resourceScore b
      else isManagedHost (ca_host a) \<and> \<not> isManagedHost (ca_host b))"

primrec insert_by :: "('a \<Rightarrow> 'a \<Rightarrow> bool) \<Rightarrow> 'a \<Rightarrow> 'a list \<Rightarrow> 'a list" where
  "insert_by lt x [] = [x]"
| "insert_by lt x (y # ys) = (if lt y x then y # insert_by lt x ys else x # y # ys)"

definition sort_Slice :: "env \<Rightarrow> ('a \<Rightarrow> 'a \<Rightarrow> bool) \<Rightarrow> 'a list \<Rightarrow> 'a list io" where
  "sort_Slice E lt xs = do { ys \<leftarrow> range_keys E xs; ret (foldr (insert_by lt) ys []) }"

definition SelectLXDHostWithMaasClient ::
    "env \<Rightarrow> vm_host list \<Rightarrow> select_options \<Rightarrow> vm_host res io" where
  "SelectLXDHostWithMaasClient E hosts opts =
     (if hosts = [] then ret (Inl (ErrorString ''no LXD hosts available''))
      else do {
        let clusterTag = (if so_ClusterID opts \<noteq> []
          then TagVMClusterPrefix @ SanitizeID (so_ClusterID opts) else []);
        counts \<leftarrow> (if clusterTag \<noteq> [] then do {
                     r \<leftarrow> Machines_List E [];
                     ret (case r of Inl _ \<Rightarrow> [] | Inr allMachines \<Rightarrow>
                       computeCPCountsByHost allMachines clusterTag) }
                   else ret []);
        ok_then (filter_hosts E opts counts hosts) (\<lambda>candidates.
          if candidates = [] then ret (Inl (ErrorString ''no eligible LXD host found''))
          else do {
            sorted \<leftarrow> sort_Slice E cand_less candidates;
            ret (Inr (ca_host (hd sorted))) }) })"

section \<open>Sorting\<close>

text \<open>
  What \<open>sort.Slice\<close> promises of its result rests on the comparison being a strict weak order.
\<close>

locale strict_weak_order =
  fixes lt :: "'a \<Rightarrow> 'a \<Rightarrow> bool"
  assumes asym: "lt x y \<Longrightarrow> \<not> lt y x"
    and neg_trans: "lt x z \<Longrightarrow> lt x y \<or> lt y z"
begin

lemma set_insert_by: "set (insert_by lt x xs) = insert x (set xs)"
  by (induction xs) auto

lemma sorted_insert_by:
  "sorted_wrt (\<lambda>a b. \<not> lt b a) xs \<Longrightarrow> sorted_wrt (\<lambda>a b. \<not> lt b a) (insert_by lt x xs)"
  by (induction xs) (auto simp: set_insert_by dest: asym neg_trans)

lemma sort_Slice_min:
  assumes "run_state (sort_Slice E lt xs) s = (ys, t)" and "xs \<noteq> []"
  shows "hd ys \<in> set xs \<and> (\<forall>x\<in>set xs. \<not> lt x (hd ys))"
proof -
  from assms(1) obtain zs where z: "run_state (range_keys E xs) s = (zs, t)"
    "ys = foldr (insert_by lt) zs []" by (auto simp: sort_Slice_def split: prod.splits)
  have "set (foldr (insert_by lt) zs []) = set zs" by (induction zs) (auto simp: set_insert_by)
  then have set: "set ys = set xs" using set_range_keys [OF z(1)] z(2) by simp
  have "sorted_wrt (\<lambda>a b. \<not> lt b a) (foldr (insert_by lt) zs [])"
    by (induction zs) (simp_all add: sorted_insert_by)
  then have "sorted_wrt (\<lambda>a b. \<not> lt b a) ys" using z(2) by simp
  then have "ys \<noteq> [] \<longrightarrow> (\<forall>x\<in>set ys. \<not> lt x (hd ys))" by (cases ys) (auto dest: asym)
  moreover have "ys \<noteq> []" using set assms(2) by auto
  ultimately show ?thesis using set hd_in_set by metis
qed

end

interpretation cand: strict_weak_order cand_less
  by unfold_locales (auto simp: cand_less_def split: if_splits)

section \<open>The selected host is the best eligible one\<close>

text \<open>
  The specification of the selection, for one snapshot of MAAS: \<open>M\<close> is the machine with a system ID
  and \<open>L\<close> the list of all machines.
\<close>

definition eligible :: "(string \<Rightarrow> api_err + sdk_machine) \<Rightarrow> select_options \<Rightarrow> vm_host \<Rightarrow> bool" where
  "eligible M opts h \<longleftrightarrow>
     (so_Zone opts = [] \<or> (\<exists>i. vmh_Zone h = ZoneOf i (so_Zone opts))) \<and>
     (so_ResourcePool opts = [] \<or> (\<exists>i. vmh_ResourcePool h = Some (i, so_ResourcePool opts))) \<and>
     set (so_Tags opts) \<subseteq> set (vmh_Tags h) \<and>
     (so_MinCores opts > 0 \<longrightarrow> so_MinCores opts \<le> vmh_AvailableCores h) \<and>
     (so_MinMemory opts > 0 \<longrightarrow> so_MinMemory opts \<le> vmh_AvailableMemory h) \<and>
     (so_MinDiskSizeGB opts > 0 \<longrightarrow> hasStorage opts h) \<and>
     vmh_HostSystemID h \<noteq> [] \<and>
     (\<exists>m. M (vmh_HostSystemID h) = Inr m \<and> sdk_PowerState m = ''on'' \<and> sdk_State m = ''Deployed'' \<and>
        TagHostMaintenance \<notin> set (sdk_Tags m) \<and> TagHostNoSchedule \<notin> set (sdk_Tags m))"

definition cp_vms_on :: "api_err + sdk_machine list \<Rightarrow> select_options \<Rightarrow> string \<Rightarrow> nat" where
  "cp_vms_on L opts sid = (case L of Inl _ \<Rightarrow> 0 | Inr ms \<Rightarrow>
     if so_ClusterID opts = [] then 0
     else length (filter (\<lambda>m. sdk_Parent m = sid \<and> TagVMControlPlane \<in> set (sdk_Tags m) \<and>
       TagVMClusterPrefix @ SanitizeID (so_ClusterID opts) \<in> set (sdk_Tags m)) ms))"

definition host_score :: "lib \<Rightarrow> select_options \<Rightarrow> vm_host \<Rightarrow> rat" where
  "host_score Lb opts h = computeResourceScore Lb (vmh_AvailableCores h) (vmh_AvailableMemory h)
     (so_MinCores opts) (so_MinMemory opts)"

lemma count_of_update [simp]:
  "count_of (AList.update k v m) k' = (if k' = k then v else count_of m k')"
  by (simp add: count_of_def update_conv)

lemma count_loop_count:
  "sid \<noteq> [] \<Longrightarrow> count_of (count_loop tag counts ms) sid = count_of counts sid +
     int (length (filter (\<lambda>m. sdk_Parent m = sid \<and> TagVMControlPlane \<in> set (sdk_Tags m) \<and>
       tag \<in> set (sdk_Tags m)) ms))"
  by (induction ms arbitrary: counts) (auto simp: Let_def list_ex_iff)

definition cand_of :: "lib \<Rightarrow> (string \<times> int) list \<Rightarrow> select_options \<Rightarrow> vm_host \<Rightarrow> candidate_host" where
  "cand_of Lb counts opts h = \<lparr>ca_host = h, ca_cpCount = count_of counts (vmh_HostSystemID h),
     ca_resourceScore = host_score Lb opts h\<rparr>"

lemma if_if_same: "(if a then x else if b then x else y) = (if a \<or> b then x else y)"
  by simp

lemma consider_host_spec:
  assumes "\<And>sid tr. machine_get_r (maas E) sid tr = M sid" and "vmh_Zone h \<noteq> ZoneTypedNil"
  shows "\<exists>t. run_state (consider_host E opts counts h) s =
    (Inr (if eligible M opts h then Some (cand_of (lib_of E) counts opts h) else None), t)"
proof -
  have *: "hasMaintenanceTag ts \<longleftrightarrow> TagHostMaintenance \<in> set ts \<or> TagHostNoSchedule \<in> set ts" for ts
    by (auto simp: hasMaintenanceTag_def list_ex_iff)
  have ht: "hostHasAllTags h ts \<longleftrightarrow> set ts \<subseteq> set (vmh_Tags h)" for ts
    by (auto simp: hostHasAllTags_def list_all_iff)
  obtain zn where zn: "(if vmh_Zone h = ZoneNil then Inr [] else zone_Name (vmh_Zone h)) = Inr zn"
    "so_Zone opts \<noteq> [] \<Longrightarrow> zn = so_Zone opts \<longleftrightarrow> (\<exists>i. vmh_Zone h = ZoneOf i (so_Zone opts))"
    using assms(2) by (cases "vmh_Zone h") (auto simp: zone_Name_def)
  have pool: "so_ResourcePool opts \<noteq> [] \<Longrightarrow>
      (case vmh_ResourcePool h of None \<Rightarrow> [] | Some (_, n) \<Rightarrow> n) = so_ResourcePool opts \<longleftrightarrow>
      (\<exists>i. vmh_ResourcePool h = Some (i, so_ResourcePool opts))"
    by (auto split: option.splits)
  let ?rest = "\<exists>m. M (vmh_HostSystemID h) = Inr m \<and> sdk_PowerState m = ''on'' \<and>
     sdk_State m = ''Deployed'' \<and> \<not> hasMaintenanceTag (sdk_Tags m)"
  let ?skip = "so_Zone opts \<noteq> [] \<and> zn \<noteq> so_Zone opts \<or> so_ResourcePool opts \<noteq> [] \<and>
     (case vmh_ResourcePool h of None \<Rightarrow> [] | Some (_, n) \<Rightarrow> n) \<noteq> so_ResourcePool opts \<or>
     so_Tags opts \<noteq> [] \<and> \<not> hostHasAllTags h (so_Tags opts) \<or>
     so_MinCores opts > 0 \<and> vmh_AvailableCores h < so_MinCores opts \<or>
     so_MinMemory opts > 0 \<and> vmh_AvailableMemory h < so_MinMemory opts \<or>
     so_MinDiskSizeGB opts > 0 \<and> \<not> hasStorage opts h \<or> vmh_HostSystemID h = []"
  have el: "eligible M opts h \<longleftrightarrow> \<not> ?skip \<and> ?rest"
  proof -
    have e: "(so_Zone opts = [] \<or> (\<exists>i. vmh_Zone h = ZoneOf i (so_Zone opts))) \<longleftrightarrow>
        \<not> (so_Zone opts \<noteq> [] \<and> zn \<noteq> so_Zone opts)"
      "(so_ResourcePool opts = [] \<or> (\<exists>i. vmh_ResourcePool h = Some (i, so_ResourcePool opts))) \<longleftrightarrow>
        \<not> (so_ResourcePool opts \<noteq> [] \<and>
          (case vmh_ResourcePool h of None \<Rightarrow> [] | Some (_, n) \<Rightarrow> n) \<noteq> so_ResourcePool opts)"
      "set (so_Tags opts) \<subseteq> set (vmh_Tags h) \<longleftrightarrow> \<not> (so_Tags opts \<noteq> [] \<and> \<not> hostHasAllTags h (so_Tags opts))"
      using zn(2) pool by (auto simp: ht)
    have i: "((a :: int) > 0 \<longrightarrow> a \<le> b) \<longleftrightarrow> \<not> (a > 0 \<and> b < a)" for a b by auto
    have j: "(p \<longrightarrow> q) \<longleftrightarrow> \<not> (p \<and> \<not> q)" for p q by auto
    show ?thesis unfolding eligible_def e i j [of "_ < so_MinDiskSizeGB _"] * by blast
  qed
  show ?thesis
  proof (cases ?skip)
    case True
    with el show ?thesis unfolding consider_host_def zn(1) Let_def by (simp only: sum.case if_if_same) simp
  next
    case skip: False
    have "run_state (consider_host E opts counts h) s = (Inr (if ?rest then
        Some (cand_of (lib_of E) counts opts h) else None), s\<lparr>trace := trace s @ [Maas (MachineGet (vmh_HostSystemID h))]\<rparr>)"
      unfolding consider_host_def zn(1) Let_def Machine_Get_def
      by (simp only: sum.case if_if_same skip if_False)
        (cases "M (vmh_HostSystemID h)", auto simp: run_api assms(1) cand_of_def host_score_def lift_err_def)
    with el skip show ?thesis by auto
  qed
qed

lemma filter_hosts_spec:
  assumes "\<And>sid tr. machine_get_r (maas E) sid tr = M sid" and "\<forall>h\<in>set hosts. vmh_Zone h \<noteq> ZoneTypedNil"
  shows "\<exists>t. run_state (filter_hosts E opts counts hosts) s =
    (Inr (map (cand_of (lib_of E) counts opts) (filter (eligible M opts) hosts)), t)"
  using assms(2)
proof (induction hosts arbitrary: s)
  case (Cons h hs)
  obtain t where t: "run_state (consider_host E opts counts h) s =
      (Inr (if eligible M opts h then Some (cand_of (lib_of E) counts opts h) else None), t)"
    using consider_host_spec [OF assms(1)] Cons.prems by fastforce
  from Cons obtain u where "run_state (filter_hosts E opts counts hs) t =
      (Inr (map (cand_of (lib_of E) counts opts) (filter (eligible M opts) hs)), u)" by auto
  with t show ?case by auto
qed simp

text \<open>
  C11: the host a new VM is placed on is the best eligible one. Over one snapshot of MAAS, the selection
  fails, without a panic, exactly when no host passes the zone, pool, tag, resource, storage, health
  and maintenance filters: no constraint is ever relaxed. Otherwise the selected host passes them all,
  no eligible host carries fewer control-plane VMs of the cluster, among those with as few none has a
  higher resource score, and among those with the same score a managed host is preferred.
\<close>

theorem SelectLXDHost_optimal:
  assumes get: "\<And>sid tr. machine_get_r (maas E) sid tr = M sid"
    and list: "\<And>tr. machines_list_r (maas E) [] tr = L"
    and zones: "\<forall>h\<in>set hosts. vmh_Zone h \<noteq> ZoneTypedNil"
    and run: "run_state (SelectLXDHostWithMaasClient E hosts opts) s = (r, t)"
  shows "case r of
      Inl e \<Rightarrow> \<not> is_panic e \<and> (\<forall>h\<in>set hosts. \<not> eligible M opts h)
    | Inr h \<Rightarrow> h \<in> set hosts \<and> eligible M opts h \<and>
        (\<forall>h'\<in>set hosts. eligible M opts h' \<longrightarrow>
           (let n = cp_vms_on L opts (vmh_HostSystemID h); n' = cp_vms_on L opts (vmh_HostSystemID h');
                sc = host_score (lib_of E) opts h; sc' = host_score (lib_of E) opts h'
            in n < n' \<or> (n = n' \<and> (sc' < sc \<or> (sc' = sc \<and> (isManagedHost h' \<longrightarrow> isManagedHost h))))))"
proof (cases "hosts = []")
  case True
  with run have "r = Inl (ErrorString ''no LXD hosts available'')"
    by (simp add: SelectLXDHostWithMaasClient_def)
  with True show ?thesis by (simp add: is_panic_def)
next
  case False
  let ?tag = "if so_ClusterID opts \<noteq> [] then TagVMClusterPrefix @ SanitizeID (so_ClusterID opts) else []"
  define cm where "cm = (if ?tag \<noteq> [] then do { r \<leftarrow> Machines_List E [];
      ret (case r of Inl _ \<Rightarrow> [] | Inr ms \<Rightarrow> computeCPCountsByHost ms ?tag) } else ret [])"
  obtain counts u where cu: "run_state cm s = (counts, u)" by fastforce
  have ne: "TagVMClusterPrefix @ x \<noteq> []" for x by (simp add: tag_defs)
  have cnt: "count_of counts sid = int (cp_vms_on L opts sid)" if "sid \<noteq> []" for sid
    using cu ne that unfolding cm_def Machines_List_def
    by (cases L) (auto simp: run_api list cp_vms_on_def computeCPCountsByHost_def count_loop_count
        count_of_def [of "[]"] lift_err_def split: if_splits)
  let ?cs = "map (cand_of (lib_of E) counts opts) (filter (eligible M opts) hosts)"
  obtain v where v: "run_state (filter_hosts E opts counts hosts) u = (Inr ?cs, v)"
    using filter_hosts_spec [OF get zones] by blast
  show ?thesis
  proof (cases "?cs = []")
    case True
    with run cu v False have "r = Inl (ErrorString ''no eligible LXD host found'')"
      by (simp add: SelectLXDHostWithMaasClient_def cm_def [symmetric] Let_def)
    with True show ?thesis by (auto simp: is_panic_def filter_empty_conv)
  next
    case ne_cs: False
    obtain ys w where ys: "run_state (sort_Slice E cand_less ?cs) v = (ys, w)" by fastforce
    with run cu v False ne_cs have r: "r = Inr (ca_host (hd ys))"
      by (simp add: SelectLXDHostWithMaasClient_def cm_def [symmetric] Let_def)
    from cand.sort_Slice_min [OF ys ne_cs]
    obtain h where h: "hd ys = cand_of (lib_of E) counts opts h" "h \<in> set hosts" "eligible M opts h"
      "\<forall>c\<in>set ?cs. \<not> cand_less c (hd ys)" by auto
    have sid: "eligible M opts h' \<Longrightarrow> vmh_HostSystemID h' \<noteq> []" for h' by (simp add: eligible_def)
    have best: "\<not> cand_less (cand_of (lib_of E) counts opts h') (cand_of (lib_of E) counts opts h)"
      if "h' \<in> set hosts" "eligible M opts h'" for h' using h that by auto
    have "let n = cp_vms_on L opts (vmh_HostSystemID h); n' = cp_vms_on L opts (vmh_HostSystemID h');
             sc = host_score (lib_of E) opts h; sc' = host_score (lib_of E) opts h'
          in n < n' \<or> (n = n' \<and> (sc' < sc \<or> (sc' = sc \<and> (isManagedHost h' \<longrightarrow> isManagedHost h))))"
      if "h' \<in> set hosts" "eligible M opts h'" for h'
      using best [OF that] cnt [OF sid [OF that(2)]] cnt [OF sid [OF h(3)]]
      by (auto simp: cand_less_def cand_of_def Let_def split: if_splits)
    with h r show ?thesis by (simp add: cand_of_def)
  qed
qed

definition busy_host :: vm_host where
  "busy_host = sample_vm_host\<lparr>vmh_Name := ''b'', vmh_HostSystemID := ''hb'', vmh_AvailableCores := 64\<rparr>"

definition free_host :: vm_host where
  "free_host = sample_vm_host\<lparr>vmh_Name := ''f'', vmh_HostSystemID := ''hf''\<rparr>"

definition drained_host :: vm_host where
  "drained_host = sample_vm_host\<lparr>vmh_Name := ''d'', vmh_HostSystemID := ''hd''\<rparr>"

definition placement_get :: "string \<Rightarrow> api_err + sdk_machine" where
  "placement_get sid = Inr (sample_machine\<lparr>sdk_SystemID := sid,
     sdk_Tags := if sid = ''hd'' then [TagHostMaintenance] else []\<rparr>)"

definition placement_list :: "api_err + sdk_machine list" where
  "placement_list = Inr [sample_machine\<lparr>sdk_SystemID := ''vm1'', sdk_Parent := ''hb'',
     sdk_Tags := [TagVMControlPlane, TagVMClusterPrefix @ ''c1'']\<rparr>]"

definition placement_env :: env where
  "placement_env = sample_env\<lparr>maas := sample_maas\<lparr>machine_get_r := (\<lambda>sid _. placement_get sid),
     machines_list_r := (\<lambda>_ _. placement_list)\<rparr>\<rparr>"

definition placement_opts :: select_options where
  "placement_opts = \<lparr>so_Zone = ''az1'', so_ResourcePool = ''pool'', so_Tags = [], so_MinCores = 4,
     so_MinMemory = 8192, so_MinDiskSizeGB = 0, so_ClusterID = ''c1''\<rparr>"

text \<open>
  The drained host is under maintenance; the host with 64 cores already carries a control-plane VM.
\<close>

theorem SelectLXDHost_optimal_witness:
  "\<exists>t. run_state (SelectLXDHostWithMaasClient placement_env [busy_host, drained_host, free_host]
      placement_opts) sample_sys = (Inr free_host, t) \<and>
     \<not> eligible placement_get placement_opts drained_host"
proof -
  obtain r t where run: "run_state (SelectLXDHostWithMaasClient placement_env
      [busy_host, drained_host, free_host] placement_opts) sample_sys = (r, t)" by fastforce
  have env: "machine_get_r (maas placement_env) sid tr = placement_get sid"
    "machines_list_r (maas placement_env) [] tr = placement_list" for sid tr
    by (simp_all add: placement_env_def)
  have zones: "\<forall>h\<in>set [busy_host, drained_host, free_host]. vmh_Zone h \<noteq> ZoneTypedNil"
    by (simp add: busy_host_def drained_host_def free_host_def sample_vm_host_def)
  have san: "SanitizeID ''c1'' = ''c1''" by code_simp
  have el: "eligible placement_get placement_opts free_host" "eligible placement_get placement_opts busy_host"
    "\<not> eligible placement_get placement_opts drained_host"
    by (simp_all add: eligible_def placement_opts_def free_host_def busy_host_def drained_host_def
        sample_vm_host_def placement_get_def sample_machine_def)
  have cp: "cp_vms_on placement_list placement_opts ''hb'' = 1" "cp_vms_on placement_list placement_opts ''hf'' = 0"
    by (simp_all add: cp_vms_on_def placement_list_def placement_opts_def san)
  have sids: "vmh_HostSystemID busy_host = ''hb''" "vmh_HostSystemID free_host = ''hf''"
    by (simp_all add: busy_host_def free_host_def)
  have "r = Inr free_host"
    using SelectLXDHost_optimal [OF env zones run] el cp sids
    by (auto split: sum.splits simp: Let_def)
  with run el(3) show ?thesis by simp
qed

section \<open>A host is registered once\<close>

lemma isHostRegistered_run:
  "run_state (isHostRegisteredWithMaasClientAdvanced E sid nm ip) s =
     (case vmhosts_list_r (maas E) (trace s) of
        Inl e \<Rightarrow> (Inl (Wrapped ''failed to get VM hosts'' (ApiError (fst e) (snd e))),
          s\<lparr>trace := trace s @ [Maas VMHostsList]\<rparr>)
      | Inr hs \<Rightarrow> (Inr (list_ex (host_matches (lib_of E) sid (TrimSpace nm)
            (normalizeHost (lib_of E) (TrimSpace ip))) hs), s\<lparr>trace := trace s @ [Maas VMHostsList]\<rparr>))"
  unfolding isHostRegisteredWithMaasClientAdvanced_def VMHosts_List_def
  by (cases "vmhosts_list_r (maas E) (trace s)") (auto simp: run_api)

lemma TrimSpace_prefixed:
  assumes "x = TrimSpace y" "x \<noteq> []" shows "TrimSpace (''lxd-host-'' @ x) = ''lxd-host-'' @ x"
proof -
  have "\<not> is_space (last x)"
    using assms unfolding TrimSpace_def Trim_set_def by (metis last_TrimRight_set)
  then show ?thesis
    unfolding TrimSpace_def by (intro Trim_set_id) (use assms(2) in \<open>auto simp: is_space_def less_eq_char_def\<close>)
qed

text \<open>
  C37: registration is idempotent. MAAS lists a VM host that was created and not deleted; then, once a
  node with a host name was registered, setting it up again registers nothing, and reports either
  success or the failure to list the VM hosts.
\<close>

theorem SetupLXDHost_idempotent:
  assumes server: "\<And>tr ps nm hosts. Maas (VMHostCreate ps True) \<in> set tr \<Longrightarrow>
      (\<forall>i ok. Maas (VMHostDelete i ok) \<notin> set tr) \<Longrightarrow> map_of ps ''name'' = Some nm \<Longrightarrow>
      vmhosts_list_r (maas E) tr = Inr hosts \<Longrightarrow> \<exists>h\<in>set hosts. vmh_Name h = nm"
    and created: "Maas (VMHostCreate (register_params config) True) \<in> set (trace s)"
    and kept: "\<forall>i ok. Maas (VMHostDelete i ok) \<notin> set (trace s)"
    and hn: "TrimSpace (hc_HostName config) \<noteq> []" and valid: "validateHostConfig config = Inr ()"
    and run: "run_state (SetupLXDHostWithMaasClient E config) s = (r, t)"
  shows "trace t = trace s @ [Maas VMHostsList] \<and>
    (r = Inr () \<longleftrightarrow> is_ok (vmhosts_list_r (maas E) (trace s)))"
proof (cases "vmhosts_list_r (maas E) (trace s)")
  case (Inl e)
  with run valid show ?thesis
    by (auto simp: SetupLXDHostWithMaasClient_def isHostRegistered_run Let_def)
next
  case (Inr hs)
  let ?name = "''lxd-host-'' @ TrimSpace (hc_HostName config)"
  have "map_of (register_params config) ''name'' = Some ?name"
    using hn by (simp add: register_params_def Let_def)
  from server [OF created kept this Inr] obtain h where "h \<in> set hs" "vmh_Name h = ?name" by blast
  moreover have "TrimSpace ?name = ?name" using TrimSpace_prefixed [OF refl hn] .
  ultimately have "list_ex (host_matches (lib_of E) [] (TrimSpace ?name)
      (normalizeHost (lib_of E) (TrimSpace (hc_NodeIP config)))) hs"
    by (auto simp: list_ex_iff host_matches_def)
  with run valid Inr hn show ?thesis
    by (auto simp: SetupLXDHostWithMaasClient_def isHostRegistered_run Let_def)
qed

definition sample_host_config :: host_config where
  "sample_host_config = \<lparr>hc_NodeIP = ''10.0.0.7'', hc_HostName = '' n7 '', hc_MaasAPIKey = ''k'',
     hc_MaasAPIEndpoint = ''http://maas'', hc_StorageBackend = ''zfs'', hc_StorageSize = ''50'',
     hc_NetworkBridge = [], hc_Zone = ''az1'', hc_ResourcePool = [], hc_TrustPassword = ''p''\<rparr>"

text \<open>A MAAS that lists the hosts of the successful registrations.\<close>

fun created_hosts :: "trace \<Rightarrow> vm_host list" where
  "created_hosts [] = []"
| "created_hosts (Maas (VMHostCreate ps True) # tr) = (case map_of ps ''name'' of
     None \<Rightarrow> created_hosts tr | Some nm \<Rightarrow> sample_vm_host\<lparr>vmh_Name := nm\<rparr> # created_hosts tr)"
| "created_hosts (_ # tr) = created_hosts tr"

definition registry_env :: env where
  "registry_env = sample_env\<lparr>maas := sample_maas\<lparr>vmhosts_list_r := (\<lambda>tr. Inr (created_hosts tr))\<rparr>\<rparr>"

lemma created_hosts_name:
  "Maas (VMHostCreate ps True) \<in> set tr \<Longrightarrow> map_of ps ''name'' = Some nm \<Longrightarrow>
   \<exists>h\<in>set (created_hosts tr). vmh_Name h = nm"
  by (induction tr rule: created_hosts.induct) (auto split: option.splits)

theorem SetupLXDHost_idempotent_witness:
  "\<exists>t u. run_state (SetupLXDHostWithMaasClient registry_env sample_host_config) sample_sys = (Inr (), t) \<and>
     trace t = [Maas VMHostsList, Maas (VMHostCreate (register_params sample_host_config) True)] \<and>
     run_state (SetupLXDHostWithMaasClient registry_env sample_host_config) t = (Inr (), u) \<and>
     trace u = trace t @ [Maas VMHostsList]"
proof -
  have name: "TrimSpace '' n7 '' = ''n7''" by code_simp
  obtain t where t: "run_state (SetupLXDHostWithMaasClient registry_env sample_host_config) sample_sys =
      (Inr (), t)" "trace t = [Maas VMHostsList, Maas (VMHostCreate (register_params sample_host_config) True)]"
    by (simp add: SetupLXDHostWithMaasClient_def validateHostConfig_def isHostRegistered_run Let_def
        registerWithMaasClient_def VMHost_Create_def run_api registry_env_def sample_env_def
        sample_maas_def sample_sys_def sample_host_config_def name)
  obtain r u where u: "run_state (SetupLXDHostWithMaasClient registry_env sample_host_config) t = (r, u)"
    by fastforce
  have "trace u = trace t @ [Maas VMHostsList] \<and>
      (r = Inr () \<longleftrightarrow> is_ok (vmhosts_list_r (maas registry_env) (trace t)))"
    by (rule SetupLXDHost_idempotent [OF _ _ _ _ _ u])
      (use created_hosts_name in \<open>auto simp: registry_env_def t(2) sample_host_config_def name validateHostConfig_def\<close>)
  then show ?thesis using t u by (auto simp: registry_env_def)
qed

end
