(* ===== verification/Lxd_Initializer.thy ===== *)
theory Lxd_Initializer
  imports Lxd_Hosts Go_Codec
begin

text \<open>
  The program that runs on each node of a workload cluster, \<open>lxd-initializer/lxd-initializer.go\<close> and
  \<open>node_labeler.go\<close>: it waits for the LXD socket, creates the storage pool, network, project and
  profile, makes LXD listen, registers the node as a VM host in MAAS, validates LXD and labels the
  node. Commands, the LXD server and the in-cluster Kubernetes client belong to the environment.
\<close>

section \<open>Names\<close>

definition is_alnum :: "char \<Rightarrow> bool" where
  "is_alnum c \<longleftrightarrow> (CHR ''a'' \<le> c \<and> c \<le> CHR ''z'') \<or> (CHR ''0'' \<le> c \<and> c \<le> CHR ''9'')"

fun norm_loop :: "bool \<Rightarrow> string \<Rightarrow> string" where
  "norm_loop prevDash [] = []"
| "norm_loop prevDash (c # cs) =
     (if is_alnum c then c # norm_loop False cs
      else if \<not> prevDash then CHR ''-'' # norm_loop True cs
      else norm_loop prevDash cs)"

definition normalizeName :: "string \<Rightarrow> string" where
  "normalizeName s =
     (let s = ToLower (TrimSpace s)
      in if s = [] then s else Trim_set (\<lambda>c. c = CHR ''-'') (norm_loop False s))"

definition init_normalizeHost :: "lib \<Rightarrow> string \<Rightarrow> string" where
  "init_normalizeHost L s =
     (if TrimSpace s = [] then []
      else let s = (if \<not> Contains s ''://'' then ''https://'' @ s else s)
        in case url_Parse L s of
             None \<Rightarrow> s
           | Some (host, path) \<Rightarrow>
               let h = (if host = [] then path else host)
               in case SplitHostPort_host h of Some hp \<Rightarrow> hp | None \<Rightarrow> h)"

section \<open>Kubernetes and MAAS\<close>

definition getKubernetesClient :: "env \<Rightarrow> unit res io" where
  "getKubernetesClient E = do {
     r \<leftarrow> InCluster_Client E;
     ret (case r of Inl e \<Rightarrow> Inl (ErrorString (''failed to get in-cluster config: '' @ err_Error e))
          | Inr _ \<Rightarrow> Inr ()) }"

definition getMaasCredentialsFromSecret :: "env \<Rightarrow> (string \<times> string) res io" where
  "getMaasCredentialsFromSecret E = do {
     r \<leftarrow> getKubernetesClient E;
     case r of
       Inl e \<Rightarrow> ret (Inl (ErrorString (''failed to get kubernetes client: '' @ err_Error e)))
     | Inr _ \<Rightarrow> do {
         r \<leftarrow> Secrets_ListAll E;
         ret (case r of
            Inl e \<Rightarrow> Inl (ErrorString (''failed to list secrets: '' @ err_Error e))
          | Inr secrets \<Rightarrow>
              (case find (\<lambda>(nm, data). nm = ''capmaas-manager-bootstrap-credentials'' \<and>
                       \<not> (map_get data ''MAAS_ENDPOINT'' = [] \<or> map_get data ''MAAS_API_KEY'' = [])) secrets of
                 Some (_, data) \<Rightarrow> Inr (map_get data ''MAAS_ENDPOINT'', map_get data ''MAAS_API_KEY'')
               | None \<Rightarrow> Inl (ErrorString ''secret capmaas-manager-bootstrap-credentials not found in any namespace''))) } }"

definition system_id_of_provider :: "string \<Rightarrow> string res" where
  "system_id_of_provider providerID =
     (if \<not> HasPrefix providerID ''maas:///'' then
        Inl (ErrorString (''invalid MAAS providerID format: '' @ providerID))
      else let parts = Split providerID (CHR ''/'')
        in if length parts < 4 then Inl (ErrorString ''invalid MAAS providerID format'')
           else if last parts = [] then Inl (ErrorString (''empty system ID in providerID: '' @ providerID))
           else Inr (last parts))"

definition extractSystemIDFromNodeName :: "env \<Rightarrow> string \<Rightarrow> string res io" where
  "extractSystemIDFromNodeName E nodeName = do {
     r \<leftarrow> InCluster_Client E;
     case r of
       Inl e \<Rightarrow> ret (Inl (Wrapped ''failed to get in-cluster config'' e))
     | Inr _ \<Rightarrow> do {
         r \<leftarrow> Node_Get E nodeName;
         ret (case r of
            Inl e \<Rightarrow> Inl (Wrapped (''failed to get node '' @ nodeName) e)
          | Inr nd \<Rightarrow> system_id_of_provider (n_ProviderID nd)) } }"

text \<open>\<open>strconv.FormatFloat(x, 'f', 0, 64)\<close>: the nearest integer, ties to even.\<close>

definition round_even :: "rat \<Rightarrow> int" where
  "round_even x = (let f = \<lfloor>x\<rfloor>; d = x - of_int f
     in if d < 1 / 2 then f else if d > 1 / 2 then f + 1 else if even f then f else f + 1)"

definition FormatFloat0 :: "rat \<Rightarrow> string" where
  "FormatFloat0 x = (if x < 0 then CHR ''-'' # show_nat (nat (round_even (- x))) else show_nat (nat (round_even x)))"

definition get_own_machine :: "env \<Rightarrow> string \<Rightarrow> string \<Rightarrow> string \<Rightarrow> sdk_machine res io" where
  "get_own_machine E nodeName maasAPIKey maasEndpoint =
     (if nodeName = [] \<or> maasAPIKey = [] \<or> maasEndpoint = []
      then ret (Inl (ErrorString ''missing required parameters''))
      else do {
        r \<leftarrow> extractSystemIDFromNodeName E nodeName;
        case r of
          Inl e \<Rightarrow> ret (Inl (Wrapped ''failed to extract system ID'' e))
        | Inr systemID \<Rightarrow> do {
            r \<leftarrow> Machine_Get E systemID;
            ret (case r of
               Inl e \<Rightarrow> Inl (Wrapped ''failed to get machine details from MAAS'' e)
             | Inr m \<Rightarrow> Inr m) } })"

definition getStorageSizeFromMaas :: "env \<Rightarrow> string \<Rightarrow> string \<Rightarrow> string \<Rightarrow> string res io" where
  "getStorageSizeFromMaas E nodeName maasAPIKey maasEndpoint =
     ok_then (get_own_machine E nodeName maasAPIKey maasEndpoint) (\<lambda>machine.
       let total = sdk_TotalStorageGB machine; fr = float64_round (lib_of E)
       in ret (if total = 0 then Inl (ErrorString ''no storage found'')
               else Inr (FormatFloat0 (fr (total * fr (4 / 5))))))"

definition zone_name :: "zone_ref \<Rightarrow> string res" where
  "zone_name z = (case z of ZoneNil \<Rightarrow> Inr [] | ZoneTypedNil \<Rightarrow> Inl (GoPanic ''nil pointer dereference: Zone'')
     | ZoneOf _ nm \<Rightarrow> Inr nm)"

definition getMachineInfoFromMaas ::
    "env \<Rightarrow> string \<Rightarrow> string \<Rightarrow> string \<Rightarrow> (string \<times> string \<times> string) res io" where
  "getMachineInfoFromMaas E nodeName maasAPIKey maasEndpoint =
     ok_then (get_own_machine E nodeName maasAPIKey maasEndpoint) (\<lambda>machine.
       ret (case zone_name (sdk_Zone machine) of
          Inl e \<Rightarrow> Inl e
        | Inr zone \<Rightarrow> Inr (zone, sdk_ResourcePoolName machine, sdk_BootInterfaceName machine)))"

section \<open>Registration in MAAS\<close>

text \<open>The loop over the VM hosts: nothing when no entry matches, else the result of the function.\<close>

fun register_scan :: "string \<Rightarrow> string \<Rightarrow> vm_host list \<Rightarrow> unit res option" where
  "register_scan expectedName systemID [] = None"
| "register_scan expectedName systemID (h # hs) =
     (if vmh_Name h = expectedName then
        (if vmh_HostSystemID h = [] \<or> vmh_HostSystemID h = systemID then Some (Inr ())
         else Some (Inl (ErrorString (''conflict: VM host '' @ [CHR 0x22] @ vmh_Name h @ [CHR 0x22] @ '' belongs to system-id '' @
                vmh_HostSystemID h @ '' (expected '' @ systemID @ '')''))))
      else if vmh_HostSystemID h = systemID then Some (Inr ())
      else register_scan expectedName systemID hs)"

record reg_config =
  rc_SystemID :: string
  rc_NodeIP :: string
  rc_TrustPassword :: string
  rc_Project :: string
  rc_Zone :: string
  rc_ResourcePool :: string
  rc_HostName :: string

definition opt_param :: "string \<Rightarrow> string \<Rightarrow> params" where
  "opt_param k v = (if v \<noteq> [] then [(k, v)] else [])"

definition cli_args :: "reg_config \<Rightarrow> string list" where
  "cli_args c = map (\<lambda>(k, v). k @ ''='' @ v) ([(''type'', ''lxd''), (''power_address'', rc_NodeIP c)] @
     opt_param ''password'' (rc_TrustPassword c) @ [(''name'', rc_HostName c)] @ opt_param ''project'' (rc_Project c) @
     opt_param ''zone'' (rc_Zone c) @ opt_param ''pool'' (rc_ResourcePool c))"

definition api_params :: "reg_config \<Rightarrow> params" where
  "api_params c = [(''type'', ''lxd''), (''power_address'', rc_NodeIP c), (''name'', rc_HostName c)] @
     opt_param ''password'' (rc_TrustPassword c) @ opt_param ''project'' (rc_Project c) @
     opt_param ''zone'' (rc_Zone c) @ opt_param ''pool'' (rc_ResourcePool c)"

definition runCmd :: "env \<Rightarrow> string \<Rightarrow> string list \<Rightarrow> unit res io" where
  "runCmd E bin args = do {
     (ok, out) \<leftarrow> exec_Command E (bin # args);
     ret (if ok then Inr () else Inl (ErrorString (bin @ '' ['' @ Join args '' '' @ '']: '' @ out))) }"

text \<open>The correction of project, zone and pool after a creation through the API.\<close>

definition scope_updates :: "reg_config \<Rightarrow> vm_host \<Rightarrow> params res" where
  "scope_updates c got =
     (let proj = (if rc_Project c \<noteq> [] \<and> rc_Project c \<notin> set (vmh_Projects got) then [(''project'', rc_Project c)] else []);
          pl = (case vmh_ResourcePool got of None \<Rightarrow> [] | Some (_, nm) \<Rightarrow> nm);
          pool = (if rc_ResourcePool c \<noteq> [] \<and> pl \<noteq> rc_ResourcePool c then [(''pool'', rc_ResourcePool c)] else [])
      in if rc_Zone c = [] then Inr (proj @ pool)
         else case zone_name (vmh_Zone got) of
           Inl e \<Rightarrow> Inl e
         | Inr z \<Rightarrow> Inr (proj @ (if z \<noteq> rc_Zone c then [(''zone'', rc_Zone c)] else []) @ pool))"

definition register_via_cli :: "env \<Rightarrow> string \<Rightarrow> string \<Rightarrow> reg_config \<Rightarrow> unit res io" where
  "register_via_cli E maasEndpoint maasAPIKey c = do {
     _ \<leftarrow> runCmd E ''maas'' [''login'', ''ds'', maasEndpoint, maasAPIKey];
     r \<leftarrow> runCmd E ''maas'' ([''ds'', ''vm-hosts'', ''create''] @ cli_args c);
     ret (case r of Inl e \<Rightarrow> Inl (Wrapped ''maas cli create failed'' e) | Inr _ \<Rightarrow> Inr ()) }"

definition verify_created :: "env \<Rightarrow> reg_config \<Rightarrow> vm_host \<Rightarrow> unit res io" where
  "verify_created E c created = do {
     r \<leftarrow> VMHost_Get E (vmh_SystemID created);
     case r of
       Inl _ \<Rightarrow> ret (Inr ())
     | Inr got \<Rightarrow>
         if vmh_HostSystemID got \<noteq> [] \<and> vmh_HostSystemID got \<noteq> rc_SystemID c then
           ret (Inl (ErrorString (''conflict after create: VM host mapped to system-id '' @ vmh_HostSystemID got @
             '' (expected '' @ rc_SystemID c @ '')'')))
         else case scope_updates c got of
           Inl e \<Rightarrow> ret (Inl e)
         | Inr upd \<Rightarrow> do {
             _ \<leftarrow> (if upd \<noteq> [] then VMHost_Update E (vmh_SystemID created) upd else ret (Inr ()));
             ret (Inr ()) } }"

definition register_via_api :: "env \<Rightarrow> reg_config \<Rightarrow> unit res io" where
  "register_via_api E c = do {
     r \<leftarrow> VMHost_Create E (api_params c);
     case r of
       Inl e \<Rightarrow> ret (Inl (Wrapped ''create vm host'' e))
     | Inr created \<Rightarrow> verify_created E c created }"

definition registerWithMAAS :: "env \<Rightarrow> string \<Rightarrow> string \<Rightarrow> reg_config \<Rightarrow> unit res io" where
  "registerWithMAAS E maasEndpoint maasAPIKey c =
     (if maasEndpoint = [] \<or> maasAPIKey = [] then ret (Inl (ErrorString ''MAAS credentials unavailable''))
      else do {
        r \<leftarrow> VMHosts_List E;
        case r of
          Inl e \<Rightarrow> ret (Inl (Wrapped ''list vm hosts'' e))
        | Inr hosts \<Rightarrow>
            (case register_scan (rc_HostName c) (rc_SystemID c) hosts of
               Some res \<Rightarrow> ret res
             | None \<Rightarrow> do {
                 cli \<leftarrow> exec_LookPath E ''maas'';
                 if cli then register_via_cli E maasEndpoint maasAPIKey c else register_via_api E c }) })"

section \<open>The LXD server\<close>

definition lxdSocketPaths :: "string list" where
  "lxdSocketPaths = [''/var/snap/lxd/common/lxd/unix.socket'']"

primrec find_socket :: "env \<Rightarrow> string list \<Rightarrow> string res io" where
  "find_socket E [] = ret (Inl (ErrorString ''no LXD socket found at any of the expected paths''))"
| "find_socket E (p # ps) = do {
     there \<leftarrow> os_Stat E p;
     if there then ret (Inr p) else find_socket E ps }"

definition findLXDSocket :: "env \<Rightarrow> string res io" where
  "findLXDSocket E = find_socket E lxdSocketPaths"

text \<open>The loop is bounded by fuel; the answer is \<open>None\<close> when it runs out.\<close>

primrec wait_loop :: "env \<Rightarrow> nat \<Rightarrow> gtime \<Rightarrow> string res option io" where
  "wait_loop E 0 deadline = ret None"
| "wait_loop E (Suc n) deadline = do {
     now \<leftarrow> time_Now E;
     if now < deadline then do {
       r \<leftarrow> findLXDSocket E;
       case r of
         Inr p \<Rightarrow> ret (Some (Inr p))
       | Inl _ \<Rightarrow> do { time_Sleep 1; wait_loop E n deadline } }
     else ret (Some (Inl (ErrorString ''timed out waiting for LXD socket''))) }"

definition waitForLXDSocket :: "env \<Rightarrow> nat \<Rightarrow> nat \<Rightarrow> string res option io" where
  "waitForLXDSocket E fuel timeout = do {
     now \<leftarrow> time_Now E;
     wait_loop E fuel (now + int timeout) }"

definition nsenter :: "string list" where
  "nsenter = [''nsenter'', ''-t'', ''1'', ''-m'', ''-p'', ''--'']"

definition lxc :: string where "lxc = ''/snap/bin/lxc''"

primrec stat_all :: "env \<Rightarrow> string list \<Rightarrow> unit io" where
  "stat_all E [] = ret ()"
| "stat_all E (p # ps) = do { _ \<leftarrow> os_Stat E p; stat_all E ps }"

definition logLXDDiagnostics :: "env \<Rightarrow> unit io" where
  "logLXDDiagnostics E = do {
     stat_all E lxdSocketPaths;
     _ \<leftarrow> exec_Command E (nsenter @ [''snap'', ''services'', ''lxd'']);
     _ \<leftarrow> exec_Command E [''ps'', ''-ef''];
     ret () }"

definition hostInterfaceExists :: "env \<Rightarrow> string \<Rightarrow> bool io" where
  "hostInterfaceExists E ifName =
     (if TrimSpace ifName = [] then ret False
      else do {
        r \<leftarrow> exec_Command E (nsenter @ [''ip'', ''link'', ''show'', ifName]);
        ret (fst r) })"

definition setTrustPassword :: "env \<Rightarrow> string \<Rightarrow> unit res io" where
  "setTrustPassword E pw =
     (if pw = [] then ret (Inr ())
      else do {
        r1 \<leftarrow> exec_Command E [lxc, ''config'', ''set'', ''core.trust_password'', pw];
        r2 \<leftarrow> (if fst r1 then ret r1
               else exec_Command E (nsenter @ [lxc, ''config'', ''set'', ''core.trust_password'', pw]));
        if \<not> fst r2 then ret (Inl (ErrorString (''failed to set trust password: '' @ snd r2)))
        else do {
          v \<leftarrow> exec_Command E (nsenter @ [lxc, ''config'', ''get'', ''core.trust_password'']);
          ret (if \<not> fst v then Inl (ErrorString (''verification get failed: '' @ snd v))
               else if TrimSpace (snd v) \<noteq> ''true'' then
                 Inl (ErrorString (''verification failed, expected 'true', got '' @ [CHR 0x22] @ TrimSpace (snd v) @ [CHR 0x22]))
               else Inr ()) } })"

definition configureLXDNetwork :: "env \<Rightarrow> string \<Rightarrow> string \<Rightarrow> unit res io" where
  "configureLXDNetwork E trustPassword hostIP = do {
     let address = TrimSpace hostIP @ '':8443'';
     r1 \<leftarrow> exec_Command E [lxc, ''config'', ''set'', ''core.https_address'', address];
     r2 \<leftarrow> (if fst r1 then ret r1
            else exec_Command E (nsenter @ [lxc, ''config'', ''set'', ''core.https_address'', address]));
     if \<not> fst r2 then ret (Inl (ErrorString (''failed to set core.https_address (fallback): '' @ snd r2)))
     else ok_then (setTrustPassword E trustPassword) (\<lambda>_. do {
       r \<leftarrow> exec_Command E (nsenter @ [''snap'', ''restart'', ''lxd'']);
       ret (if fst r then Inr () else Inl (ErrorString (''failed to restart LXD via snap: '' @ snd r))) }) }"

definition ensureLXDProject :: "env \<Rightarrow> string \<Rightarrow> unit res io" where
  "ensureLXDProject E project =
     (if project = [] \<or> project = ''default'' then ret (Inr ())
      else ok_then (Lxd_GetProjects E) (\<lambda>projects.
        if project \<in> set projects then ret (Inr ()) else Lxd_CreateProject E project))"

definition device_nictype :: "string \<Rightarrow> string" where
  "device_nictype nicType = (if nicType = ''bridge'' then ''bridged'' else nicType)"

definition profile_devices :: "string \<Rightarrow> string \<Rightarrow> string \<Rightarrow> (string \<times> strmap) list" where
  "profile_devices nicType nicParent pool =
     [(''root'', [(''type'', ''disk''), (''pool'', pool), (''path'', ''/'')]),
      (''eth0'', [(''type'', ''nic''), (''nictype'', device_nictype nicType), (''parent'', nicParent), (''name'', ''eth0'')])]"

definition ensureMAASProfile :: "env \<Rightarrow> string \<Rightarrow> string \<Rightarrow> string \<Rightarrow> string \<Rightarrow> unit res io" where
  "ensureMAASProfile E project nicType nicParent pool = do {
     r \<leftarrow> Lxd_GetProfiles E project;
     case r of
       Inl e \<Rightarrow> ret (Inl (Wrapped ''list profiles'' e))
     | Inr profiles \<Rightarrow>
         if ''maas-kvm'' \<in> set profiles then ret (Inr ())
         else do {
           r \<leftarrow> Lxd_CreateProfile E project ''maas-kvm'' (profile_devices nicType nicParent pool);
           ret (case r of Inl e \<Rightarrow> Inl (Wrapped ''create profile'' e) | Inr _ \<Rightarrow> Inr ()) } }"

record init_config =
  ic_StorageBackend :: string
  ic_StorageSize :: string
  ic_NetworkBridge :: string
  ic_SkipNetworkUpdate :: bool
  ic_TrustPassword :: string
  ic_NicType :: string
  ic_NicParent :: string
  ic_Project :: string
  ic_HostIP :: string

definition ensure_pool :: "env \<Rightarrow> init_config \<Rightarrow> (string \<times> string) list \<Rightarrow> unit res io" where
  "ensure_pool E cfg pools =
     (let desired = ic_StorageSize cfg @ ''GB''
      in if \<not> list_ex (\<lambda>(nm, _). nm = ''default'') pools then do {
           r \<leftarrow> Lxd_CreateStoragePool E ''default'' (ic_StorageBackend cfg) desired;
           ret (case r of Inl e \<Rightarrow> Inl (Wrapped ''failed to create storage pool'' e) | Inr _ \<Rightarrow> Inr ()) }
         else do {
           r \<leftarrow> Lxd_GetStoragePool E ''default'';
           case r of
             Inl _ \<Rightarrow> ret (Inr ())
           | Inr config \<Rightarrow>
               if map_get config ''size'' \<noteq> desired then do {
                 _ \<leftarrow> Lxd_UpdateStoragePool E ''default'' desired;
                 ret (Inr ()) }
               else ret (Inr ()) })"

definition create_or_update_network :: "env \<Rightarrow> string \<Rightarrow> (string \<times> string) list \<Rightarrow> unit res io" where
  "create_or_update_network E bridgeName networks = (case find (\<lambda>(nm, _). nm = bridgeName) networks of
       None \<Rightarrow> do {
         r \<leftarrow> Lxd_CreateNetwork E bridgeName [(''ipv4.address'', ''auto''), (''ipv4.nat'', ''true'')];
         ret (case r of Inl e \<Rightarrow> Inl (Wrapped ''failed to create network'' e) | Inr _ \<Rightarrow> Inr ()) }
     | Some (_, ty) \<Rightarrow>
         if ty = ''bridge'' then do {
           r \<leftarrow> Lxd_GetNetwork E bridgeName;
           case r of
             Inl _ \<Rightarrow> ret (Inr ())
           | Inr config \<Rightarrow> do {
               _ \<leftarrow> Lxd_UpdateNetwork E bridgeName (map_put ''ipv4.nat'' ''true'' config);
               ret (Inr ()) } }
         else ret (Inr ()))"

text \<open>The network part; the answer is the parent of the profile's network device.\<close>

definition ensure_network :: "env \<Rightarrow> init_config \<Rightarrow> (string \<times> string) list \<Rightarrow> string res io" where
  "ensure_network E cfg networks =
     (let bridgeName = TrimSpace (ic_NetworkBridge cfg)
      in if ic_NicType cfg \<noteq> ''bridge'' \<or> bridgeName = [] then ret (Inr (ic_NicParent cfg))
         else do {
           collision \<leftarrow> (if bridgeName = ic_NicParent cfg then ret True else hostInterfaceExists E bridgeName);
           if collision then ret (Inr (ic_NicParent cfg))
           else if ic_SkipNetworkUpdate cfg then ret (Inr bridgeName)
           else ok_then (create_or_update_network E bridgeName networks) (\<lambda>_. ret (Inr bridgeName)) })"

definition or_empty :: "'a list res \<Rightarrow> 'a list" where
  "or_empty r = (case r of Inl _ \<Rightarrow> [] | Inr xs \<Rightarrow> xs)"

text \<open>The part of \<open>initializeLXD\<close> after the connection.\<close>

definition configure_server :: "env \<Rightarrow> init_config \<Rightarrow> unit res io" where
  "configure_server E cfg = do {
     let scoped = (ic_Project cfg \<noteq> [] \<and> ic_Project cfg \<noteq> ''default'');
     _ \<leftarrow> (if scoped then ensureLXDProject E (ic_Project cfg) else ret (Inr ()));
     r \<leftarrow> Lxd_GetServer E;
     case r of
       Inl e \<Rightarrow> ret (Inl (Wrapped ''failed to get server info'' e))
     | Inr _ \<Rightarrow> do {
         pools \<leftarrow> Lxd_GetStoragePools E;
         networks \<leftarrow> Lxd_GetNetworks E;
         ok_then (ensure_pool E cfg (or_empty pools)) (\<lambda>_.
         ok_then (ensure_network E cfg (or_empty networks)) (\<lambda>effectiveParent. do {
           _ \<leftarrow> ensureMAASProfile E (if scoped then ic_Project cfg else ''default'') (ic_NicType cfg) effectiveParent ''default'';
           _ \<leftarrow> configureLXDNetwork E (ic_TrustPassword cfg) (ic_HostIP cfg);
           ret (Inr ()) })) } }"

definition socket_timeout :: nat where "socket_timeout = 120"

definition initializeLXD :: "env \<Rightarrow> nat \<Rightarrow> init_config \<Rightarrow> unit res option io" where
  "initializeLXD E fuel cfg = do {
     w \<leftarrow> waitForLXDSocket E fuel socket_timeout;
     case w of
       None \<Rightarrow> ret None
     | Some (Inl e) \<Rightarrow> do { logLXDDiagnostics E; ret (Some (Inl e)) }
     | Some (Inr socketPath) \<Rightarrow> do {
         r \<leftarrow> Lxd_Connect E socketPath;
         case r of
           Inl e \<Rightarrow> ret (Some (Inl (Wrapped ''failed to connect to LXD'' e)))
         | Inr _ \<Rightarrow> do { r \<leftarrow> configure_server E cfg; ret (Some r) } } }"

definition validateLXDFunctional :: "env \<Rightarrow> unit res io" where
  "validateLXDFunctional E =
     ok_then (findLXDSocket E) (\<lambda>socketPath.
     ok_then (Lxd_Connect E socketPath) (\<lambda>_.
     ok_then (Lxd_GetServer E) (\<lambda>_.
     ok_then (Lxd_GetStoragePools E) (\<lambda>pools.
       if pools = [] then ret (Inl (ErrorString ''no storage pools found - LXD not properly initialized''))
       else ok_then (Lxd_GetNetworks E) (\<lambda>networks.
         if networks = [] then ret (Inl (ErrorString ''no networks found - LXD not properly initialized''))
         else ret (Inr ()))))))"

section \<open>The label (node_labeler.go)\<close>

definition InitializedLabel :: string where
  "InitializedLabel = ''lxdhost.cluster.com/initialized''"

definition NewNodeLabeler :: "env \<Rightarrow> string \<Rightarrow> unit res io" where
  "NewNodeLabeler E nodeName =
     (if nodeName = [] then ret (Inl (ErrorString ''node name cannot be empty''))
      else do {
        r \<leftarrow> InCluster_Client E;
        ret (case r of Inl e \<Rightarrow> Inl (Wrapped ''failed to create in-cluster config'' e) | Inr _ \<Rightarrow> Inr ()) })"

definition MarkLXDInitialized :: "env \<Rightarrow> string \<Rightarrow> unit res io" where
  "MarkLXDInitialized E nodeName = do {
     r \<leftarrow> Node_Get E nodeName;
     case r of
       Inl e \<Rightarrow> ret (Inl (Wrapped (''failed to get node '' @ nodeName) e))
     | Inr nd \<Rightarrow> do {
         r \<leftarrow> Node_Update E nodeName (map_put InitializedLabel ''true'' (n_Labels nd));
         ret (case r of
            Inl e \<Rightarrow> Inl (Wrapped (''failed to update node '' @ nodeName @ '' with LXD label'') e)
          | Inr _ \<Rightarrow> Inr ()) } }"

definition SafeMarkLXDInitialized :: "env \<Rightarrow> string \<Rightarrow> unit io" where
  "SafeMarkLXDInitialized E nodeName = do { _ \<leftarrow> MarkLXDInitialized E nodeName; ret () }"

end
