(* ===== verification/Initializer_Main.thy ===== *)
theory Initializer_Main
  imports Lxd_Initializer Guards Sample_World
begin

text \<open>
  \<open>main\<close> of the LXD initializer: where each setting comes from, the early exit of a labelled node,
  and the order initialise, register, validate, label. \<open>log.Fatalf\<close> ends the process; the program
  otherwise sleeps for ever, so that the pod stays up.
\<close>

section \<open>The program\<close>

datatype run_result = Fatal string | Panicked string | Returned | SleepsForever | OutOfFuel

record flags =
  fl_action :: string
  fl_storage_backend :: string
  fl_network_bridge :: string
  fl_skip_network_update :: bool
  fl_node_ip :: string
  fl_maas_endpoint :: string
  fl_maas_api_key :: string
  fl_trust_password :: string

definition first_of :: "string list \<Rightarrow> string" where
  "first_of xs = (case find (\<lambda>x. x \<noteq> []) xs of None \<Rightarrow> [] | Some x \<Rightarrow> x)"

definition node_ip_setting :: "env \<Rightarrow> flags \<Rightarrow> string" where
  "node_ip_setting E fl = first_of [fl_node_ip fl, os_Getenv E ''NODE_IP'', os_Getenv E ''NODE_NAME'']"

definition maas_settings :: "env \<Rightarrow> flags \<Rightarrow> (string \<times> string) io" where
  "maas_settings E fl = do {
     let ep = first_of [fl_maas_endpoint fl, os_Getenv E ''MAAS_ENDPOINT''];
     let key = first_of [fl_maas_api_key fl, os_Getenv E ''MAAS_API_KEY''];
     if key = [] \<or> ep = [] then do {
       r \<leftarrow> getMaasCredentialsFromSecret E;
       ret (case r of Inl _ \<Rightarrow> (ep, key) | Inr (sep, skey) \<Rightarrow> (first_of [ep, sep], first_of [key, skey])) }
     else ret (ep, key) }"

definition storage_setting :: "env \<Rightarrow> string \<Rightarrow> string \<Rightarrow> string \<Rightarrow> string io" where
  "storage_setting E nodeName key ep =
     (if key \<noteq> [] \<and> ep \<noteq> [] then do {
        r \<leftarrow> getStorageSizeFromMaas E nodeName key ep;
        ret (case r of Inl _ \<Rightarrow> ''50'' | Inr s \<Rightarrow> s) }
      else ret ''50'')"

definition nic_mode_setting :: "env \<Rightarrow> string" where
  "nic_mode_setting E =
     (let m = ToLower (first_of [os_Getenv E ''NIC_TYPE'', ''bridge''])
      in if m = ''bridged'' then ''bridge'' else m)"

definition skip_setting :: "env \<Rightarrow> flags \<Rightarrow> bool" where
  "skip_setting E fl = (fl_skip_network_update fl \<or>
     os_Getenv E ''SKIP_NETWORK_UPDATE'' \<in> {''true'', ''1'', ''yes''})"

definition trust_setting :: "env \<Rightarrow> flags \<Rightarrow> string \<Rightarrow> string io" where
  "trust_setting E fl nodeName = do {
     let pw = first_of [fl_trust_password fl, os_Getenv E ''TRUST_PASSWORD''];
     r \<leftarrow> extractSystemIDFromNodeName E nodeName;
     ret (case r of Inl _ \<Rightarrow> pw
       | Inr sysID \<Rightarrow> if TrimSpace pw \<noteq> [] then pw @ '':'' @ sysID @ '':'' @ nodeName else pw) }"

definition already_labelled :: "env \<Rightarrow> string \<Rightarrow> bool io" where
  "already_labelled E nodeName =
     (if nodeName = [] then ret False
      else do {
        r \<leftarrow> getKubernetesClient E;
        case r of
          Inl _ \<Rightarrow> ret False
        | Inr _ \<Rightarrow> do {
            r \<leftarrow> Node_Get E nodeName;
            ret (case r of Inl _ \<Rightarrow> False
              | Inr nd \<Rightarrow> map_get (n_Labels nd) InitializedLabel = ''true'') } })"

definition label_node :: "env \<Rightarrow> string \<Rightarrow> unit io" where
  "label_node E nodeName =
     (if nodeName = [] then ret ()
      else do {
        r \<leftarrow> NewNodeLabeler E nodeName;
        case r of Inl _ \<Rightarrow> ret () | Inr _ \<Rightarrow> SafeMarkLXDInitialized E nodeName })"

definition host_name_of :: "string \<Rightarrow> string" where
  "host_name_of nodeName =
     ''lxd-host-'' @ (if normalizeName nodeName = [] then ''node'' else normalizeName nodeName)"

definition fatal :: "string \<Rightarrow> gerr \<Rightarrow> run_result" where
  "fatal msg e = (case e of GoPanic p \<Rightarrow> Panicked p | _ \<Rightarrow> Fatal (msg @ '': '' @ err_Error e))"

text \<open>The registration step; nothing when the program goes on to its sleep.\<close>

definition register_step :: "env \<Rightarrow> string \<Rightarrow> string \<Rightarrow> string \<Rightarrow> reg_config \<Rightarrow> run_result option io" where
  "register_step E nodeName ep key base = do {
     r \<leftarrow> extractSystemIDFromNodeName E nodeName;
     case r of
       Inl e \<Rightarrow> ret (Some (fatal ''Failed to extract system ID from node name'' e))
     | Inr systemID \<Rightarrow> do {
         r \<leftarrow> registerWithMAAS E ep key (base\<lparr>rc_SystemID := systemID, rc_HostName := host_name_of nodeName\<rparr>);
         case r of
           Inl e \<Rightarrow> ret (Some (fatal ''Failed to register LXD host in MAAS'' e))
         | Inr _ \<Rightarrow> do {
             r \<leftarrow> validateLXDFunctional E;
             case r of
               Inl e \<Rightarrow> ret (Some (fatal ''LXD validation failed after registration'' e))
             | Inr _ \<Rightarrow> do { label_node E nodeName; ret None } } } }"

definition run_actions ::
    "env \<Rightarrow> nat \<Rightarrow> string \<Rightarrow> string \<Rightarrow> string \<Rightarrow> string \<Rightarrow> init_config \<Rightarrow> reg_config \<Rightarrow> run_result io" where
  "run_actions E fuel action nodeName ep key cfg base = do {
     i \<leftarrow> (if action = ''init'' \<or> action = ''both'' then initializeLXD E fuel cfg else ret (Some (Inr ())));
     case i of
       None \<Rightarrow> ret OutOfFuel
     | Some (Inl e) \<Rightarrow> ret (fatal ''Failed to initialize LXD'' e)
     | Some (Inr _) \<Rightarrow> do {
         (if action = ''both'' then time_Sleep 30 else ret ());
         r \<leftarrow> (if action = ''register'' \<or> action = ''both''
               then register_step E nodeName ep key base else ret None);
         ret (case r of Some res \<Rightarrow> res
           | None \<Rightarrow> if action = ''once'' then Returned else SleepsForever) } }"

definition initializer_main :: "env \<Rightarrow> nat \<Rightarrow> flags \<Rightarrow> run_result io" where
  "initializer_main E fuel fl = do {
     let nodeName = os_Getenv E ''NODE_NAME'';
     let nodeIP = node_ip_setting E fl;
     let backend = first_of [fl_storage_backend fl, os_Getenv E ''STORAGE_BACKEND'', ''zfs''];
     (ep, key) \<leftarrow> maas_settings E fl;
     storageSize \<leftarrow> storage_setting E nodeName key ep;
     let bridge = first_of [fl_network_bridge fl, os_Getenv E ''NETWORK_BRIDGE'', ''br0''];
     r \<leftarrow> getMachineInfoFromMaas E nodeName key ep;
     case r of
       Inl e \<Rightarrow> ret (fatal ''Failed to get machine information from MAAS'' e)
     | Inr (zone, pool, bootInterface) \<Rightarrow> do {
         let project = first_of [TrimSpace (os_Getenv E ''LXD_PROJECT''), ''maas''];
         let nicParent = first_of [os_Getenv E ''NIC_PARENT'', bootInterface];
         trustPassword \<leftarrow> trust_setting E fl nodeName;
         labelled \<leftarrow> already_labelled E nodeName;
         if labelled then do { time_Sleep 3600; ret Returned }
         else run_actions E fuel (first_of [fl_action fl, ''both'']) nodeName ep key
           \<lparr>ic_StorageBackend = backend, ic_StorageSize = storageSize, ic_NetworkBridge = bridge,
            ic_SkipNetworkUpdate = skip_setting E fl, ic_TrustPassword = trustPassword,
            ic_NicType = nic_mode_setting E, ic_NicParent = nicParent, ic_Project = project, ic_HostIP = nodeIP\<rparr>
           \<lparr>rc_SystemID = [], rc_NodeIP = nodeIP, rc_TrustPassword = trustPassword, rc_Project = project,
            rc_Zone = zone, rc_ResourcePool = pool, rc_HostName = []\<rparr> } }"

section \<open>Names\<close>

definition dns_token :: "string \<Rightarrow> bool" where
  "dns_token s \<longleftrightarrow> s \<noteq> [] \<and> list_all (\<lambda>c. is_alnum c \<or> c = CHR ''-'') s \<and>
     hd s \<noteq> CHR ''-'' \<and> last s \<noteq> CHR ''-'' \<and> no_double_dash s"

lemma alnum_token: "is_alnum c = is_token_char c"
  by (simp add: is_alnum_def is_token_char_def)

lemma norm_loop_sanitize: "norm_loop d s = sanitize_loop d s"
  by (induction d s rule: norm_loop.induct) (simp_all add: alnum_token)

lemma normalizeName_token:
  assumes "normalizeName s \<noteq> []" shows "dns_token (normalizeName s)"
proof -
  let ?dash = "\<lambda>c. c = CHR ''-''"
  define l where "l = sanitize_loop False (ToLower (TrimSpace s))"
  have n: "normalizeName s = Trim_set ?dash l"
    using assms by (simp add: normalizeName_def Let_def norm_loop_sanitize l_def split: if_splits)
  obtain xs zs where l: "l = xs @ normalizeName s @ zs" using Trim_set_split n by metis
  have "list_all (\<lambda>c. is_token_char c \<or> c = CHR ''-'') (normalizeName s)" "no_double_dash (normalizeName s)"
    using sanitize_loop_chars [of False "ToLower (TrimSpace s)"] sanitize_loop_no_double [of False "ToLower (TrimSpace s)"]
      no_double_dash_sublist l by (auto simp: l_def [symmetric])
  with assms show ?thesis
    using hd_Trim_set [of ?dash l] last_TrimRight_set [of ?dash "TrimLeft_set ?dash l"]
    unfolding dns_token_def alnum_token n Trim_set_def by simp
qed

lemma token_not_space: "is_token_char c \<Longrightarrow> \<not> is_space c"
proof -
  have "CHR '' '' < CHR ''0''" "char_of (13 :: nat) < CHR ''0''" "CHR ''0'' \<le> CHR ''a''" by code_simp+
  then show "is_token_char c \<Longrightarrow> \<not> is_space c"
    unfolding is_token_char_def is_space_def by (metis leD order.trans order.strict_trans2)
qed

lemma dns_token_TrimSpace: "dns_token s \<Longrightarrow> TrimSpace s = s"
  unfolding TrimSpace_def
  by (rule Trim_set_id) (auto simp: dns_token_def alnum_token list_all_iff dest: token_not_space)

lemma normalizeName_fix: "dns_token s \<Longrightarrow> normalizeName s = s"
  using dns_token_TrimSpace
  by (simp add: normalizeName_def Let_def norm_loop_sanitize dns_token_def alnum_token ToLower_safe
      sanitize_loop_id Trim_set_id)

text \<open>
  C40: the name a node registers under. Normalising gives the empty string or a token of \<open>a-z\<close>, \<open>0-9\<close>
  and single dashes with no dash at either end; doing it twice changes nothing; and for names of at
  most 63 characters it agrees with the sanitiser that the controllers use in the tags of the cluster.
\<close>

theorem normalizeName_correct:
  "(normalizeName s = [] \<or> dns_token (normalizeName s)) \<and>
   normalizeName (normalizeName s) = normalizeName s \<and>
   (normalizeName s \<noteq> [] \<and> length (normalizeName s) \<le> 63 \<longrightarrow> SanitizeID (TrimSpace s) = normalizeName s)"
proof (intro conjI impI)
  show d: "normalizeName s = [] \<or> dns_token (normalizeName s)" using normalizeName_token by blast
  have "normalizeName [] = []" by (simp add: normalizeName_def TrimSpace_def Trim_set_def TrimRight_set_def TrimLeft_set_def ToLower_def)
  with d show "normalizeName (normalizeName s) = normalizeName s" using normalizeName_fix by fastforce
next
  assume "normalizeName s \<noteq> [] \<and> length (normalizeName s) \<le> 63"
  then show "SanitizeID (TrimSpace s) = normalizeName s"
    by (auto simp: normalizeName_def SanitizeID_def Let_def norm_loop_sanitize ToLower_def split: if_splits)
qed

theorem normalizeName_correct_witness:
  "normalizeName '' Node_1.maas '' = ''node-1-maas'' \<and> SanitizeID ''Node_1.maas'' = ''node-1-maas''"
proof -
  have n: "normalizeName '' Node_1.maas '' = ''node-1-maas''" "TrimSpace '' Node_1.maas '' = ''Node_1.maas''"
    by code_simp+
  from normalizeName_correct [of "'' Node_1.maas ''"] show ?thesis unfolding n by simp
qed

section \<open>Waiting for the socket\<close>

text \<open>
  What \<open>time.Sleep\<close> and \<open>time.Now\<close> are documented to do: the clock does not go back, and it advances
  by at least the time slept.
\<close>

fun slept :: "trace \<Rightarrow> int" where
  "slept [] = 0"
| "slept (Init (Sleep n) # tr) = int n + slept tr"
| "slept (e # tr) = slept tr"

definition clock_laws :: "env \<Rightarrow> bool" where
  "clock_laws E \<longleftrightarrow> (\<forall>tr es. clock_r E tr + slept es \<le> clock_r E (tr @ es))"

fun is_stat_false :: "event \<Rightarrow> bool" where
  "is_stat_false (Init (SocketStat p b)) = (\<not> b)"
| "is_stat_false _ = True"

lemma slept_append: "slept (xs @ ys) = slept xs + slept ys"
  by (induction xs rule: slept.induct) auto

lemma find_socket_spec:
  assumes "run_state (find_socket E ps) s = (r, t)"
  shows "\<exists>es. trace t = trace s @ es \<and> slept es = 0 \<and>
    (case r of Inr p \<Rightarrow> p \<in> set ps \<and> Init (SocketStat p True) \<in> set es | Inl e \<Rightarrow> list_all is_stat_false es)"
  using assms
proof (induction ps arbitrary: s)
  case (Cons p ps)
  show ?case
  proof (cases "stat_r (init E) p (trace s)")
    case True
    with Cons.prems show ?thesis by (auto simp: os_Stat_def run_call)
  next
    case False
    let ?u = "s\<lparr>trace := trace s @ [Init (SocketStat p False)]\<rparr>"
    have "run_state (find_socket E ps) ?u = (r, t)" using Cons.prems False by (simp add: os_Stat_def run_call)
    from Cons.IH [OF this] obtain es where "trace t = trace ?u @ es" "slept es = 0"
      "case r of Inr p \<Rightarrow> p \<in> set ps \<and> Init (SocketStat p True) \<in> set es | Inl e \<Rightarrow> list_all is_stat_false es"
      by blast
    then show ?thesis
      by (intro exI [of _ "Init (SocketStat p False) # es"]) (auto split: sum.splits)
  qed
qed auto

text \<open>Each turn of the loop brings the clock one second nearer to the deadline.\<close>

lemma wait_loop_spec:
  assumes laws: "clock_laws E"
  shows "run_state (wait_loop E fuel deadline) s = (r, t) \<Longrightarrow>
    max 0 (deadline - clock_r E (trace s)) < int fuel \<Longrightarrow>
    \<exists>q es. r = Some q \<and> trace t = trace s @ es \<and>
      slept es \<le> max 0 (deadline - clock_r E (trace s)) \<and>
      (case q of Inr p \<Rightarrow> Init (SocketStat p True) \<in> set es
       | Inl e \<Rightarrow> list_all is_stat_false es \<and> deadline \<le> clock_r E (butlast (trace t)))"
proof (induction fuel arbitrary: s)
  case (Suc n)
  let ?now = "clock_r E (trace s)"
  define s1 where "s1 = s\<lparr>trace := trace s @ [Clock]\<rparr>"
  have tick: "run_state (time_Now E) s = (?now, s1)" by (simp add: time_Now_def run_call s1_def)
  show ?case
  proof (cases "?now < deadline")
    case False
    with Suc.prems tick show ?thesis
      by (intro exI [of _ "Inl (ErrorString ''timed out waiting for LXD socket'')"] exI [of _ "[Clock]"])
        (auto simp: s1_def)
  next
    case True
    obtain f u where u: "run_state (find_socket E lxdSocketPaths) s1 = (f, u)" by fastforce
    from find_socket_spec [OF u] obtain es where es: "trace u = trace s1 @ es" "slept es = 0"
      "case f of Inr p \<Rightarrow> p \<in> set lxdSocketPaths \<and> Init (SocketStat p True) \<in> set es
       | Inl e \<Rightarrow> list_all is_stat_false es" by blast
    show ?thesis
    proof (cases f)
      case (Inr p)
      with Suc.prems(1) tick True u es show ?thesis
        by (intro exI [of _ "Inr p"] exI [of _ "Clock # es"]) (auto simp: findLXDSocket_def s1_def)
    next
      case (Inl e)
      define v where "v = u\<lparr>trace := trace u @ [Init (Sleep 1)]\<rparr>"
      have run: "run_state (wait_loop E n deadline) v = (r, t)"
        using Suc.prems(1) tick True u Inl by (simp add: findLXDSocket_def time_Sleep_def run_call v_def)
      have tv: "trace v = trace s @ (Clock # es @ [Init (Sleep 1)])" using es by (simp add: v_def s1_def)
      then have adv: "?now + 1 \<le> clock_r E (trace v)"
        using laws [unfolded clock_laws_def, rule_format, of "trace s" "Clock # es @ [Init (Sleep 1)]"] es(2)
        by (simp add: slept_append)
      with Suc.prems(2) True have "max 0 (deadline - clock_r E (trace v)) < int n" by simp
      from Suc.IH [OF run this] obtain q fs where q: "r = Some q" "trace t = trace v @ fs"
        "slept fs \<le> max 0 (deadline - clock_r E (trace v))"
        "case q of Inr p \<Rightarrow> Init (SocketStat p True) \<in> set fs
         | Inl e \<Rightarrow> list_all is_stat_false fs \<and> deadline \<le> clock_r E (butlast (trace t))" by blast
      have "slept (Clock # es @ Init (Sleep 1) # fs) \<le> max 0 (deadline - ?now)"
        using q(3) adv True es(2) by (simp add: slept_append)
      with q tv es(3) Inl show ?thesis
        by (intro exI [of _ q] exI [of _ "Clock # es @ Init (Sleep 1) # fs"]) (auto split: sum.splits)
    qed
  qed
qed simp

text \<open>
  C39: the wait for the socket ends. With a clock that advances by the time slept, fuel for one turn
  more than the timeout in seconds is enough: the wait returns, having slept at most the timeout; a
  socket it returns was seen to exist, and it only gives up after the deadline with every probe
  negative.
\<close>

theorem waitForLXDSocket_terminates:
  assumes "clock_laws E" "timeout < fuel" "run_state (waitForLXDSocket E fuel timeout) s = (r, t)"
  shows "\<exists>q es. r = Some q \<and> trace t = trace s @ es \<and> slept es \<le> int timeout \<and>
    (case q of Inr p \<Rightarrow> Init (SocketStat p True) \<in> set es
     | Inl e \<Rightarrow> list_all is_stat_false es \<and> clock_r E (trace s) + int timeout \<le> clock_r E (butlast (trace t)))"
proof -
  let ?s = "s\<lparr>trace := trace s @ [Clock]\<rparr>"
  let ?d = "clock_r E (trace s) + int timeout"
  have "clock_r E (trace s) \<le> clock_r E (trace ?s)"
    using assms(1) [unfolded clock_laws_def, rule_format, of "trace s" "[Clock]"] by simp
  then have d: "max 0 (?d - clock_r E (trace ?s)) \<le> int timeout" by simp
  have run: "run_state (wait_loop E fuel ?d) ?s = (r, t)"
    using assms(3) by (simp add: waitForLXDSocket_def time_Now_def run_call)
  from d assms(2) have "max 0 (?d - clock_r E (trace ?s)) < int fuel" by simp
  from wait_loop_spec [OF assms(1) run this] obtain q es where "r = Some q" "trace t = trace ?s @ es"
    "slept es \<le> max 0 (?d - clock_r E (trace ?s))"
    "case q of Inr p \<Rightarrow> Init (SocketStat p True) \<in> set es
     | Inl e \<Rightarrow> list_all is_stat_false es \<and> ?d \<le> clock_r E (butlast (trace t))" by blast
  with d show ?thesis
    by (intro exI [of _ q] exI [of _ "Clock # es"]) (auto split: sum.splits)
qed

definition sleeping_env :: env where
  "sleeping_env = sample_env\<lparr>clock_r := slept, init := sample_init\<lparr>stat_r := \<lambda>_ tr. slept tr \<ge> 2\<rparr>\<rparr>"

theorem waitForLXDSocket_terminates_witness:
  "\<exists>p. fst (run_state (waitForLXDSocket sleeping_env 121 120) sample_sys) = Some p \<and>
     fst (run_state (waitForLXDSocket sleeping_env 4 3) sample_sys) = Some (Inr ''/var/snap/lxd/common/lxd/unix.socket'')"
proof -
  have laws: "clock_laws sleeping_env" by (simp add: clock_laws_def sleeping_env_def slept_append)
  have "fst (run_state (waitForLXDSocket sleeping_env 4 3) sample_sys) = Some (Inr ''/var/snap/lxd/common/lxd/unix.socket'')"
    by (simp add: numeral_eq_Suc waitForLXDSocket_def time_Now_def findLXDSocket_def lxdSocketPaths_def os_Stat_def
        time_Sleep_def run_call sleeping_env_def sample_env_def sample_init_def sample_sys_def)
  moreover obtain r t where "run_state (waitForLXDSocket sleeping_env 121 120) sample_sys = (r, t)" by fastforce
  moreover from waitForLXDSocket_terminates [OF laws _ this] have "\<exists>q. r = Some q" by auto
  ultimately show ?thesis by auto
qed

section \<open>Registration\<close>

definition host_matches_reg :: "reg_config \<Rightarrow> vm_host \<Rightarrow> bool" where
  "host_matches_reg c h \<longleftrightarrow> vmh_Name h = rc_HostName c \<or> vmh_HostSystemID h = rc_SystemID c"

text \<open>The entry is registered for another machine under the name that is asked for.\<close>

definition host_foreign :: "reg_config \<Rightarrow> vm_host \<Rightarrow> bool" where
  "host_foreign c h \<longleftrightarrow> vmh_Name h = rc_HostName c \<and> vmh_HostSystemID h \<noteq> [] \<and>
     vmh_HostSystemID h \<noteq> rc_SystemID c"

lemma register_scan_find:
  "register_scan (rc_HostName c) (rc_SystemID c) hs = None \<longleftrightarrow> find (host_matches_reg c) hs = None"
  "find (host_matches_reg c) hs = Some h \<Longrightarrow>
   \<exists>r. register_scan (rc_HostName c) (rc_SystemID c) hs = Some r \<and> (r = Inr () \<longleftrightarrow> \<not> host_foreign c h)"
  by (induction hs) (auto simp: host_matches_reg_def host_foreign_def split: if_splits)

text \<open>
  The parameters a creation is asked for: \<open>key=value\<close> arguments of the command line, or the parameters of
  the API call; with whether it succeeded.
\<close>

definition arg_pair :: "string \<Rightarrow> string \<times> string" where
  "arg_pair a = (takeWhile (\<lambda>ch. ch \<noteq> CHR ''='') a, drop 1 (dropWhile (\<lambda>ch. ch \<noteq> CHR ''='') a))"

fun creation_of :: "event \<Rightarrow> (params \<times> bool) option" where
  "creation_of (Maas (VMHostCreate ps ok)) = Some (ps, ok)"
| "creation_of (Init (RunCommand args ok)) =
     (if take 4 args = [''maas'', ''ds'', ''vm-hosts'', ''create'']
      then Some (map arg_pair (drop 4 args), ok) else None)"
| "creation_of _ = None"

text \<open>The VM host that a configuration asks for; an empty setting is left to MAAS.\<close>

definition wanted :: "reg_config \<Rightarrow> string \<Rightarrow> string option" where
  "wanted c k = (let opt = (\<lambda>v. if v = [] then None else Some v) in
     if k = ''type'' then Some ''lxd'' else if k = ''power_address'' then Some (rc_NodeIP c)
     else if k = ''name'' then Some (rc_HostName c) else if k = ''password'' then opt (rc_TrustPassword c)
     else if k = ''project'' then opt (rc_Project c) else if k = ''zone'' then opt (rc_Zone c)
     else if k = ''pool'' then opt (rc_ResourcePool c) else None)"

definition creates :: "reg_config \<Rightarrow> params \<Rightarrow> bool" where
  "creates c ps \<longleftrightarrow> distinct (map fst ps) \<and> map_of ps = wanted c"

definition registers :: "reg_config \<Rightarrow> event \<Rightarrow> bool" where
  "registers c e \<longleftrightarrow> (\<exists>ps. creation_of e = Some (ps, True) \<and> creates c ps)"

lemma arg_pair_eq: "CHR ''='' \<notin> set k \<Longrightarrow> arg_pair (k @ ''='' @ v) = (k, v)"
  by (simp add: arg_pair_def takeWhile_append dropWhile_append)

lemma cli_args_creates: "creates c (map arg_pair (cli_args c))"
proof -
  have p: "map arg_pair (cli_args c) = [(''type'', ''lxd''), (''power_address'', rc_NodeIP c)] @
      opt_param ''password'' (rc_TrustPassword c) @ [(''name'', rc_HostName c)] @ opt_param ''project'' (rc_Project c) @
      opt_param ''zone'' (rc_Zone c) @ opt_param ''pool'' (rc_ResourcePool c)"
    unfolding cli_args_def map_append map_map opt_param_def
    using arg_pair_eq [of "''type''"] arg_pair_eq [of "''power_address''"] arg_pair_eq [of "''password''"]
      arg_pair_eq [of "''name''"] arg_pair_eq [of "''project''"] arg_pair_eq [of "''zone''"] arg_pair_eq [of "''pool''"]
    by simp
  show ?thesis unfolding creates_def p by (auto simp: opt_param_def wanted_def fun_eq_iff Let_def)
qed

lemma api_params_creates: "creates c (api_params c)"
  unfolding creates_def api_params_def by (auto simp: opt_param_def wanted_def fun_eq_iff Let_def)

lemma via_cli_registers:
  assumes "run_state (register_via_cli E ep key c) s = (r, t)"
  shows "\<exists>ok ok'. trace t = trace s @ [Init (RunCommand [''maas'', ''login'', ''ds'', ep, key] ok),
      Init (RunCommand ([''maas'', ''ds'', ''vm-hosts'', ''create''] @ cli_args c) ok')] \<and> (r = Inr () \<longleftrightarrow> ok')"
  using assms by (auto simp: register_via_cli_def runCmd_def exec_Command_def run_call split: prod.splits if_splits)

lemma via_api_registers:
  assumes "run_state (register_via_api E c) s = (r, t)"
  shows "\<exists>ok es. trace t = trace s @ Maas (VMHostCreate (api_params c) ok) # es \<and>
    list_all (\<lambda>e. creation_of e = None) es \<and> (r = Inr () \<longrightarrow> ok) \<and> (\<not> ok \<longrightarrow> es = [])"
proof -
  obtain m u where m: "run_state (VMHost_Create E (api_params c)) s = (m, u)" by fastforce
  then have u: "trace u = trace s @ [Maas (VMHostCreate (api_params c) (is_ok m))]"
    by (auto simp: VMHost_Create_def run_api)
  show ?thesis
  proof (cases m)
    case (Inl e)
    then have "t = u" "r \<noteq> Inr ()" using assms m by (auto simp: register_via_api_def)
    with u Inl show ?thesis by (auto simp: is_ok_def)
  next
    case (Inr created)
    then have run: "run_state (verify_created E c created) u = (r, t)"
      using assms m by (simp add: register_via_api_def)
    have "emits (\<lambda>e. creation_of e = None) (verify_created E c created)"
      unfolding verify_created_def VMHost_Get_def VMHost_Update_def by (intro emits_intros) simp_all
    from emitsD [OF this run] u Inr show ?thesis by (auto simp: is_ok_def)
  qed
qed

lemma register_cases:
  assumes "ep \<noteq> []" "key \<noteq> []" "vmhosts_list_r (maas E) (trace s) = Inr hosts"
    and run: "run_state (registerWithMAAS E ep key c) s = (r, t)"
  shows "\<exists>es. trace t = trace s @ Maas VMHostsList # es \<and> (case find (host_matches_reg c) hosts of
      Some h \<Rightarrow> es = [] \<and> (r = Inr () \<longleftrightarrow> \<not> host_foreign c h)
    | None \<Rightarrow> \<exists>ps ok. List.map_filter creation_of es = [(ps, ok)] \<and> creates c ps \<and> (r = Inr () \<longrightarrow> ok))"
proof (cases "find (host_matches_reg c) hosts")
  case (Some h)
  from register_scan_find(2) [OF this] obtain q where
    "register_scan (rc_HostName c) (rc_SystemID c) hosts = Some q" "q = Inr () \<longleftrightarrow> \<not> host_foreign c h" by blast
  with Some assms show ?thesis by (auto simp: registerWithMAAS_def VMHosts_List_def run_api)
next
  case None
  then have n: "register_scan (rc_HostName c) (rc_SystemID c) hosts = None" using register_scan_find(1) by blast
  define u where "u = s\<lparr>trace := trace s @ [Maas VMHostsList, Init (LookPath ''maas'')]\<rparr>"
  have step: "run_state (if lookpath_r (init E) ''maas'' (trace s @ [Maas VMHostsList])
      then register_via_cli E ep key c else register_via_api E c) u = (r, t)"
    using run assms(1-3) n
    by (simp add: registerWithMAAS_def VMHosts_List_def exec_LookPath_def run_api run_call u_def)
  have "\<exists>fs ps ok. trace t = trace u @ fs \<and> List.map_filter creation_of fs = [(ps, ok)] \<and> creates c ps \<and>
      (r = Inr () \<longrightarrow> ok)"
  proof (cases "lookpath_r (init E) ''maas'' (trace s @ [Maas VMHostsList])")
    case True
    with step have "run_state (register_via_cli E ep key c) u = (r, t)" by simp
    from via_cli_registers [OF this] obtain ok ok' where
      f: "trace t = trace u @ [Init (RunCommand [''maas'', ''login'', ''ds'', ep, key] ok),
        Init (RunCommand ([''maas'', ''ds'', ''vm-hosts'', ''create''] @ cli_args c) ok')]" "r = Inr () \<longleftrightarrow> ok'" by blast
    show ?thesis
      by (rule exI, rule exI [of _ "map arg_pair (cli_args c)"], rule exI [of _ ok'], rule conjI, rule f(1))
        (simp add: map_filter_simps f(2) cli_args_creates)
  next
    case False
    with step have "run_state (register_via_api E c) u = (r, t)" by simp
    from via_api_registers [OF this] obtain ok es where
      f: "trace t = trace u @ Maas (VMHostCreate (api_params c) ok) # es"
      "list_all (\<lambda>e. creation_of e = None) es" "r = Inr () \<longrightarrow> ok" by blast
    from f(2) have "List.map_filter creation_of es = []" by (induction es) (simp_all add: map_filter_simps)
    then show ?thesis
      by (intro exI [of _ "api_params c"] exI [of _ ok] exI [of _ "Maas (VMHostCreate (api_params c) ok) # es"])
        (simp add: map_filter_simps f api_params_creates)
  qed
  then obtain fs ps ok where f: "trace t = trace u @ fs" "List.map_filter creation_of fs = [(ps, ok)]"
    "creates c ps" "r = Inr () \<longrightarrow> ok" by blast
  show ?thesis
    using None f by (intro exI [of _ "Init (LookPath ''maas'') # fs"]) (simp add: u_def map_filter_simps)
qed

text \<open>
  C21: a node is registered once, under its own name, and never over the VM host of another machine.
  If MAAS lists an entry with the name or the system ID of the node, nothing is written, and the
  registration succeeds exactly when the first such entry does not carry the name for another system
  ID. If there is none, exactly one VM host is created in the run, through the command line or the API,
  with the name, the address and the other settings of the node as its only parameters; and the
  registration succeeds only if this creation did.
\<close>

theorem registerWithMAAS_spec:
  assumes "ep \<noteq> []" "key \<noteq> []" "vmhosts_list_r (maas E) (trace s) = Inr hosts"
    and run: "run_state (registerWithMAAS E ep key c) s = (r, t)"
  shows "\<exists>es. trace t = trace s @ Maas VMHostsList # es \<and> (case find (host_matches_reg c) hosts of
      Some h \<Rightarrow> es = [] \<and> (r = Inr () \<longleftrightarrow> \<not> host_foreign c h)
    | None \<Rightarrow> \<exists>ps ok. List.map_filter creation_of es = [(ps, ok)] \<and> creates c ps \<and> (r = Inr () \<longrightarrow> ok))"
  using register_cases [OF assms] .

definition sample_reg :: reg_config where
  "sample_reg = \<lparr>rc_SystemID = ''abc123'', rc_NodeIP = ''10.0.0.5'', rc_TrustPassword = ''pw'', rc_Project = ''maas'',
     rc_Zone = ''az1'', rc_ResourcePool = ''pool'', rc_HostName = ''lxd-host-node-1''\<rparr>"

text \<open>
  The node is listed under its name: it is accepted, and refused to another system ID. A node with
  another name and another system ID is created.
\<close>

theorem registerWithMAAS_spec_witness:
  "fst (run_state (registerWithMAAS sample_env ''http://maas'' ''k'' sample_reg) sample_sys) = Inr () \<and>
   fst (run_state (registerWithMAAS sample_env ''http://maas'' ''k'' (sample_reg\<lparr>rc_SystemID := ''other''\<rparr>)) sample_sys) \<noteq> Inr () \<and>
   (\<exists>ps ok. List.map_filter creation_of (trace (snd (run_state (registerWithMAAS sample_env ''http://maas'' ''k''
      (sample_reg\<lparr>rc_SystemID := ''other'', rc_HostName := ''new''\<rparr>)) sample_sys))) = [(ps, ok)] \<and>
      map_of ps ''name'' = Some ''new'' \<and> map_of ps ''power_address'' = Some ''10.0.0.5'')"
proof -
  let ?c = "sample_reg\<lparr>rc_SystemID := ''other''\<rparr>" and ?n = "sample_reg\<lparr>rc_SystemID := ''other'', rc_HostName := ''new''\<rparr>"
  have l: "vmhosts_list_r (maas sample_env) (trace sample_sys) = Inr [sample_vm_host]" "trace sample_sys = []"
    by (simp_all add: sample_env_def sample_maas_def sample_sys_def)
  have f: "find (host_matches_reg sample_reg) [sample_vm_host] = Some sample_vm_host" "\<not> host_foreign sample_reg sample_vm_host"
    "find (host_matches_reg ?c) [sample_vm_host] = Some sample_vm_host" "host_foreign ?c sample_vm_host"
    "find (host_matches_reg ?n) [sample_vm_host] = None"
    by (simp_all add: host_matches_reg_def host_foreign_def sample_reg_def sample_vm_host_def)
  obtain r t r' t' r'' t'' where runs:
    "run_state (registerWithMAAS sample_env ''http://maas'' ''k'' sample_reg) sample_sys = (r, t)"
    "run_state (registerWithMAAS sample_env ''http://maas'' ''k'' ?c) sample_sys = (r', t')"
    "run_state (registerWithMAAS sample_env ''http://maas'' ''k'' ?n) sample_sys = (r'', t'')"
    by fastforce
  have "r = Inr ()" "r' \<noteq> Inr ()"
    using registerWithMAAS_spec [OF _ _ l(1) runs(1), unfolded f(1)] registerWithMAAS_spec [OF _ _ l(1) runs(2), unfolded f(3)]
    by (auto simp: f(2,4))
  moreover obtain es ps ok where "trace t'' = Maas VMHostsList # es" "List.map_filter creation_of es = [(ps, ok)]"
    "creates ?n ps"
    using registerWithMAAS_spec [OF _ _ l(1) runs(3), unfolded f(5)] l(2) by auto
  then have "List.map_filter creation_of (trace t'') = [(ps, ok)]" "map_of ps ''name'' = Some ''new''"
    "map_of ps ''power_address'' = Some ''10.0.0.5''"
    by (simp_all add: map_filter_simps creates_def wanted_def Let_def sample_reg_def)
  ultimately show ?thesis using runs by simp
qed

section \<open>The label\<close>

fun is_node_update :: "event \<Rightarrow> bool" where
  "is_node_update (Init (NodeUpdate nm labels ok)) = True"
| "is_node_update _ = False"

lemma no_update_loops:
  "emits (\<lambda>e. \<not> is_node_update e) (find_socket E ps)"
  "emits (\<lambda>e. \<not> is_node_update e) (stat_all E ps)"
  by (induction ps) (auto simp: os_Stat_def intro!: emits_intros)

lemma no_update_wait: "emits (\<lambda>e. \<not> is_node_update e) (wait_loop E n d)"
  by (induction n) (auto simp: time_Now_def time_Sleep_def findLXDSocket_def intro!: emits_intros no_update_loops)

lemmas init_defs = waitForLXDSocket_def findLXDSocket_def logLXDDiagnostics_def configure_server_def
  ensureLXDProject_def ensure_pool_def ensure_network_def create_or_update_network_def hostInterfaceExists_def
  ensureMAASProfile_def configureLXDNetwork_def setTrustPassword_def initializeLXD_def
  validateLXDFunctional_def registerWithMAAS_def register_via_cli_def register_via_api_def verify_created_def
  runCmd_def extractSystemIDFromNodeName_def get_own_machine_def getStorageSizeFromMaas_def
  getMachineInfoFromMaas_def getKubernetesClient_def getMaasCredentialsFromSecret_def

lemma no_update_init: "emits (\<lambda>e. \<not> is_node_update e) (initializeLXD E fuel cfg)"
  unfolding init_defs init_call_defs call_defs Let_def
  by (intro emits_intros no_update_loops no_update_wait; simp)

lemma no_update_register: "emits (\<lambda>e. \<not> is_node_update e) (registerWithMAAS E ep key c)"
  unfolding init_defs init_call_defs call_defs Let_def by (intro emits_intros; simp)

lemma no_update_validate: "emits (\<lambda>e. \<not> is_node_update e) (validateLXDFunctional E)"
  unfolding init_defs init_call_defs call_defs Let_def by (intro emits_intros no_update_loops; simp)

lemma no_update_extract: "emits (\<lambda>e. \<not> is_node_update e) (extractSystemIDFromNodeName E nm)"
  unfolding init_defs init_call_defs call_defs Let_def by (intro emits_intros; simp)

lemma no_update_settings:
  "emits (\<lambda>e. \<not> is_node_update e) (maas_settings E fl)"
  "emits (\<lambda>e. \<not> is_node_update e) (storage_setting E nm key ep)"
  "emits (\<lambda>e. \<not> is_node_update e) (getMachineInfoFromMaas E nm key ep)"
  "emits (\<lambda>e. \<not> is_node_update e) (trust_setting E fl nm)"
  "emits (\<lambda>e. \<not> is_node_update e) (already_labelled E nm)"
  unfolding maas_settings_def storage_setting_def trust_setting_def already_labelled_def
    init_defs init_call_defs call_defs Let_def
  by (intro emits_intros; simp)+

lemma any_label: "emits any_event (label_node E nm)"
  unfolding label_node_def NewNodeLabeler_def SafeMarkLXDInitialized_def MarkLXDInitialized_def
    init_call_defs call_defs by (intro emits_intros TrueI)

text \<open>The evidence that the trace and the answers show before a label is written.\<close>

definition registered :: "env \<Rightarrow> reg_config \<Rightarrow> event list \<Rightarrow> bool" where
  "registered E c es \<longleftrightarrow> (\<exists>hosts tr. vmhosts_list_r (maas E) tr = Inr hosts \<and>
     (case find (host_matches_reg c) hosts of Some h \<Rightarrow> \<not> host_foreign c h | None \<Rightarrow> \<exists>e \<in> set es. registers c e))"

definition functional :: "env \<Rightarrow> bool" where
  "functional E \<longleftrightarrow> (\<exists>tr pools. lxd_pools_r (init E) tr = Inr pools \<and> pools \<noteq> []) \<and>
     (\<exists>tr nets. lxd_networks_r (init E) tr = Inr nets \<and> nets \<noteq> [])"

lemma registered_mono: "registered E c es \<Longrightarrow> set es \<subseteq> set fs \<Longrightarrow> registered E c fs"
  unfolding registered_def
proof (elim exE conjE)
  fix hosts tr
  assume h: "vmhosts_list_r (maas E) tr = Inr hosts" "set es \<subseteq> set fs"
    "case find (host_matches_reg c) hosts of Some h \<Rightarrow> \<not> host_foreign c h | None \<Rightarrow> \<exists>e \<in> set es. registers c e"
  then show "\<exists>hosts tr. vmhosts_list_r (maas E) tr = Inr hosts \<and>
     (case find (host_matches_reg c) hosts of Some h \<Rightarrow> \<not> host_foreign c h | None \<Rightarrow> \<exists>e \<in> set fs. registers c e)"
    by (intro exI [of _ hosts] exI [of _ tr]) (auto split: option.splits)
qed

lemma register_registered:
  assumes "run_state (registerWithMAAS E ep key c) s = (Inr (), u)" "trace u = trace s @ zs"
  shows "registered E c zs"
proof -
  from assms(1) have ne: "ep \<noteq> []" "key \<noteq> []" by (auto simp: registerWithMAAS_def split: if_splits)
  with assms(1) obtain hosts where h: "vmhosts_list_r (maas E) (trace s) = Inr hosts"
    by (auto simp: registerWithMAAS_def VMHosts_List_def run_api split: sum.splits)
  from register_cases [OF ne h assms(1)] assms(2) obtain es where es: "zs = Maas VMHostsList # es"
    "case find (host_matches_reg c) hosts of Some h \<Rightarrow> es = [] \<and> \<not> host_foreign c h
     | None \<Rightarrow> \<exists>ps. List.map_filter creation_of es = [(ps, True)] \<and> creates c ps"
    by (auto split: option.splits)
  have "\<exists>e \<in> set zs. registers c e" if "List.map_filter creation_of es = [(ps, True)]" "creates c ps" for ps
  proof -
    from that(1) have "(ps, True) \<in> set (List.map_filter creation_of es)" by simp
    then obtain e where "e \<in> set es" "creation_of e = Some (ps, True)" by (auto simp: map_filter_def)
    with that(2) es(1) show ?thesis by (auto simp: registers_def)
  qed
  with es(2) h show ?thesis
    unfolding registered_def by (intro exI [of _ hosts] exI [of _ "trace s"]) (auto split: option.splits)
qed

lemma validate_functional:
  assumes "run_state (validateLXDFunctional E) s = (Inr (), u)" shows "functional E"
  using assms unfolding validateLXDFunctional_def functional_def Lxd_GetStoragePools_def Lxd_GetNetworks_def
  by (auto simp: run_api split: prod.splits sum.splits if_splits)

text \<open>What the label says of a node.\<close>

definition label_earned :: "env \<Rightarrow> string \<Rightarrow> strmap \<Rightarrow> event list \<Rightarrow> bool" where
  "label_earned E nm labels xs \<longleftrightarrow> nm \<noteq> [] \<and> map_get labels InitializedLabel = ''true'' \<and> functional E \<and>
     (\<exists>c. (\<exists>tr nd. node_get_r (remote E) nm tr = Inr nd \<and>
             system_id_of_provider (n_ProviderID nd) = Inr (rc_SystemID c)) \<and>
          rc_HostName c = host_name_of nm \<and> registered E c xs)"

lemma extract_sound:
  assumes "run_state (extractSystemIDFromNodeName E nm) s = (Inr sid, u)"
  shows "\<exists>tr nd. node_get_r (remote E) nm tr = Inr nd \<and> system_id_of_provider (n_ProviderID nd) = Inr sid"
  using assms unfolding extractSystemIDFromNodeName_def InCluster_Client_def Node_Get_def
  by (auto simp: run_api split: sum.splits)

lemma label_node_update:
  "before (Init (NodeUpdate nm labels ok)) (\<lambda>_. nm = nm' \<and> nm \<noteq> [] \<and> map_get labels InitializedLabel = ''true'')
     (label_node E nm')"
proof (rule beforeI)
  fix s r t xs ys
  assume "run_state (label_node E nm') s = (r, t)" "trace t = trace s @ xs @ Init (NodeUpdate nm labels ok) # ys"
  then show "nm = nm' \<and> nm \<noteq> [] \<and> map_get labels InitializedLabel = ''true''"
    unfolding label_node_def NewNodeLabeler_def SafeMarkLXDInitialized_def MarkLXDInitialized_def
      InCluster_Client_def Node_Get_def Node_Update_def
    by (auto simp: run_api append_eq_Cons_conv Cons_eq_append_conv split: sum.splits if_splits)
qed

lemma late_update: "\<not> \<not> is_node_update (Init (NodeUpdate nm labels ok))"
  by simp

lemma register_step_label:
  "before (Init (NodeUpdate nm labels ok)) (\<lambda>xs. nm = nm' \<and> label_earned E nm labels xs)
     (register_step E nm' ep key base)"
proof -
  note any = emits_intros TrueI any_label emits_mono [OF no_update_register] emits_mono [OF no_update_validate]
  note late = late_update
  show ?thesis
    unfolding register_step_def
  proof (rule before_bind [OF no_update_extract late]; (rule before_case_sum; (rule before_ret)?)?)
    fix s u x zs sid
    assume "run_state (extractSystemIDFromNodeName E nm') s = (x, u)" "x = Inr sid"
    then obtain tr nd where nd: "node_get_r (remote E) nm' tr = Inr nd"
      "system_id_of_provider (n_ProviderID nd) = Inr sid" using extract_sound by blast
    let ?c = "base\<lparr>rc_SystemID := sid, rc_HostName := host_name_of nm'\<rparr>"
    show "before (Init (NodeUpdate nm labels ok)) (\<lambda>us. nm = nm' \<and> label_earned E nm labels (zs @ us)) (do {
         r \<leftarrow> registerWithMAAS E ep key ?c;
         case r of
           Inl e \<Rightarrow> ret (Some (fatal ''Failed to register LXD host in MAAS'' e))
         | Inr _ \<Rightarrow> do {
             r \<leftarrow> validateLXDFunctional E;
             case r of
               Inl e \<Rightarrow> ret (Some (fatal ''LXD validation failed after registration'' e))
             | Inr _ \<Rightarrow> do { label_node E nm'; ret None } } })"
    proof (rule before_bind [OF no_update_register late]; (rule before_case_sum; (rule before_ret)?)?)
      fix s u x zs' y
      assume "run_state (registerWithMAAS E ep key ?c) s = (x, u)" "trace u = trace s @ zs'" "x = Inr y"
      then have reg: "registered E ?c zs'" using register_registered by auto
      show "before (Init (NodeUpdate nm labels ok)) (\<lambda>us. nm = nm' \<and> label_earned E nm labels (zs @ zs' @ us)) (do {
             r \<leftarrow> validateLXDFunctional E;
             case r of
               Inl e \<Rightarrow> ret (Some (fatal ''LXD validation failed after registration'' e))
             | Inr _ \<Rightarrow> do { label_node E nm'; ret None } })"
      proof (rule before_bind [OF no_update_validate late]; (rule before_case_sum; (rule before_ret)?)?)
        fix s u x zs'' y
        assume "run_state (validateLXDFunctional E) s = (x, u)" "x = Inr y"
        then have "functional E" using validate_functional by auto
        show "before (Init (NodeUpdate nm labels ok)) (\<lambda>us. nm = nm' \<and> label_earned E nm labels (zs @ zs' @ zs'' @ us))
            (do { label_node E nm'; ret None })"
        proof (rule before_bind_ret, rule before_mono [OF label_node_update])
          fix us
          assume "nm = nm' \<and> nm \<noteq> [] \<and> map_get labels InitializedLabel = ''true''"
          moreover have "registered E ?c (zs @ zs' @ zs'' @ us)" by (rule registered_mono [OF reg]) auto
          ultimately show "nm = nm' \<and> label_earned E nm labels (zs @ zs' @ zs'' @ us)"
            using nd \<open>functional E\<close> unfolding label_earned_def
            by (intro conjI exI [of _ ?c] exI [of _ tr] exI [of _ nd]) auto
        qed
      qed (intro any; simp)
    qed (intro any; simp)
  qed (intro any; simp)
qed

lemma any_register_step: "emits any_event (register_step E nm ep key base)"
  unfolding register_step_def
  by (intro emits_intros TrueI any_label emits_mono [OF no_update_register] emits_mono [OF no_update_validate]
      emits_mono [OF no_update_extract])

lemma any_sleep: "emits any_event (time_Sleep n)"
  unfolding time_Sleep_def by (intro emits_intros TrueI)

lemma any_run_actions: "emits any_event (run_actions E fuel act nm ep key cfg base)"
  unfolding run_actions_def time_Sleep_def
  by (intro emits_intros TrueI any_register_step emits_mono [OF no_update_init])

lemma label_earned_mono: "label_earned E nm labels us \<Longrightarrow> label_earned E nm labels (zs @ us)"
  unfolding label_earned_def using registered_mono [of E _ us "zs @ us"] by auto

lemma run_actions_label:
  "before (Init (NodeUpdate nm labels ok)) (\<lambda>xs. nm = nm' \<and> label_earned E nm labels xs)
     (run_actions E fuel act nm' ep key cfg base)"
proof -
  let ?P = "\<lambda>e. \<not> is_node_update e"
  have init: "emits ?P (if b then initializeLXD E fuel cfg else ret (Some (Inr ())))" for b
    by (intro emits_intros no_update_init)
  have sleep: "emits ?P (if b then time_Sleep 30 else ret ())" for b
    unfolding time_Sleep_def by (intro emits_intros) simp
  show ?thesis
    unfolding run_actions_def
    apply (rule before_bind [OF init late_update])
     apply (unfold time_Sleep_def, intro emits_intros TrueI any_register_step)
    apply (rule before_case_option, rule before_ret)
    apply (rule before_case_sum, rule before_ret)
    apply (fold time_Sleep_def, rule before_bind [OF sleep late_update])
     apply (intro emits_intros TrueI any_register_step)
    apply (rule before_bind_ret, rule before_if [OF _ before_ret])
    apply (rule before_mono [OF register_step_label], auto intro!: label_earned_mono)
    done
qed

text \<open>
  C10: the label is earned. If a run of the initializer writes to a node, the node is its own, the
  labels it writes include the initialised label, and before that in the same run the VM host was
  registered: MAAS listed an entry for this machine that is not another machine's, or the run created
  one with the parameters of this node, under the name derived from the node and the system ID of its provider ID; and LXD was seen
  working, with at least one storage pool and one network.
\<close>

theorem labelled_only_when_earned:
  assumes run: "run_state (initializer_main E fuel fl) s = (r, t)"
    and new: "trace t = trace s @ xs @ Init (NodeUpdate nm labels ok) # ys"
  shows "nm = os_Getenv E ''NODE_NAME'' \<and> label_earned E nm labels xs"
proof -
  note any = emits_intros TrueI any_run_actions any_sleep emits_mono [OF no_update_settings(1)]
    emits_mono [OF no_update_settings(2)] emits_mono [OF no_update_settings(3)]
    emits_mono [OF no_update_settings(4)] emits_mono [OF no_update_settings(5)]
  have "before (Init (NodeUpdate nm labels ok))
      (\<lambda>xs. nm = os_Getenv E ''NODE_NAME'' \<and> label_earned E nm labels xs) (initializer_main E fuel fl)"
    unfolding initializer_main_def Let_def
    apply (rule before_bind [OF no_update_settings(1) late_update], (intro any; simp))
    apply (rule before_case_prod)
    apply (rule before_bind [OF no_update_settings(2) late_update], (intro any; simp))
    apply (rule before_bind [OF no_update_settings(3) late_update], (intro any; simp))
    apply (rule before_case_sum, rule before_ret)
    apply (rule before_case_prod, rule before_case_prod)
    apply (rule before_bind [OF no_update_settings(4) late_update], (intro any; simp))
    apply (rule before_bind [OF no_update_settings(5) late_update], (intro any; simp))
    apply (rule before_if)
     apply (rule before_emits [where P = "\<lambda>e. \<not> is_node_update e"], unfold time_Sleep_def, intro emits_intros, simp, simp)
    apply (rule before_mono [OF run_actions_label], auto intro!: label_earned_mono)
    done
  from beforeD [OF this run new] show ?thesis .
qed

definition init_env :: env where
  "init_env = sample_env\<lparr>os_Getenv := (\<lambda>k. if k = ''NODE_NAME'' then ''node-1'' else if k = ''MAAS_ENDPOINT'' then ''http://maas''
       else if k = ''MAAS_API_KEY'' then ''key'' else []),
     remote := sample_remote\<lparr>node_get_r := \<lambda>_ _. Inr \<lparr>n_Name = ''node-1'', n_Labels = [], n_Ready = True,
       n_ProviderID = ''maas:///az1/abc123''\<rparr>\<rparr>\<rparr>"

definition register_flags :: flags where
  "register_flags = \<lparr>fl_action = ''register'', fl_storage_backend = [], fl_network_bridge = [],
     fl_skip_network_update = False, fl_node_ip = ''10.0.0.5'', fl_maas_endpoint = [], fl_maas_api_key = [],
     fl_trust_password = []\<rparr>"

lemma init_answers:
  "os_Getenv init_env ''NODE_NAME'' = ''node-1''" "os_Getenv init_env ''MAAS_ENDPOINT'' = ''http://maas''"
  "os_Getenv init_env ''MAAS_API_KEY'' = ''key''" "os_Getenv init_env ''TRUST_PASSWORD'' = []"
  "in_cluster_r (init init_env) tr = Inr ()"
  "node_get_r (remote init_env) nm tr = Inr \<lparr>n_Name = ''node-1'', n_Labels = [], n_Ready = True,
     n_ProviderID = ''maas:///az1/abc123''\<rparr>"
  "machine_get_r (maas init_env) sid tr = Inr sample_machine" "vmhosts_list_r (maas init_env) tr = Inr [sample_vm_host]"
  "stat_r (init init_env) p tr" "lxd_connect_r (init init_env) p tr = Inr ()" "lxd_server_r (init init_env) tr = Inr ()"
  "lxd_pools_r (init init_env) tr = Inr [(''default'', ''zfs'')]" "lxd_networks_r (init init_env) tr = Inr [(''lxdbr0'', ''bridge'')]"
  "node_update_r (init init_env) nm ls tr = Inr ()"
  by (simp_all add: init_env_def sample_env_def sample_init_def sample_maas_def sample_remote_def)

theorem labelled_only_when_earned_witness:
  "\<exists>r t xs labels ys. run_state (initializer_main init_env 121 register_flags) sample_sys = (r, t) \<and>
     trace t = xs @ Init (NodeUpdate ''node-1'' labels True) # ys \<and> label_earned init_env ''node-1'' labels xs"
proof -
  obtain r t where run: "run_state (initializer_main init_env 121 register_flags) sample_sys = (r, t)" by fastforce
  have sid: "system_id_of_provider ''maas:///az1/abc123'' = Inr ''abc123''" by code_simp
  have nm: "host_name_of ''node-1'' = ''lxd-host-node-1''" by code_simp
  have scan: "vmh_Name sample_vm_host = ''lxd-host-node-1''" "vmh_HostSystemID sample_vm_host = ''abc123''"
    by (simp_all add: sample_vm_host_def)
  have zone: "zone_name (sdk_Zone sample_machine) = Inr ''az1''" by (simp add: sample_machine_def zone_name_def)
  have "\<exists>xs labels. trace t = xs @ [Init (NodeUpdate ''node-1'' labels True)]"
    using run by (auto simp: initializer_main_def maas_settings_def register_flags_def first_of_def init_answers
        storage_setting_def getStorageSizeFromMaas_def get_own_machine_def extractSystemIDFromNodeName_def
        getMachineInfoFromMaas_def trust_setting_def already_labelled_def getKubernetesClient_def
        InitializedLabel_def map_get_def run_actions_def register_step_def registerWithMAAS_def validateLXDFunctional_def
        findLXDSocket_def lxdSocketPaths_def label_node_def NewNodeLabeler_def SafeMarkLXDInitialized_def
        MarkLXDInitialized_def InCluster_Client_def Node_Get_def Machine_Get_def VMHosts_List_def os_Stat_def
        Lxd_Connect_def Lxd_GetServer_def Lxd_GetStoragePools_def Lxd_GetNetworks_def Node_Update_def run_api run_call
        sid nm scan zone Let_def)
  then obtain xs labels where new: "trace t = trace sample_sys @ xs @ Init (NodeUpdate ''node-1'' labels True) # []"
    by (auto simp: sample_sys_def)
  from labelled_only_when_earned [OF run new] have "label_earned init_env ''node-1'' labels xs" by blast
  moreover have "trace t = xs @ Init (NodeUpdate ''node-1'' labels True) # []" using new by (simp add: sample_sys_def)
  ultimately show ?thesis using run by (intro exI conjI)
qed

end
