(* ===== verification/Machine_Service.thy ===== *)
theory Machine_Service
  imports Lxd_Hosts
begin

text \<open>
  The machine service, \<open>pkg/maas/machine/machine.go\<close>: allocation and deployment of a bare-metal
  machine, composition and deployment of an LXD VM, release, power-on and the tagging of
  control-plane VMs. The receiver's scope is the reconcile's \<open>the_mm\<close> together with the owner machine
  \<open>cm\<close>, the cluster \<open>cl\<close> and the infrastructure cluster (\<open>the_mc\<close>). A \<open>*Machine\<close> result is an
  option.
\<close>

section \<open>Images, cluster identity and error texts\<close>

definition splitImage :: "string \<Rightarrow> string \<times> string" where
  "splitImage img = (case Cut img (CHR ''/'') of (osystem, series, found) \<Rightarrow>
     if found then (osystem, series) else (''custom'', img))"

definition deriveClusterID :: "lib \<Rightarrow> capi_cluster \<Rightarrow> string" where
  "deriveClusterID L cl =
     (let namespace = cl_Namespace cl
      in if HasPrefix namespace ''cluster-'' \<and> length namespace > 8 then drop 8 namespace
         else take 8 (sha256_hex L namespace))"

definition is_digit :: "char \<Rightarrow> bool" where
  "is_digit c = (CHR ''0'' \<le> c \<and> c \<le> CHR ''9'')"

text \<open>The first submatch of the leftmost match of \<open>host (\d+)\<close>.\<close>

fun reHostID :: "string \<Rightarrow> string option" where
  "reHostID [] = None"
| "reHostID (c # cs) =
     (let ds = takeWhile is_digit (drop 5 (c # cs))
      in if HasPrefix (c # cs) ''host '' \<and> ds \<noteq> [] then Some ds else reHostID cs)"

text \<open>The same for \<open>machine[s]? ([a-z0-9]{4,6})\<close>.\<close>

fun reMachineID :: "string \<Rightarrow> string option" where
  "reMachineID [] = None"
| "reMachineID (c # cs) =
     (let rest = (if HasPrefix (c # cs) ''machines '' then Some (drop 9 (c # cs))
                  else if HasPrefix (c # cs) ''machine '' then Some (drop 8 (c # cs)) else None);
          w = (case rest of None \<Rightarrow> [] | Some t \<Rightarrow> take 6 (takeWhile is_token_char t))
      in if length w \<ge> 4 then Some w else reMachineID cs)"

section \<open>Conversion and lookup\<close>

text \<open>\<open>hasNilValue\<close> on the zone: an interface that holds a nil pointer.\<close>

definition hasNilValue :: "zone_ref \<Rightarrow> bool" where
  "hasNilValue z = (z = ZoneTypedNil)"

definition fromSDKTypeToMachine :: "sdk_machine \<Rightarrow> machine" where
  "fromSDKTypeToMachine m =
     (let az = (case sdk_Zone m of ZoneOf _ n \<Rightarrow> n | ZoneNil \<Rightarrow> [] | ZoneTypedNil \<Rightarrow> []);
          ps = sdk_PowerState m
      in \<lparr>m_ID = sdk_SystemID m, m_Hostname = sdk_Hostname m, m_State = sdk_State m,
          m_Powered = (ps = MachinePowerStateOn), m_PowerState = ps, m_AvailabilityZone = az,
          m_Addresses =
            (if sdk_FQDN m \<noteq> [] then [\<lparr>ma_Type = MachineExternalDNS, ma_Address = sdk_FQDN m\<rparr>,
               \<lparr>ma_Type = MachineInternalDNS, ma_Address = sdk_FQDN m\<rparr>] else []) @
            concat (map (\<lambda>v. [\<lparr>ma_Type = MachineExternalIP, ma_Address = v\<rparr>,
               \<lparr>ma_Type = MachineInternalIP, ma_Address = v\<rparr>]) (sdk_IPAddresses m)),
          m_DeployedInMemory = sdk_DeployedInMemory m\<rparr>)"

text \<open>\<open>if res.AvailabilityZone == "" { res.AvailabilityZone = zone }\<close>.\<close>

definition machine_in_zone :: "sdk_machine \<Rightarrow> string \<Rightarrow> machine" where
  "machine_in_zone m zone = (let res = fromSDKTypeToMachine m
     in if m_AvailabilityZone res = [] then res\<lparr>m_AvailabilityZone := zone\<rparr> else res)"

definition GetMachine :: "env \<Rightarrow> string \<Rightarrow> machine option res io" where
  "GetMachine E systemID =
     (if systemID = [] then ret (Inr None)
      else do {
        r \<leftarrow> Machine_Get E systemID;
        ret (case r of
           Inl e \<Rightarrow> if Contains (err_Error e) ''status: 404'' \<or>
                       Contains (ToLower (err_Error e)) ''no machine matches'' then Inr None else Inl e
         | Inr m \<Rightarrow> Inr (Some (fromSDKTypeToMachine m))) })"

definition ReleaseMachine :: "env \<Rightarrow> string \<Rightarrow> unit res io" where
  "ReleaseMachine E systemID = do {
     r \<leftarrow> Machine_Release E systemID False;
     ret (case r of Inl e \<Rightarrow> Inl (Wrapped ''Unable to release machine'' e) | Inr _ \<Rightarrow> Inr ()) }"

definition PowerOnMachine :: "env \<Rightarrow> unit res io" where
  "PowerOnMachine E = do {
     mm \<leftarrow> gets the_mm;
     case GetSystemID mm of Inl e \<Rightarrow> ret (Inl e) | Inr sid \<Rightarrow> Machine_PowerOn E sid }"

definition logVMHostDiagnostics :: "env \<Rightarrow> gerr \<Rightarrow> unit io" where
  "logVMHostDiagnostics E e = do {
     (case reMachineID (err_Error e) of
        None \<Rightarrow> ret ()
      | Some sysid \<Rightarrow> do { _ \<leftarrow> Machine_Release E sysid True; ret () });
     (case reHostID (err_Error e) of
        None \<Rightarrow> ret ()
      | Some podID \<Rightarrow> do { _ \<leftarrow> VMHost_Get E podID; ret () }) }"

definition createBootInterfaceBridge :: "env \<Rightarrow> string \<Rightarrow> unit res io" where
  "createBootInterfaceBridge E systemID = do {
     r \<leftarrow> Machine_Get E systemID;
     case r of
       Inl e \<Rightarrow> ret (Inl (GoPanic ''nil pointer dereference''))
     | Inr m \<Rightarrow>
         if sdk_BootInterfaceType m \<noteq> ''physical'' then ret (Inr ())
         else do {
           r \<leftarrow> Boot_Bridge E systemID ''br0'';
           ret (case r of
              Inl e \<Rightarrow> if Contains (err_Error e) ''already bridged'' \<or>
                          Contains (err_Error e) ''already exists'' then Inr ()
                       else Inl (Wrapped (''failed to create boot interface bridge for machine '' @ systemID) e)
            | Inr _ \<Rightarrow> Inr ()) } }"

section \<open>Tags of control-plane VMs\<close>

primrec tag_loop :: "env \<Rightarrow> string \<Rightarrow> string list \<Rightarrow> unit io" where
  "tag_loop E systemID [] = ret ()"
| "tag_loop E systemID (tag # tags) = do {
     (if tag = [] then ret ()
      else do {
        _ \<leftarrow> Tags_Create E tag;
        _ \<leftarrow> Tags_Assign E tag systemID;
        ret () });
     tag_loop E systemID tags }"

definition tagVM :: "env \<Rightarrow> string \<Rightarrow> string list \<Rightarrow> unit io" where
  "tagVM E systemID tags =
     (if systemID = [] \<or> tags = [] then ret ()
      else if tags_client_nil (maas E) then ret () else tag_loop E systemID tags)"

definition cluster_tag :: "string \<Rightarrow> string" where
  "cluster_tag clusterId = TagVMClusterPrefix @ SanitizeID clusterId"

definition tagCPVM :: "env \<Rightarrow> capi_cluster \<Rightarrow> string \<Rightarrow> unit io" where
  "tagCPVM E cl systemID =
     (if systemID = [] then ret ()
      else if deriveClusterID (lib_of E) cl = [] then ret ()
      else tagVM E systemID [TagVMControlPlane, cluster_tag (deriveClusterID (lib_of E) cl)])"

text \<open>The first ConfigMap of an active evacuation session.\<close>

definition active_vec_cm :: "configmap \<Rightarrow> bool" where
  "active_vec_cm cm \<longleftrightarrow> HasPrefix (cm_Name cm) ''vec-maintenance-'' \<and>
     map_get (cm_Data cm) cmKeyOpID \<noteq> [] \<and> map_get (cm_Data cm) cmKeyStatus = StatusActive"

definition tagVMIfMaintenanceActive :: "env \<Rightarrow> capi_cluster \<Rightarrow> string \<Rightarrow> unit io" where
  "tagVMIfMaintenanceActive E cl systemID =
     (if systemID = [] then ret ()
      else do {
        r \<leftarrow> CM_List E (cl_Namespace cl);
        case r of
          Inl _ \<Rightarrow> ret ()
        | Inr items \<Rightarrow>
            (case find active_vec_cm items of
               None \<Rightarrow> ret ()
             | Some cm \<Rightarrow> do {
                 (let clusterId = deriveClusterID (lib_of E) cl
                  in if clusterId \<noteq> [] then tagVM E systemID [TagVMControlPlane, cluster_tag clusterId]
                     else ret ());
                 _ \<leftarrow> CM_Update E (cm\<lparr>cm_Data := map_put cmKeyNewVMSystemID systemID (cm_Data cm)\<rparr>);
                 ret () }) })"

section \<open>LXD VMs\<close>

text \<open>The IDs of a VM are set and persisted together.\<close>

definition record_vm_ids :: "env \<Rightarrow> capi_machine \<Rightarrow> string \<Rightarrow> string \<Rightarrow> unit io" where
  "record_vm_ids E cm sid zone = do {
     SetSystemID sid;
     SetProviderID sid zone;
     (if zone \<noteq> [] then SetFailureDomain zone else ret ());
     _ \<leftarrow> machine_PatchObject E cm;
     ret () }"

definition reuseExistingVM :: "env \<Rightarrow> capi_machine \<Rightarrow> sdk_machine \<Rightarrow> string \<Rightarrow> machine io" where
  "reuseExistingVM E cm m zone = do {
     record_vm_ids E cm (sdk_SystemID m) zone;
     ret (machine_in_zone m zone) }"

primrec vm_with_hostname :: "env \<Rightarrow> string \<Rightarrow> sdk_machine list \<Rightarrow> sdk_machine option io" where
  "vm_with_hostname E vmName [] = ret None"
| "vm_with_hostname E vmName (cand # cands) =
     (if sdk_SystemID cand = [] then vm_with_hostname E vmName cands
      else do {
        r \<leftarrow> Machine_Get E (sdk_SystemID cand);
        case r of
          Inl _ \<Rightarrow> vm_with_hostname E vmName cands
        | Inr det \<Rightarrow> if EqualFold (sdk_Hostname det) vmName then ret (Some det)
                     else vm_with_hostname E vmName cands })"

definition findExistingVMByHostname ::
    "env \<Rightarrow> capi_machine \<Rightarrow> string \<Rightarrow> vm_host \<Rightarrow> string \<Rightarrow> machine option io" where
  "findExistingVMByHostname E cm vmName selectedHost zone = do {
     all \<leftarrow> Machines_List E [];
     found \<leftarrow> (case all of Inl _ \<Rightarrow> ret None | Inr cands \<Rightarrow> vm_with_hostname E vmName cands);
     case found of
       Some m \<Rightarrow> do { x \<leftarrow> reuseExistingVM E cm m zone; ret (Some x) }
     | None \<Rightarrow> do {
         l \<leftarrow> VMHost_Machines E (vmh_SystemID selectedHost);
         found \<leftarrow> (case l of Inl _ \<Rightarrow> ret None | Inr cands \<Rightarrow> vm_with_hostname E vmName cands);
         case found of
           Some m \<Rightarrow> do { x \<leftarrow> reuseExistingVM E cm m zone; ret (Some x) }
         | None \<Rightarrow> ret None } }"

definition vm_name_annotation :: string where
  "vm_name_annotation = ''maas.spectrocloud.com/vm-name''"

text \<open>The VM's name, generated and persisted once.\<close>

definition ensure_vm_name :: "env \<Rightarrow> capi_machine \<Rightarrow> string io" where
  "ensure_vm_name E cm = do {
     mm \<leftarrow> gets the_mm;
     let vmName = map_get (om_Annotations (mm_Meta mm)) vm_name_annotation;
     if vmName \<noteq> [] then ret vmName
     else do {
       let short = (if length (cam_UID cm) \<ge> 5 then take 5 (cam_UID cm) else cam_UID cm);
       let vmName = ''vm-'' @ cam_Name cm @ ''-'' @ short;
       modify (the_mm_update (mm_Meta_update (om_Annotations_update (map_put vm_name_annotation vmName))));
       _ \<leftarrow> machine_PatchObject E cm;
       ret vmName } }"

definition positive_or_zero :: "int option \<Rightarrow> int" where
  "positive_or_zero x = (case x of Some n \<Rightarrow> if n > 0 then n else 0 | None \<Rightarrow> 0)"

definition placement_zone :: "maas_machine \<Rightarrow> capi_machine \<Rightarrow> string" where
  "placement_zone mm cm = (case FailureDomain (mm_Spec mm) of
       Some fd \<Rightarrow> if fd \<noteq> [] then fd else cam_FailureDomain cm
     | None \<Rightarrow> cam_FailureDomain cm)"

definition placement_disk :: "maas_machine \<Rightarrow> int" where
  "placement_disk mm =
     (let d = positive_or_zero (MinDiskSizeInGB (mm_Spec mm))
      in case LXD (mm_Spec mm) of None \<Rightarrow> d | Some l \<Rightarrow>
         (case ml_VMConfig l of None \<Rightarrow> d | Some vc \<Rightarrow>
         (case vc_DiskSize vc of None \<Rightarrow> d | Some sz \<Rightarrow> if sz > d then sz else d)))"

definition placement_options :: "env \<Rightarrow> capi_machine \<Rightarrow> capi_cluster \<Rightarrow> maas_machine \<Rightarrow> select_options" where
  "placement_options E cm cl mm =
     \<lparr>so_Zone = placement_zone mm cm,
      so_ResourcePool = (case ResourcePool (mm_Spec mm) of Some p \<Rightarrow> p | None \<Rightarrow> []),
      so_Tags = Tags (mm_Spec mm),
      so_MinCores = positive_or_zero (MinCPU (mm_Spec mm)),
      so_MinMemory = positive_or_zero (MinMemoryInMB (mm_Spec mm)),
      so_MinDiskSizeGB = placement_disk mm,
      so_ClusterID = (if IsControlPlane E cm then deriveClusterID (lib_of E) cl else [])\<rparr>"

definition hostname_taken :: "gerr \<Rightarrow> bool" where
  "hostname_taken e \<longleftrightarrow> Contains (ToLower (err_Error e)) ''hostname'' \<and>
     Contains (ToLower (err_Error e)) ''already exists''"

definition compose_on_host ::
    "env \<Rightarrow> capi_machine \<Rightarrow> capi_cluster \<Rightarrow> string \<Rightarrow> select_options \<Rightarrow> vm_host \<Rightarrow> machine res io" where
  "compose_on_host E cm cl vmName opts host =
     (case vmh_Zone host of
        ZoneOf zoneID _ \<Rightarrow>
          (case vmh_ResourcePool host of
             None \<Rightarrow> ret (Inl (ErrorString ''selected LXD host has no resource pool; shouldn't use default resource pool''))
           | Some (poolID, _) \<Rightarrow> do {
               let zone = so_Zone opts;
               r \<leftarrow> VMHost_Compose E (vmh_SystemID host)
                 [(''hostname'', vmName), (''cores'', Sprintf_d (so_MinCores opts)),
                  (''memory'', Sprintf_d (so_MinMemory opts)),
                  (''storage'', Sprintf_d (so_MinDiskSizeGB opts)),
                  (''zone'', Sprintf_d zoneID), (''pool'', Sprintf_d poolID)];
               case r of
                 Inl e \<Rightarrow>
                   if hostname_taken e then do {
                     found \<leftarrow> findExistingVMByHostname E cm vmName host zone;
                     ret (case found of
                        Some x \<Rightarrow> Inr x
                      | None \<Rightarrow> Inl (Wrapped ''failed to compose VM on LXD host'' e)) }
                   else ret (Inl (Wrapped ''failed to compose VM on LXD host'' e))
               | Inr m \<Rightarrow> do {
                   (if sdk_SystemID m \<noteq> [] then do {
                      record_vm_ids E cm (sdk_SystemID m) zone;
                      (if IsControlPlane E cm then do {
                         tagCPVM E cl (sdk_SystemID m);
                         tagVMIfMaintenanceActive E cl (sdk_SystemID m) }
                       else ret ()) }
                    else ret ());
                   ret (Inr (machine_in_zone m zone)) } })
      | _ \<Rightarrow> ret (Inl (GoPanic ''nil pointer dereference'')))"

definition existing_vm :: "env \<Rightarrow> string \<Rightarrow> machine res io" where
  "existing_vm E sid = do {
     r \<leftarrow> Machine_Get E sid;
     ret (case r of
        Inl e \<Rightarrow> Inl (Wrapped ''failed to get existing VM by system-id (pre-bootstrap)'' e)
      | Inr m \<Rightarrow> Inr (fromSDKTypeToMachine m)) }"

definition PrepareLXDVM :: "env \<Rightarrow> capi_machine \<Rightarrow> capi_cluster \<Rightarrow> machine res io" where
  "PrepareLXDVM E cm cl = do {
     mm \<leftarrow> gets the_mm;
     case (case SystemID (mm_Spec mm) of Some sid \<Rightarrow> sid | None \<Rightarrow> []) of
       c # cs \<Rightarrow> existing_vm E (c # cs)
     | [] \<Rightarrow>
        (case (case GetInstanceID mm of Some i \<Rightarrow> i | None \<Rightarrow> []) of
           c # cs \<Rightarrow> existing_vm E (c # cs)
         | [] \<Rightarrow> do {
             let opts = placement_options E cm cl mm;
             vmName \<leftarrow> ensure_vm_name E cm;
             r \<leftarrow> VMHosts_List E;
             case r of
               Inl e \<Rightarrow> ret (Inl (Wrapped ''failed to list LXD VM hosts'' e))
             | Inr hosts \<Rightarrow> do {
                 r \<leftarrow> SelectLXDHostWithMaasClient E hosts opts;
                 case r of
                   Inl e \<Rightarrow> ret (Inl (if is_panic e then e
                     else Wrapped ''failed to select LXD VM host'' e))
                 | Inr host \<Rightarrow> compose_on_host E cm cl vmName opts host } }) }"

section \<open>Deployment\<close>

text \<open>\<open>*s.scope.GetInstanceID()\<close> panics when there is no parsable provider ID.\<close>

definition deref :: "'a option \<Rightarrow> 'a res" where
  "deref p = (case p of Some x \<Rightarrow> Inr x | None \<Rightarrow> Inl (GoPanic ''nil pointer dereference''))"

definition fallback_zone :: "maas_machine \<Rightarrow> capi_machine \<Rightarrow> sdk_machine \<Rightarrow> string res" where
  "fallback_zone mm cm m =
     (case (if sdk_Zone m \<noteq> ZoneNil then zone_Name (sdk_Zone m) else Inr []) of
        Inl e \<Rightarrow> Inl e
      | Inr z \<Rightarrow> Inr (if z = [] then placement_zone mm cm else z))"

definition deploy_existing_vm ::
    "env \<Rightarrow> capi_machine \<Rightarrow> capi_cluster \<Rightarrow> string \<Rightarrow> string \<Rightarrow> machine res io" where
  "deploy_existing_vm E cm cl userDataB64 sid = do {
     mm \<leftarrow> gets the_mm;
     r \<leftarrow> Machine_Get E sid;
     case r of
       Inl e \<Rightarrow> ret (Inl (Wrapped ''failed to get existing VM by system-id'' e))
     | Inr m \<Rightarrow> do {
         _ \<leftarrow> Machine_SetHostname E (sdk_SystemID m) (''vm-'' @ cam_Name cm);
         let (osystem, distroSeries) = splitImage (Image (mm_Spec mm));
         r \<leftarrow> Machine_Deploy E (sdk_SystemID m) \<lparr>dp_UserData = userDataB64, dp_OSSystem = osystem,
           dp_DistroSeries = distroSeries, dp_EphemeralDeploy = False\<rparr>;
         case r of
           Inl e \<Rightarrow> ret (Inl (Wrapped ''failed to deploy existing VM'' e))
         | Inr deployingM \<Rightarrow>
             (case fallback_zone mm cm deployingM of
                Inl e \<Rightarrow> ret (Inl e)
              | Inr fallbackZone \<Rightarrow> do {
                  record_vm_ids E cm (sdk_SystemID deployingM) fallbackZone;
                  (if IsControlPlane E cm then do {
                     tagCPVM E cl (sdk_SystemID deployingM);
                     tagVMIfMaintenanceActive E cl (sdk_SystemID deployingM) }
                   else ret ());
                  ret (Inr (machine_in_zone deployingM fallbackZone)) }) } }"

definition set_condition :: "env \<Rightarrow> condition \<Rightarrow> unit io" where
  "set_condition E c = mm_status_update (Conditions_update (\<lambda>cs. cond_Set (lib_of E) cs c))"

definition createVMViaMAAS :: "env \<Rightarrow> capi_machine \<Rightarrow> capi_cluster \<Rightarrow> string \<Rightarrow> machine res io" where
  "createVMViaMAAS E cm cl userDataB64 = do {
     mm \<leftarrow> gets the_mm;
     case (case GetInstanceID mm of Some i \<Rightarrow> i | None \<Rightarrow> []) of
       c # cs \<Rightarrow> deploy_existing_vm E cm cl userDataB64 (c # cs)
     | [] \<Rightarrow> do {
         r \<leftarrow> PrepareLXDVM E cm cl;
         case r of
           Inl e \<Rightarrow> ret (Inl (if is_panic e then e else Wrapped ''compose failed prior to deploy'' e))
         | Inr _ \<Rightarrow> do {
             set_condition E \<lparr>c_Type = MachineDeployedCondition, c_Status = ConditionFalse,
               c_Reason = MachineDeployingReason, c_Message = ''VM composed; commissioning''\<rparr>;
             _ \<leftarrow> machine_PatchObject E cm;
             ret (Inl ErrVMComposing) } } }"

definition is_vm_power_type :: "sdk_machine \<Rightarrow> bool" where
  "is_vm_power_type m = (ToLower (sdk_PowerType m) \<in> {''lxd'', ''lxdvm'', ''virsh''})"

definition clear_ids :: "unit io" where
  "clear_ids = mm_spec_update (\<lambda>sp. sp\<lparr>ProviderID := None, SystemID := None\<rparr>)"

definition allocation_request :: "maas_machine \<Rightarrow> capi_machine \<Rightarrow> maas_cluster \<Rightarrow> alloc_params res" where
  "allocation_request mm cm mc =
     (case (deref (MinCPU (mm_Spec mm)), deref (MinMemoryInMB (mm_Spec mm))) of
        (Inr cpu, Inr mem) \<Rightarrow> Inr
          \<lparr>al_CPUCount = cpu, al_Memory = mem,
           al_Zone = (case FailureDomain (mm_Spec mm) of Some fd \<Rightarrow> Some fd
             | None \<Rightarrow> if cam_FailureDomain cm \<noteq> [] then Some (cam_FailureDomain cm) else None),
           al_ResourcePool = ResourcePool (mm_Spec mm),
           al_NotPod = IsLXDHostEnabled mc,
           al_NotPodType = (if IsLXDHostEnabled mc then Some ''lxd'' else None),
           al_Tags = Tags (mm_Spec mm)\<rparr>
      | _ \<Rightarrow> Inl (GoPanic ''nil pointer dereference''))"

definition allocate_machine :: "env \<Rightarrow> capi_machine \<Rightarrow> sdk_machine res io" where
  "allocate_machine E cm = do {
     mm \<leftarrow> gets the_mm;
     mc \<leftarrow> gets the_mc;
     case allocation_request mm cm mc of
       Inl e \<Rightarrow> ret (Inl e)
     | Inr al \<Rightarrow> do {
         r \<leftarrow> Machine_Allocate E al;
         case r of
           Inl e \<Rightarrow>
             if Contains (err_Error e) ''Invalid transition: Broken'' then do {
               logVMHostDiagnostics E e;
               ret (Inl ErrBrokenMachine) }
             else ret (Inl (Wrapped ''Unable to allocate machine'' e))
         | Inr m \<Rightarrow>
             if IsLXDHostEnabled mc \<and> is_vm_power_type m then do {
               _ \<leftarrow> Machine_Release E (sdk_SystemID m) True;
               ret (Inl ErrBrokenMachine) }
             else (case zone_Name (sdk_Zone m) of
                Inl e \<Rightarrow> ret (Inl e)
              | Inr az \<Rightarrow> do {
                  SetProviderID (sdk_SystemID m) az;
                  r \<leftarrow> machine_PatchObject E cm;
                  ret (case r of
                     Inl e \<Rightarrow> Inl (Wrapped ''unable to pathc machine with provider id'' e)
                   | Inr _ \<Rightarrow> Inr m) }) } }"

definition reuse_machine :: "env \<Rightarrow> capi_machine \<Rightarrow> sdk_machine res io" where
  "reuse_machine E cm = do {
     mm \<leftarrow> gets the_mm;
     mc \<leftarrow> gets the_mc;
     case deref (GetInstanceID mm) of
       Inl e \<Rightarrow> ret (Inl e)
     | Inr sid \<Rightarrow> do {
         r \<leftarrow> Machine_Get E sid;
         case r of
           Inl e \<Rightarrow> ret (Inl (Wrapped (''unable to find machine '' @ sid) e))
         | Inr m \<Rightarrow>
             if IsLXDHostEnabled mc \<and> is_vm_power_type m then do {
               _ \<leftarrow> Machine_Release E (sdk_SystemID m) True;
               clear_ids;
               _ \<leftarrow> machine_PatchObject E cm;
               ret (Inl ErrBrokenMachine) }
             else ret (Inr m) } }"

text \<open>The part of \<open>DeployMachine\<close> under its deferred cleanup.\<close>

definition deploy_allocated :: "env \<Rightarrow> string \<Rightarrow> sdk_machine \<Rightarrow> machine res io" where
  "deploy_allocated E userDataB64 m = do {
     mm \<leftarrow> gets the_mm;
     r \<leftarrow> Machine_SetSwapSize E (sdk_SystemID m) 0;
     case r of
       Inl e \<Rightarrow> ret (Inl (Wrapped ''Unable to disable swap'' e))
     | Inr _ \<Rightarrow> do {
         let (osystem, distroSeries) = splitImage (Image (mm_Spec mm));
         r \<leftarrow> Machine_Deploy E (sdk_SystemID m) \<lparr>dp_UserData = userDataB64, dp_OSSystem = osystem,
           dp_DistroSeries = distroSeries, dp_EphemeralDeploy = DeployInMemory (mm_Spec mm)\<rparr>;
         ret (case r of
            Inl e \<Rightarrow> Inl (Wrapped ''Unable to deploy machine'' e)
          | Inr deployingM \<Rightarrow> Inr (fromSDKTypeToMachine deployingM)) } }"

definition release_failed_deploy :: "env \<Rightarrow> capi_machine \<Rightarrow> sdk_machine \<Rightarrow> unit io" where
  "release_failed_deploy E cm m = do {
     _ \<leftarrow> Machine_Release E (sdk_SystemID m) False;
     clear_ids;
     _ \<leftarrow> machine_PatchObject E cm;
     ret () }"

definition DeployMachine :: "env \<Rightarrow> capi_machine \<Rightarrow> capi_cluster \<Rightarrow> string \<Rightarrow> machine res io" where
  "DeployMachine E cm cl userDataB64 = do {
     mm \<leftarrow> gets the_mm;
     mc \<leftarrow> gets the_mc;
     if GetDynamicLXD mm then createVMViaMAAS E cm cl userDataB64
     else
       ok_then (if GetProviderID mm = [] then allocate_machine E cm else reuse_machine E cm) (\<lambda>m. do {
         r \<leftarrow> (if IsLXDHostEnabled mc then createBootInterfaceBridge E (sdk_SystemID m)
               else ret (Inr ()));
         case r of
           Inl (GoPanic msg) \<Rightarrow> ret (Inl (GoPanic msg))
         | _ \<Rightarrow> do {
             r \<leftarrow> deploy_allocated E userDataB64 m;
             (case r of Inl _ \<Rightarrow> release_failed_deploy E cm m | Inr _ \<Rightarrow> ret ());
             ret r } }) }"

section \<open>What a deployment does\<close>

lemmas machine_svc_defs = GetMachine_def ReleaseMachine_def PowerOnMachine_def
  logVMHostDiagnostics_def createBootInterfaceBridge_def tagVM_def tagCPVM_def
  tagVMIfMaintenanceActive_def reuseExistingVM_def record_vm_ids_def findExistingVMByHostname_def ensure_vm_name_def
  existing_vm_def set_condition_def clear_ids_def release_failed_deploy_def machine_PatchObject_def
  machine_setter_defs

lemma emits_tag_loop [emits_intros]:
  assumes "\<And>t ok. P (Maas (TagCreate t ok))" "\<And>t sid ok. P (Maas (TagAssign t sid ok))"
  shows "emits P (tag_loop E sid tags)"
  by (induction tags) (auto simp: call_defs assms intro!: emits_intros)

lemma keeps_tag_loop [emits_intros]: "keeps the_mm (tag_loop E sid tags)"
  by (induction tags) (auto simp: call_defs intro!: emits_intros)

lemma emits_vm_with_hostname [emits_intros]:
  assumes "\<And>i. P (Maas (MachineGet i))" shows "emits P (vm_with_hostname E nm ms)"
  by (induction ms) (auto simp: call_defs assms intro!: emits_intros)

lemma keeps_vm_with_hostname [emits_intros]: "keeps the_mm (vm_with_hostname E nm ms)"
  by (induction ms) (auto simp: call_defs intro!: emits_intros)

fun is_deploy :: "event \<Rightarrow> bool" where
  "is_deploy (Maas (MachineDeploy sid dp ok)) = True"
| "is_deploy (Maas (MachineSetSwap sid n ok)) = True"
| "is_deploy _ = False"

lemma no_deploy_allocate: "emits (\<lambda>e. \<not> is_deploy e) (allocate_machine E cm)"
  unfolding allocate_machine_def machine_svc_defs call_defs Let_def
  by (intro emits_intros emits_modify) simp_all

lemma no_deploy_reuse: "emits (\<lambda>e. \<not> is_deploy e) (reuse_machine E cm)"
  unfolding reuse_machine_def machine_svc_defs call_defs Let_def
  by (intro emits_intros emits_modify) simp_all

lemma no_deploy_bridge: "emits (\<lambda>e. \<not> is_deploy e) (createBootInterfaceBridge E sid)"
  unfolding machine_svc_defs call_defs Let_def by (intro emits_intros) simp_all

lemma keeps_bridge: "keeps the_mm (createBootInterfaceBridge E sid)"
  unfolding machine_svc_defs call_defs Let_def by (intro emits_intros)

text \<open>Where the machine that will be deployed comes from.\<close>

definition acquired :: "env \<Rightarrow> maas_machine \<Rightarrow> maas_cluster \<Rightarrow> sdk_machine \<Rightarrow> bool" where
  "acquired E mm mc m \<longleftrightarrow> (IsLXDHostEnabled mc \<longrightarrow> \<not> is_vm_power_type m) \<and>
     (if GetProviderID mm = []
      then \<exists>al tr. machine_allocate_r (maas E) al tr = Inr m \<and> al_NotPod al = IsLXDHostEnabled mc
      else \<exists>sid tr. GetInstanceID mm = Some sid \<and> machine_get_r (maas E) sid tr = Inr m)"

lemma acquire_spec:
  assumes "run_state (if GetProviderID (the_mm s) = [] then allocate_machine E cm else reuse_machine E cm) s =
    (Inr m, u)"
  shows "acquired E (the_mm s) (the_mc s) m"
proof (cases "GetProviderID (the_mm s) = []")
  case True
  with assms show ?thesis
    unfolding acquired_def allocate_machine_def Machine_Allocate_def
    by (auto simp: run_api allocation_request_def deref_def split: sum.splits if_splits option.splits prod.splits)
next
  case False
  with assms show ?thesis
    unfolding acquired_def reuse_machine_def Machine_Get_def
    by (auto simp: run_api deref_def split: sum.splits if_splits option.splits prod.splits)
qed

lemma keeps_api_img: "keeps (\<lambda>s. Image (mm_Spec (the_mm s))) (api g ev)"
  by (simp add: keeps_def run_api)

lemma keeps_image_allocate: "keeps (\<lambda>s. Image (mm_Spec (the_mm s))) (allocate_machine E cm)"
  unfolding allocate_machine_def machine_svc_defs call_defs Let_def
  by (intro emits_intros keeps_api_img keeps_modify) simp_all

lemma keeps_image_reuse: "keeps (\<lambda>s. Image (mm_Spec (the_mm s))) (reuse_machine E cm)"
  unfolding reuse_machine_def machine_svc_defs call_defs Let_def
  by (intro emits_intros keeps_api_img keeps_modify) simp_all

text \<open>The run after the machine was acquired, in closed form.\<close>

definition deploy_params_of :: "maas_machine \<Rightarrow> string \<Rightarrow> deploy_params" where
  "deploy_params_of mm ud = \<lparr>dp_UserData = ud, dp_OSSystem = fst (splitImage (Image (mm_Spec mm))),
     dp_DistroSeries = snd (splitImage (Image (mm_Spec mm))),
     dp_EphemeralDeploy = DeployInMemory (mm_Spec mm)\<rparr>"

lemma deploy_allocated_run:
  "run_state (deploy_allocated E ud m) v =
    (let sid = sdk_SystemID m; dp = deploy_params_of (the_mm v) ud;
         sw = lift_err (machine_set_swap_r (maas E) sid 0 (trace v));
         tr1 = trace v @ [Maas (MachineSetSwap sid 0 (is_ok sw))];
         de = lift_err (machine_deploy_r (maas E) sid dp tr1);
         tr2 = tr1 @ [Maas (MachineDeploy sid dp (is_ok de))]
     in case sw of
          Inl e \<Rightarrow> (Inl (Wrapped ''Unable to disable swap'' e), v\<lparr>trace := tr1\<rparr>)
        | Inr _ \<Rightarrow> (case de of
            Inl e \<Rightarrow> (Inl (Wrapped ''Unable to deploy machine'' e), v\<lparr>trace := tr2\<rparr>)
          | Inr d \<Rightarrow> (Inr (fromSDKTypeToMachine d), v\<lparr>trace := tr2\<rparr>)))"
  unfolding deploy_allocated_def Machine_SetSwapSize_def Machine_Deploy_def deploy_params_of_def
  by (simp add: run_api Let_def split_beta split: sum.splits)

lemma deploy_allocated_trace:
  assumes "run_state (deploy_allocated E ud m) v = (d, w)"
  shows "\<exists>sw de. trace w = trace v @ Maas (MachineSetSwap (sdk_SystemID m) 0 sw) #
      (if sw then [Maas (MachineDeploy (sdk_SystemID m) (deploy_params_of (the_mm v) ud) de)] else []) \<and>
    (is_ok d \<longleftrightarrow> sw \<and> de)"
proof (cases "is_ok (machine_set_swap_r (maas E) (sdk_SystemID m) 0 (trace v))")
  case True
  with assms show ?thesis
    unfolding deploy_allocated_run Let_def 
    by (intro exI [of _ True] exI [of _ "is_ok d"]) (auto simp: is_ok_iff split: sum.splits)
next
  case False
  with assms show ?thesis
    unfolding deploy_allocated_run Let_def
    by (intro exI [of _ False]) (auto simp: is_ok_iff lift_err_def split: sum.splits prod.splits)
qed

lemma release_failed_deploy_run:
  assumes "run_state (release_failed_deploy E cm m) v = (x, t)"
  shows "ProviderID (mm_Spec (the_mm t)) = None \<and> SystemID (mm_Spec (the_mm t)) = None \<and>
    (\<exists>b es. trace t = trace v @ Maas (MachineRelease (sdk_SystemID m) False b) # es \<and>
      list_all (\<lambda>e. \<not> is_deploy e) es)"
  using assms unfolding machine_svc_defs Machine_Release_def MaasMachine_Patch_def
  by (auto simp: run_api Let_def)

text \<open>A deployment that reaches its deployment steps, split at its parts.\<close>

lemma DeployMachine_parts:
  assumes bm: "\<not> GetDynamicLXD (the_mm s)" and run: "run_state (DeployMachine E cm cl ud) s = (r, t)"
    and ev: "e \<in> set (drop (length (trace s)) (trace t))" "is_deploy e"
  obtains m v w es where "acquired E (the_mm s) (the_mc s) m" "Image (mm_Spec (the_mm v)) = Image (mm_Spec (the_mm s))"
    "trace v = trace s @ es" "list_all (\<lambda>e. \<not> is_deploy e) es" "run_state (deploy_allocated E ud m) v = (r, w)"
    "case r of Inr _ \<Rightarrow> t = w | Inl _ \<Rightarrow> \<exists>x. run_state (release_failed_deploy E cm m) w = (x, t)"
proof -
  let ?acq = "if GetProviderID (the_mm s) = [] then allocate_machine E cm else reuse_machine E cm"
  obtain a u where a: "run_state ?acq s = (a, u)" by fastforce
  have "emits (\<lambda>e. \<not> is_deploy e) ?acq" by (simp add: no_deploy_allocate no_deploy_reuse)
  from emitsD [OF this a] obtain es where es: "trace u = trace s @ es" "list_all (\<lambda>e. \<not> is_deploy e) es" by blast
  have "a = Inl err \<Longrightarrow> t = u" for err using run bm a by (simp add: DeployMachine_def)
  with es ev obtain m where m: "a = Inr m" by (cases a) (auto simp: list_all_iff)
  let ?br = "if IsLXDHostEnabled (the_mc s) then createBootInterfaceBridge E (sdk_SystemID m) else ret (Inr ())"
  obtain b v where b: "run_state ?br u = (b, v)" by fastforce
  have "emits (\<lambda>e. \<not> is_deploy e) ?br" by (simp add: no_deploy_bridge emits_ret)
  from emitsD [OF this b] obtain fs where fs: "trace v = trace u @ fs" "list_all (\<lambda>e. \<not> is_deploy e) fs" by blast
  have "keeps (\<lambda>s. Image (mm_Spec (the_mm s))) ?acq" "keeps the_mm ?br"
    by (simp_all add: keeps_image_allocate keeps_image_reuse keeps_bridge keeps_ret)
  then have img: "Image (mm_Spec (the_mm v)) = Image (mm_Spec (the_mm s))"
    using keepsD [OF _ a] keepsD [OF _ b] by metis
  have "b = Inl (GoPanic msg) \<Longrightarrow> t = v" for msg using run bm a b m by (simp add: DeployMachine_def)
  with es fs ev have "(case b of Inl (GoPanic msg) \<Rightarrow> x msg | _ \<Rightarrow> y) = y" for x and y :: "machine res io"
    by (auto simp: list_all_iff split: sum.split gerr.split)
  with run bm a b m have rest: "run_state (do { r \<leftarrow> deploy_allocated E ud m;
      (case r of Inl _ \<Rightarrow> release_failed_deploy E cm m | Inr _ \<Rightarrow> ret ()); ret r }) v = (r, t)"
    by (simp add: DeployMachine_def)
  obtain d w where d: "run_state (deploy_allocated E ud m) v = (d, w)" by fastforce
  with rest have r: "r = d" "case r of Inr _ \<Rightarrow> t = w | Inl _ \<Rightarrow> \<exists>x. run_state (release_failed_deploy E cm m) w = (x, t)"
    by (cases d; auto split: prod.splits)+
  show thesis
    by (rule that [of m v "es @ fs" w, OF acquire_spec [OF a [unfolded m]] img _ _ d [folded r(1)] r(2)]) (use es fs in simp_all)
qed

text \<open>
  C14: a bare-metal deployment deploys the right machine or cleans up after itself. The machine comes
  from the allocator (asked to exclude LXD pods in a cluster of LXD hosts) or from the recorded
  provider ID, and in a cluster of LXD hosts it is never a virtual machine; it is deployed with the OS
  and series of the image. A result means that the deployment was accepted. An error after the first
  step of the deployment means that the release of the machine was requested and that both recorded
  IDs are cleared, so that the next reconcile allocates again.
\<close>

theorem DeployMachine_deploys_or_cleans:
  assumes bm: "\<not> GetDynamicLXD (the_mm s)"
    and run: "run_state (DeployMachine E cm cl ud) s = (r, t)"
    and ev: "e \<in> set (drop (length (trace s)) (trace t))" "is_deploy e"
  shows "\<exists>m. acquired E (the_mm s) (the_mc s) m \<and>
    (e = Maas (MachineSetSwap (sdk_SystemID m) 0 True) \<or> e = Maas (MachineSetSwap (sdk_SystemID m) 0 False) \<or>
     (\<exists>dp ok. e = Maas (MachineDeploy (sdk_SystemID m) dp ok) \<and> (ok \<longleftrightarrow> is_ok r) \<and>
        (dp_OSSystem dp, dp_DistroSeries dp) = splitImage (Image (mm_Spec (the_mm s))))) \<and>
    (case r of
       Inr _ \<Rightarrow> \<exists>dp. Maas (MachineDeploy (sdk_SystemID m) dp True) \<in> set (drop (length (trace s)) (trace t))
     | Inl _ \<Rightarrow> ProviderID (mm_Spec (the_mm t)) = None \<and> SystemID (mm_Spec (the_mm t)) = None \<and>
         (\<exists>b. Maas (MachineRelease (sdk_SystemID m) False b) \<in> set (drop (length (trace s)) (trace t))))"
proof -
  from DeployMachine_parts [OF bm run ev] obtain m v w es where p: "acquired E (the_mm s) (the_mc s) m"
    "Image (mm_Spec (the_mm v)) = Image (mm_Spec (the_mm s))" "trace v = trace s @ es" "list_all (\<lambda>e. \<not> is_deploy e) es"
    "run_state (deploy_allocated E ud m) v = (r, w)"
    and r: "case r of Inr _ \<Rightarrow> t = w | Inl _ \<Rightarrow> \<exists>x. run_state (release_failed_deploy E cm m) w = (x, t)" .
  let ?dp = "deploy_params_of (the_mm v) ud"
  have dpi: "(dp_OSSystem ?dp, dp_DistroSeries ?dp) = splitImage (Image (mm_Spec (the_mm s)))"
    using p(2) by (simp add: deploy_params_of_def)
  from deploy_allocated_trace [OF p(5)] obtain sw de where
    g: "trace w = trace v @ Maas (MachineSetSwap (sdk_SystemID m) 0 sw) #
      (if sw then [Maas (MachineDeploy (sdk_SystemID m) ?dp de)] else [])" "is_ok r \<longleftrightarrow> sw \<and> de" by blast
  have base: "trace w = trace v @ gs \<Longrightarrow> list_all (\<lambda>e. \<not> is_deploy e) hs \<Longrightarrow> trace t = trace w @ hs \<Longrightarrow>
      e \<in> set gs \<and> set gs \<union> set hs \<subseteq> set (drop (length (trace s)) (trace t))" for gs hs
    using p(3,4) ev by (auto simp: list_all_iff)
  show ?thesis
  proof (cases r)
    case (Inr y)
    with r g base [OF g(1), of "[]"] p(1) dpi show ?thesis
      by (intro exI [of _ m]) (auto intro!: exI [of _ ?dp])
  next
    case (Inl y)
    with r obtain x where x: "run_state (release_failed_deploy E cm m) w = (x, t)" by auto
    from release_failed_deploy_run [OF x] obtain rb hs where
      h: "ProviderID (mm_Spec (the_mm t)) = None" "SystemID (mm_Spec (the_mm t)) = None"
        "trace t = trace w @ Maas (MachineRelease (sdk_SystemID m) False rb) # hs"
        "list_all (\<lambda>e. \<not> is_deploy e) hs" by blast
    from base [OF g(1) _ h(3)] h(4) have "e \<in> set (Maas (MachineSetSwap (sdk_SystemID m) 0 sw) #
        (if sw then [Maas (MachineDeploy (sdk_SystemID m) ?dp de)] else []))"
      "Maas (MachineRelease (sdk_SystemID m) False rb) \<in> set (drop (length (trace s)) (trace t))"
      by auto
    with g(2) h Inl p(1) dpi show ?thesis
      by (intro exI [of _ m]) (cases sw; auto)
  qed
qed

definition failing_deploy_env :: env where
  "failing_deploy_env = sample_env\<lparr>maas := sample_maas\<lparr>
     machine_allocate_r := (\<lambda>_ _. Inr (sample_machine\<lparr>sdk_PowerType := ''ipmi''\<rparr>)),
     machine_deploy_r := (\<lambda>_ _ _. Inl (OtherReason, ''no link''))\<rparr>\<rparr>"

definition lxd_mc :: maas_cluster where
  "lxd_mc = sample_mc\<lparr>mc_Spec := (mc_Spec sample_mc)\<lparr>LXDConfig := Some \<lparr>lc_Enabled = Some True,
     lc_ResourcePool = [], lc_Zone = [], lc_StorageBackend = [], lc_StorageSize = [], lc_NICType = [],
     lc_NICParent = [], lc_NetworkBridge = [], lc_SkipNetworkUpdate = None\<rparr>\<rparr>\<rparr>"

lemmas deploy_eval = DeployMachine_def allocate_machine_def allocation_request_def deref_def
  createBootInterfaceBridge_def deploy_allocated_def release_failed_deploy_def clear_ids_def
  machine_PatchObject_def machine_setter_defs call_defs run_api run_call GetDynamicLXD_def GetProviderID_def
  IsLXDHostEnabled_def is_vm_power_type_def zone_Name_def IsControlPlane_def

theorem DeployMachine_deploys_or_cleans_witness:
  "\<exists>e t m. run_state (DeployMachine failing_deploy_env sample_capi_machine sample_cluster ''ud'')
       (sample_sys\<lparr>the_mc := lxd_mc\<rparr>) = (Inl e, t) \<and>
     \<not> is_vm_power_type m \<and> ProviderID (mm_Spec (the_mm t)) = None \<and>
     (\<exists>b. Maas (MachineRelease (sdk_SystemID m) False b) \<in> set (trace t))"
proof -
  let ?s = "sample_sys\<lparr>the_mc := lxd_mc\<rparr>"
  have low: "ToLower ''ipmi'' = ''ipmi''" by code_simp
  have split: "splitImage ''custom/img'' = (''custom'', ''img'')" by code_simp
  obtain e t dp where t: "run_state (DeployMachine failing_deploy_env sample_capi_machine
      sample_cluster ''ud'') ?s = (Inl e, t)"
    "Maas (MachineDeploy (sdk_SystemID sample_machine) dp False) \<in> set (trace t)"
    by (simp add: deploy_eval failing_deploy_env_def lxd_mc_def sample_defs low split Let_def)
  have bm: "\<not> GetDynamicLXD (the_mm ?s)" and lxd: "IsLXDHostEnabled (the_mc ?s)" and tr: "trace ?s = []"
    by (simp_all add: GetDynamicLXD_def IsLXDHostEnabled_def lxd_mc_def sample_defs)
  have "Maas (MachineDeploy (sdk_SystemID sample_machine) dp False) \<in> set (drop (length (trace ?s)) (trace t))"
    using t(2) tr by simp
  from DeployMachine_deploys_or_cleans [OF bm t(1) this] lxd tr t(1)
  show ?thesis by (simp add: acquired_def) blast
qed

section \<open>A VM is composed once\<close>

fun is_compose :: "event \<Rightarrow> bool" where
  "is_compose (Maas (VMHostCompose h ps ok)) = True"
| "is_compose _ = False"

definition ids_recorded :: "maas_machine \<Rightarrow> string \<Rightarrow> string \<Rightarrow> bool" where
  "ids_recorded mm sid zone \<longleftrightarrow> SystemID (mm_Spec mm) = Some sid \<and>
     ProviderID (mm_Spec mm) = Some (provider_id_string sid zone) \<and>
     (zone \<noteq> [] \<longrightarrow> FailureDomain (mm_Spec mm) = Some zone)"

text \<open>Recorded in memory and sent to the API server; the code ignores the error of this patch.\<close>

definition ids_sent :: "sys \<Rightarrow> sys \<Rightarrow> string \<Rightarrow> string \<Rightarrow> bool" where
  "ids_sent s t sid zone \<longleftrightarrow> ids_recorded (the_mm t) sid zone \<and>
     (\<exists>ok. Kube (MaasMachinePatch (the_mm t) ok) \<in> set (drop (length (trace s)) (trace t)))"

lemma record_vm_ids_sends:
  assumes "run_state (record_vm_ids E cm sid zone) v = (x, t)" and "prefix (trace s) (trace v)"
  shows "ids_sent s t sid zone"
  using assms unfolding record_vm_ids_def machine_svc_defs MaasMachine_Patch_def
  by (auto simp: run_api ids_sent_def ids_recorded_def Let_def prefix_def split: if_splits)

lemma ids_sent_step:
  "ids_sent s u sid zone \<Longrightarrow> the_mm t = the_mm u \<Longrightarrow> trace t = trace u @ es \<Longrightarrow> ids_sent s t sid zone"
  unfolding ids_sent_def by (cases "length (trace s) \<le> length (trace u)") auto

lemma no_compose:
  "emits (\<lambda>e. \<not> is_compose e) (record_vm_ids E cm sid zone)"
  "emits (\<lambda>e. \<not> is_compose e) (ensure_vm_name E cm)"
  "emits (\<lambda>e. \<not> is_compose e) (existing_vm E sid)"
  "emits (\<lambda>e. \<not> is_compose e) (tagCPVM E cl sid)"
  "emits (\<lambda>e. \<not> is_compose e) (tagVMIfMaintenanceActive E cl sid)"
  "emits (\<lambda>e. \<not> is_compose e) (findExistingVMByHostname E cm nm h zone)"
  unfolding machine_svc_defs call_defs Let_def by (intro emits_intros emits_modify; simp)+

lemma keeps_tagging:
  "keeps the_mm (tagCPVM E cl sid)" "keeps the_mm (tagVMIfMaintenanceActive E cl sid)"
  unfolding machine_svc_defs call_defs Let_def by (intro emits_intros)+

lemma no_compose_consider: "emits (\<lambda>e. \<not> is_compose e) (consider_host E opts counts h)"
  unfolding consider_host_def call_defs Let_def by (intro emits_intros) simp_all

lemma no_compose_select: "emits (\<lambda>e. \<not> is_compose e) (SelectLXDHostWithMaasClient E hosts opts)"
proof -
  have "emits (\<lambda>e. \<not> is_compose e) (filter_hosts E opts counts hs)" for counts hs
    by (induction hs) (auto intro!: emits_intros no_compose_consider)
  then show ?thesis
    unfolding SelectLXDHostWithMaasClient_def sort_Slice_def call_defs Let_def
    by (intro emits_intros) simp_all
qed

lemma findExisting_persists:
  assumes "run_state (findExistingVMByHostname E cm nm h zone) v = (Some x, t)" and p: "prefix (trace s) (trace v)"
  shows "ids_sent s t (m_ID x) zone"
proof -
  have reuse: "ids_sent s t (m_ID x) zone"
    if "run_state (reuseExistingVM E cm m zone) w = (x, t)" "prefix (trace s) (trace w)" for m w
    using that record_vm_ids_sends
    by (auto simp: reuseExistingVM_def machine_in_zone_def fromSDKTypeToMachine_def Let_def split: prod.splits)
  have quiet: "emits (\<lambda>_. True) (Machines_List E [])" "emits (\<lambda>_. True) (VMHost_Machines E i)"
    "emits (\<lambda>_. True) (vm_with_hostname E nm ms)" for i ms
    unfolding call_defs by (intro emits_intros TrueI)+
  have grow: "run_state m w = (y, w') \<Longrightarrow> emits (\<lambda>_. True) m \<Longrightarrow> prefix (trace s) (trace w) \<Longrightarrow> prefix (trace s) (trace w')"
    for m :: "'z io" and w w' y by (metis emitsD prefix_def append.assoc)
  have search: "emits (\<lambda>_. True) (case r of Inl _ \<Rightarrow> ret None | Inr ms \<Rightarrow> vm_with_hostname E nm ms)"
    for r :: "sdk_machine list res" by (intro emits_intros quiet)
  show ?thesis
    using assms(1) unfolding findExistingVMByHostname_def
    by (auto split: prod.splits option.splits intro!: reuse dest: grow [OF _ quiet(1) p]
        grow [OF _ search] grow [OF _ quiet(2)])
qed

text \<open>What follows a composition: the IDs are recorded before the tags are set.\<close>

lemma record_composed:
  assumes run: "run_state (do {
      (if sdk_SystemID m \<noteq> [] then do {
         record_vm_ids E cm (sdk_SystemID m) zone;
         (if IsControlPlane E cm then do {
            tagCPVM E cl (sdk_SystemID m);
            tagVMIfMaintenanceActive E cl (sdk_SystemID m) }
          else ret ()) }
       else ret ());
      ret (Inr (machine_in_zone m zone)) }) u = (r, t)" and p: "prefix (trace s) (trace u)"
  shows "(\<exists>es. trace t = trace u @ es \<and> list_all (\<lambda>e. \<not> is_compose e) es) \<and>
    (\<forall>x. r = Inr x \<longrightarrow> m_ID x \<noteq> [] \<longrightarrow> ids_sent s t (m_ID x) zone)"
proof (cases "sdk_SystemID m = []")
  case True
  with run show ?thesis by (auto simp: machine_in_zone_def fromSDKTypeToMachine_def Let_def)
next
  case False
  let ?tags = "if IsControlPlane E cm then do { tagCPVM E cl (sdk_SystemID m);
      tagVMIfMaintenanceActive E cl (sdk_SystemID m) } else ret ()"
  have tags: "emits (\<lambda>e. \<not> is_compose e) ?tags" "keeps the_mm ?tags"
    by (intro emits_intros no_compose keeps_tagging)+
  obtain w where w: "run_state (record_vm_ids E cm (sdk_SystemID m) zone) u = ((), w)"
    by (metis old.unit.exhaust prod.collapse)
  from run False w have t: "run_state ?tags w = ((), t)" "r = Inr (machine_in_zone m zone)"
    by (auto split: prod.splits if_splits)
  from emitsD [OF no_compose(1) w] obtain es where
    es: "trace w = trace u @ es" "list_all (\<lambda>e. \<not> is_compose e) es" by blast
  from emitsD [OF tags(1) t(1)] obtain fs where
    fs: "trace t = trace w @ fs" "list_all (\<lambda>e. \<not> is_compose e) fs" by blast
  have "ids_sent s t (sdk_SystemID m) zone"
    using ids_sent_step [OF record_vm_ids_sends [OF w p] keepsD [OF tags(2) t(1)] fs(1)] .
  with es fs t(2) show ?thesis by (auto simp: machine_in_zone_def fromSDKTypeToMachine_def Let_def)
qed

lemma compose_on_host_spec:
  assumes run: "run_state (compose_on_host E cm cl nm opts h) v = (r, t)" and p: "prefix (trace s) (trace v)"
  shows "(\<exists>es. trace t = trace v @ es \<and> length (filter is_compose es) \<le> 1) \<and>
    (\<forall>x. r = Inr x \<longrightarrow> m_ID x \<noteq> [] \<longrightarrow> ids_sent s t (m_ID x) (so_Zone opts))"
proof (cases "\<exists>i z j pn. vmh_Zone h = ZoneOf i z \<and> vmh_ResourcePool h = Some (j, pn)")
  case False
  then show ?thesis using run
    by (auto simp: compose_on_host_def split: zone_ref.splits option.splits prod.splits)
next
  case True
  then obtain i z j pn where h: "vmh_Zone h = ZoneOf i z" "vmh_ResourcePool h = Some (j, pn)" by blast
  let ?ps = "[(''hostname'', nm), (''cores'', Sprintf_d (so_MinCores opts)),
     (''memory'', Sprintf_d (so_MinMemory opts)), (''storage'', Sprintf_d (so_MinDiskSizeGB opts)),
     (''zone'', Sprintf_d i), (''pool'', Sprintf_d j)]"
  obtain c u where c: "run_state (VMHost_Compose E (vmh_SystemID h) ?ps) v = (c, u)" by fastforce
  then have u: "trace u = trace v @ [Maas (VMHostCompose (vmh_SystemID h) ?ps (is_ok c))]"
    by (auto simp: VMHost_Compose_def run_api)
  with p have pu: "prefix (trace s) (trace u)" by (auto simp: prefix_def)
  have one: "\<exists>es. trace t = trace v @ es \<and> length (filter is_compose es) \<le> 1"
    if "trace t = trace u @ es" "list_all (\<lambda>e. \<not> is_compose e) es" for es
    using that u by (auto simp: list_all_iff filter_empty_conv)
  show ?thesis
  proof (cases c)
    case (Inl e)
    show ?thesis
    proof (cases "hostname_taken e")
      case True
      from run c h Inl True obtain f where
        f: "run_state (findExistingVMByHostname E cm nm h (so_Zone opts)) u = (f, t)"
        "r = (case f of Some x \<Rightarrow> Inr x | None \<Rightarrow> Inl (Wrapped ''failed to compose VM on LXD host'' e))"
        by (auto simp: compose_on_host_def Let_def split: prod.splits)
      from emitsD [OF no_compose(6) f(1)] one f findExisting_persists [OF _ pu, of E cm nm h "so_Zone opts"]
      show ?thesis by (auto split: option.splits)
    next
      case False
      with run c h Inl have "t = u" "r = Inl (Wrapped ''failed to compose VM on LXD host'' e)"
        by (auto simp: compose_on_host_def Let_def)
      with one [of "[]"] show ?thesis by simp
    qed
  next
    case (Inr m)
    with run c h have "run_state (do {
        (if sdk_SystemID m \<noteq> [] then do {
           record_vm_ids E cm (sdk_SystemID m) (so_Zone opts);
           (if IsControlPlane E cm then do {
              tagCPVM E cl (sdk_SystemID m);
              tagVMIfMaintenanceActive E cl (sdk_SystemID m) }
            else ret ()) }
         else ret ());
        ret (Inr (machine_in_zone m (so_Zone opts))) }) u = (r, t)"
      by (simp add: compose_on_host_def Let_def)
    from record_composed [OF this pu] one show ?thesis by blast
  qed
qed

text \<open>The search for a host composes nothing, and one VM is composed on the host it finds.\<close>

lemma select_then_compose:
  assumes run: "run_state (do { r \<leftarrow> SelectLXDHostWithMaasClient E hosts opts;
      case r of Inl e \<Rightarrow> ret (Inl (if is_panic e then e else Wrapped ''failed to select LXD VM host'' e))
      | Inr host \<Rightarrow> compose_on_host E cm cl nm opts host }) v = (r, t)" and p: "prefix (trace s) (trace v)"
  shows "(\<exists>es. trace t = trace v @ es \<and> length (filter is_compose es) \<le> 1) \<and>
    (\<forall>x. r = Inr x \<longrightarrow> m_ID x \<noteq> [] \<longrightarrow> ids_sent s t (m_ID x) (so_Zone opts))"
proof -
  obtain sel w where w: "run_state (SelectLXDHostWithMaasClient E hosts opts) v = (sel, w)" by fastforce
  from emitsD [OF no_compose_select w] obtain fs where
    fs: "trace w = trace v @ fs" "list_all (\<lambda>e. \<not> is_compose e) fs" by blast
  then have none: "filter is_compose fs = []" by (auto simp: filter_empty_conv list_all_iff)
  show ?thesis
  proof (cases sel)
    case (Inl e)
    with run w have "t = w" "\<nexists>x. r = Inr x" by auto
    with fs none show ?thesis by auto
  next
    case (Inr host)
    with run w have c: "run_state (compose_on_host E cm cl nm opts host) w = (r, t)" by simp
    from p fs have "prefix (trace s) (trace w)" by (auto simp: prefix_def)
    from compose_on_host_spec [OF c this] fs none show ?thesis by auto
  qed
qed

text \<open>A machine that has IDs gets no VM.\<close>

definition has_ids :: "maas_machine \<Rightarrow> bool" where
  "has_ids mm \<longleftrightarrow> SystemID (mm_Spec mm) \<notin> {None, Some []} \<or> GetInstanceID mm \<notin> {None, Some []}"

definition composed :: "sys \<Rightarrow> sys \<Rightarrow> event list" where
  "composed s t = filter is_compose (drop (length (trace s)) (trace t))"

lemma has_ids_composes_none:
  assumes "run_state (PrepareLXDVM E cm cl) s = (r, t)" "has_ids (the_mm s)"
  shows "composed s t = []"
proof -
  have "\<exists>sid. run_state (existing_vm E sid) s = (r, t)"
    using assms unfolding has_ids_def PrepareLXDVM_def by (auto split: list.splits option.splits)
  then obtain sid where "run_state (existing_vm E sid) s = (r, t)" by blast
  from emitsD [OF no_compose(3) this] show ?thesis
    unfolding composed_def by (auto simp: filter_empty_conv list_all_iff)
qed

text \<open>
  C15: a machine gets at most one VM. Preparing the VM of a machine that already has a system ID or a
  parsable provider ID composes nothing, and a run composes at most one VM. The VM that is returned for
  a machine without IDs, new or found by its host name, has its IDs recorded in the machine, and they
  are sent to the API server in a patch before the function returns. The code does not look at the
  result of this patch; but any further run on the machine as it is left composes nothing. A VM for
  which MAAS reports no ID is not recorded.
\<close>

theorem PrepareLXDVM_composes_once:
  assumes run: "run_state (PrepareLXDVM E cm cl) s = (r, t)"
  shows "(has_ids (the_mm s) \<longrightarrow> composed s t = []) \<and> length (composed s t) \<le> 1 \<and>
    (\<forall>x. \<not> has_ids (the_mm s) \<longrightarrow> r = Inr x \<longrightarrow> m_ID x \<noteq> [] \<longrightarrow>
       ids_sent s t (m_ID x) (placement_zone (the_mm s) cm) \<and>
       (\<forall>E' cm' cl' s' r' t'. the_mm s' = the_mm t \<longrightarrow>
          run_state (PrepareLXDVM E' cm' cl') s' = (r', t') \<longrightarrow> composed s' t' = []))"
proof (cases "has_ids (the_mm s)")
  case True
  with has_ids_composes_none [OF run True] show ?thesis by simp
next
  case False
  let ?opts = "placement_options E cm cl (the_mm s)"
  obtain nm u where u: "run_state (ensure_vm_name E cm) s = (nm, u)" by fastforce
  from emitsD [OF no_compose(2) u] obtain es where
    es: "trace u = trace s @ es" "list_all (\<lambda>e. \<not> is_compose e) es" by blast
  obtain hs v where v: "run_state (VMHosts_List E) u = (hs, v)" by fastforce
  then have tv: "trace v = trace u @ [Maas VMHostsList]" by (auto simp: VMHosts_List_def run_api)
  have rest: "run_state (case hs of Inl e \<Rightarrow> ret (Inl (Wrapped ''failed to list LXD VM hosts'' e))
      | Inr hosts \<Rightarrow> do { r \<leftarrow> SelectLXDHostWithMaasClient E hosts ?opts;
          case r of Inl e \<Rightarrow> ret (Inl (if is_panic e then e else Wrapped ''failed to select LXD VM host'' e))
          | Inr host \<Rightarrow> compose_on_host E cm cl nm ?opts host }) v = (r, t)"
    using run False u v unfolding has_ids_def PrepareLXDVM_def
    by (auto simp: Let_def split: list.splits option.splits)
  have tvs: "trace v = trace s @ es @ [Maas VMHostsList]" using es tv by simp
  have none: "filter is_compose (es @ [Maas VMHostsList]) = []" using es by (auto simp: filter_empty_conv list_all_iff)
  show ?thesis
  proof (cases hs)
    case (Inl e)
    with rest tvs none False show ?thesis unfolding composed_def by auto
  next
    case (Inr hosts)
    with rest have sel: "run_state (do { r \<leftarrow> SelectLXDHostWithMaasClient E hosts ?opts;
        case r of Inl e \<Rightarrow> ret (Inl (if is_panic e then e else Wrapped ''failed to select LXD VM host'' e))
        | Inr host \<Rightarrow> compose_on_host E cm cl nm ?opts host }) v = (r, t)" by simp
    have "prefix (trace s) (trace v)" using tvs by simp
    from select_then_compose [OF sel this] obtain gs where
      gs: "trace t = trace v @ gs" "length (filter is_compose gs) \<le> 1"
      "\<forall>x. r = Inr x \<longrightarrow> m_ID x \<noteq> [] \<longrightarrow> ids_sent s t (m_ID x) (so_Zone ?opts)" by blast
    have c: "composed s t = filter is_compose gs" unfolding composed_def gs(1) tvs using none by simp
    have "has_ids (the_mm t)" if "ids_sent s t sid zone" "sid \<noteq> []" for sid zone
      using that by (simp add: has_ids_def ids_sent_def ids_recorded_def)
    moreover have "so_Zone ?opts = placement_zone (the_mm s) cm" by (simp add: placement_options_def)
    ultimately show ?thesis using gs(2,3) False c has_ids_composes_none by auto
  qed
qed

definition compose_env :: env where
  "compose_env = sample_env\<lparr>maas := sample_maas\<lparr>
     vmhosts_list_r := (\<lambda>_. Inr [free_host]),
     machine_get_r := (\<lambda>sid _. placement_get sid),
     vmhost_compose_r := (\<lambda>_ _ _. Inr (sample_machine\<lparr>sdk_SystemID := ''vm9''\<rparr>))\<rparr>\<rparr>"

lemmas prepare_eval = PrepareLXDVM_def ensure_vm_name_def existing_vm_def compose_on_host_def
  record_vm_ids_def tagCPVM_def tagVMIfMaintenanceActive_def tagVM_def SelectLXDHostWithMaasClient_def
  consider_host_def sort_Slice_def range_keys_def placement_options_def placement_zone_def
  placement_disk_def positive_or_zero_def machine_in_zone_def fromSDKTypeToMachine_def
  GetInstanceID_def NewProviderID_def zone_Name_def hasMaintenanceTag_def deploy_eval

theorem PrepareLXDVM_composes_once_witness:
  "\<exists>x t. run_state (PrepareLXDVM compose_env sample_capi_machine sample_cluster) sample_sys = (Inr x, t) \<and>
     length (composed sample_sys t) = 1 \<and> ids_sent sample_sys t ''vm9'' [] \<and>
     composed t (snd (run_state (PrepareLXDVM compose_env sample_capi_machine sample_cluster) t)) = []"
proof -
  obtain x t where t: "run_state (PrepareLXDVM compose_env sample_capi_machine sample_cluster) sample_sys = (Inr x, t)"
    "m_ID x = ''vm9''" "filter is_compose (trace t) \<noteq> []"
    by (simp add: prepare_eval compose_env_def free_host_def placement_get_def sample_defs vm_name_annotation_def
        map_get_def map_put_def map_has_def Let_def)
  have "\<not> has_ids (the_mm sample_sys)" "placement_zone (the_mm sample_sys) sample_capi_machine = []"
    and tr: "trace sample_sys = []"
    by (simp_all add: has_ids_def GetInstanceID_def NewProviderID_def GetProviderID_def placement_zone_def sample_defs)
  with PrepareLXDVM_composes_once [OF t(1)] t have l: "length (composed sample_sys t) \<le> 1"
    "ids_sent sample_sys t ''vm9'' []"
    "\<And>s' r' t'. the_mm s' = the_mm t \<Longrightarrow>
       run_state (PrepareLXDVM compose_env sample_capi_machine sample_cluster) s' = (r', t') \<Longrightarrow> composed s' t' = []"
    by simp_all
  moreover have "composed sample_sys t \<noteq> []" using t(3) tr by (simp add: composed_def)
  then have "length (composed sample_sys t) = 1" using l(1) by (cases "composed sample_sys t") auto
  moreover have "composed t (snd (run_state (PrepareLXDVM compose_env sample_capi_machine sample_cluster) t)) = []"
    using l(3) [OF refl] by (metis prod.collapse)
  ultimately show ?thesis using t(1) by blast
qed

end
