(* ===== verification/Machine_Controller.thy ===== *)
theory Machine_Controller
  imports Machine_Service Dns Host_Maintenance
begin

text \<open>
  The MaasMachine controller, \<open>controllers/maasmachine_controller.go\<close>. A reconcile reads the machine,
  its owner, the cluster and the infrastructure cluster, then deletes or drives the machine towards
  Deployed, and always persists the machine at the end. A run-time panic ends the handler; the
  deferred patch runs all the same.
\<close>

section \<open>Helpers\<close>

definition canonicalLXDHostName :: "string \<Rightarrow> string" where
  "canonicalLXDHostName hostname = ''lxd-host-'' @ ToLower (TrimSpace hostname)"

definition isConfirmedPoweredOff :: "string \<Rightarrow> bool" where
  "isConfirmedPoweredOff powerState = (powerState = MachinePowerStateOff)"

definition isVMHostRemovalRequiredError :: "gerr \<Rightarrow> bool" where
  "isVMHostRemovalRequiredError e \<longleftrightarrow> Contains (err_Error e) ''status: 400'' \<and>
     (Contains (err_Error e) ''must be removed first'' \<or> Contains (err_Error e) ''VM hosts'')"

fun node_ip_loop :: "string \<Rightarrow> machine_address list \<Rightarrow> string" where
  "node_ip_loop internal [] = internal"
| "node_ip_loop internal (a # as) =
     (if ma_Type a = MachineExternalIP \<and> ma_Address a \<noteq> [] then ma_Address a
      else node_ip_loop (if ma_Type a = MachineInternalIP \<and> internal = [] then ma_Address a else internal) as)"

definition getNodeIP :: "machine_address list \<Rightarrow> string" where
  "getNodeIP addresses = node_ip_loop [] addresses"

text \<open>\<open>base64.StdEncoding.EncodeToString\<close>.\<close>

definition b64_char :: "nat \<Rightarrow> char" where
  "b64_char n = ''ABCDEFGHIJKLMNOPQRSTUVWXYZabcdefghijklmnopqrstuvwxyz0123456789+/'' ! n"

fun base64_Encode :: "string \<Rightarrow> string" where
  "base64_Encode [] = []"
| "base64_Encode [a] = (let x = of_char a :: nat in
     [b64_char (x div 4), b64_char (x mod 4 * 16), CHR ''='', CHR ''=''])"
| "base64_Encode [a, b] = (let x = of_char a :: nat; y = of_char b in
     [b64_char (x div 4), b64_char (x mod 4 * 16 + y div 16), b64_char (y mod 16 * 4), CHR ''=''])"
| "base64_Encode (a # b # c # r) = (let x = of_char a :: nat; y = of_char b; z = of_char c in
     [b64_char (x div 4), b64_char (x mod 4 * 16 + y div 16), b64_char (y mod 16 * 4 + z div 64),
      b64_char (z mod 64)] @ base64_Encode r)"

definition set_finalizers :: "(string list \<Rightarrow> string list) \<Rightarrow> unit io" where
  "set_finalizers f = modify (the_mm_update (mm_Meta_update (om_Finalizers_update f)))"

definition has_finalizer :: "env \<Rightarrow> maas_machine \<Rightarrow> string \<Rightarrow> bool" where
  "has_finalizer E mm f = ContainsFinalizer (lib_of E) (om_Finalizers (mm_Meta mm)) f"

definition deployed_cond :: "condition_status \<Rightarrow> string \<Rightarrow> string \<Rightarrow> condition" where
  "deployed_cond st reason msg = \<lparr>c_Type = MachineDeployedCondition, c_Status = st,
     c_Reason = reason, c_Message = msg\<rparr>"

definition dns_cond :: "condition_status \<Rightarrow> string \<Rightarrow> condition" where
  "dns_cond st reason = \<lparr>c_Type = DNSAttachedCondition, c_Status = st, c_Reason = reason, c_Message = []\<rparr>"

section \<open>DNS attachment\<close>

definition set_dns_attached :: "bool \<Rightarrow> unit io" where
  "set_dns_attached b = mm_status_update (DNSAttached_update (\<lambda>_. b))"

definition reconcileDNSAttachment :: "env \<Rightarrow> capi_machine \<Rightarrow> capi_cluster \<Rightarrow> machine \<Rightarrow> unit res io" where
  "reconcileDNSAttachment E cm cl m =
     (if \<not> IsControlPlane E cm then ret (Inr ())
      else case dns_NewService E of
        Inl e \<Rightarrow> ret (Inl e)
      | Inr _ \<Rightarrow> do {
          mm \<leftarrow> gets the_mm;
          if om_DeletionTimestamp (mm_Meta mm) \<noteq> None \<or> \<not> MachineIsRunning mm then do {
            r \<leftarrow> MachineIsRegisteredWithAPIServerDNS E cl m;
            case r of
              Inl e \<Rightarrow> ret (Inl (Wrapped (''machine '' @ m_ID m @ '' - error determining registration status'') e))
            | Inr registered \<Rightarrow> do {
                set_dns_attached registered;
                if registered then do {
                  set_condition E (dns_cond ConditionFalse DNSDetachPending);
                  ret (Inl ErrRequeueDNS) }
                else ret (Inr ()) } }
          else do {
            r \<leftarrow> MachineIsRegisteredWithAPIServerDNS E cl m;
            case r of
              Inl e \<Rightarrow> ret (Inl (Wrapped (''normal machine '' @ m_ID m @ '' - error determining registration status'') e))
            | Inr registered \<Rightarrow> do {
                set_dns_attached registered;
                if \<not> registered then do {
                  set_condition E (dns_cond ConditionFalse DNSAttachPending);
                  ret (Inl ErrRequeueDNS) }
                else do {
                  set_condition E (dns_cond ConditionTrue DNSAttachedReason);
                  ret (Inr ()) } } } })"

section \<open>Deletion\<close>

definition findMachine :: "env \<Rightarrow> machine option res io" where
  "findMachine E = do {
     mm \<leftarrow> gets the_mm;
     case GetInstanceID mm of
       None \<Rightarrow> ret (Inr None)
     | Some sid \<Rightarrow>
         if sid = [] then ret (Inr None)
         else do {
           r \<leftarrow> GetMachine E sid;
           ret (case r of Inl e \<Rightarrow> Inl (Wrapped ''Unable to find machine'' e) | Inr m \<Rightarrow> Inr m) } }"

definition shouldGateFinalizerRemoval :: "env \<Rightarrow> maas_machine \<Rightarrow> bool io" where
  "shouldGateFinalizerRemoval E mm = (case om_DeletionTimestamp (mm_Meta mm) of
       None \<Rightarrow> ret False
     | Some ts \<Rightarrow> do { now \<leftarrow> time_Now E; ret (now - ts < 120) })"

definition bestEffortUnregisterLXDHost :: "env \<Rightarrow> machine \<Rightarrow> unit io" where
  "bestEffortUnregisterLXDHost E m = do {
     _ \<leftarrow> GetMaasClientIdentity E;
     let hostName = canonicalLXDHostName (m_Hostname m);
     if hostName = ''lxd-host-'' then ret ()
     else do { _ \<leftarrow> UnregisterLXDHostByNameWithMaasClient E hostName; ret () } }"

primrec delete_guests :: "env \<Rightarrow> sdk_machine list \<Rightarrow> unit io" where
  "delete_guests E [] = ret ()"
| "delete_guests E (g # gs) = do {
     (if sdk_SystemID g = [] then ret ()
      else do {
        r \<leftarrow> Machine_Get E (sdk_SystemID g);
        case r of
          Inl _ \<Rightarrow> ret ()
        | Inr gm \<Rightarrow> do { _ \<leftarrow> Machine_Delete E (sdk_SystemID gm); ret () } });
     delete_guests E gs }"

definition forceDeleteGuestVMsIfControlPlane :: "env \<Rightarrow> string \<Rightarrow> unit io" where
  "forceDeleteGuestVMsIfControlPlane E hostSystemID = do {
     _ \<leftarrow> GetMaasClientIdentity E;
     r \<leftarrow> VMHosts_List E;
     case r of
       Inl _ \<Rightarrow> ret ()
     | Inr hosts \<Rightarrow>
         (case find (\<lambda>h. vmh_HostSystemID h = hostSystemID) hosts of
            None \<Rightarrow> ret ()
          | Some h \<Rightarrow> do {
              r \<leftarrow> VMHost_Machines E (vmh_SystemID h);
              case r of Inl _ \<Rightarrow> ret () | Inr guests \<Rightarrow> delete_guests E guests }) }"

definition tryReleaseWithVMHostHandling :: "env \<Rightarrow> capi_machine \<Rightarrow> machine \<Rightarrow> unit res io" where
  "tryReleaseWithVMHostHandling E cm m = do {
     mc \<leftarrow> gets the_mc;
     r \<leftarrow> ReleaseMachine E (m_ID m);
     case r of
       Inr _ \<Rightarrow> ret (Inr ())
     | Inl e \<Rightarrow>
         if \<not> isVMHostRemovalRequiredError e then ret (Inl e)
         else do {
           _ \<leftarrow> GetMaasClientIdentity E;
           (if IsLXDHostEnabled mc \<and> IsControlPlane E cm
            then forceDeleteGuestVMsIfControlPlane E (m_ID m) else ret ());
           let hostName = canonicalLXDHostName (m_Hostname m);
           if hostName = ''lxd-host-'' then ret (Inl e)
           else do {
             u \<leftarrow> UnregisterLXDHostByNameWithMaasClient E hostName;
             case u of Inl _ \<Rightarrow> ret (Inl e) | Inr _ \<Rightarrow> ReleaseMachine E (m_ID m) } } }"

definition maybeDeleteDynamicLXDVM :: "env \<Rightarrow> string \<Rightarrow> unit io" where
  "maybeDeleteDynamicLXDVM E systemID = do {
     mm \<leftarrow> gets the_mm;
     if \<not> GetDynamicLXD mm then ret ()
     else do {
       _ \<leftarrow> GetMaasClientIdentity E;
       _ \<leftarrow> DeleteLXDVMWithMaasClient E systemID;
       ret () } }"

definition finalizeMachineDeletion :: "env \<Rightarrow> unit io" where
  "finalizeMachineDeletion E = do {
     set_condition E (deployed_cond ConditionFalse DeletedReason []);
     Eventf ''Normal'' ''SuccessfulRelease'';
     set_finalizers (\<lambda>fs. RemoveFinalizer (lib_of E) fs MachineFinalizer) }"

definition machine_reconcileDelete :: "env \<Rightarrow> capi_machine \<Rightarrow> capi_cluster \<Rightarrow> reconcile_result io" where
  "machine_reconcileDelete E cm cl = do {
     mm \<leftarrow> gets the_mm;
     mc \<leftarrow> gets the_mc;
     if has_finalizer E mm HostEvacuationFinalizer then
       (if SystemID (mm_Spec mm) = None \<or> SystemID (mm_Spec mm) = Some [] then do {
          set_finalizers (\<lambda>fs. RemoveFinalizer (lib_of E) fs HostEvacuationFinalizer);
          reconcile_done }
        else ret (RequeueAfter 10, None))
     else case NewMaasClient E of
       Inl e \<Rightarrow> ret (NoRequeue, Some e)
     | Inr _ \<Rightarrow> do {
     r \<leftarrow> findMachine E;
     case r of
       Inl e \<Rightarrow> ret (NoRequeue, Some e)
     | Inr None \<Rightarrow> do {
         gate \<leftarrow> shouldGateFinalizerRemoval E mm;
         if gate then do { _ \<leftarrow> time_Now E; ret (RequeueAfter 30, None) }
         else do {
           Eventf ''Warning'' ''NoMachineFound'';
           set_finalizers (\<lambda>fs. RemoveFinalizer (lib_of E) fs MachineFinalizer);
           reconcile_done } }
     | Inr (Some m) \<Rightarrow> do {
         r \<leftarrow> reconcileDNSAttachment E cm cl m;
         case r of
           Inl e \<Rightarrow> if errors_Is e ErrRequeueDNS then reconcile_done else ret (NoRequeue, Some e)
         | Inr _ \<Rightarrow> do {
             (if IsLXDHostEnabled mc \<and> IsControlPlane E cm then bestEffortUnregisterLXDHost E m
              else ret ());
             r \<leftarrow> tryReleaseWithVMHostHandling E cm m;
             case r of
               Inl e \<Rightarrow> ret (NoRequeue, Some e)
             | Inr _ \<Rightarrow> do {
                 maybeDeleteDynamicLXDVM E (m_ID m);
                 finalizeMachineDeletion E;
                 reconcile_done } } } } }"

section \<open>Deployment\<close>

definition resolveUserData :: "env \<Rightarrow> capi_machine \<Rightarrow> string res io" where
  "resolveUserData E cm = do {
     r \<leftarrow> GetRawBootstrapData E cm;
     case r of
       Inl e \<Rightarrow> do { Eventf ''Warning'' ''FailedGetBootstrapData''; ret (Inl e) }
     | Inr userData \<Rightarrow> ret (Inr (base64_Encode userData)) }"

definition deployMachine :: "env \<Rightarrow> capi_machine \<Rightarrow> capi_cluster \<Rightarrow> machine res io" where
  "deployMachine E cm cl = do {
     r \<leftarrow> resolveUserData E cm;
     case r of
       Inl e \<Rightarrow> ret (Inl (Wrapped ''failed to resolve userdata'' e))
     | Inr userDataB64 \<Rightarrow> do {
         r \<leftarrow> DeployMachine E cm cl userDataB64;
         ret (case r of
            Inl e \<Rightarrow> Inl (if is_panic e then e else Wrapped ''failed to deploy MaasMachine instance'' e)
          | Inr m \<Rightarrow> Inr m) } }"

primrec remove_tags :: "tag_service \<Rightarrow> string \<Rightarrow> string list \<Rightarrow> unit io" where
  "remove_tags tags systemID [] = ret ()"
| "remove_tags tags systemID (t # ts) = do {
     _ \<leftarrow> RemoveTagFromHost tags systemID t;
     remove_tags tags systemID ts }"

definition stale_dynamic_tag :: "string \<Rightarrow> bool" where
  "stale_dynamic_tag t \<longleftrightarrow> HasPrefix t TagHostOpPrefix \<or> HasPrefix t TagVMClusterPrefix \<or>
     HasPrefix t TagVMReadyOpPrefix"

definition cleanupStaleTagsAfterDeployment :: "env \<Rightarrow> string \<Rightarrow> unit res io" where
  "cleanupStaleTagsAfterDeployment E systemID = do {
     mm \<leftarrow> gets the_mm;
     if (case Parent (mm_Spec mm) of None \<Rightarrow> False | Some p \<Rightarrow> p \<noteq> []) then ret (Inr ())
     else ok_then (NewMAASClient E False (om_Namespace (mm_Meta mm))) (\<lambda>_.
       ok_then (GetHost (NewInventoryService E) systemID) (\<lambda>machine.
         if im_PowerType machine = ''lxd'' then ret (Inr ())
         else do {
           remove_tags (NewTagService E) systemID
             [TagHostMaintenance, TagHostNoSchedule, TagVMControlPlane];
           remove_tags (NewTagService E) systemID (filter stale_dynamic_tag (im_Tags machine));
           ret (Inr ()) })) }"

definition needs_deploy :: "machine option \<Rightarrow> bool" where
  "needs_deploy m = (case m of None \<Rightarrow> True
     | Some m \<Rightarrow> m_State m \<noteq> MachineStateDeployed \<and> m_State m \<noteq> MachineStateDeploying)"

text \<open>
  \<open>if m == nil || !(Deployed || Deploying) { ... }\<close> of \<open>reconcileNormal\<close>: either the result the
  handler returns at once, or the deployed machine.
\<close>

definition deploy_step ::
    "env \<Rightarrow> capi_machine \<Rightarrow> capi_cluster \<Rightarrow> (reconcile_result + machine) io" where
  "deploy_step E cm cl = do {
     mm \<leftarrow> gets the_mm;
     p \<leftarrow> (if cond_GetReason (lib_of E) (Conditions (mm_Status mm)) MachineDeployedCondition \<noteq>
             MachineDeployFailedReason
           then do {
             set_condition E (deployed_cond ConditionFalse MachineDeployStartedReason []);
             machine_PatchObject E cm }
           else ret (Inr ()));
     case p of
       Inl patchErr \<Rightarrow> ret (Inl (NoRequeue, Some patchErr))
     | Inr _ \<Rightarrow> do {
         r \<leftarrow> deployMachine E cm cl;
         case r of
           Inl e \<Rightarrow>
             if is_panic e then ret (Inl (NoRequeue, Some e))
             else if errors_Is e ErrBrokenMachine then do {
               set_condition E (deployed_cond ConditionFalse MachineDeployingReason ''retrying after broken machine'');
               ret (Inl (RequeueAfter 120, None)) }
             else if errors_Is e ErrVMComposing then ret (Inl (RequeueAfter 30, None))
             else do {
               set_condition E (deployed_cond ConditionFalse MachineDeployFailedReason (err_Error e));
               ret (Inl (NoRequeue, Some e)) }
         | Inr m \<Rightarrow> do {
             _ \<leftarrow> cleanupStaleTagsAfterDeployment E (m_ID m);
             ret (Inr m) } } }"

definition UpdateMachineError :: string where "UpdateMachineError = ''UpdateError''"

text \<open>The IDs, the host name and the observed state are recorded first.\<close>

definition record_machine :: "machine \<Rightarrow> unit res io" where
  "record_machine m = do {
     SetProviderID (m_ID m) (m_AvailabilityZone m);
     SetFailureDomain (m_AvailabilityZone m);
     SetSystemID (m_ID m);
     SetMachineHostname (m_Hostname m);
     mm \<leftarrow> gets the_mm;
     case deref (GetInstanceID mm) of
       Inl e \<Rightarrow> ret (Inl e)
     | Inr _ \<Rightarrow> do {
         SetMachineState (m_State m);
         SetPowered (m_Powered m);
         ret (Inr ()) } }"

text \<open>The switch on the MAAS state; a result when the handler returns from inside it.\<close>

definition state_switch :: "env \<Rightarrow> machine \<Rightarrow> reconcile_result option io" where
  "state_switch E m = do {
     mm \<leftarrow> gets the_mm;
     let s = m_State m;
     if s = MachineStateReady \<or> s = MachineStateAllocated then do {
       SetNotReady;
       set_condition E (deployed_cond ConditionFalse MachineDeployingReason []);
       ret None }
     else if s = MachineStateDiskErasing \<or> s = MachineStateReleasing \<or> s = MachineStateNew then do {
       SetNotReady;
       Eventf ''Warning'' ''MachineUnexpectedTermination'';
       set_condition E (deployed_cond ConditionFalse MachineTerminatedReason []);
       SetFailureReason UpdateMachineError;
       SetFailureMessage (ErrorString (''Maas machine state '' @ m_State m @ '' is unexpected''));
       ret None }
     else if MachineIsInKnownState mm \<and> isConfirmedPoweredOff (m_PowerState m) then
       (if GetMachineState mm = Some MachineStateDeployed then do {
          r \<leftarrow> PowerOnMachine E;
          ret (Some (case r of
             Inl e \<Rightarrow> (NoRequeue, Some (if is_panic e then e
               else Wrapped ''unable to power on deployed machine'' e))
           | Inr _ \<Rightarrow> (RequeueAfter 60, None))) }
        else do {
          SetNotReady;
          set_condition E (deployed_cond ConditionFalse MachinePoweredOffReason []);
          ret None })
     else if s = MachineStateDeploying then do {
       SetNotReady;
       set_condition E (deployed_cond ConditionFalse MachineDeployingReason []);
       ret None }
     else if s = MachineStateDeployed then do {
       SetReady;
       set_condition E (deployed_cond ConditionTrue MachineDeployedReason []);
       ret None }
     else do {
       SetNotReady;
       Eventf ''Warning'' ''MachineUnhandledState'';
       SetFailureReason UpdateMachineError;
       SetFailureMessage (ErrorString (''MaaS m state '' @ m_State m @ '' is undefined''));
       set_condition E (deployed_cond ConditionUnknown MachineStateUndefinedReason []);
       ret None } }"

definition after_state :: "env \<Rightarrow> capi_machine \<Rightarrow> capi_cluster \<Rightarrow> machine \<Rightarrow> reconcile_result io" where
  "after_state E cm cl m = do {
     mm \<leftarrow> gets the_mm;
     r \<leftarrow> (if MachineIsInKnownState mm then do {
             SetAddresses (m_Addresses m);
             reconcileDNSAttachment E cm cl m }
           else ret (Inr ()));
     case r of
       Inl e \<Rightarrow> if errors_Is e ErrRequeueDNS then ret (RequeueAfter 10, None) else ret (NoRequeue, Some e)
     | Inr _ \<Rightarrow> do {
         onl \<leftarrow> IsAPIServerOnline E cl;
         mm \<leftarrow> gets the_mm;
         if onl \<noteq> Inr True then ret (RequeueAfter 300, None)
         else if \<not> MachineIsOperational mm then ret (RequeueAfter 300, None)
         else do {
           r \<leftarrow> SetNodeProviderID E cl;
           case r of
             Inl e \<Rightarrow> do {
               Eventf ''Warning'' ''NodeProviderUpdateFailed'';
               ret (RequeueAfter 30, None) }
           | Inr _ \<Rightarrow> reconcile_done } } }"

definition drive_machine :: "env \<Rightarrow> capi_machine \<Rightarrow> capi_cluster \<Rightarrow> machine \<Rightarrow> reconcile_result io" where
  "drive_machine E cm cl m = do {
     r \<leftarrow> record_machine m;
     case r of
       Inl e \<Rightarrow> ret (NoRequeue, Some e)
     | Inr _ \<Rightarrow> do {
         early \<leftarrow> state_switch E m;
         case early of Some res \<Rightarrow> ret res | None \<Rightarrow> after_state E cm cl m } }"

definition machine_reconcileNormal :: "env \<Rightarrow> capi_machine \<Rightarrow> capi_cluster \<Rightarrow> reconcile_result io" where
  "machine_reconcileNormal E cm cl = do {
     mm \<leftarrow> gets the_mm;
     mc \<leftarrow> gets the_mc;
     let isHostMachine = (Parent (mm_Spec mm) = None \<or> Parent (mm_Spec mm) = Some []);
     if \<not> has_finalizer E mm MachineFinalizer then do {
       set_finalizers (\<lambda>fs. AddFinalizer (lib_of E) fs MachineFinalizer);
       reconcile_done }
     else if isHostMachine \<and> IsLXDHostEnabled mc \<and> \<not> has_finalizer E mm HostEvacuationFinalizer then do {
       set_finalizers (\<lambda>fs. AddFinalizer (lib_of E) fs HostEvacuationFinalizer);
       reconcile_done }
     else if cl_InfrastructureProvisioned cl \<noteq> Some True then do {
       set_condition E (deployed_cond ConditionFalse WaitingForClusterInfrastructureReason []);
       reconcile_done }
     else if cam_DataSecretName cm = None then do {
       set_condition E (deployed_cond ConditionFalse WaitingForBootstrapDataReason []);
       reconcile_done }
     else case NewMaasClient E of
       Inl e \<Rightarrow> ret (NoRequeue, Some e)
     | Inr _ \<Rightarrow> do {
         r \<leftarrow> findMachine E;
         case r of
           Inl e \<Rightarrow> do {
             set_condition E (deployed_cond ConditionUnknown MachineNotFoundReason (err_Error e));
             ret (NoRequeue, Some e) }
         | Inr found \<Rightarrow> do {
             r \<leftarrow> (case found of
                     Some m \<Rightarrow> if needs_deploy (Some m) then deploy_step E cm cl else ret (Inr m)
                   | None \<Rightarrow> deploy_step E cm cl);
             case r of Inl res \<Rightarrow> ret res | Inr m \<Rightarrow> drive_machine E cm cl m } } }"

section \<open>Reconcile\<close>

text \<open>The handler with its deferred \<open>Close\<close>.\<close>

definition with_close :: "env \<Rightarrow> capi_machine \<Rightarrow> reconcile_result io \<Rightarrow> reconcile_result io" where
  "with_close E cm body = do {
     (res, rerr) \<leftarrow> body;
     c \<leftarrow> machine_PatchObject E cm;
     ret (res, case rerr of Some e \<Rightarrow> Some e | None \<Rightarrow> (case c of Inl e \<Rightarrow> Some e | Inr _ \<Rightarrow> None)) }"

definition machine_Reconcile :: "env \<Rightarrow> string \<Rightarrow> string \<Rightarrow> reconcile_result io" where
  "machine_Reconcile E ns nm = do {
     r \<leftarrow> MaasMachine_Get E ns nm;
     case r of
       Inl e \<Rightarrow> if IsNotFound e then reconcile_done else ret (NoRequeue, Some e)
     | Inr maasMachine \<Rightarrow> do {
     r \<leftarrow> GetOwnerMachine E maasMachine;
     case r of
       Inl e \<Rightarrow> ret (NoRequeue, Some e)
     | Inr None \<Rightarrow> reconcile_done
     | Inr (Some machine) \<Rightarrow> do {
     r \<leftarrow> GetClusterFromMetadata E (cam_Labels machine) (cam_Namespace machine);
     case r of
       Inl _ \<Rightarrow> reconcile_done
     | Inr cluster \<Rightarrow>
     if IsPaused (lib_of E) cluster maasMachine then reconcile_done
     else do {
     r \<leftarrow> MaasCluster_Get E (om_Namespace (mm_Meta maasMachine)) (cl_InfraRefName cluster);
     case r of
       Inl _ \<Rightarrow> reconcile_done
     | Inr maasCluster \<Rightarrow> do {
         modify (the_mm_update (\<lambda>_. maasMachine));
         modify (the_mc_update (\<lambda>_. maasCluster));
         with_close E machine
           (if om_DeletionTimestamp (mm_Meta maasMachine) \<noteq> None
            then machine_reconcileDelete E machine cluster
            else machine_reconcileNormal E machine cluster) } } } } }"

definition MaasClusterToMaasMachines :: "env \<Rightarrow> maas_cluster \<Rightarrow> (string \<times> string) list io" where
  "MaasClusterToMaasMachines E c = do {
     r \<leftarrow> GetOwnerCluster E c;
     case r of
       Inl _ \<Rightarrow> ret []
     | Inr None \<Rightarrow> ret []
     | Inr (Some cluster) \<Rightarrow> do {
         r \<leftarrow> CapiMachines_List E (om_Namespace (mc_Meta c)) (cl_Name cluster);
         ret (case r of Inl _ \<Rightarrow> [] | Inr items \<Rightarrow>
           map (\<lambda>m. (cam_Namespace m, cam_InfraRefName m))
             (filter (\<lambda>m. cam_InfraRefName m \<noteq> []) items)) } }"

section \<open>State and power\<close>

text \<open>Programs that read the machine through \<open>the_mm\<close> only keep what they do not write.\<close>

lemma keeps_mm_api: "keeps (\<lambda>s. g (the_mm s)) (api f ev)"
  by (simp add: keeps_def run_api)

lemma keeps_mm_call: "keeps (\<lambda>s. g (the_mm s)) (call f ev)"
  by (simp add: keeps_def run_call)

lemmas keeps_mm_rules = emits_intros keeps_mm_api keeps_mm_call keeps_modify

abbreviation readiness :: "sys \<Rightarrow> bool \<times> bool option \<times> machine_state option" where
  "readiness s \<equiv> (Ready (mm_Status (the_mm s)), Provisioned (mm_Status (the_mm s)),
     MachineState (mm_Status (the_mm s)))"

fun is_power_on :: "event \<Rightarrow> bool" where
  "is_power_on (Maas (MachinePowerOn sid ok)) = True"
| "is_power_on _ = False"

lemmas after_state_defs = after_state_def reconcileDNSAttachment_def dns_NewService_def dns_defs
  IsAPIServerOnline_def SetNodeProviderID_def findNodeByHostname_def set_dns_attached_def
  set_condition_def machine_setter_defs SetDNSName_def

lemma keeps_after_state: "keeps readiness (after_state E cm cl m)"
  unfolding after_state_defs call_defs Let_def by (intro keeps_mm_rules) simp_all

lemma no_power_after_state: "emits (\<lambda>e. \<not> is_power_on e) (after_state E cm cl m)"
  unfolding after_state_defs call_defs Let_def by (intro emits_intros emits_modify) simp_all

lemma record_machine_spec:
  assumes "run_state (record_machine m) s = (r, u)"
  shows "trace u = trace s \<and> Ready (mm_Status (the_mm u)) = Ready (mm_Status (the_mm s)) \<and>
    Provisioned (mm_Status (the_mm u)) = Provisioned (mm_Status (the_mm s)) \<and>
    (case r of Inl e \<Rightarrow> is_panic e
     | Inr _ \<Rightarrow> MachineState (mm_Status (the_mm u)) = Some (m_State m) \<and> SystemID (mm_Spec (the_mm u)) = Some (m_ID m))"
  using assms unfolding record_machine_def deref_def machine_setter_defs
  by (auto split: option.splits sum.splits simp: is_panic_def)

text \<open>
  What the switch does to readiness and power, case by case: a confirmed power-off of a deployed
  machine requests power-on and leaves readiness alone, a deployed machine is otherwise ready, and
  any other state is not ready.
\<close>

lemma state_switch_spec:
  assumes run: "run_state (state_switch E m) u = (early, v)"
    and st: "MachineState (mm_Status (the_mm u)) = Some (m_State m)" and sid: "SystemID (mm_Spec (the_mm u)) = Some (m_ID m)"
  defines "off \<equiv> isConfirmedPoweredOff (m_PowerState m)"
  shows "MachineState (mm_Status (the_mm v)) = Some (m_State m) \<and>
    (if m_State m = MachineStateDeployed \<and> off then
       (\<exists>ok. trace v = trace u @ [Maas (MachinePowerOn (m_ID m) ok)]) \<and> early \<noteq> None \<and> the_mm v = the_mm u
     else since (\<lambda>e. \<not> is_power_on e) u v \<and> early = None \<and>
       Ready (mm_Status (the_mm v)) = (m_State m = MachineStateDeployed) \<and>
       Provisioned (mm_Status (the_mm v)) = (if m_State m = MachineStateDeployed then Some True
         else if Provisioned (mm_Status (the_mm u)) = None then Some False else Provisioned (mm_Status (the_mm u))))"
proof -
  have kn: "MachineIsInKnownState (the_mm u) \<longleftrightarrow> m_State m \<in> set MachineKnownStates"
    by (simp add: MachineIsInKnownState_def in_states_def GetMachineState_def st)
  have ks: "set MachineKnownStates = {MachineStateDeploying, MachineStateDeployed, MachineStateAllocated,
      MachineStateDiskErasing, MachineStateReleasing, MachineStateReady, MachineStateNew}"
    by (auto simp: MachineKnownStates_def MachineOperationalStates_def MachineRunningStates_def)
  have dist: "MachineStateDeployed \<noteq> MachineStateReady" "MachineStateDeployed \<noteq> MachineStateAllocated"
    "MachineStateDeployed \<noteq> MachineStateDiskErasing" "MachineStateDeployed \<noteq> MachineStateReleasing"
    "MachineStateDeployed \<noteq> MachineStateNew" "MachineStateDeployed \<noteq> MachineStateDeploying"
    by (simp_all add: machine_state_defs)
  show ?thesis
  proof (cases "m_State m = MachineStateDeployed")
    case True
    with run dist show ?thesis
      unfolding state_switch_def PowerOnMachine_def GetSystemID_def Machine_PowerOn_def machine_setter_defs set_condition_def
      by (auto simp: Let_def kn ks off_def GetMachineState_def st sid run_api since_def split: if_splits)
  next
    case False
    with run show ?thesis
      unfolding state_switch_def machine_setter_defs set_condition_def Eventf_def
      by (auto simp: Let_def kn ks off_def [symmetric] GetMachineState_def st run_call since_def split: if_splits)
  qed
qed

text \<open>
  C19: readiness and power. Driving a machine that MAAS reports: it is marked ready only in state
  Deployed, and every other known or unknown state marks it not ready; once the infrastructure was
  reported as provisioned it stays so; and a power-on is requested exactly when the machine is
  Deployed and its power is a confirmed off, for this machine only. A Deployed machine whose power
  state is an error or unknown is ready and is never power-cycled.
\<close>

theorem drive_machine_ready_and_power:
  assumes run: "run_state (drive_machine E cm cl m) s = ((res, rerr), t)"
    and np: "\<forall>e. rerr = Some e \<longrightarrow> \<not> is_panic e"
  shows "(Ready (mm_Status (the_mm t)) \<longrightarrow> m_State m = MachineStateDeployed) \<and>
    (m_State m = MachineStateDeployed \<and> m_PowerState m \<noteq> ''off'' \<longrightarrow>
       Ready (mm_Status (the_mm t)) \<and> Provisioned (mm_Status (the_mm t)) = Some True) \<and>
    (Provisioned (mm_Status (the_mm s)) = Some True \<longrightarrow> Provisioned (mm_Status (the_mm t)) = Some True) \<and>
    ((\<exists>e. e \<in> set (drop (length (trace s)) (trace t)) \<and> is_power_on e) \<longleftrightarrow>
       m_State m = MachineStateDeployed \<and> m_PowerState m = ''off'') \<and>
    (\<forall>sid ok. Maas (MachinePowerOn sid ok) \<in> set (drop (length (trace s)) (trace t)) \<longrightarrow> sid = m_ID m)"
proof -
  obtain r u where u: "run_state (record_machine m) s = (r, u)" by fastforce
  note rec = record_machine_spec [OF u]
  from rec run u np have ok: "r = Inr ()"
    by (cases r) (auto simp: drive_machine_def)
  obtain early v where v: "run_state (state_switch E m) u = (early, v)" by fastforce
  have st: "MachineState (mm_Status (the_mm u)) = Some (m_State m)" "SystemID (mm_Spec (the_mm u)) = Some (m_ID m)"
    using rec ok by auto
  note sw = state_switch_spec [OF v st]
  have off: "isConfirmedPoweredOff (m_PowerState m) \<longleftrightarrow> m_PowerState m = ''off''"
    by (simp add: isConfirmedPoweredOff_def MachinePowerStateOff_def)
  show ?thesis
  proof (cases "m_State m = MachineStateDeployed \<and> m_PowerState m = ''off''")
    case True
    with sw off obtain pok x where p: "trace v = trace s @ [Maas (MachinePowerOn (m_ID m) pok)]"
      "early = Some x" "the_mm v = the_mm u" using rec by auto
    with run u v ok have "t = v" by (auto simp: drive_machine_def)
    with p True rec show ?thesis by auto
  next
    case False
    with sw off have f: "since (\<lambda>e. \<not> is_power_on e) u v" "early = None"
       "Ready (mm_Status (the_mm v)) = (m_State m = MachineStateDeployed)"
       "Provisioned (mm_Status (the_mm v)) = (if m_State m = MachineStateDeployed then Some True
         else if Provisioned (mm_Status (the_mm u)) = None then Some False else Provisioned (mm_Status (the_mm u)))"
      by auto
    from run u v ok f(2) have a: "run_state (after_state E cm cl m) v = ((res, rerr), t)"
      by (simp add: drive_machine_def)
    have "since (\<lambda>e. \<not> is_power_on e) u t"
      using since_trans [OF f(1) emits_since [OF no_power_after_state a]] .
    then have "since (\<lambda>e. \<not> is_power_on e) s t" using rec by (simp add: since_def)
    then have "\<not> is_power_on e" if "e \<in> set (drop (length (trace s)) (trace t))" for e
      using since_not_in that by blast
    then have none: "(\<nexists>e. e \<in> set (drop (length (trace s)) (trace t)) \<and> is_power_on e) \<and>
        (\<forall>sid ok. Maas (MachinePowerOn sid ok) \<notin> set (drop (length (trace s)) (trace t)))"
      using is_power_on.simps(1) by blast
    have "readiness t = readiness v" using keepsD [OF keeps_after_state a] .
    with f none False rec show ?thesis by auto
  qed
qed

definition bmc_error_machine :: machine where
  "bmc_error_machine = fromSDKTypeToMachine (sample_machine\<lparr>sdk_PowerState := ''error''\<rparr>)"

definition offline_env :: env where
  "offline_env = sample_env\<lparr>remote := sample_remote\<lparr>remote_client_r := (\<lambda>_ _. not_found)\<rparr>\<rparr>"

lemmas drive_eval = drive_machine_def record_machine_def state_switch_def after_state_defs deref_def
  GetInstanceID_def NewProviderID_def GetProviderID_def provider_id_string_def providerIDRegex_Match_def
  pid_Validate_def after_last_slash_def HasPrefix_def MachineIsInKnownState_def MachineIsOperational_def
  in_states_def GetMachineState_def MachineKnownStates_def MachineOperationalStates_def
  MachineRunningStates_def machine_state_defs isConfirmedPoweredOff_def MachinePowerStateOff_def
  IsControlPlane_def map_has_def call_defs run_api run_call Let_def

theorem drive_machine_ready_and_power_witness:
  "\<exists>res t. run_state (drive_machine offline_env sample_capi_machine sample_cluster bmc_error_machine)
       sample_sys = ((res, None), t) \<and> Ready (mm_Status (the_mm t)) \<and>
     (\<nexists>e. e \<in> set (trace t) \<and> is_power_on e)"
proof -
  have m: "m_State bmc_error_machine = MachineStateDeployed" "m_PowerState bmc_error_machine \<noteq> ''off''"
    by (simp_all add: bmc_error_machine_def fromSDKTypeToMachine_def sample_machine_def Let_def machine_state_defs)
  obtain res t where t: "run_state (drive_machine offline_env sample_capi_machine sample_cluster bmc_error_machine)
      sample_sys = ((res, None), t)"
    by (simp add: drive_eval offline_env_def bmc_error_machine_def fromSDKTypeToMachine_def sample_defs ToLower_def
        EqualFold_def Contains_def)
  from drive_machine_ready_and_power [OF t] m t show ?thesis by (simp add: sample_sys_def)
qed

section \<open>Nothing is acquired for an unprotected machine\<close>

fun acquires :: "event \<Rightarrow> bool" where
  "acquires (Maas (MachineAllocate al ok)) = True"
| "acquires (Maas (MachineDeploy sid dp ok)) = True"
| "acquires (Maas (VMHostCompose h ps ok)) = True"
| "acquires (Maas (MachinePowerOn sid ok)) = True"
| "acquires _ = False"

definition is_host_machine :: "maas_machine \<Rightarrow> bool" where
  "is_host_machine mm \<longleftrightarrow> Parent (mm_Spec mm) = None \<or> Parent (mm_Spec mm) = Some []"

definition protected :: "env \<Rightarrow> maas_machine \<Rightarrow> maas_cluster \<Rightarrow> capi_cluster \<Rightarrow> capi_machine \<Rightarrow> bool" where
  "protected E mm mc cl cm \<longleftrightarrow> om_DeletionTimestamp (mm_Meta mm) = None \<and>
     has_finalizer E mm MachineFinalizer \<and>
     (is_host_machine mm \<and> IsLXDHostEnabled mc \<longrightarrow> has_finalizer E mm HostEvacuationFinalizer) \<and>
     cl_InfrastructureProvisioned cl = Some True \<and> cam_DataSecretName cm \<noteq> None"

lemmas delete_defs = machine_reconcileDelete_def findMachine_def shouldGateFinalizerRemoval_def
  bestEffortUnregisterLXDHost_def forceDeleteGuestVMsIfControlPlane_def
  tryReleaseWithVMHostHandling_def maybeDeleteDynamicLXDVM_def finalizeMachineDeletion_def
  reconcileDNSAttachment_def set_finalizers_def GetMaasClientIdentity_def GetMAASCredentials_def
  UnregisterLXDHostByNameWithMaasClient_def DeleteLXDVMWithMaasClient_def dns_NewService_def dns_defs
  set_dns_attached_def SetDNSName_def

lemma emits_delete_guests [emits_intros]:
  assumes "\<And>i. P (Maas (MachineGet i))" "\<And>i ok. P (Maas (MachineDelete i ok))"
  shows "emits P (delete_guests E gs)"
  by (induction gs) (auto simp: call_defs assms intro!: emits_intros)

lemma no_acquire_delete: "emits (\<lambda>e. \<not> acquires e) (machine_reconcileDelete E cm cl)"
  unfolding delete_defs machine_svc_defs call_defs Let_def by (intro emits_intros emits_modify) simp_all

lemma no_acquire_patch: "emits (\<lambda>e. \<not> acquires e) (machine_PatchObject E cm)"
  unfolding machine_svc_defs call_defs Let_def by (intro emits_intros emits_modify) simp_all

lemma reconcileNormal_protected:
  assumes "run_state (machine_reconcileNormal E cm cl) s = (r, t)" and "trace t \<noteq> trace s"
    and "om_DeletionTimestamp (mm_Meta (the_mm s)) = None"
  shows "protected E (the_mm s) (the_mc s) cl cm"
proof (rule ccontr)
  assume "\<not> ?thesis"
  then have "trace t = trace s"
    using assms(1,3) unfolding machine_reconcileNormal_def protected_def is_host_machine_def Let_def
      set_finalizers_def set_condition_def machine_setter_defs
    by (auto split: if_splits)
  with assms(2) show False by simp
qed

text \<open>The reads before the handler, and what reaches the handler.\<close>

fun reconcile_read :: "event \<Rightarrow> bool" where
  "reconcile_read (Kube (MaasMachineGet ns nm)) = True"
| "reconcile_read (Kube (OwnerMachineGet nm)) = True"
| "reconcile_read (Kube (ClusterFromMetadata ns)) = True"
| "reconcile_read (Kube (MaasClusterGet ns nm)) = True"
| "reconcile_read _ = False"

abbreviation handler :: "env \<Rightarrow> maas_machine \<Rightarrow> capi_machine \<Rightarrow> capi_cluster \<Rightarrow> reconcile_result io" where
  "handler E mm cm cl \<equiv> (if om_DeletionTimestamp (mm_Meta mm) \<noteq> None
     then machine_reconcileDelete E cm cl else machine_reconcileNormal E cm cl)"

lemma machine_Reconcile_cases:
  assumes run: "run_state (machine_Reconcile E ns nm) s = (res, t)"
  obtains (quiet) es where "trace t = trace s @ es" "list_all reconcile_read es"
  | (handled) mm cm cl mc es where "maasmachine_get_r (kube E) ns nm (trace s) = Inr mm"
    "\<exists>tr. maascluster_get_r (kube E) (om_Namespace (mm_Meta mm)) (cl_InfraRefName cl) tr = Inr mc"
    "list_all reconcile_read es"
    "run_state (with_close E cm (handler E mm cm cl))
       (s\<lparr>trace := trace s @ es, the_mm := mm, the_mc := mc\<rparr>) = (res, t)"
proof (cases "maasmachine_get_r (kube E) ns nm (trace s)")
  case (Inl e)
  with run have "trace t = trace s @ [Kube (MaasMachineGet ns nm)]"
    unfolding machine_Reconcile_def MaasMachine_Get_def
    by (auto simp: run_api lift_err_def split: prod.splits if_splits)
  with quiet show thesis by simp
next
  case (Inr mm)
  define body where "body cm cl = with_close E cm (handler E mm cm cl)" for cm cl
  show thesis
  proof (cases "\<exists>es. trace t = trace s @ es \<and> list_all reconcile_read es")
    case True
    with quiet show thesis by blast
  next
    case False
    from run False Inr obtain cm cl mc es where
      "run_state (body cm cl) (s\<lparr>trace := trace s @ es, the_mm := mm, the_mc := mc\<rparr>) = (res, t)"
      "\<exists>tr. maascluster_get_r (kube E) (om_Namespace (mm_Meta mm)) (cl_InfraRefName cl) tr = Inr mc"
      "list_all reconcile_read es"
      unfolding machine_Reconcile_def MaasMachine_Get_def GetOwnerMachine_def
        GetClusterFromMetadata_def MaasCluster_Get_def
      by (auto simp: run_api body_def [symmetric] simp del: not_None_eq
          split: sum.splits option.splits if_splits) (rule that, assumption, blast, simp)
    with handled [OF Inr] show thesis unfolding body_def by blast
  qed
qed

lemma with_close_parts:
  assumes "run_state (with_close E cm body) s = (res, t)"
  obtains r v c where "run_state body s = (r, v)" "run_state (machine_PatchObject E cm) v = (c, t)"
  using assms by (auto simp: with_close_def split: prod.splits)

text \<open>A reconcile that acquires something found its machine protected, and not being deleted.\<close>

lemma acquire_protected:
  assumes run: "run_state (machine_Reconcile E ns nm) s = (res, t)"
    and ev: "e \<in> set (drop (length (trace s)) (trace t))" "acquires e"
  obtains mm cm cl mc where "maasmachine_get_r (kube E) ns nm (trace s) = Inr mm"
    "\<exists>tr. maascluster_get_r (kube E) (om_Namespace (mm_Meta mm)) (cl_InfraRefName cl) tr = Inr mc"
    "protected E mm mc cl cm"
  using run
proof (cases rule: machine_Reconcile_cases)
  case (quiet es)
  with ev have "reconcile_read e" by (auto simp: list_all_iff)
  with ev(2) show thesis by (cases e rule: acquires.cases) simp_all
next
  case (handled mm cm cl mc es)
  let ?u = "s\<lparr>trace := trace s @ es, the_mm := mm, the_mc := mc\<rparr>"
  from with_close_parts [OF handled(4)] obtain r v c where v: "run_state (handler E mm cm cl) ?u = (r, v)"
    and c: "run_state (machine_PatchObject E cm) v = (c, t)" .
  from emitsD [OF no_acquire_patch c] obtain gs where
    gs: "trace t = trace v @ gs" "list_all (\<lambda>e. \<not> acquires e) gs" by blast
  have "\<not> acquires x" if "reconcile_read x" for x using that by (cases x rule: reconcile_read.cases) simp_all
  with handled(3) have "list_all (\<lambda>e. \<not> acquires e) es" by (simp add: list_all_iff)
  then have quiet: "\<not> (\<exists>fs. trace v = trace ?u @ fs \<and> list_all (\<lambda>e. \<not> acquires e) fs)"
    using ev gs by (auto simp: list_all_iff)
  have nd: "om_DeletionTimestamp (mm_Meta mm) = None"
  proof (rule ccontr)
    assume "\<not> ?thesis"
    with v have "run_state (machine_reconcileDelete E cm cl) ?u = (r, v)" by simp
    from emitsD [OF no_acquire_delete this] quiet show False by blast
  qed
  with v have n: "run_state (machine_reconcileNormal E cm cl) ?u = (r, v)" by simp
  have "trace v \<noteq> trace ?u" using quiet by auto
  from reconcileNormal_protected [OF n this] nd that handled(1,2) show thesis by simp
qed

text \<open>
  C1: nothing is acquired for an unprotected machine. If a reconcile allocates, composes, deploys or
  powers on anything in MAAS, then the \<open>MaasMachine\<close> that the API server returned at its start was not
  being deleted and already carried the machine finalizer, and the evacuation finalizer too when it
  is a host of an LXD-enabled cluster; the cluster's infrastructure was provisioned and the bootstrap
  secret was named. So a deletion at any later point finds the finalizer that makes it release.
\<close>

theorem acquire_only_when_protected:
  assumes run: "run_state (machine_Reconcile E ns nm) s = (res, t)"
    and ev: "e \<in> set (drop (length (trace s)) (trace t))" "acquires e"
  shows "\<exists>mm cm cl mc. maasmachine_get_r (kube E) ns nm (trace s) = Inr mm \<and>
    (\<exists>tr. maascluster_get_r (kube E) (om_Namespace (mm_Meta mm)) (cl_InfraRefName cl) tr = Inr mc) \<and>
    protected E mm mc cl cm"
  by (rule acquire_protected [OF run ev]) blast

definition guarded_mm :: maas_machine where
  "guarded_mm = sample_mm\<lparr>mm_Meta := (sample_meta ''m-1'')\<lparr>om_Finalizers := [MachineFinalizer]\<rparr>\<rparr>"

definition allocate_env :: env where
  "allocate_env = sample_env\<lparr>
     maas := sample_maas\<lparr>machine_allocate_r := (\<lambda>_ _. Inl (OtherReason, ''none left''))\<rparr>,
     kube := sample_kube\<lparr>maasmachine_get_r := (\<lambda>_ _ _. Inr guarded_mm),
       secret_get_r := (\<lambda>_ _ _. Inr [(''value'', ''boot'')])\<rparr>\<rparr>"

lemmas reconcile_eval = machine_Reconcile_def with_close_def machine_reconcileNormal_def has_finalizer_def
  NewMaasClient_def findMachine_def GetInstanceID_def NewProviderID_def deploy_step_def deployMachine_def
  resolveUserData_def GetRawBootstrapData_def set_condition_def errors_Is_def is_panic_def deploy_eval

theorem acquire_only_when_protected_witness:
  "\<exists>mm. maasmachine_get_r (kube allocate_env) ''cluster-1'' ''m-1'' [] = Inr mm \<and>
     has_finalizer allocate_env mm MachineFinalizer \<and>
     (\<exists>al. Maas (MachineAllocate al False) \<in>
        set (trace (snd (run_state (machine_Reconcile allocate_env ''cluster-1'' ''m-1'') sample_sys))))"
proof -
  obtain res t where run: "run_state (machine_Reconcile allocate_env ''cluster-1'' ''m-1'') sample_sys = (res, t)"
    by fastforce
  have not_broken: "\<not> Contains ''none left'' ''Invalid transition: Broken''" by code_simp
  have "\<exists>al. Maas (MachineAllocate al False) \<in>
      set (trace (snd (run_state (machine_Reconcile allocate_env ''cluster-1'' ''m-1'') sample_sys)))"
    by (simp add: reconcile_eval allocate_env_def guarded_mm_def sample_defs map_has_def not_broken Let_def
        MachineFinalizer_def MachineDeployFailedReason_def del: base64_Encode.simps)
  then obtain al where al: "Maas (MachineAllocate al False) \<in> set (drop (length (trace sample_sys)) (trace t))"
    using run by (auto simp: sample_sys_def)
  from acquire_only_when_protected [OF run al] al run show ?thesis
    by (auto simp: protected_def sample_sys_def)
qed

section \<open>Deletion releases the machine first\<close>

abbreviation finalizers :: "sys \<Rightarrow> string list" where
  "finalizers s \<equiv> om_Finalizers (mm_Meta (the_mm s))"

lemma keeps_fin_release:
  "keeps finalizers (tryReleaseWithVMHostHandling E cm m)"
  "keeps finalizers (bestEffortUnregisterLXDHost E m)"
  "keeps finalizers (maybeDeleteDynamicLXDVM E sid)"
  "keeps finalizers (reconcileDNSAttachment E cm cl m)"
  "keeps finalizers (findMachine E)"
proof -
  have "keeps finalizers (delete_guests E gs)" for gs
    by (induction gs) (auto simp: call_defs intro!: keeps_mm_rules)
  then show "keeps finalizers (tryReleaseWithVMHostHandling E cm m)"
    unfolding delete_defs machine_svc_defs call_defs Let_def by (intro keeps_mm_rules)
  show "keeps finalizers (bestEffortUnregisterLXDHost E m)"
    "keeps finalizers (maybeDeleteDynamicLXDVM E sid)"
    "keeps finalizers (reconcileDNSAttachment E cm cl m)"
    "keeps finalizers (findMachine E)"
    unfolding delete_defs machine_svc_defs call_defs Let_def by (intro keeps_mm_rules; simp)+
qed

lemma ReleaseMachine_ok:
  "run_state (ReleaseMachine E sid) u = (Inr x, v) \<Longrightarrow>
   Maas (MachineRelease sid False True) \<in> set (drop (length (trace u)) (trace v))"
  by (auto simp: ReleaseMachine_def Machine_Release_def run_api split: sum.splits prod.splits)

definition maas_not_found :: "gerr \<Rightarrow> bool" where
  "maas_not_found e \<longleftrightarrow> Contains (err_Error e) ''status: 404'' \<or>
     Contains (ToLower (err_Error e)) ''no machine matches''"

lemma findMachine_none:
  assumes "run_state (findMachine E) s = (Inr None, u)"
  shows "GetInstanceID (the_mm s) \<in> {None, Some []} \<or>
    (\<exists>sid tr e. GetInstanceID (the_mm s) = Some sid \<and> lift_err (machine_get_r (maas E) sid tr) = Inl e \<and> maas_not_found e)"
  using assms unfolding findMachine_def GetMachine_def Machine_Get_def maas_not_found_def
  by (auto simp: run_api split: option.splits if_splits sum.splits prod.splits)

lemma findMachine_some:
  assumes "run_state (findMachine E) s = (Inr (Some m), u)"
  shows "\<exists>sid tr x. GetInstanceID (the_mm s) = Some sid \<and> machine_get_r (maas E) sid tr = Inr x \<and>
    m = fromSDKTypeToMachine x"
  using assms unfolding findMachine_def GetMachine_def Machine_Get_def
  by (auto simp: run_api split: option.splits if_splits sum.splits prod.splits)

lemma findMachine_mm: "keeps the_mm (findMachine E)"
  unfolding findMachine_def GetMachine_def call_defs by (intro emits_intros)

lemma tryRelease_released:
  assumes "run_state (tryReleaseWithVMHostHandling E cm m) s = (Inr (), t)"
  shows "Maas (MachineRelease (m_ID m) False True) \<in> set (drop (length (trace s)) (trace t))"
proof -
  obtain r u where u: "run_state (ReleaseMachine E (m_ID m)) s = (r, u)" by fastforce
  show ?thesis
  proof (cases r)
    case (Inr x)
    with assms u ReleaseMachine_ok [of E "m_ID m" s x u] show ?thesis by (auto simp: tryReleaseWithVMHostHandling_def)
  next
    case (Inl e)
    have any: "emits (\<lambda>_. True) (ReleaseMachine E i)" "emits (\<lambda>_. True) (GetMaasClientIdentity E)"
      "emits (\<lambda>_. True) (UnregisterLXDHostByNameWithMaasClient E h)"
      "emits (\<lambda>_. True) (if b then forceDeleteGuestVMsIfControlPlane E i else ret ())" for i h b
      unfolding delete_defs machine_svc_defs call_defs Let_def by (intro emits_intros TrueI)+
    from assms u Inl obtain a v b w c x y where
      "run_state (GetMaasClientIdentity E) u = (a, v)"
      "run_state (if IsLXDHostEnabled (the_mc s) \<and> IsControlPlane E cm
         then forceDeleteGuestVMsIfControlPlane E (m_ID m) else ret ()) v = (b, w)"
      "run_state (UnregisterLXDHostByNameWithMaasClient E (canonicalLXDHostName (m_Hostname m))) w = (c, x)"
      and y: "run_state (ReleaseMachine E (m_ID m)) x = (Inr (), t)"
      unfolding tryReleaseWithVMHostHandling_def
      by (auto simp: Let_def split: prod.splits if_splits sum.splits)
    then have "prefix (trace s) (trace x)"
      using emitsD [OF any(1) u] emitsD [OF any(2)] emitsD [OF any(3)] emitsD [OF any(4)]
      by (smt (verit) append.assoc prefixI)
    with ReleaseMachine_ok [OF y] show ?thesis by (rule in_new_mono [rotated])
  qed
qed

text \<open>The evidence a deletion needs before it drops the machine finalizer.\<close>

definition released_or_gone :: "env \<Rightarrow> maas_machine \<Rightarrow> event list \<Rightarrow> bool" where
  "released_or_gone E mm es \<longleftrightarrow>
     (\<exists>sid tr x. GetInstanceID mm = Some sid \<and> machine_get_r (maas E) sid tr = Inr x \<and>
        Maas (MachineRelease (sdk_SystemID x) False True) \<in> set es) \<or>
     ((GetInstanceID mm \<in> {None, Some []} \<or>
       (\<exists>sid tr e. GetInstanceID mm = Some sid \<and> lift_err (machine_get_r (maas E) sid tr) = Inl e \<and>
          maas_not_found e)) \<and>
      (\<forall>ts. om_DeletionTimestamp (mm_Meta mm) = Some ts \<longrightarrow> (\<exists>tr. clock_r E tr - ts \<ge> 120)))"

abbreviation dropped :: "sys \<Rightarrow> sys \<Rightarrow> bool" where
  "dropped s t \<equiv> MachineFinalizer \<in> set (finalizers s) \<and> MachineFinalizer \<notin> set (finalizers t)"

lemma delete_evacuating:
  assumes "finalizer_laws (lib_of E)" "run_state (machine_reconcileDelete E cm cl) s = (r, t)"
    and "HostEvacuationFinalizer \<in> set (finalizers s)"
  shows "\<not> dropped s t \<and> (SystemID (mm_Spec (the_mm s)) \<notin> {None, Some []} \<longrightarrow> t = s)"
proof -
  have "HostEvacuationFinalizer \<noteq> MachineFinalizer"
    by (simp add: HostEvacuationFinalizer_def MachineFinalizer_def)
  with assms show ?thesis
    unfolding machine_reconcileDelete_def finalizer_laws_def has_finalizer_def set_finalizers_def
    by (auto split: if_splits)
qed

lemma delete_steps:
  assumes laws: "finalizer_laws (lib_of E)" and run: "run_state (machine_reconcileDelete E cm cl) s = (r, t)"
    and ne: "HostEvacuationFinalizer \<notin> set (finalizers s)" and gone: "dropped s t"
  obtains (absent) u where "run_state (findMachine E) s = (Inr None, u)"
      "\<forall>ts. om_DeletionTimestamp (mm_Meta (the_mm s)) = Some ts \<longrightarrow> (\<exists>tr. clock_r E tr - ts \<ge> 120)"
  | (found) m u y v w q z where "run_state (findMachine E) s = (Inr (Some m), u)"
      "run_state (reconcileDNSAttachment E cm cl m) u = (Inr y, v)"
      "run_state (if IsLXDHostEnabled (the_mc s) \<and> IsControlPlane E cm then bestEffortUnregisterLXDHost E m
         else ret ()) v = ((), w)"
      "run_state (tryReleaseWithVMHostHandling E cm m) w = (q, z)" "q = Inr () \<or> finalizers z = finalizers t"
      "run_state (case q of Inl e \<Rightarrow> ret (NoRequeue, Some e)
         | Inr _ \<Rightarrow> do { maybeDeleteDynamicLXDVM E (m_ID m); finalizeMachineDeletion E; reconcile_done }) z = (r, t)"
proof -
  obtain f u where u: "run_state (findMachine E) s = (f, u)" by fastforce
  have mm: "the_mm u = the_mm s" using keepsD [OF findMachine_mm u] .
  note step = run [unfolded machine_reconcileDelete_def has_finalizer_def]
  consider e where "f = Inl e" | "f = Inr None" | m where "f = Inr (Some m)"
    by (metis sum.exhaust option.exhaust)
  then show thesis
  proof cases
    case 1
    with ne laws step u gone mm show thesis by (auto simp: finalizer_laws_def split: sum.splits)
  next
    case 2
    with ne laws step u gone mm
    have "\<forall>ts. om_DeletionTimestamp (mm_Meta (the_mm s)) = Some ts \<longrightarrow> (\<exists>tr. clock_r E tr - ts \<ge> 120)"
      unfolding shouldGateFinalizerRemoval_def time_Now_def finalizer_laws_def
      by (auto simp: run_call not_less split: option.splits if_splits sum.splits)
    with absent u 2 show thesis by simp
  next
    case 3
    obtain d v where d: "run_state (reconcileDNSAttachment E cm cl m) u = (d, v)" by fastforce
    from keepsD [OF keeps_fin_release(4) d] mm have fin: "finalizers v = finalizers s" by simp
    then obtain y where y: "d = Inr y"
      using 3 ne laws step u d gone by (cases d) (auto simp: finalizer_laws_def split: if_splits sum.splits)
    let ?bu = "if IsLXDHostEnabled (the_mc s) \<and> IsControlPlane E cm then bestEffortUnregisterLXDHost E m else ret ()"
    obtain w where w: "run_state ?bu v = ((), w)" by (metis old.unit.exhaust prod.collapse)
    obtain q z where q: "run_state (tryReleaseWithVMHostHandling E cm m) w = (q, z)" by fastforce
    have "run_state (case q of Inl e \<Rightarrow> ret (NoRequeue, Some e)
         | Inr _ \<Rightarrow> do { maybeDeleteDynamicLXDVM E (m_ID m); finalizeMachineDeletion E; reconcile_done }) z = (r, t)"
      using 3 ne laws step u d y w q gone mm
      by (auto simp: finalizer_laws_def split: sum.splits)
    moreover from this have "q = Inr () \<or> finalizers z = finalizers t" by (cases q) auto
    ultimately show thesis using found u 3 d y w q by blast
  qed
qed

lemma delete_found_releases:
  assumes found: "run_state (findMachine E) s = (Inr (Some m), u)"
    and d: "run_state (reconcileDNSAttachment E cm cl m) u = (y, v)"
    and w: "run_state (if b then bestEffortUnregisterLXDHost E m else ret ()) v = ((), w)"
    and q: "run_state (tryReleaseWithVMHostHandling E cm m) w = (Inr (), z)"
    and fin: "run_state (do { maybeDeleteDynamicLXDVM E (m_ID m); finalizeMachineDeletion E; reconcile_done }) z = (r, t)"
  shows "Maas (MachineRelease (m_ID m) False True) \<in> set (drop (length (trace s)) (trace t))"
proof -
  have any: "emits any_event (findMachine E)" "emits any_event (reconcileDNSAttachment E cm cl m)"
    "emits any_event (if b then bestEffortUnregisterLXDHost E m else ret ())"
    "emits any_event (do { maybeDeleteDynamicLXDVM E (m_ID m); finalizeMachineDeletion E; reconcile_done })"
    unfolding delete_defs machine_svc_defs call_defs Let_def by (intro emits_intros emits_modify; simp)+
  have "prefix (trace s) (trace w)" "prefix (trace z) (trace t)"
    using emitsD [OF any(1) found] emitsD [OF any(2) d] emitsD [OF any(3) w] emitsD [OF any(4) fin] by auto
  with in_new_mono [OF _ tryRelease_released [OF q]] show ?thesis by (auto simp: prefix_def)
qed

lemma reconcileDelete_drop:
  assumes laws: "finalizer_laws (lib_of E)" and run: "run_state (machine_reconcileDelete E cm cl) s = (r, t)"
    and gone: "dropped s t"
  shows "released_or_gone E (the_mm s) (drop (length (trace s)) (trace t))"
proof -
  have ne: "HostEvacuationFinalizer \<notin> set (finalizers s)" using delete_evacuating [OF laws run] gone by blast
  from laws run ne gone show ?thesis
  proof (cases rule: delete_steps)
    case (absent u)
    with findMachine_none [OF absent(1)] show ?thesis unfolding released_or_gone_def by blast
  next
    case (found m u y v w q z)
    have "finalizers z = finalizers s"
      using keepsD [OF findMachine_mm found(1)] keepsD [OF keeps_fin_release(4) found(2)]
        keepsD [OF _ found(3), of finalizers] keepsD [OF keeps_fin_release(1) found(4)]
      by (simp add: keeps_fin_release(2) keeps_ret split: if_splits)
    with found(5) \<open>dropped s t\<close> have "q = Inr ()" by auto
    with found delete_found_releases [OF found(1-3)]
    have "Maas (MachineRelease (m_ID m) False True) \<in> set (drop (length (trace s)) (trace t))" by simp
    with findMachine_some [OF found(1)] show ?thesis
      unfolding released_or_gone_def by (auto simp: fromSDKTypeToMachine_def Let_def)
  qed
qed

text \<open>
  C2: a machine keeps its finalizer until its MAAS machine is released. While the evacuation finalizer
  is set on a machine with a system ID, a deletion calls nothing and removes no finalizer. Otherwise,
  if the deletion drops the machine finalizer, then either the release of the machine found by the
  provider ID succeeded in this reconcile, or there is no such machine (no provider ID, or MAAS does
  not know it) and the deletion is at least two minutes old.
\<close>

theorem delete_releases_before_finalizer:
  assumes laws: "finalizer_laws (lib_of E)"
    and run: "run_state (machine_reconcileDelete E cm cl) s = (r, t)"
    and had: "MachineFinalizer \<in> set (finalizers s)"
  shows "(HostEvacuationFinalizer \<in> set (finalizers s) \<and> SystemID (mm_Spec (the_mm s)) \<notin> {None, Some []} \<longrightarrow>
      t = s) \<and>
    (MachineFinalizer \<notin> set (finalizers t) \<longrightarrow>
      (\<exists>sid tr x. GetInstanceID (the_mm s) = Some sid \<and> machine_get_r (maas E) sid tr = Inr x \<and>
         Maas (MachineRelease (sdk_SystemID x) False True) \<in> set (drop (length (trace s)) (trace t))) \<or>
      ((GetInstanceID (the_mm s) \<in> {None, Some []} \<or>
        (\<exists>sid tr e. GetInstanceID (the_mm s) = Some sid \<and> lift_err (machine_get_r (maas E) sid tr) = Inl e \<and>
           maas_not_found e)) \<and>
       (\<forall>ts. om_DeletionTimestamp (mm_Meta (the_mm s)) = Some ts \<longrightarrow> (\<exists>tr. clock_r E tr - ts \<ge> 120))))"
  using delete_evacuating [OF laws run] reconcileDelete_drop [OF laws run] had
  unfolding released_or_gone_def by blast

definition dying_mm :: maas_machine where
  "dying_mm = sample_mm\<lparr>mm_Meta := (sample_meta ''m-1'')\<lparr>om_Finalizers := [MachineFinalizer],
     om_DeletionTimestamp := Some 990\<rparr>,
     mm_Spec := sample_spec\<lparr>ProviderID := Some ''maas:///az1/abc123'', SystemID := Some ''abc123''\<rparr>\<rparr>"

lemmas delete_eval = machine_reconcileDelete_def has_finalizer_def NewMaasClient_def findMachine_def
  GetMachine_def GetInstanceID_def GetProviderID_def NewProviderID_def providerIDRegex_Match_def
  pid_Validate_def after_last_slash_def HasPrefix_def reconcileDNSAttachment_def IsControlPlane_def
  tryReleaseWithVMHostHandling_def ReleaseMachine_def maybeDeleteDynamicLXDVM_def GetDynamicLXD_def
  finalizeMachineDeletion_def set_finalizers_def set_condition_def fromSDKTypeToMachine_def
  machine_setter_defs call_defs run_api run_call map_has_def Let_def

theorem delete_releases_before_finalizer_witness:
  "\<exists>r t sid (x :: sdk_machine). run_state (machine_reconcileDelete sample_env sample_capi_machine sample_cluster)
       (sample_sys\<lparr>the_mm := dying_mm\<rparr>) = (r, t) \<and> MachineFinalizer \<notin> set (finalizers t) \<and>
     GetInstanceID dying_mm = Some sid \<and> Maas (MachineRelease (sdk_SystemID x) False True) \<in> set (trace t)"
proof -
  let ?s = "sample_sys\<lparr>the_mm := dying_mm\<rparr>"
  have inst: "GetInstanceID dying_mm = Some ''abc123''"
    by (simp add: delete_eval dying_mm_def sample_defs)
  have ne: "HostEvacuationFinalizer \<noteq> MachineFinalizer"
    by (simp add: HostEvacuationFinalizer_def MachineFinalizer_def)
  obtain r t where t: "run_state (machine_reconcileDelete sample_env sample_capi_machine sample_cluster) ?s = (r, t)"
    "MachineFinalizer \<notin> set (finalizers t)"
    using ne by (simp add: delete_eval dying_mm_def sample_defs)
  have laws: "finalizer_laws (lib_of sample_env)" using sample_finalizer_laws by (simp add: sample_env_def)
  have had: "MachineFinalizer \<in> set (finalizers ?s)" by (simp add: dying_mm_def)
  have found: "lift_err (machine_get_r (maas sample_env) sid tr) = Inr sample_machine" for sid tr
    by (simp add: sample_env_def sample_maas_def)
  from delete_releases_before_finalizer [OF laws t(1) had, THEN conjunct2, THEN mp, OF t(2)]
  have "\<exists>x :: sdk_machine. Maas (MachineRelease (sdk_SystemID x) False True) \<in> set (trace t)"
    using inst found by (simp add: sample_sys_def) blast
  with t inst show ?thesis by blast
qed

end
