(* ===== verification/Machine_Writes.thy ===== *)
theory Machine_Writes
  imports Machine_Controller
begin

text \<open>
  What the MaasMachine controller may write. A reconcile changes the machine it holds in a handful of
  ways: its status, its annotations, its failure domain, its pair of IDs, its finalizers. The locale
  \<open>machine_writes\<close> is the contract of a predicate that survives all of them but the removal of a finalizer;
  inside it the predicate is shown of every machine that a normal reconcile persists. A predicate that
  does not survive the clearing of the IDs is covered by the release that is requested before, as an
  excuse. The locale \<open>machine_removals\<close> extends the contract to deletions.
\<close>

fun stores :: "(maas_machine \<Rightarrow> bool) \<Rightarrow> event \<Rightarrow> bool" where
  "stores P (Kube (MaasMachinePatch mm ok)) = P mm"
| "stores P (Kube (MaasMachineUpdate mm ok)) = P mm"
| "stores P e = True"

fun is_release :: "event \<Rightarrow> bool" where
  "is_release (Maas (MachineRelease sid force ok)) = True"
| "is_release _ = False"

text \<open>
  \<open>written P X\<close>: everything written so far satisfies \<open>P\<close>, and so does the machine in memory, or an event
  that \<open>X\<close> accepts as an excuse has happened.
\<close>

definition excused :: "(event \<Rightarrow> bool) \<Rightarrow> sys \<Rightarrow> sys \<Rightarrow> bool" where
  "excused X s0 s \<longleftrightarrow> (\<exists>es. trace s = trace s0 @ es \<and> list_ex X es)"

definition written :: "(maas_machine \<Rightarrow> bool) \<Rightarrow> (event \<Rightarrow> bool) \<Rightarrow> sys \<Rightarrow> sys \<Rightarrow> bool" where
  "written P X s0 s \<longleftrightarrow> excused X s0 s \<or> P (the_mm s) \<and> since (stores P) s0 s"

lemma excused_none [simp]: "\<not> excused (\<lambda>_. False) s t"
  by (simp add: excused_def list_ex_iff)

lemma excused_since: "excused X s0 s \<Longrightarrow> since Q s t \<Longrightarrow> excused X s0 t"
  by (auto simp: excused_def since_def)

lemma excused_from: "excused X s t \<Longrightarrow> trace s = trace s0 @ es \<Longrightarrow> excused X s0 t"
  by (auto simp: excused_def)

lemma reconcile_read_stores: "list_all reconcile_read es \<Longrightarrow> list_all (stores P) es"
proof -
  have "reconcile_read e \<Longrightarrow> stores P e" for e by (cases e rule: reconcile_read.cases) simp_all
  then show "list_all reconcile_read es \<Longrightarrow> list_all (stores P) es" by (simp add: list_all_iff)
qed

lemma invar_writtenI:
  assumes "emits Q m"
    and "\<And>s r t. P (the_mm s) \<Longrightarrow> since (stores P) s0 s \<Longrightarrow> run_state m s = (r, t) \<Longrightarrow> written P X s0 t"
  shows "invar (written P X s0) m"
  unfolding invar_def
proof (intro allI impI)
  fix s assume s: "written P X s0 s"
  obtain r t where run: "run_state m s = (r, t)" by fastforce
  have "written P X s0 t"
  proof (cases "excused X s0 s")
    case True
    with excused_since [OF True emits_since [OF assms(1) run]] show ?thesis by (simp add: written_def)
  next
    case False
    with s assms(2) [OF _ _ run] show ?thesis by (simp add: written_def)
  qed
  with run show "written P X s0 (snd (run_state m s))" by simp
qed

lemma invar_written:
  assumes "emits (stores P) m" "keeps the_mm m" shows "invar (written P X s0) m"
proof (rule invar_writtenI [OF assms(1)])
  fix s r t assume "P (the_mm s)" "since (stores P) s0 s" "run_state m s = (r, t)"
  with since_trans [OF _ emits_since [OF assms(1)]] keepsD [OF assms(2)] show "written P X s0 t"
    by (auto simp: written_def)
qed

lemma invar_written_api: "(\<And>r. stores P (ev r)) \<Longrightarrow> invar (written P X s0) (api f ev)"
  by (intro invar_written emits_api keeps_api_mm)

lemma invar_written_call: "(\<And>r. stores P (ev r)) \<Longrightarrow> invar (written P X s0) (call f ev)"
  by (intro invar_written emits_call keeps_call_mm)

lemma invar_written_modify:
  "(\<And>s. trace (g s) = trace s \<and> (P (the_mm s) \<longrightarrow> P (the_mm (g s)))) \<Longrightarrow> invar (written P X s0) (modify g)"
  by (auto simp: invar_def written_def since_def excused_def)

text \<open>The same for a machine without a provider ID, the only kind an allocation is made for.\<close>

definition unbound :: "(maas_machine \<Rightarrow> bool) \<Rightarrow> (event \<Rightarrow> bool) \<Rightarrow> sys \<Rightarrow> sys \<Rightarrow> bool" where
  "unbound P X s0 s \<longleftrightarrow> written P X s0 s \<and> GetProviderID (the_mm s) = []"

section \<open>The contract\<close>

definition bind_ids :: "string \<Rightarrow> string \<Rightarrow> maas_machine \<Rightarrow> maas_machine" where
  "bind_ids i z mm = mm_Spec_update (\<lambda>sp. sp\<lparr>SystemID := Some i, ProviderID := Some (provider_id_string i z)\<rparr>) mm"

locale machine_writes =
  fixes P :: "maas_machine \<Rightarrow> bool" and X :: "event \<Rightarrow> bool" and E :: env
  assumes status: "P mm \<Longrightarrow> P (mm_Status_update g mm)"
    and annotations: "P mm \<Longrightarrow> P (mm_Meta_update (om_Annotations_update h) mm)"
    and domain: "P mm \<Longrightarrow> P (mm_Spec_update (FailureDomain_update k) mm)"
    and cleared: "(\<forall>e. is_release e \<longrightarrow> X e) \<or>
      (\<forall>mm. P mm \<longrightarrow> P (mm_Spec_update (\<lambda>sp. sp\<lparr>ProviderID := None, SystemID := None\<rparr>) mm))"
    and bound: "P mm \<Longrightarrow> P (bind_ids i z mm)"
    and allocated: "P mm \<Longrightarrow> GetProviderID mm = [] \<Longrightarrow>
      P (mm_Spec_update (ProviderID_update (\<lambda>_. Some (provider_id_string i z))) mm)"
    and finalizer: "P mm \<Longrightarrow> P (mm_Meta_update (om_Finalizers_update (\<lambda>fs. AddFinalizer (lib_of E) fs f)) mm)"
begin

lemma written_patch: "invar (written P X s0) (machine_PatchObject E cm)"
proof (rule invar_writtenI)
  show "emits any_event (machine_PatchObject E cm)"
    unfolding machine_PatchObject_def mm_status_update_def MaasMachine_Patch_def Let_def
    by (intro emits_intros emits_modify; simp)
  show "written P X s0 t" if "P (the_mm s)" "since (stores P) s0 s" "run_state (machine_PatchObject E cm) s = (r, t)"
    for s r t
    using that unfolding machine_PatchObject_def mm_status_update_def MaasMachine_Patch_def
    by (auto simp: written_def since_def run_api Let_def status)
qed

lemma written_setters:
  "invar (written P X s0) (mm_status_update g)" "invar (written P X s0) (SetFailureDomain z)"
  "invar (written P X s0) (set_finalizers (\<lambda>fs. AddFinalizer (lib_of E) fs f))"
  unfolding mm_status_update_def SetFailureDomain_def set_finalizers_def mm_spec_update_def
  by (intro invar_written_modify; simp add: status domain finalizer)+

text \<open>The two places that clear the IDs request the release of the MAAS machine first.\<close>

lemma written_released:
  assumes "\<And>r. is_release (ev r)" "invar (written P X s0) m"
  shows "invar (written P X s0) (api g ev \<bind> (\<lambda>_. clear_ids \<bind> (\<lambda>_. m)))"
proof -
  have "invar (written P X s0) (api g ev \<bind> (\<lambda>_. clear_ids))"
  proof (rule invar_writtenI)
    show "emits any_event (api g ev \<bind> (\<lambda>_. clear_ids))"
      unfolding clear_ids_def mm_spec_update_def by (intro emits_intros emits_modify; simp)
    fix s r t
    assume s: "P (the_mm s)" "since (stores P) s0 s" and run: "run_state (api g ev \<bind> (\<lambda>_. clear_ids)) s = (r, t)"
    obtain e where t: "trace t = trace s @ [e]" "is_release e"
      using run assms(1) by (auto simp: run_api clear_ids_def mm_spec_update_def)
    then have quiet: "stores P e" by (cases e rule: is_release.cases) simp_all
    have mm: "the_mm t = mm_Spec_update (\<lambda>sp. sp\<lparr>ProviderID := None, SystemID := None\<rparr>) (the_mm s)"
      using run by (auto simp: run_api clear_ids_def mm_spec_update_def)
    from cleared show "written P X s0 t"
    proof
      assume "\<forall>e. is_release e \<longrightarrow> X e"
      with s(2) t show ?thesis by (auto simp: written_def excused_def since_def)
    next
      assume "\<forall>mm. P mm \<longrightarrow> P (mm_Spec_update (\<lambda>sp. sp\<lparr>ProviderID := None, SystemID := None\<rparr>) mm)"
      with s t(1) mm quiet show ?thesis by (auto simp: written_def since_def)
    qed
  qed
  from invar_bind [OF this assms(2)] show ?thesis by simp
qed

text \<open>The two places that set both IDs do so without a write in between.\<close>

lemma bind_runs:
  "run_state (do { SetSystemID i; SetProviderID i z }) s = ((), the_mm_update (bind_ids i z) s)"
  "run_state (do { SetProviderID i z; SetFailureDomain d; SetSystemID i }) s =
    ((), the_mm_update (\<lambda>mm. mm_Spec_update (FailureDomain_update (\<lambda>_. Some d)) (bind_ids i z mm)) s)"
  by (simp_all add: machine_setter_defs bind_ids_def comp_def)

lemma written_bind:
  assumes "invar (written P X s0) m"
  shows "invar (written P X s0) (do { SetSystemID i; SetProviderID i z; m })"
    "invar (written P X s0) (do { SetProviderID i z; SetFailureDomain d; SetSystemID i; m })"
proof -
  have "invar (written P X s0) (do { SetSystemID i; SetProviderID i z })"
    "invar (written P X s0) (do { SetProviderID i z; SetFailureDomain d; SetSystemID i })"
    unfolding invar_def bind_runs by (simp_all add: written_def since_def excused_def bound domain)
  from invar_bind [OF this(1), of "\<lambda>_. m"] invar_bind [OF this(2), of "\<lambda>_. m"] assms show "invar (written P X s0) (do { SetSystemID i; SetProviderID i z; m })"
    "invar (written P X s0) (do { SetProviderID i z; SetFailureDomain d; SetSystemID i; m })"
    by simp_all
qed

lemmas write_rules = written_bind written_released guard_intros invar_written_api invar_written_call written_patch written_setters

lemmas write_setter_defs = SetAddresses_def SetReady_def SetNotReady_def SetFailureMessage_def SetFailureReason_def
  SetMachineState_def SetPowered_def SetMachineHostname_def set_dns_attached_def set_condition_def

lemma written_consider: "invar (written P X s0) (consider_host E opts counts h)"
  unfolding consider_host_def call_defs Let_def by (intro write_rules; simp)

lemma written_loops:
  "invar (written P X s0) (filter_hosts E opts counts hs)"
  "invar (written P X s0) (vm_with_hostname E nm ms)"
  "invar (written P X s0) (tag_loop E sid tags)"
  "invar (written P X s0) (delete_guests E ms)"
  "invar (written P X s0) (range_keys E ks)"
  subgoal by (induction hs) (auto intro!: write_rules written_consider)
  subgoal by (induction ms) (auto simp: call_defs intro!: write_rules)
  subgoal by (induction tags) (auto simp: call_defs intro!: write_rules)
  subgoal by (induction ms) (auto simp: call_defs intro!: write_rules)
  subgoal by (intro invar_written) (auto intro!: emits_intros)
  done

lemma written_name: "invar (written P X s0) (modify (the_mm_update (mm_Meta_update (om_Annotations_update h))))"
  by (intro invar_written_modify) (simp add: annotations)

lemma written_patch_defs:
  "invar (written P X s0) (record_vm_ids E cm sid z)"
  "invar (written P X s0) (ensure_vm_name E cm)" "invar (written P X s0) (SetDNSName n)"
  unfolding record_vm_ids_def ensure_vm_name_def SetDNSName_def Let_def
  by (intro write_rules written_name invar_written_modify; simp)+

lemma written_select: "invar (written P X s0) (SelectLXDHostWithMaasClient E hosts opts)"
  unfolding SelectLXDHostWithMaasClient_def sort_Slice_def call_defs Let_def
  by (intro write_rules written_loops; simp)

lemma written_find: "invar (written P X s0) (findExistingVMByHostname E cm nm h z)"
  unfolding findExistingVMByHostname_def reuseExistingVM_def call_defs Let_def
  by (intro write_rules written_loops(2) written_patch_defs; simp)

lemma written_tag:
  "invar (written P X s0) (tagCPVM E cl sid)" "invar (written P X s0) (tagVMIfMaintenanceActive E cl sid)"
  unfolding tagCPVM_def tagVMIfMaintenanceActive_def tagVM_def call_defs Let_def
  by (intro write_rules written_loops(3); simp)+

lemmas written_parts = written_loops written_patch_defs written_select written_find written_tag

lemma written_compose: "invar (written P X s0) (compose_on_host E cm cl nm opts h)"
  unfolding compose_on_host_def VMHost_Compose_def Let_def
  by (cases "vmh_Zone h"; simp; intro write_rules written_parts; simp)

lemma written_prepare: "invar (written P X s0) (PrepareLXDVM E cm cl)"
  unfolding PrepareLXDVM_def existing_vm_def VMHosts_List_def Machine_Get_def Let_def
  by (intro write_rules written_parts written_compose; simp)

lemma written_createVM: "invar (written P X s0) (createVMViaMAAS E cm cl ud)"
  unfolding createVMViaMAAS_def deploy_existing_vm_def write_setter_defs call_defs Let_def
  by (intro write_rules written_parts written_prepare; simp)

lemma unbound_api: "(\<And>r. stores P (ev r)) \<Longrightarrow> invar (unbound P X s0) (api f ev)"
  using invar_written_api by (fastforce simp: invar_def unbound_def run_api)

lemma unbound_diagnostics: "invar (unbound P X s0) (logVMHostDiagnostics E e)"
  unfolding logVMHostDiagnostics_def call_defs by (intro guard_intros unbound_api; simp)

lemma unbound_allocated:
  assumes "invar (written P X s0) m"
  shows "guards (unbound P X s0) (written P X s0) (SetProviderID i z \<bind> (\<lambda>_. m))"
proof (rule guardsI)
  fix s r t assume s: "unbound P X s0 s" and run: "run_state (SetProviderID i z \<bind> (\<lambda>_. m)) s = (r, t)"
  let ?u = "the_mm_update (mm_Spec_update (ProviderID_update (\<lambda>_. Some (provider_id_string i z)))) s"
  from run have "run_state m ?u = (r, t)" by (simp add: machine_setter_defs)
  moreover from s have "written P X s0 ?u" by (auto simp: unbound_def written_def since_def excused_def allocated)
  ultimately show "unbound P X s0 t \<or> written P X s0 t" using invarD [OF assms] by blast
qed

lemma written_allocate: "guards (unbound P X s0) (written P X s0) (allocate_machine E cm)"
  unfolding allocate_machine_def call_defs
  by (intro unbound_allocated guard_intros unbound_api unbound_diagnostics written_patch; simp)

lemma written_acquire:
  "invar (written P X s0) (reuse_machine E cm)" "invar (written P X s0) (createBootInterfaceBridge E sid)"
  "invar (written P X s0) (deploy_allocated E ud m)" "invar (written P X s0) (release_failed_deploy E cm m)"
  unfolding reuse_machine_def createBootInterfaceBridge_def deploy_allocated_def release_failed_deploy_def
    call_defs Let_def
  by (intro write_rules written_parts; simp)+

lemma written_deploy: "invar (written P X s0) (DeployMachine E cm cl ud)"
proof -
  have case_panic: "invar (written P X s0) (case e of GoPanic msg \<Rightarrow> f msg | _ \<Rightarrow> g)"
    if "\<And>msg. invar (written P X s0) (f msg)" "invar (written P X s0) g"
    for e and f :: "string \<Rightarrow> machine res io" and g
    using that by (cases e) simp_all
  have acquire: "invar (written P X s0) (do { mm \<leftarrow> gets the_mm;
      if GetProviderID mm = [] then allocate_machine E cm else reuse_machine E cm })"
    unfolding invar_def
  proof (intro allI impI)
    fix s assume w: "written P X s0 s"
    obtain r t where run: "run_state (do { mm \<leftarrow> gets the_mm;
        if GetProviderID mm = [] then allocate_machine E cm else reuse_machine E cm }) s = (r, t)" by fastforce
    then have "written P X s0 t"
      using guardsD [OF written_allocate, of s0 s cm r t] invarD [OF written_acquire(1) w, of cm r t] w
      by (cases "GetProviderID (the_mm s) = []") (auto simp: unbound_def)
    with run show "written P X s0 (snd (run_state (do { mm \<leftarrow> gets the_mm;
        if GetProviderID mm = [] then allocate_machine E cm else reuse_machine E cm }) s))" by simp
  qed
  have again: "gets the_mm \<bind> (\<lambda>mm. gets the_mc \<bind> (\<lambda>mc. if GetDynamicLXD mm then a
      else ok_then (if GetProviderID mm = [] then x else y) (f mc))) =
    gets the_mm \<bind> (\<lambda>mm. gets the_mc \<bind> (\<lambda>mc. if GetDynamicLXD mm then a
      else ok_then (do { mm \<leftarrow> gets the_mm; if GetProviderID mm = [] then x else y }) (f mc)))"
    for a :: "machine res io" and x y :: "sdk_machine res io" and f
    by (rule State_Monad.state.expand) (simp add: fun_eq_iff ok_then_def)
  show ?thesis unfolding DeployMachine_def Let_def again
    by (intro write_rules case_panic acquire written_acquire written_createVM; simp)
qed

lemma written_remove_tag: "invar (written P X s0) (RemoveTagFromHost (NewTagService E) sid t)"
  unfolding tag_service.select_convs NewTagService_def maas_RemoveTagFromHost_def maas_RemoveTagFromMachine_def call_defs Let_def by (intro write_rules; simp)

lemma written_cleanup: "invar (written P X s0) (cleanupStaleTagsAfterDeployment E sid)"
proof -
  have tags: "invar (written P X s0) (remove_tags (NewTagService E) sid ts)" for ts
    by (induction ts) (auto intro!: write_rules written_remove_tag)
  show ?thesis
    unfolding cleanupStaleTagsAfterDeployment_def NewMAASClient_def inventory_service.select_convs
      NewInventoryService_def maas_GetHost_def maas_GetMachine_def GetMAASCredentials_def call_defs Let_def
    by (intro write_rules tags; simp)
qed

lemma written_dns: "invar (written P X s0) (reconcileDNSAttachment E cm cl m)"
  unfolding reconcileDNSAttachment_def write_setter_defs dns_NewService_def MachineIsRegisteredWithAPIServerDNS_def dns_defs call_defs Let_def
  by (intro write_rules written_patch_defs; simp)

lemma written_normal: "invar (written P X s0) (machine_reconcileNormal E cm cl)"
proof -
  have deploy: "invar (written P X s0) (deploy_step E cm cl)"
    unfolding deploy_step_def write_setter_defs deployMachine_def resolveUserData_def GetRawBootstrapData_def call_defs Let_def
    by (intro write_rules written_patch_defs written_deploy written_cleanup; simp)
  have recorded: "invar (written P X s0) (record_machine m)" for m
    unfolding record_machine_def write_setter_defs by (intro write_rules written_patch_defs; simp)
  have state: "invar (written P X s0) (state_switch E m)" for m
    unfolding state_switch_def write_setter_defs PowerOnMachine_def call_defs Let_def
    by (intro write_rules written_patch_defs; simp)
  have after: "invar (written P X s0) (after_state E cm cl m)" for m
    unfolding after_state_def IsAPIServerOnline_def SetNodeProviderID_def findNodeByHostname_def write_setter_defs
      call_defs Let_def
    by (intro write_rules written_patch_defs written_dns; simp)
  show ?thesis
    unfolding machine_reconcileNormal_def write_setter_defs drive_machine_def findMachine_def GetMachine_def call_defs Let_def
    by (intro write_rules written_patch_defs deploy recorded state after; simp)
qed

text \<open>What a whole reconcile stores, from what its handler stores.\<close>

lemma reconcile_written_if:
  assumes run: "run_state (machine_Reconcile E ns nm) s = (res, t)"
    and got: "maasmachine_get_r (kube E) ns nm (trace s) = Inr mm" and P: "P mm"
    and handler: "\<And>cm cl s0. invar (written P X s0) (handler E mm cm cl)"
  shows "excused X s t \<or> since (stores P) s t"
  using run
proof (cases rule: machine_Reconcile_cases)
  case (quiet es)
  then show ?thesis by (auto simp: since_def reconcile_read_stores)
next
  case (handled mm' cm cl mc es)
  have mm': "mm' = mm" using handled(1) got by simp
  have "invar (written P X s) (with_close E cm (handler E mm cm cl))"
    unfolding with_close_def by (intro guard_intros handler written_patch)
  from invarD [OF this _ handled(4) [unfolded mm']] P reconcile_read_stores [OF handled(3)] show ?thesis
    by (auto simp: written_def since_def)
qed

lemma reconcile_written_normal:
  assumes "run_state (machine_Reconcile E ns nm) s = (res, t)"
    and "maasmachine_get_r (kube E) ns nm (trace s) = Inr mm" and "P mm"
    and "om_DeletionTimestamp (mm_Meta mm) = None"
  shows "excused X s t \<or> since (stores P) s t"
  by (rule reconcile_written_if [OF assms(1,2,3)]) (simp add: assms(4) written_normal)

end

text \<open>With the removal of finalizers, the contract covers deletions.\<close>

locale machine_removals = machine_writes +
  assumes removal: "P mm \<Longrightarrow> P (mm_Meta_update (om_Finalizers_update (\<lambda>fs. RemoveFinalizer (lib_of E) fs f)) mm)"
begin

lemma written_removal: "invar (written P X s0) (set_finalizers (\<lambda>fs. RemoveFinalizer (lib_of E) fs f))"
  unfolding set_finalizers_def by (intro invar_written_modify) (simp add: removal)

lemma written_delete: "invar (written P X s0) (machine_reconcileDelete E cm cl)"
  unfolding machine_reconcileDelete_def write_setter_defs findMachine_def GetMachine_def ReleaseMachine_def shouldGateFinalizerRemoval_def
    bestEffortUnregisterLXDHost_def forceDeleteGuestVMsIfControlPlane_def tryReleaseWithVMHostHandling_def
    maybeDeleteDynamicLXDVM_def finalizeMachineDeletion_def GetMaasClientIdentity_def GetMAASCredentials_def
    UnregisterLXDHostByNameWithMaasClient_def DeleteLXDVMWithMaasClient_def call_defs Let_def
  by (intro write_rules written_removal written_loops written_patch_defs written_dns; simp)

lemma reconcile_written:
  assumes "run_state (machine_Reconcile E ns nm) s = (res, t)"
    and "maasmachine_get_r (kube E) ns nm (trace s) = Inr mm" and "P mm"
  shows "excused X s t \<or> since (stores P) s t"
  by (rule reconcile_written_if [OF assms]) (simp add: written_normal written_delete)

end

end
