(* ===== verification/Webhooks.thy ===== *)
theory Webhooks
  imports Machine_Writes
begin

text \<open>
  The admission webhooks, \<open>api/v1beta1/maascluster_webhook.go\<close>, \<open>maasmachine_webhook.go\<close> and
  \<open>maasmachinetemplate_webhook.go\<close>: which fields of an object may not change once it exists.
  Defaulting and the validation of creations and deletions accept everything.
\<close>

section \<open>The webhooks\<close>

definition NewBadRequest :: "string \<Rightarrow> gerr" where
  "NewBadRequest msg = ApiError OtherReason msg"

definition cluster_Default :: "maas_cluster \<Rightarrow> unit res" where "cluster_Default _ = Inr ()"
definition cluster_ValidateCreate :: "maas_cluster \<Rightarrow> unit res" where "cluster_ValidateCreate _ = Inr ()"
definition cluster_ValidateDelete :: "maas_cluster \<Rightarrow> unit res" where "cluster_ValidateDelete _ = Inr ()"

definition cluster_ValidateUpdate :: "maas_cluster \<Rightarrow> maas_cluster \<Rightarrow> unit res" where
  "cluster_ValidateUpdate oldObj newObj =
     (if DNSDomain (mc_Spec newObj) \<noteq> DNSDomain (mc_Spec oldObj)
      then Inl (NewBadRequest ''changing cluster DNS Domain not allowed'') else Inr ())"

definition deref_int :: "int option \<Rightarrow> int res" where
  "deref_int p = (case p of None \<Rightarrow> Inl (GoPanic ''nil pointer dereference'') | Some i \<Rightarrow> Inr i)"

text \<open>\<open>*new != *old\<close>: both pointers are dereferenced, the new one first.\<close>

definition check_unchanged :: "string \<Rightarrow> string \<Rightarrow> int option \<Rightarrow> int option \<Rightarrow> unit res" where
  "check_unchanged msg unit oldp newp = (case deref_int newp of
       Inl e \<Rightarrow> Inl e
     | Inr n \<Rightarrow> (case deref_int oldp of
         Inl e \<Rightarrow> Inl e
       | Inr k \<Rightarrow>
           if n \<noteq> k then Inl (NewBadRequest (msg @ '', old='' @ Sprintf_d k @ unit @ '', new='' @ Sprintf_d n @ unit))
           else Inr ()))"

definition validate_spec_update :: "string \<Rightarrow> maas_machine_spec \<Rightarrow> maas_machine_spec \<Rightarrow> unit res" where
  "validate_spec_update what oldS newS =
     (if Image newS \<noteq> Image oldS then
        Inl (NewBadRequest (what @ '' image change is not allowed, old='' @ Image oldS @ '', new='' @ Image newS))
      else case check_unchanged (what @ '' min cpu count change is not allowed'') [] (MinCPU oldS) (MinCPU newS) of
        Inl e \<Rightarrow> Inl e
      | Inr _ \<Rightarrow> check_unchanged (what @ '' min memory change is not allowed'') '' MB''
          (MinMemoryInMB oldS) (MinMemoryInMB newS))"

definition machine_Default :: "maas_machine \<Rightarrow> unit res" where "machine_Default _ = Inr ()"
definition machine_ValidateCreate :: "maas_machine \<Rightarrow> unit res" where "machine_ValidateCreate _ = Inr ()"
definition machine_ValidateDelete :: "maas_machine \<Rightarrow> unit res" where "machine_ValidateDelete _ = Inr ()"

definition machine_ValidateUpdate :: "maas_machine \<Rightarrow> maas_machine \<Rightarrow> unit res" where
  "machine_ValidateUpdate oldObj newObj = validate_spec_update ''maas machine'' (mm_Spec oldObj) (mm_Spec newObj)"

definition template_Default :: "maas_machine_template \<Rightarrow> unit res" where "template_Default _ = Inr ()"
definition template_ValidateCreate :: "maas_machine_template \<Rightarrow> unit res" where "template_ValidateCreate _ = Inr ()"
definition template_ValidateDelete :: "maas_machine_template \<Rightarrow> unit res" where "template_ValidateDelete _ = Inr ()"

definition template_ValidateUpdate :: "maas_machine_template \<Rightarrow> maas_machine_template \<Rightarrow> unit res" where
  "template_ValidateUpdate oldObj newObj = validate_spec_update ''maas machine template'' (mt_Spec oldObj) (mt_Spec newObj)"

section \<open>What the webhooks accept\<close>

definition sized :: "maas_machine_spec \<Rightarrow> bool" where
  "sized sp \<longleftrightarrow> MinCPU sp \<noteq> None \<and> MinMemoryInMB sp \<noteq> None"

definition same_shape :: "maas_machine_spec \<Rightarrow> maas_machine_spec \<Rightarrow> bool" where
  "same_shape a b \<longleftrightarrow> Image a = Image b \<and> MinCPU a = MinCPU b \<and> MinMemoryInMB a = MinMemoryInMB b"

lemma validate_spec_update_iff:
  "sized a \<Longrightarrow> validate_spec_update w a b = Inr () \<longleftrightarrow> same_shape a b"
  by (auto simp: validate_spec_update_def check_unchanged_def deref_int_def sized_def same_shape_def
      split: option.splits sum.splits)

text \<open>
  The shape of a machine, and the contract of \<open>machine_removals\<close> on it: no write of the controller
  changes a shape.
\<close>

definition shape :: "maas_machine \<Rightarrow> string \<times> int option \<times> int option" where
  "shape mm = (Image (mm_Spec mm), MinCPU (mm_Spec mm), MinMemoryInMB (mm_Spec mm))"

interpretation shaped: machine_removals "\<lambda>mm. shape mm = sh" "\<lambda>_. False" E for sh E
  by unfold_locales (simp_all add: shape_def bind_ids_def)

lemma same_shape_iff: "same_shape (mm_Spec a) (mm_Spec b) \<longleftrightarrow> shape b = shape a"
  by (auto simp: same_shape_def shape_def)

section \<open>The controller and the webhook agree\<close>

text \<open>
  C8: the machine controller never sends an update that the machine webhook rejects. Every write of
  the \<open>MaasMachine\<close> in a run of \<open>Reconcile\<close>, on every path through creation, deployment, failure and
  deletion, against any MAAS and API server, passes \<open>ValidateUpdate\<close> against the object the run read:
  image, CPU count and memory are the ones it was read with. The object read must have both sizes
  set, as the CRD requires: on a missing one the webhook dereferences a nil pointer.
\<close>

theorem reconcile_writes_admitted:
  assumes run: "run_state (machine_Reconcile E ns nm) s = (res, t)"
    and got: "maasmachine_get_r (kube E) ns nm (trace s) = Inr mm" and sized: "sized (mm_Spec mm)"
    and ev: "Kube (MaasMachinePatch mm' ok) \<in> set (drop (length (trace s)) (trace t))"
  shows "machine_ValidateUpdate mm mm' = Inr ()"
proof -
  have "since (stores (\<lambda>m. shape m = shape mm)) s t" using shaped.reconcile_written [OF run got refl] by simp
  from since_not_in [OF this ev] have "same_shape (mm_Spec mm) (mm_Spec mm')"
    by (simp add: same_shape_iff)
  then show ?thesis by (simp add: machine_ValidateUpdate_def validate_spec_update_iff [OF sized])
qed

theorem reconcile_writes_admitted_witness:
  "\<exists>mm'. Kube (MaasMachinePatch mm' True) \<in>
     set (trace (snd (run_state (machine_Reconcile sample_env ''cluster-1'' ''m-1'') sample_sys))) \<and>
   om_Finalizers (mm_Meta mm') = [MachineFinalizer] \<and> machine_ValidateUpdate sample_mm mm' = Inr ()"
proof -
  let ?mm = "sample_mm\<lparr>mm_Meta := (sample_meta ''m-1'')\<lparr>om_Finalizers := [MachineFinalizer]\<rparr>\<rparr>"
  obtain res t where run: "run_state (machine_Reconcile sample_env ''cluster-1'' ''m-1'') sample_sys = (res, t)"
    by fastforce
  then have ev: "\<exists>mm'. Kube (MaasMachinePatch mm' True) \<in> set (trace t) \<and> om_Finalizers (mm_Meta mm') = [MachineFinalizer]"
    by (auto simp: reconcile_eval sample_defs Let_def set_finalizers_def split: prod.splits)
  then obtain mm' where mm': "Kube (MaasMachinePatch mm' True) \<in> set (drop (length (trace sample_sys)) (trace t))"
    "om_Finalizers (mm_Meta mm') = [MachineFinalizer]" by (auto simp: sample_sys_def)
  have "sized (mm_Spec sample_mm)" "maasmachine_get_r (kube sample_env) ''cluster-1'' ''m-1'' (trace sample_sys) = Inr sample_mm"
    by (simp_all add: sized_def sample_mm_def sample_spec_def sample_env_def sample_kube_def)
  from reconcile_writes_admitted [OF run this(2,1) mm'(1)] mm' run show ?thesis
    by (auto simp: sample_sys_def)
qed

end
