(* ===== verification/Hmc_Controller.thy ===== *)
theory Hmc_Controller
  imports Host_Maintenance Guards
begin

text \<open>
  The host maintenance controller, \<open>controllers/host_maintenance_controller.go\<close>. A reconcile is for a
  name that is a \<open>MaasMachine\<close> or the session ConfigMap. For an LXD host of an HCP cluster whose CAPI
  machine is being deleted it runs the evacuation: start or join the session, tag the host, check the
  gates, and only when they are open clean up and remove the finalizer.
\<close>

definition EvacuationCompletedAnnotation :: string where
  "EvacuationCompletedAnnotation = ''maas.lxd.io/evacuation-completed''"

definition GroupVersion_String :: string where
  "GroupVersion_String = ''cluster.x-k8s.io/v1beta2''"

definition isHCPClusterForMachine :: "env \<Rightarrow> bool res io" where
  "isHCPClusterForMachine E = do {
     mm \<leftarrow> gets the_mm;
     r \<leftarrow> GetClusterFromMetadata E (om_Labels (mm_Meta mm)) (om_Namespace (mm_Meta mm));
     case r of
       Inl _ \<Rightarrow> ret (Inr False)
     | Inr cluster \<Rightarrow> do {
         r \<leftarrow> MaasCluster_Get E (om_Namespace (mm_Meta mm)) (cl_InfraRefName cluster);
         ret (case r of
            Inl e \<Rightarrow> (case IgnoreNotFound e of None \<Rightarrow> Inr False | Some e \<Rightarrow> Inl e)
          | Inr mc \<Rightarrow> Inr (isHCPMaasCluster (Some mc))) } }"

fun machine_owner :: "(string \<times> string \<times> string) list \<Rightarrow> string option" where
  "machine_owner [] = None"
| "machine_owner ((kind, apiVersion, nm) # refs) =
     (if kind = ''Machine'' \<and> apiVersion = GroupVersion_String then Some nm else machine_owner refs)"

text \<open>\<open>return ctrl.Result{RequeueAfter: 10 * time.Second}, err\<close>\<close>

abbreviation (input) retry10 :: "gerr \<Rightarrow> reconcile_result io" where
  "retry10 e \<equiv> ret (RequeueAfter 10, Some e)"

text \<open>The end of the evacuation, once the gates are open.\<close>

definition finish_evacuation :: "env \<Rightarrow> host_maintenance_service \<Rightarrow> string \<Rightarrow> session \<Rightarrow> reconcile_result io" where
  "finish_evacuation E svc ns st = do {
     r \<leftarrow> ClearMaintenanceTagsAndRemoveFinalizer E svc;
     case r of
       Inl e \<Rightarrow> retry10 e
     | Inr _ \<Rightarrow> do {
         modify (the_mm_update (mm_Meta_update (om_Annotations_update
           (map_put EvacuationCompletedAnnotation (ss_OpID st)))));
         mm \<leftarrow> gets the_mm;
         _ \<leftarrow> MaasMachine_Update E mm;
         r \<leftarrow> CompleteSession E ns;
         case r of
           Inl e \<Rightarrow> retry10 e
         | Inr _ \<Rightarrow> do {
             _ \<leftarrow> LoadSession E ns;
             reconcile_done } } }"

text \<open>The evacuation of a host whose machine is being deleted and still has the finalizer.\<close>

definition evacuate_host :: "env \<Rightarrow> reconcile_result io" where
  "evacuate_host E = do {
     mm \<leftarrow> gets the_mm;
     let ns = om_Namespace (mm_Meta mm);
     r \<leftarrow> LoadSession E ns;
     case r of
       Inl e \<Rightarrow> retry10 e
     | Inr (st, _) \<Rightarrow> do {
         r \<leftarrow> (if ss_OpID st = [] \<or> ss_Status st \<noteq> StatusActive then
                (case SystemID (mm_Spec mm) of
                   Some sid \<Rightarrow> StartSession E ns sid
                 | None \<Rightarrow> ret (Inr st))
              else ret (Inr st));
         case r of
           Inl e \<Rightarrow> retry10 e
         | Inr st \<Rightarrow>
         case SystemID (mm_Spec mm) of
           None \<Rightarrow> ret (NoRequeue, Some (ErrorString ''maasMachine has no systemID''))
         | Some hostSystemID \<Rightarrow> do {
         r \<leftarrow> NewMAASClient E False ns;
         case r of
           Inl e \<Rightarrow> retry10 e
         | Inr _ \<Rightarrow> do {
         r \<leftarrow> EnsureHostMaintenanceTags (NewTagService E) hostSystemID (ss_OpID st);
         case r of
           Inl e \<Rightarrow> retry10 e
         | Inr _ \<Rightarrow> do {
         r \<leftarrow> NewHostMaintenanceService E ns True;
         case r of
           Inl e \<Rightarrow> retry10 e
         | Inr svc \<Rightarrow> do {
         r \<leftarrow> CheckEvacuationGates E svc;
         case r of
           Inl e \<Rightarrow> retry10 e
         | Inr evacuationReady \<Rightarrow>
             if \<not> evacuationReady then ret (RequeueAfter 10, None)
             else finish_evacuation E svc ns st } } } } } }"

definition reconcileMaasMachine :: "env \<Rightarrow> reconcile_result io" where
  "reconcileMaasMachine E = do {
     mm \<leftarrow> gets the_mm;
     if (case Parent (mm_Spec mm) of None \<Rightarrow> False | Some p \<Rightarrow> p \<noteq> []) then reconcile_done
     else do {
       r \<leftarrow> isHCPClusterForMachine E;
       case r of
         Inl e \<Rightarrow> ret (NoRequeue, Some e)
       | Inr isHCP \<Rightarrow>
       if \<not> isHCP then reconcile_done
       else if om_OwnerReferences (mm_Meta mm) = [] then reconcile_done
       else case machine_owner (om_OwnerReferences (mm_Meta mm)) of
         None \<Rightarrow> reconcile_done
       | Some owner \<Rightarrow> do {
           r \<leftarrow> CapiMachine_Get E (om_Namespace (mm_Meta mm)) owner;
           case r of
             Inl e \<Rightarrow> ret (NoRequeue, IgnoreNotFound e)
           | Inr capiMachine \<Rightarrow>
               if cam_DeletionTimestamp capiMachine = None then reconcile_done
               else if map_get (om_Annotations (mm_Meta mm)) EvacuationCompletedAnnotation \<noteq> []
               then reconcile_done
               else if \<not> ContainsFinalizer (lib_of E) (om_Finalizers (mm_Meta mm)) HostEvacuationFinalizer
               then reconcile_done
               else evacuate_host E } } }"

definition reconcileConfigMap :: "env \<Rightarrow> string \<Rightarrow> string \<Rightarrow> reconcile_result io" where
  "reconcileConfigMap E ns nm =
     (if nm \<noteq> SessionCMName then reconcile_done
      else do {
        r \<leftarrow> LoadSession E ns;
        case r of
          Inl e \<Rightarrow> ret (NoRequeue, Some e)
        | Inr (st, cm) \<Rightarrow> do {
            let (start, host) = ShouldStartFromTrigger cm;
            r \<leftarrow> (if start then StartSession E ns host else ret (Inr st));
            case r of
              Inl e \<Rightarrow> ret (NoRequeue, Some e)
            | Inr st \<Rightarrow>
                if ss_Status st \<noteq> StatusActive \<or> ss_CurrentHost st = [] \<or> ss_OpID st = []
                then reconcile_done
                else if ss_ActiveSessions st > 1
                then ret (NoRequeue, Some (ErrorString (''multiple active sessions detected: '' @
                  Sprintf_d (ss_ActiveSessions st))))
                else do {
                  r \<leftarrow> NewMAASClient E False ns;
                  case r of
                    Inl e \<Rightarrow> ret (NoRequeue, Some e)
                  | Inr _ \<Rightarrow> do {
                      r \<leftarrow> EnsureHostMaintenanceTags (NewTagService E) (ss_CurrentHost st) (ss_OpID st);
                      case r of
                        Inl e \<Rightarrow> ret (NoRequeue, Some e)
                      | Inr _ \<Rightarrow> reconcile_done } } } })"

definition hmc_Reconcile :: "env \<Rightarrow> string \<Rightarrow> string \<Rightarrow> reconcile_result io" where
  "hmc_Reconcile E ns nm = do {
     r \<leftarrow> MaasMachine_Get E ns nm;
     case r of
       Inr mm \<Rightarrow> do { modify (the_mm_update (\<lambda>_. mm)); reconcileMaasMachine E }
     | Inl _ \<Rightarrow> do {
         r \<leftarrow> CM_Get E ns nm;
         case r of
           Inr _ \<Rightarrow> reconcileConfigMap E ns nm
         | Inl _ \<Rightarrow> reconcile_done } }"

section \<open>What each part writes\<close>

text \<open>Everything but a write of a machine object.\<close>

definition no_machine_write :: "event \<Rightarrow> bool" where
  "no_machine_write e \<longleftrightarrow> (\<forall>mm ok. e \<noteq> Kube (MaasMachineUpdate mm ok) \<and> e \<noteq> Kube (MaasMachinePatch mm ok))"

text \<open>Reads of the two API servers only.\<close>

fun read_only :: "event \<Rightarrow> bool" where
  "read_only (Maas e) = (\<not> maas_write e)"
| "read_only (Kube (MaasMachineGet _ _)) = True"
| "read_only (Kube (MaasClusterGet _ _)) = True"
| "read_only (Kube (CapiMachineGet _ _)) = True"
| "read_only (Kube (ClusterFromMetadata _)) = True"
| "read_only (Kube (CMGet _ _)) = True"
| "read_only _ = False"

lemma gate_no_machine_write: "gate_event e \<Longrightarrow> no_machine_write e"
  by (auto simp: no_machine_write_def)

lemma ensure_tags_no_machine_write:
  "emits no_machine_write (EnsureHostMaintenanceTags (NewTagService E) h op)"
  unfolding EnsureHostMaintenanceTags_def NewTagService_def maas_EnsureTagInInventory_def
    maas_AddTagToHost_def call_defs
  by (simp, intro emits_intros) (simp_all add: no_machine_write_def)

lemma new_client_no_machine_write [emits_intros]: "emits no_machine_write (NewMAASClient E b ns)"
  unfolding NewMAASClient_def GetMAASCredentials_def call_defs Let_def
  by (intro emits_intros) (simp_all add: no_machine_write_def)

lemma start_no_machine_write [emits_intros]: "emits no_machine_write (StartSession E ns h)"
proof -
  have "emits no_machine_write (LoadSession E ns)" "\<And>st. emits no_machine_write (SaveSession E ns st)"
    by (blast intro: emits_mono LoadSession_emits SaveSession_emits gate_no_machine_write)+
  then show ?thesis unfolding StartSession_def NewUUID_str_def time_Now_UTC_def Let_def
    by (intro emits_intros) (simp_all add: no_machine_write_def)
qed

lemma keeps_session [emits_intros]:
  "keeps the_mm (LoadSession E ns)" "keeps the_mm (SaveSession E ns st)"
  "keeps the_mm (StartSession E ns h)" "keeps the_mm (CompleteSession E ns)"
  unfolding StartSession_def CompleteSession_def LoadSession_def SaveSession_def call_defs Let_def
  by (intro emits_intros)+

lemma keeps_client [emits_intros]: "keeps the_mm (NewMAASClient E b ns)"
  unfolding NewMAASClient_def GetMAASCredentials_def call_defs Let_def by (intro emits_intros)

lemma keeps_ensure_tags [emits_intros]: "keeps the_mm (EnsureHostMaintenanceTags (NewTagService E) h op)"
  unfolding EnsureHostMaintenanceTags_def
  by (intro emits_intros maas_tags.ensure_mm maas_tags.add_host_mm)

abbreviation calm :: "sys \<Rightarrow> sys \<Rightarrow> bool" where
  "calm \<equiv> quiet no_machine_write the_mm"

lemma calm_parts [guard_intros]:
  "invar (calm s0) (LoadSession E ns)" "invar (calm s0) (StartSession E ns h)"
  "invar (calm s0) (NewMAASClient E b ns)"
  "invar (calm s0) (EnsureHostMaintenanceTags (NewTagService E) h op)"
  "invar (calm s0) (NewHostMaintenanceService E ns rec)"
  "invar (calm s0) (isHCPClusterForMachine E)"
proof -
  show "invar (calm s0) (LoadSession E ns)"
    by (intro invar_quiet emits_intros) (blast intro: emits_mono LoadSession_emits gate_no_machine_write)
  show "invar (calm s0) (StartSession E ns h)" "invar (calm s0) (NewMAASClient E b ns)"
    "invar (calm s0) (EnsureHostMaintenanceTags (NewTagService E) h op)"
    by (intro invar_quiet emits_intros ensure_tags_no_machine_write)+
  show "invar (calm s0) (NewHostMaintenanceService E ns rec)"
    unfolding NewHostMaintenanceService_def by (intro invar_quiet emits_intros)
  show "invar (calm s0) (isHCPClusterForMachine E)"
    unfolding isHCPClusterForMachine_def call_defs
    by (intro invar_quiet emits_intros) (simp_all add: no_machine_write_def)
qed

text \<open>The gates were open at some point that was reached without a write of a machine.\<close>

definition gates_passed :: "env \<Rightarrow> sys \<Rightarrow> sys \<Rightarrow> bool" where
  "gates_passed E s0 t \<longleftrightarrow> (\<exists>u v ns. calm s0 u \<and>
     run_state (CheckEvacuationGates E (maas_host_service E ns True)) u = (Inr True, v) \<and>
     calm s0 v \<and> prefix (trace v) (trace t))"

lemma finish_extends:
  "run_state (finish_evacuation E svc ns st) v = (r, t) \<Longrightarrow>
   svc = maas_host_service E ns rec \<Longrightarrow> prefix (trace v) (trace t)"
proof -
  assume run: "run_state (finish_evacuation E svc ns st) v = (r, t)" and svc: "svc = maas_host_service E ns rec"
  have "emits (\<lambda>_. True) (finish_evacuation E svc ns st)"
    unfolding finish_evacuation_def svc CompleteSession_def LoadSession_def SaveSession_def
      call_defs Let_def
    by (intro emits_intros maas_host.clear_extends) simp_all
  from emits_since [OF this run] show ?thesis by (rule since_prefix)
qed

lemma gates_calm:
  assumes "calm s0 u" "run_state (CheckEvacuationGates E (maas_host_service E ns rec)) u = (r, v)"
  shows "calm s0 v"
proof (rule invarD [OF invar_quiet assms])
  show "emits no_machine_write (CheckEvacuationGates E (maas_host_service E ns rec))"
    by (rule emits_mono [OF maas_host.gates_emit gate_no_machine_write])
  show "keeps the_mm (CheckEvacuationGates E (maas_host_service E ns rec))"
    by (rule maas_host.gates_mm)
qed

lemma evacuate_guarded: "guards (calm s0) (gates_passed E s0) (evacuate_host E)"
proof -
  have svc: "run_state (NewHostMaintenanceService E ns True) s = (Inr svc, t) \<Longrightarrow>
      svc = maas_host_service E ns True" for ns s svc t
    by (auto simp: NewHostMaintenanceService_def split: prod.splits sum.splits)
  have last: "guards (calm s0) (gates_passed E s0) (do {
      r \<leftarrow> NewHostMaintenanceService E ns True;
      case r of
        Inl e \<Rightarrow> retry10 e
      | Inr svc \<Rightarrow> do {
          r \<leftarrow> CheckEvacuationGates E svc;
          case r of
            Inl e \<Rightarrow> retry10 e
          | Inr evacuationReady \<Rightarrow>
              if \<not> evacuationReady then ret (RequeueAfter 10, None)
              else finish_evacuation E svc ns st } })" (is "guards _ _ ?p") for ns st
  proof (rule guardsI)
    fix s r t
    assume s: "calm s0 s" and run: "run_state ?p s = (r, t)"
    obtain q u where q: "run_state (NewHostMaintenanceService E ns True) s = (q, u)" by fastforce
    have u: "calm s0 u" using invarD [OF calm_parts(5) s q] .
    show "calm s0 t \<or> gates_passed E s0 t"
    proof (cases q)
      case (Inl e)
      with run q u show ?thesis by auto
    next
      case (Inr sv)
      with q svc have sv: "sv = maas_host_service E ns True" by blast
      obtain g v where g: "run_state (CheckEvacuationGates E (maas_host_service E ns True)) u = (g, v)"
        by fastforce
      have v: "calm s0 v" by (rule gates_calm [OF u g])
      show ?thesis
      proof (cases "g = Inr True")
        case True
        then have "run_state (finish_evacuation E sv ns st) v = (r, t)" using run q Inr g sv by simp
        from finish_extends [OF this sv] u v g True show ?thesis unfolding gates_passed_def by blast
      next
        case False
        then have "t = v" using run q Inr g sv by (auto split: sum.splits if_splits)
        with v show ?thesis by simp
      qed
    qed
  qed
  show ?thesis unfolding evacuate_host_def Let_def by (intro guard_intros last)
qed

lemma reconcileMaasMachine_gated:
  assumes run: "run_state (reconcileMaasMachine E) s = (r, t)"
    and ev: "\<not> since no_machine_write s t"
  shows "isHostMachine (the_mm s) \<and> (\<exists>h u v ns. SystemID (mm_Spec (the_mm s)) = Some h \<and>
    since no_machine_write s u \<and>
    run_state (CheckEvacuationGates E (maas_host_service E ns True)) u = (Inr True, v) \<and>
    since no_machine_write s v \<and> prefix (trace v) (trace t) \<and>
    fst (run_state (ListHostVMs (NewInventoryService E) h) u) = Inr [])"
proof -
  have "guards (calm s) (gates_passed E s) (reconcileMaasMachine E)"
    unfolding reconcileMaasMachine_def CapiMachine_Get_def
    by (intro guard_intros evacuate_guarded) (simp_all add: no_machine_write_def)
  from guardsD [OF this quiet_refl run] have "calm s t \<or> gates_passed E s t" .
  moreover have "\<not> calm s t"
    using ev by (simp add: quiet_def)
  ultimately obtain u v ns where p: "calm s u" "calm s v" "prefix (trace v) (trace t)"
    "run_state (CheckEvacuationGates E (maas_host_service E ns True)) u = (Inr True, v)"
    unfolding gates_passed_def by blast
  have "the_mm u = the_mm s" using p(1) by (simp add: quiet_def)
  with gates_open_host_empty [OF p(4)] obtain h where
    "SystemID (mm_Spec (the_mm s)) = Some h"
    "fst (run_state (ListHostVMs (NewInventoryService E) h) u) = Inr []"
    by (auto simp: maas_host_service_def)
  moreover have "isHostMachine (the_mm s)"
  proof (rule ccontr)
    assume "\<not> isHostMachine (the_mm s)"
    then have "run_state (reconcileMaasMachine E) s = ((NoRequeue, None), s)"
      by (auto simp: reconcileMaasMachine_def isHostMachine_def split: option.split)
    with run ev show False by auto
  qed
  ultimately show ?thesis using p unfolding quiet_def by blast
qed

text \<open>
  C5: the evacuation finalizer is only removed after the gates opened. If reconciling a machine
  writes any machine object, then the machine is a host with a system ID, and before that write, with
  no other one in between, the inventory returned no VM for the host and both gates were passed. In
  every other case no machine object is written, whatever the servers answer.
\<close>

theorem hmc_write_only_after_gates:
  assumes run: "run_state (reconcileMaasMachine E) s = (r, t)"
    and ev: "Kube (MaasMachineUpdate mm ok) \<in> set (drop (length (trace s)) (trace t))"
  shows "isHostMachine (the_mm s) \<and> (\<exists>h u v ns. SystemID (mm_Spec (the_mm s)) = Some h \<and>
    since no_machine_write s u \<and>
    run_state (CheckEvacuationGates E (maas_host_service E ns True)) u = (Inr True, v) \<and>
    since no_machine_write s v \<and> prefix (trace v) (trace t) \<and>
    fst (run_state (ListHostVMs (NewInventoryService E) h) u) = Inr [])"
proof (rule reconcileMaasMachine_gated [OF run])
  show "\<not> since no_machine_write s t"
    using since_not_in [OF _ ev, of no_machine_write] by (auto simp: no_machine_write_def)
qed

lemma client_prefix: "run_state (NewMAASClient E b ns) s = (r, t) \<Longrightarrow> prefix (trace s) (trace t)"
  by (rule since_prefix [OF emits_since [OF new_client_no_machine_write]])

lemma ensure_prefix: "run_state (EnsureHostMaintenanceTags (NewTagService E) h op) s = (r, t) \<Longrightarrow>
    prefix (trace s) (trace t)"
  by (rule since_prefix [OF emits_since [OF ensure_tags_no_machine_write]])

text \<open>What the server holds after a completion: the trigger as before, and no active session.\<close>

lemma complete_keeps_trigger:
  assumes server: "session_server E ns cm0 uid"
    and cm: "cm_get_r (kube E) ns SessionCMName (trace s) = Inr cm"
    and active: "ss_Status (parse_session (lib_of E) (cm_Data cm)) = StatusActive"
    and run: "run_state (CompleteSession E ns) s = (Inr (), t)"
  obtains cm1 where "\<And>es. last_session_write es = None \<Longrightarrow> cm_get_r (kube E) ns SessionCMName (trace t @ es) = Inr cm1"
    "ShouldStartFromTrigger (Some cm1) = ShouldStartFromTrigger (Some cm)"
    "ss_Status (parse_session (lib_of E) (cm_Data cm1)) \<noteq> StatusActive" "cm_UID cm1 \<noteq> []"
proof -
  let ?st = "(parse_session (lib_of E) (cm_Data cm))\<lparr>ss_Status := StatusCompleted,
    ss_ActiveSessions := 0, ss_CurrentHost := [], ss_AffectedWLCClusters := [],
    ss_PendingReadyVMReplacements := []\<rparr>"
  define v where "v = s\<lparr>trace := trace s @ [Kube (CMGet ns SessionCMName)]\<rparr>"
  have "run_state (LoadSession E ns) s = (Inr (parse_session (lib_of E) (cm_Data cm), Some cm), v)"
    using cm by (simp add: LoadSession_run v_def)
  then have save: "run_state (SaveSession E ns ?st) v = (Inr (), t)"
    using run active by (simp add: CompleteSession_def StatusActive_def StatusCompleted_def)
  have get_v: "cm_get_r (kube E) ns SessionCMName (trace v) = Inr cm"
    using server cm by (simp add: session_server_def v_def last_session_write_append)
  define cm1 where "cm1 = cm\<lparr>cm_Data := write_session (lib_of E) ?st (cm_Data cm), cm_UID := uid\<rparr>"
  from SaveSession_writes [OF save] obtain e where e:
    "trace t = trace v @ [Kube (CMGet ns SessionCMName), e]"
    "session_write e = Some (cm\<lparr>cm_Data := write_session (lib_of E) ?st (cm_Data cm)\<rparr>)"
    by (auto simp: session_base_def get_v)
  have "last_session_write (trace t @ es) =
      (case last_session_write es of None \<Rightarrow> Some (cm\<lparr>cm_Data := write_session (lib_of E) ?st (cm_Data cm)\<rparr>)
       | Some c \<Rightarrow> Some c)" for es
    using e by (simp add: last_session_write_append split: option.split)
  then have get: "last_session_write es = None \<Longrightarrow> cm_get_r (kube E) ns SessionCMName (trace t @ es) = Inr cm1" for es
    using server by (simp add: session_server_def cm1_def)
  have "map_get (cm_Data cm1) cmKeyStatus = StatusCompleted"
    by (simp add: cm1_def write_session_def Let_def session_key_defs)
  then have nact: "ss_Status (parse_session (lib_of E) (cm_Data cm1)) \<noteq> StatusActive"
    by (simp add: parse_session_def Let_def StatusActive_def StatusCompleted_def)
  have trig: "ShouldStartFromTrigger (Some cm1) = ShouldStartFromTrigger (Some cm)"
    by (simp add: ShouldStartFromTrigger_def cm1_def write_session_other session_key_defs)
  have "cm_UID cm1 \<noteq> []" using server by (simp add: session_server_def cm1_def)
  with that get nact trig show thesis by blast
qed

text \<open>Starting a session over an inactive one writes an active one.\<close>

lemma StartSession_activates:
  assumes get: "cm_get_r (kube E) ns SessionCMName (trace w) = Inr cm1"
    "cm_get_r (kube E) ns SessionCMName (trace w @ [Kube (CMGet ns SessionCMName), NewUUID, Clock]) = Inr cm1"
    and cm1: "ss_Status (parse_session (lib_of E) (cm_Data cm1)) \<noteq> StatusActive" "cm_UID cm1 \<noteq> []"
    and upd: "\<And>cm tr. cm_update_r (kube E) cm tr = Inr ()" and run: "run_state (StartSession E ns h) w = (q, x)"
  obtains e cm2 where "trace x = trace w @ [Kube (CMGet ns SessionCMName), NewUUID, Clock, Kube (CMGet ns SessionCMName), e]"
    "session_write e = Some cm2" "map_get (cm_Data cm2) cmKeyStatus = StatusActive"
proof -
  define sv where "sv = \<lparr>ss_OpID = uuid_r E (trace w @ [Kube (CMGet ns SessionCMName)]), ss_Status = StatusActive,
     ss_StartedAt = clock_r E (trace w @ [Kube (CMGet ns SessionCMName), NewUUID]) * 10 ^ 9 +
       int (clock_nanos_r E (trace w @ [Kube (CMGet ns SessionCMName), NewUUID]) mod 10 ^ 9),
     ss_CurrentHost = h, ss_ActiveSessions = 1, ss_AffectedWLCClusters = [], ss_PendingReadyVMReplacements = []\<rparr>"
  define cm2 where "cm2 = cm1\<lparr>cm_Data := write_session (lib_of E) sv (cm_Data cm1)\<rparr>"
  have "trace x = trace w @ [Kube (CMGet ns SessionCMName), NewUUID, Clock,
      Kube (CMGet ns SessionCMName), Kube (CMUpdate cm2 True)]"
    using run cm1 get upd unfolding StartSession_def
    by (simp add: LoadSession_run NewUUID_str_def time_Now_UTC_def run_call SaveSession_def CM_Get_def
        CM_Update_def run_api Let_def)
      (auto simp: cm2_def sv_def run_api CM_Update_def)
  moreover have "session_write (Kube (CMUpdate cm2 True)) = Some cm2" by (simp add: session_write_def)
  moreover have "map_get (cm_Data cm2) cmKeyStatus = StatusActive"
    by (simp add: cm2_def sv_def write_session_def Let_def session_key_defs)
  ultimately show thesis by (rule that)
qed

text \<open>
  C33: completing a session forgets the manual trigger. A ConfigMap that carries \<open>start: "true"\<close> keeps
  it through \<open>CompleteSession\<close>; with an API server that returns what was written and accepts updates,
  the reconcile that follows the completion starts a new active session at once, so a manually
  triggered maintenance never ends.
\<close>

theorem completed_trigger_restarts:
  assumes server: "session_server E ns cm0 uid" and upd: "\<And>cm tr. cm_update_r (kube E) cm tr = Inr ()"
    and cm: "cm_get_r (kube E) ns SessionCMName (trace s) = Inr cm"
      "map_get (cm_Data cm) CmKeyTriggerStart = ''true''"
    and active: "ss_Status (parse_session (lib_of E) (cm_Data cm)) = StatusActive"
    and run: "run_state (CompleteSession E ns) s = (Inr (), t)"
    and again: "run_state (reconcileConfigMap E ns SessionCMName) t = (r, u)"
  shows "\<exists>e \<in> set (drop (length (trace t)) (trace u)). \<exists>cm'. session_write e = Some cm' \<and>
    map_get (cm_Data cm') cmKeyStatus = StatusActive"
proof -
  from complete_keeps_trigger [OF server cm(1) active run] obtain cm1 where
    get: "\<And>es. last_session_write es = None \<Longrightarrow> cm_get_r (kube E) ns SessionCMName (trace t @ es) = Inr cm1"
    and trig: "ShouldStartFromTrigger (Some cm1) = ShouldStartFromTrigger (Some cm)"
    and nact: "ss_Status (parse_session (lib_of E) (cm_Data cm1)) \<noteq> StatusActive" "cm_UID cm1 \<noteq> []" by blast
  define w where "w = t\<lparr>trace := trace t @ [Kube (CMGet ns SessionCMName)]\<rparr>"
  have load: "run_state (LoadSession E ns) t = (Inr (parse_session (lib_of E) (cm_Data cm1), Some cm1), w)"
    using get [of "[]"] by (simp add: LoadSession_run w_def)
  define h where "h = map_get (cm_Data cm) CmKeyTriggerHost"
  obtain q x where q: "run_state (StartSession E ns h) w = (q, x)" by fastforce
  have "cm_get_r (kube E) ns SessionCMName (trace w) = Inr cm1"
    "cm_get_r (kube E) ns SessionCMName (trace w @ [Kube (CMGet ns SessionCMName), NewUUID, Clock]) = Inr cm1"
    using get [of "[Kube (CMGet ns SessionCMName)]"]
      get [of "[Kube (CMGet ns SessionCMName), Kube (CMGet ns SessionCMName), NewUUID, Clock]"]
    by (simp_all add: w_def)
  from StartSession_activates [OF this nact upd q] obtain e cm2 where
    e: "trace x = trace w @ [Kube (CMGet ns SessionCMName), NewUUID, Clock, Kube (CMGet ns SessionCMName), e]"
      "session_write e = Some cm2" "map_get (cm_Data cm2) cmKeyStatus = StatusActive" .
  have "ShouldStartFromTrigger (Some cm1) = (True, h)" using trig cm(2) by (simp add: ShouldStartFromTrigger_def h_def)
  with again load q have "prefix (trace x) (trace u)" unfolding reconcileConfigMap_def
    by (auto split: sum.splits if_splits prod.splits
        dest: client_prefix ensure_prefix intro: prefix_order.trans)
  then obtain fs where "trace u = trace x @ fs" by (auto simp: prefix_def)
  then have "e \<in> set (drop (length (trace t)) (trace u))" by (simp add: e(1) w_def)
  with e(2,3) show ?thesis by blast
qed

section \<open>Witnesses\<close>

text \<open>
  An HCP cluster with an empty host \<open>h\<close> whose machine is deleting, while the session of the namespace
  is active for another host.
\<close>

definition hmc_env :: env where
  "hmc_env = sample_env\<lparr>kube := sample_kube\<lparr>
     maascluster_get_r := (\<lambda>_ _ _. Inr (sample_mc\<lparr>mc_Spec := (mc_Spec sample_mc)\<lparr>LXDConfig :=
       Some \<lparr>lc_Enabled = Some True, lc_ResourcePool = [], lc_Zone = [], lc_StorageBackend = [],
         lc_StorageSize = [], lc_NICType = [], lc_NICParent = [], lc_NetworkBridge = [],
         lc_SkipNetworkUpdate = None\<rparr>\<rparr>\<rparr>)),
     capi_machine_get_r := (\<lambda>_ _ _. Inr (sample_capi_machine\<lparr>cam_DeletionTimestamp := Some 5\<rparr>)),
     cm_get_r := (\<lambda>_ _ tr. case last_session_write tr of
         None \<Rightarrow> Inr \<lparr>cm_Namespace = ''cluster-1'', cm_Name = SessionCMName, cm_UID = ''u'',
           cm_Data = write_session sample_lib \<lparr>ss_OpID = ''op'', ss_Status = StatusActive,
             ss_StartedAt = 1000000000000, ss_CurrentHost = ''other'', ss_ActiveSessions = 1,
             ss_AffectedWLCClusters = [], ss_PendingReadyVMReplacements = []\<rparr> []\<rparr>
       | Some cm \<Rightarrow> Inr cm)\<rparr>\<rparr>"

definition hmc_sys :: sys where
  "hmc_sys = host_sys\<lparr>the_mm := (the_mm host_sys)\<lparr>mm_Meta := (mm_Meta (the_mm host_sys))\<lparr>
     om_OwnerReferences := [(''Machine'', ''cluster.x-k8s.io/v1beta2'', ''m-1'')]\<rparr>\<rparr>\<rparr>"

lemma whole_seconds_sample [simp]: "whole_seconds 1000000000000 = 1000000000000"
  by (simp add: whole_seconds_def)

lemma parse_write_sample: "parse_session sample_lib (write_session sample_lib \<lparr>ss_OpID = a, ss_Status = b,
             ss_StartedAt = 1000000000000, ss_CurrentHost = c, ss_ActiveSessions = 1,
             ss_AffectedWLCClusters = d, ss_PendingReadyVMReplacements = e\<rparr> data) = 
      \<lparr>ss_OpID = a, ss_Status = b,
             ss_StartedAt = 1000000000000, ss_CurrentHost = c, ss_ActiveSessions = 1,
             ss_AffectedWLCClusters = d, ss_PendingReadyVMReplacements = e\<rparr>"
  by (subst parse_write_session) (simp_all add: sample_time_ok whole_seconds_def)


lemma hmc_env_simps:
  "lib_of hmc_env = sample_lib" "maas hmc_env = sample_maas" 
  "maascluster_get_r (kube hmc_env) a b tr = Inr (sample_mc\<lparr>mc_Spec := (mc_Spec sample_mc)\<lparr>LXDConfig :=
       Some \<lparr>lc_Enabled = Some True, lc_ResourcePool = [], lc_Zone = [], lc_StorageBackend = [],
         lc_StorageSize = [], lc_NICType = [], lc_NICParent = [], lc_NetworkBridge = [],
         lc_SkipNetworkUpdate = None\<rparr>\<rparr>\<rparr>)"
  "capi_machine_get_r (kube hmc_env) a b tr = Inr (sample_capi_machine\<lparr>cam_DeletionTimestamp := Some 5\<rparr>)"
  "cluster_from_metadata_r (kube hmc_env) l a tr = Inr sample_cluster"
  "cm_update_r (kube hmc_env) cm tr = Inr ()"
  "maasmachine_update_r (kube hmc_env) mm tr = Inr ()"
  "secret_get_r (kube hmc_env) a b tr = Inr [(''MAAS_ENDPOINT'', ''http://maas''), (''MAAS_API_KEY'', ''k'')]"
  by (simp_all add: hmc_env_def sample_env_def sample_kube_def)

lemma hmc_load: "trace s = es \<Longrightarrow> last_session_write es = None \<Longrightarrow> run_state (LoadSession hmc_env ''cluster-1'') s = 
   (Inr (\<lparr>ss_OpID = ''op'', ss_Status = StatusActive,
             ss_StartedAt = 1000000000000, ss_CurrentHost = ''other'', ss_ActiveSessions = 1,
             ss_AffectedWLCClusters = [], ss_PendingReadyVMReplacements = []\<rparr>, Some \<lparr>cm_Namespace = ''cluster-1'', cm_Name = SessionCMName, cm_UID = ''u'',
           cm_Data = write_session sample_lib \<lparr>ss_OpID = ''op'', ss_Status = StatusActive,
             ss_StartedAt = 1000000000000, ss_CurrentHost = ''other'', ss_ActiveSessions = 1,
             ss_AffectedWLCClusters = [], ss_PendingReadyVMReplacements = []\<rparr> []\<rparr>), s\<lparr>trace := trace s @ [Kube (CMGet ''cluster-1'' SessionCMName)]\<rparr>)"
  by (simp add: LoadSession_run hmc_env_simps) (simp add: hmc_env_def parse_write_sample sample_env_def)


lemma hmc_get: "cm_get_r (kube hmc_env) a b tr = (case last_session_write tr of
         None \<Rightarrow> Inr \<lparr>cm_Namespace = ''cluster-1'', cm_Name = SessionCMName, cm_UID = ''u'',
           cm_Data = write_session sample_lib \<lparr>ss_OpID = ''op'', ss_Status = StatusActive,
             ss_StartedAt = 1000000000000, ss_CurrentHost = ''other'', ss_ActiveSessions = 1,
             ss_AffectedWLCClusters = [], ss_PendingReadyVMReplacements = []\<rparr> []\<rparr>
       | Some cm \<Rightarrow> Inr cm)"
 by (simp add: hmc_env_def)


lemmas hmc_eval = reconcileMaasMachine_def isHCPClusterForMachine_def isHCPMaasCluster_def
  evacuate_host_def hmc_load hmc_env_simps hmc_get NewMAASClient_def GetMAASCredentials_def
  EnsureHostMaintenanceTags_def maas_EnsureTagInInventory_def maas_AddTagToHost_def
  maas_RemoveTagFromHost_def NewHostMaintenanceService_def CheckEvacuationGates_def
  checkWLCReadyTags_def update_session_def SaveSession_def maas_ListHostVMs_def maas_GetHost_def
  to_inv_machine_def Let_def finish_evacuation_def CompleteSession_def
  ClearMaintenanceTagsAndRemoveFinalizer_def clearMaintenanceTags_def LoadSession_run
  parse_write_session sample_time_ok host_sys_def hmc_sys_def sample_cluster_def
  sample_capi_machine_def sample_spec_def sample_sys_def maas_host_service_def
  NewInventoryService_def NewTagService_def sample_mm_def sample_meta_def
  sample_lib_def [THEN arg_cong, of ContainsFinalizer] sample_maas_def sample_machine_def call_defs
  run_api run_call session_write_def MAASBootstrapCredentialsSecretName_def StatusActive_def
  StatusCompleted_def GroupVersion_String_def map_get_def

lemma hmc_run:
  "\<exists>t mm. run_state (reconcileMaasMachine hmc_env) hmc_sys = ((NoRequeue, None), t) \<and>
     Kube (MaasMachineUpdate mm True) \<in> set (trace t)"
  by (simp add: hmc_eval MachineFinalizer_def HostEvacuationFinalizer_def) blast

theorem hmc_write_only_after_gates_witness:
  "\<exists>u ns. fst (run_state (CheckEvacuationGates hmc_env (maas_host_service hmc_env ns True)) u) = Inr True"
proof -
  obtain t mm where t: "run_state (reconcileMaasMachine hmc_env) hmc_sys = ((NoRequeue, None), t)"
    "Kube (MaasMachineUpdate mm True) \<in> set (trace t)" using hmc_run by blast
  have "Kube (MaasMachineUpdate mm True) \<in> set (drop (length (trace hmc_sys)) (trace t))"
    using t(2) by (simp add: hmc_sys_def host_sys_def sample_sys_def)
  from hmc_write_only_after_gates [OF t(1) this] show ?thesis by (metis fst_conv)
qed

text \<open>A session that was started by the manual trigger.\<close>

definition trigger_cm :: configmap where
  "trigger_cm = \<lparr>cm_Namespace = ''ns'', cm_Name = SessionCMName, cm_UID = ''u'',
     cm_Data = map_put CmKeyTriggerStart ''true'' (write_session sample_lib sample_session [])\<rparr>"

definition trigger_env :: env where
  "trigger_env = sample_env\<lparr>kube := sample_kube\<lparr>cm_get_r := (\<lambda>_ _ tr. case last_session_write tr of
     None \<Rightarrow> Inr trigger_cm | Some cm \<Rightarrow> Inr (cm\<lparr>cm_UID := ''u''\<rparr>))\<rparr>\<rparr>"

theorem completed_trigger_restarts_witness:
  "\<exists>t u. run_state (CompleteSession trigger_env ''ns'') sample_sys = (Inr (), t) \<and>
     u = snd (run_state (reconcileConfigMap trigger_env ''ns'' SessionCMName) t) \<and>
     (\<exists>e \<in> set (drop (length (trace t)) (trace u)). \<exists>cm'. session_write e = Some cm' \<and>
        map_get (cm_Data cm') cmKeyStatus = StatusActive)"
proof -
  have lib: "lib_of trigger_env = sample_lib" by (simp add: trigger_env_def sample_env_def)
  have get: "cm_get_r (kube trigger_env) ns n tr = (case last_session_write tr of
      None \<Rightarrow> Inr trigger_cm | Some cm \<Rightarrow> Inr (cm\<lparr>cm_UID := ''u''\<rparr>))" for ns n tr
    by (simp add: trigger_env_def)
  have upd: "cm_update_r (kube trigger_env) cm tr = Inr ()" for cm tr
    by (simp add: trigger_env_def sample_kube_def)
  have server: "session_server trigger_env ''ns'' (Inr trigger_cm) ''u''"
    by (simp add: session_server_def get)
  have data: "map_get (cm_Data trigger_cm) CmKeyTriggerStart = ''true''"
    "map_get (cm_Data trigger_cm) cmKeyStatus = StatusActive"
    by (simp_all add: trigger_cm_def write_session_def Let_def session_key_defs sample_session_def)
  have active: "ss_Status (parse_session (lib_of trigger_env) (cm_Data trigger_cm)) = StatusActive"
    using data(2) by (simp add: parse_session_def Let_def)
  have tr0: "trace sample_sys = []" by (simp add: sample_sys_def)
  obtain t where run: "run_state (CompleteSession trigger_env ''ns'') sample_sys = (Inr (), t)"
    using active by (simp add: CompleteSession_def LoadSession_run get tr0 lib SaveSession_def CM_Get_def
        CM_Update_def run_api upd Let_def StatusActive_def StatusCompleted_def trigger_cm_def)
  obtain r u where again: "run_state (reconcileConfigMap trigger_env ''ns'' SessionCMName) t = (r, u)"
    by fastforce
  have g0: "cm_get_r (kube trigger_env) ''ns'' SessionCMName (trace sample_sys) = Inr trigger_cm"
    by (simp add: get tr0)
  from completed_trigger_restarts [OF server upd g0 data(1) active run again] run again
  show ?thesis by auto
qed

text \<open>
  The controller does not compare the session with the host. In this run the active session of
  the namespace belongs to the host \<open>other\<close>; the evacuation of \<open>h\<close> tags \<open>h\<close> with that session, and when
  \<open>h\<close> is empty it marks the session of \<open>other\<close> as completed.
\<close>

lemma hmc_completes_foreign_session:
  "ss_CurrentHost (parse_session sample_lib (cm_Data (projr (cm_get_r (kube hmc_env) ''cluster-1'' SessionCMName [])))) =
     ''other'' \<and>
   Maas (TagAssign (BuildOpTag ''op'') ''h'' True) \<in>
     set (trace (snd (run_state (reconcileMaasMachine hmc_env) hmc_sys))) \<and>
   map_option (\<lambda>cm. map_get (cm_Data cm) cmKeyStatus)
     (last_session_write (trace (snd (run_state (reconcileMaasMachine hmc_env) hmc_sys)))) =
     Some StatusCompleted"
proof (intro conjI)
  show "ss_CurrentHost (parse_session sample_lib (cm_Data (projr (cm_get_r (kube hmc_env) ''cluster-1'' SessionCMName [])))) =
     ''other''"
    by (simp add: hmc_get parse_write_sample)
  show "Maas (TagAssign (BuildOpTag ''op'') ''h'' True) \<in>
     set (trace (snd (run_state (reconcileMaasMachine hmc_env) hmc_sys)))"
    by (simp add: hmc_eval)
  have [simp]: "map_of (write_session L st data) cmKeyStatus = Some (ss_Status st)" for L st data
    by (simp add: write_session_def Let_def map_put_def update_conv session_key_defs)
  show "map_option (\<lambda>cm. map_get (cm_Data cm) cmKeyStatus)
     (last_session_write (trace (snd (run_state (reconcileMaasMachine hmc_env) hmc_sys)))) =
     Some StatusCompleted"
    by (simp add: hmc_eval)
qed

end
