(* ===== verification/Machine_Lifecycle.thy ===== *)
theory Machine_Lifecycle
  imports Webhooks Hmc_Controller
begin

text \<open>
  The life of one \<open>MaasMachine\<close>: the object the API server stores, and the steps of those that write
  it. The two controllers that do, the MaasMachine controller and the host maintenance controller,
  are the models of their \<open>Reconcile\<close> functions; everybody else's updates go through the webhook and
  leave alone the fields the controllers manage. Every interleaving of whole reconciles and updates is
  a life. A reconcile reads the object as it is stored, and what it writes is stored when the API
  server accepts it.
\<close>

section \<open>Worlds and steps\<close>

record world =
  stored :: "maas_machine option"
  log :: "event list"

datatype actor = MachineController env | MaintenanceController env | User | Deleter | Others

abbreviation fins :: "maas_machine \<Rightarrow> string set" where
  "fins mm \<equiv> set (om_Finalizers (mm_Meta mm))"

text \<open>The API server removes an object that is being deleted once its last finalizer is gone.\<close>

definition admit :: "maas_machine \<Rightarrow> maas_machine option" where
  "admit mm = (if om_DeletionTimestamp (mm_Meta mm) \<noteq> None \<and> om_Finalizers (mm_Meta mm) = [] then None else Some mm)"

fun accepted_write :: "event \<Rightarrow> maas_machine option" where
  "accepted_write (Kube (MaasMachinePatch mm True)) = Some mm"
| "accepted_write (Kube (MaasMachineUpdate mm True)) = Some mm"
| "accepted_write e = None"

definition persist :: "maas_machine option \<Rightarrow> event \<Rightarrow> maas_machine option" where
  "persist x e = (case (x, accepted_write e) of (Some _, Some mm) \<Rightarrow> admit mm | _ \<Rightarrow> x)"

definition after_run :: "world \<Rightarrow> sys \<Rightarrow> world" where
  "after_run w t = \<lparr>stored = foldl persist (stored w) (drop (length (log w)) (trace t)), log = trace t\<rparr>"

text \<open>The API server answers with what it stores.\<close>

definition serves :: "env \<Rightarrow> string \<Rightarrow> string \<Rightarrow> world \<Rightarrow> bool" where
  "serves E ns nm w \<longleftrightarrow> finalizer_laws (lib_of E) \<and>
     (\<forall>mm. maasmachine_get_r (kube E) ns nm (log w) = Inr mm \<longrightarrow> stored w = Some mm)"

text \<open>The fields that only the controllers change.\<close>

definition managed :: "maas_machine \<Rightarrow> string option \<times> string option \<times> string list \<times> gtime option" where
  "managed mm = (SystemID (mm_Spec mm), ProviderID (mm_Spec mm), om_Finalizers (mm_Meta mm), om_DeletionTimestamp (mm_Meta mm))"

inductive life_step :: "string \<Rightarrow> string \<Rightarrow> world \<Rightarrow> actor \<Rightarrow> world \<Rightarrow> bool" for ns nm where
  reconcile: "serves E ns nm w \<Longrightarrow> trace s = log w \<Longrightarrow> run_state (machine_Reconcile E ns nm) s = (res, t) \<Longrightarrow>
    life_step ns nm w (MachineController E) (after_run w t)"
| maintain: "serves E ns nm w \<Longrightarrow> trace s = log w \<Longrightarrow> run_state (hmc_Reconcile E ns nm) s = (res, t) \<Longrightarrow>
    life_step ns nm w (MaintenanceController E) (after_run w t)"
| update: "stored w = Some mm \<Longrightarrow> machine_ValidateUpdate mm mm' = Inr () \<Longrightarrow> managed mm' = managed mm \<Longrightarrow>
    life_step ns nm w User (w\<lparr>stored := Some mm'\<rparr>)"
| remove: "stored w = Some mm \<Longrightarrow> om_DeletionTimestamp (mm_Meta mm) = None \<Longrightarrow>
    life_step ns nm w Deleter (w\<lparr>stored := admit (mm_Meta_update (om_DeletionTimestamp_update (\<lambda>_. Some ts)) mm)\<rparr>)"
| other: "list_all no_machine_write es \<Longrightarrow> life_step ns nm w Others (w\<lparr>log := log w @ es\<rparr>)"

inductive_cases life_stepE: "life_step ns nm w act w'"

type_synonym history = "(actor \<times> world \<times> world) list"

inductive life :: "string \<Rightarrow> string \<Rightarrow> world \<Rightarrow> history \<Rightarrow> world \<Rightarrow> bool" for ns nm w0 where
  start: "life ns nm w0 [] w0"
| more: "life ns nm w0 h w \<Longrightarrow> life_step ns nm w act w' \<Longrightarrow> life ns nm w0 (h @ [(act, w, w')]) w'"

definition new_events :: "world \<Rightarrow> world \<Rightarrow> event list" where
  "new_events a b = drop (length (log a)) (log b)"

lemma life_append: "life ns nm w0 (h1 @ h2) w \<longleftrightarrow> (\<exists>v. life ns nm w0 h1 v \<and> life ns nm v h2 w)"
proof (induction h2 arbitrary: w rule: rev_induct)
  case Nil
  have "life ns nm v [] w \<longleftrightarrow> v = w" for v by (subst life.simps) auto
  then show ?case by simp
next
  case (snoc x xs)
  have last: "life ns nm v (h @ [x]) w \<longleftrightarrow> (\<exists>u act. x = (act, u, w) \<and> life ns nm v h u \<and> life_step ns nm u act w)"
    for v h by (subst life.simps) auto
  from snoc last [of w0 "h1 @ xs"] last [of _ xs] show ?case by auto
qed

lemma life_single: "life ns nm v [(act, a, b)] w \<longleftrightarrow> v = a \<and> w = b \<and> life_step ns nm a act b"
proof -
  have "life ns nm v [] u \<longleftrightarrow> v = u" for u by (subst life.simps) auto
  then show ?thesis by (subst life.simps) auto
qed

lemma life_at:
  assumes "life ns nm w0 (h1 @ (act, a, b) # h2) w"
  shows "life ns nm w0 h1 a" "life_step ns nm a act b" "life ns nm b h2 w"
  using assms life_append [of ns nm w0 "h1 @ [(act, a, b)]" h2 w] by (auto simp: life_append life_single)

text \<open>What is lost along a life is lost in one of its steps.\<close>

lemma life_lost:
  "life ns nm w h w' \<Longrightarrow> H w \<Longrightarrow> \<not> H w' \<Longrightarrow> \<exists>act a b. (act, a, b) \<in> set h \<and> life_step ns nm a act b \<and> H a \<and> \<not> H b"
proof (induction rule: life.induct)
  case (more h v act w')
  then show ?case by (cases "H v") auto
qed simp

lemma life_keeps:
  "life ns nm w h w' \<Longrightarrow> (\<And>a act b. life_step ns nm a act b \<Longrightarrow> H a \<Longrightarrow> H b) \<Longrightarrow> H w \<Longrightarrow> H w'"
  by (induction rule: life.induct) auto

section \<open>What a run stores\<close>

abbreviation well :: "(maas_machine \<Rightarrow> bool) \<Rightarrow> world \<Rightarrow> bool" where
  "well P w \<equiv> (\<forall>mm. stored w = Some mm \<longrightarrow> P mm)"

abbreviation holds :: "(maas_machine \<Rightarrow> bool) \<Rightarrow> world \<Rightarrow> bool" where
  "holds P w \<equiv> (\<exists>mm. stored w = Some mm \<and> P mm)"

lemma admit_finalized: "f \<in> fins mm \<Longrightarrow> admit mm = Some mm"
  by (auto simp: admit_def)

lemma accepted_stores: "stores P e \<Longrightarrow> accepted_write e = Some mm \<Longrightarrow> P mm"
  by (cases e rule: accepted_write.cases) auto

lemma accepted_quiet: "no_machine_write e \<Longrightarrow> accepted_write e = None"
  by (cases e rule: accepted_write.cases) (auto simp: no_machine_write_def)

lemma persist_well:
  "list_all (stores P) es \<Longrightarrow> (\<And>mm. x = Some mm \<Longrightarrow> P mm) \<Longrightarrow> foldl persist x es = Some mm' \<Longrightarrow> P mm'"
proof (induction es arbitrary: x)
  case (Cons e es)
  have "P m" if m: "persist x e = Some m" for m
  proof (cases "accepted_write e")
    case None
    with m Cons.prems(2) show ?thesis by (simp add: persist_def split: option.splits)
  next
    case (Some mm)
    with m Cons.prems accepted_stores [of P e mm] show ?thesis
      by (auto simp: persist_def admit_def split: option.splits if_splits)
  qed
  with Cons.IH [of "persist x e"] Cons.prems show ?case by simp
qed simp

lemma persist_holds:
  assumes "\<And>mm. P mm \<Longrightarrow> admit mm = Some mm"
  shows "list_all (stores P) es \<Longrightarrow> P mm \<Longrightarrow> \<exists>mm'. foldl persist (Some mm) es = Some mm' \<and> P mm'"
proof (induction es arbitrary: mm)
  case (Cons e es)
  then have "\<exists>m. persist (Some mm) e = Some m \<and> P m"
    using assms accepted_stores [of P e] by (auto simp: persist_def split: option.split)
  with Cons show ?case by auto
qed simp

lemma persist_quiet: "list_all no_machine_write es \<Longrightarrow> foldl persist x es = x"
  by (induction es arbitrary: x) (simp_all add: persist_def accepted_quiet split: option.split)

text \<open>The same for the world after a run.\<close>

lemma after_run_log [simp]: "log (after_run w t) = trace t"
  by (simp add: after_run_def)

lemma after_run_stored:
  assumes "since P s t" "trace s = log w"
  obtains es where "list_all P es" "trace t = log w @ es" "stored (after_run w t) = foldl persist (stored w) es"
  using assms by (auto simp: since_def after_run_def)

lemma after_run_well:
  assumes "since (stores P) s t" "trace s = log w" "well P w" shows "well P (after_run w t)"
proof (rule after_run_stored [OF assms(1,2)])
  fix es assume "list_all (stores P) es" "stored (after_run w t) = foldl persist (stored w) es"
  with persist_well [of P es "stored w"] assms(3) show ?thesis by auto
qed

lemma after_run_holds:
  assumes "since (stores P) s t" "trace s = log w" "holds P w" "\<And>mm. P mm \<Longrightarrow> admit mm = Some mm"
  shows "holds P (after_run w t)"
proof (rule after_run_stored [OF assms(1,2)])
  fix es assume "list_all (stores P) es" "stored (after_run w t) = foldl persist (stored w) es"
  with persist_holds [of P es] assms(3,4) show ?thesis by fastforce
qed

lemma after_run_quiet:
  assumes "since no_machine_write s t" "trace s = log w" shows "stored (after_run w t) = stored w"
  by (rule after_run_stored [OF assms]) (simp add: persist_quiet)

section \<open>What the host maintenance controller stores\<close>

text \<open>An evacuated machine differs from the one that was read in its notes and in one finalizer.\<close>

definition evac_of :: "maas_machine \<Rightarrow> maas_machine \<Rightarrow> bool" where
  "evac_of mm mm' \<longleftrightarrow> mm_Spec mm' = mm_Spec mm \<and> om_DeletionTimestamp (mm_Meta mm') = om_DeletionTimestamp (mm_Meta mm) \<and>
     insert HostEvacuationFinalizer (fins mm') = insert HostEvacuationFinalizer (fins mm)"

lemma quiet_stores: "no_machine_write e \<Longrightarrow> stores P e"
  by (cases "(P, e)" rule: stores.cases) (auto simp: no_machine_write_def)

lemma written_calm: "emits no_machine_write m \<Longrightarrow> keeps the_mm m \<Longrightarrow> invar (written P X s0) m"
  by (intro invar_written) (auto intro: emits_mono quiet_stores)

lemma written_update:
  "invar (written P X s0) (do { mm \<leftarrow> gets the_mm; MaasMachine_Update E mm })"
  "(\<And>r. invar (written P X s0) (f r)) \<Longrightarrow>
   invar (written P X s0) (do { mm \<leftarrow> gets the_mm; r \<leftarrow> MaasMachine_Update E mm; f r })"
proof -
  show put: "invar (written P X s0) (do { mm \<leftarrow> gets the_mm; MaasMachine_Update E mm })"
  proof (rule invar_writtenI)
    show "emits any_event (do { mm \<leftarrow> gets the_mm; MaasMachine_Update E mm })"
      unfolding MaasMachine_Update_def by (intro emits_intros; simp)
  qed (auto simp: written_def since_def MaasMachine_Update_def run_api)
  show "invar (written P X s0) (do { mm \<leftarrow> gets the_mm; r \<leftarrow> MaasMachine_Update E mm; f r })"
    if "\<And>r. invar (written P X s0) (f r)"
    using invar_bind [OF put that] by simp
qed

lemma calm_emits:
  "emits gate_event m \<Longrightarrow> emits no_machine_write m" "emits (\<lambda>e. \<exists>x. e = Maas x) m \<Longrightarrow> emits no_machine_write m"
  by (auto intro: emits_mono gate_no_machine_write simp: no_machine_write_def)

lemma written_finish:
  "invar (written (evac_of mm) (\<lambda>_. False) s0) (finish_evacuation E (maas_host_service E n rec) ns st)"
proof -
  have marks: "invar (written (evac_of mm) (\<lambda>_. False) s0) (modify (the_mm_update (mm_Meta_update (om_Annotations_update h))))"
    "invar (written (evac_of mm) (\<lambda>_. False) s0) (modify (the_mm_update (mm_Meta_update (om_Finalizers_update
       (\<lambda>fs. removeString fs HostEvacuationFinalizer)))))" for h
    by (intro invar_written_modify; auto simp: evac_of_def)+
  have clear: "invar (written (evac_of mm) (\<lambda>_. False) s0) (clearMaintenanceTags (maas_host_service E n rec) h)" for h
    by (intro written_calm calm_emits(2) maas_host.clear_maas_only)
  have session: "invar (written (evac_of mm) (\<lambda>_. False) s0) (CompleteSession E ns)" "invar (written (evac_of mm) (\<lambda>_. False) s0) (LoadSession E ns)"
    unfolding CompleteSession_def Let_def
    by (intro written_calm guard_intros calm_emits(1) emits_intros keeps_session)+
  show ?thesis
    unfolding finish_evacuation_def ClearMaintenanceTagsAndRemoveFinalizer_def
    by (intro written_update guard_intros marks clear session)
qed

lemma invar_bind_res:
  assumes "invar I m" "\<And>x s t. run_state m s = (x, t) \<Longrightarrow> invar I (f x)"
  shows "invar I (m \<bind> f)"
  unfolding invar_def
proof (intro allI impI)
  fix s assume s: "I s"
  obtain x u where u: "run_state m s = (x, u)" by fastforce
  from invarD [OF assms(2) [OF u] invarD [OF assms(1) s u]] u show "I (snd (run_state (m \<bind> f) s))"
    by (cases "run_state (f x) u") simp
qed

lemmas evacuation_calm = new_client_no_machine_write keeps_client LoadSession_emits keeps_session start_no_machine_write
  ensure_tags_no_machine_write keeps_ensure_tags maas_host.gates_emit maas_host.gates_mm

lemma written_evacuate: "invar (written (evac_of mm) (\<lambda>_. False) s0) (evacuate_host E)"
proof -
  have svc: "invar (written (evac_of mm) (\<lambda>_. False) s0) (NewHostMaintenanceService E ns True \<bind> case_sum f g)"
    if "\<And>e. invar (written (evac_of mm) (\<lambda>_. False) s0) (f e)" "invar (written (evac_of mm) (\<lambda>_. False) s0) (g (maas_host_service E ns True))"
    for ns f g
  proof (rule invar_bind_res)
    show "invar (written (evac_of mm) (\<lambda>_. False) s0) (NewHostMaintenanceService E ns True)"
      unfolding NewHostMaintenanceService_def by (intro guard_intros written_calm evacuation_calm)
    show "invar (written (evac_of mm) (\<lambda>_. False) s0) (case_sum f g x)"
      if "run_state (NewHostMaintenanceService E ns True) s = (x, t)" for x s t
      using that \<open>\<And>e. invar (written (evac_of mm) (\<lambda>_. False) s0) (f e)\<close>
        \<open>invar (written (evac_of mm) (\<lambda>_. False) s0) (g (maas_host_service E ns True))\<close>
      by (auto simp: NewHostMaintenanceService_def split: prod.splits sum.splits)
  qed
  show ?thesis unfolding evacuate_host_def Let_def
    by (intro svc guard_intros written_finish written_calm calm_emits(1) evacuation_calm)
qed

lemma hmc_Reconcile_stores:
  assumes run: "run_state (hmc_Reconcile E ns nm) s = (res, t)"
    and got: "maasmachine_get_r (kube E) ns nm (trace s) = Inr mm"
  shows "since (stores (evac_of mm)) s t"
proof -
  let ?u = "s\<lparr>trace := trace s @ [Kube (MaasMachineGet ns nm)], the_mm := mm\<rparr>"
  have go: "run_state (reconcileMaasMachine E) ?u = (res, t)"
    using run got by (auto simp: hmc_Reconcile_def MaasMachine_Get_def run_api)
  have inv: "invar (written (evac_of mm) (\<lambda>_. False) s) (reconcileMaasMachine E)"
    unfolding reconcileMaasMachine_def isHCPClusterForMachine_def call_defs
    by (intro guard_intros written_evacuate invar_written_api; simp)
  have "written (evac_of mm) (\<lambda>_. False) s ?u" by (simp add: written_def evac_of_def since_def)
  from invarD [OF inv this go] show ?thesis by (simp add: written_def)
qed

text \<open>Without the machine, the reconcile is one of the session's ConfigMap, or nothing.\<close>

lemma hmc_Reconcile_calm:
  assumes run: "run_state (hmc_Reconcile E ns nm) s = (res, t)"
    and got: "maasmachine_get_r (kube E) ns nm (trace s) = Inl e"
  shows "since no_machine_write s t"
proof -
  have cm: "emits no_machine_write (reconcileConfigMap E ns nm)"
    unfolding reconcileConfigMap_def Let_def by (intro emits_intros calm_emits(1) evacuation_calm)
  have "run_state (do { r \<leftarrow> CM_Get E ns nm;
      case r of Inr _ \<Rightarrow> reconcileConfigMap E ns nm | Inl _ \<Rightarrow> reconcile_done })
      (s\<lparr>trace := trace s @ [Kube (MaasMachineGet ns nm)]\<rparr>) = (res, t)"
    using run got by (cases e) (auto simp: hmc_Reconcile_def MaasMachine_Get_def run_api lift_err_def)
  moreover have "emits no_machine_write (do { r \<leftarrow> CM_Get E ns nm;
      case r of Inr _ \<Rightarrow> reconcileConfigMap E ns nm | Inl _ \<Rightarrow> reconcile_done })"
    unfolding CM_Get_def by (intro emits_intros cm) (simp add: no_machine_write_def)
  ultimately show ?thesis by (auto dest!: emits_since simp: since_def no_machine_write_def)
qed

section \<open>The contracts on the stored machine\<close>

definition ids_ok :: "maas_machine \<Rightarrow> bool" where
  "ids_ok mm \<longleftrightarrow> (\<forall>sid. SystemID (mm_Spec mm) = Some sid \<longrightarrow> sid \<noteq> [] \<longrightarrow>
     (\<exists>z. ProviderID (mm_Spec mm) = Some (provider_id_string sid z)))"

lemma provider_id_not_empty [simp]: "provider_id_string i z \<noteq> []"
  by (simp add: provider_id_string_def)

interpretation ids: machine_removals ids_ok "\<lambda>_. False" E for E
proof
  fix mm :: maas_machine and i z
  assume "ids_ok mm" "GetProviderID mm = []"
  then show "ids_ok (mm_Spec_update (ProviderID_update (\<lambda>_. Some (provider_id_string i z))) mm)"
    by (auto simp: ids_ok_def GetProviderID_def)
qed (auto simp: ids_ok_def bind_ids_def)

text \<open>The finalizers set at the start of a reconcile stay set, as long as the machine is not being deleted.\<close>

interpretation fins: machine_writes "\<lambda>mm. finalizer_laws (lib_of E) \<longrightarrow> F \<subseteq> fins mm" "\<lambda>_. False" E for F E
  by unfold_locales (auto simp: finalizer_laws_def bind_ids_def)

text \<open>A provider ID stays recorded, unless a release is requested.\<close>

interpretation pid: machine_writes "\<lambda>mm. GetProviderID mm \<noteq> []" is_release E for E
  by unfold_locales (auto simp: GetProviderID_def bind_ids_def)

section \<open>One step\<close>

lemma patch_event:
  assumes "run_state (machine_PatchObject E cm) v = (c, t)"
  obtains mm ok where "trace t = trace v @ [Kube (MaasMachinePatch mm ok)]" "mm_Meta mm = mm_Meta (the_mm v)"
    "mm_Spec mm = mm_Spec (the_mm v)"
  using assms unfolding machine_PatchObject_def mm_status_update_def MaasMachine_Patch_def
  by (auto simp: run_api Let_def)

lemma no_write_delete: "emits no_machine_write (machine_reconcileDelete E cm cl)"
  unfolding delete_defs machine_svc_defs call_defs Let_def
  by (intro emits_intros emits_modify) (simp_all add: no_machine_write_def)

lemma read_no_write: "reconcile_read e \<Longrightarrow> no_machine_write e"
  by (cases e rule: reconcile_read.cases) (auto simp: no_machine_write_def)

lemma reads_since: "trace t = trace s @ es \<Longrightarrow> list_all reconcile_read es \<Longrightarrow> since no_machine_write s t"
  by (auto simp: since_def list_all_iff read_no_write)

text \<open>A finalizer that a reconcile of the machine controller loses is removed by its deletion handler.\<close>

lemma controller_lost:
  assumes E: "serves E ns nm w" and s: "trace s = log w" and run: "run_state (machine_Reconcile E ns nm) s = (res, t)"
    and had: "holds (\<lambda>mm. f \<in> fins mm) w" and lost: "\<not> holds (\<lambda>mm. f \<in> fins mm) (after_run w t)"
  obtains mm cm cl r u v where "stored w = Some mm" "om_DeletionTimestamp (mm_Meta mm) \<noteq> None" "the_mm u = mm"
    "prefix (log w) (trace u)" "prefix (trace v) (trace t)" "run_state (machine_reconcileDelete E cm cl) u = (r, v)"
    "f \<in> set (finalizers u)" "f \<notin> set (finalizers v)"
  using run
proof (cases rule: machine_Reconcile_cases)
  case (quiet es)
  with after_run_quiet [OF reads_since s] lost had show thesis by auto
next
  case (handled mm cm cl mc es)
  have w: "stored w = Some mm" using E s handled(1) by (simp add: serves_def)
  let ?u = "s\<lparr>trace := trace s @ es, the_mm := mm, the_mc := mc\<rparr>"
  show thesis
  proof (cases "om_DeletionTimestamp (mm_Meta mm) = None")
    case True
    let ?P = "\<lambda>mm. finalizer_laws (lib_of E) \<longrightarrow> {f} \<subseteq> fins mm"
    have "?P mm" using had w by simp
    from fins.reconcile_written_normal [OF run handled(1) this True] have "since (stores ?P) s t" by simp
    from after_run_holds [OF this s] E had lost show ?thesis by (fastforce simp: serves_def admit_finalized)
  next
    case False
    from with_close_parts [OF handled(4)] obtain r v c where v: "run_state (handler E mm cm cl) ?u = (r, v)"
      and c: "run_state (machine_PatchObject E cm) v = (c, t)" .
    from v False have del: "run_state (machine_reconcileDelete E cm cl) ?u = (r, v)" by simp
    from patch_event [OF c] obtain mm' ok where p: "trace t = trace v @ [Kube (MaasMachinePatch mm' ok)]"
      "mm_Meta mm' = mm_Meta (the_mm v)" by blast
    from emits_since [OF no_write_delete del] handled(3) s obtain ds where
      ds: "trace v = log w @ ds" "list_all no_machine_write ds"
      by (auto simp: since_def list_all_iff ball_Un read_no_write)
    have "stored (after_run w t) = (if ok then admit mm' else stored w)"
      using p ds w persist_quiet [OF ds(2)] by (cases ok) (simp_all add: after_run_def persist_def)
    with lost had have "f \<notin> fins mm'" by (auto simp: admit_finalized split: if_splits)
    with that [OF w False _ _ _ del] p ds had w s show ?thesis by simp
  qed
qed

text \<open>What the host maintenance controller saw when it writes a machine: a host without VMs.\<close>

definition host_seen_empty :: "env \<Rightarrow> maas_machine \<Rightarrow> world \<Rightarrow> world \<Rightarrow> bool" where
  "host_seen_empty E mm a b \<longleftrightarrow> (\<exists>h u. SystemID (mm_Spec mm) = Some h \<and> prefix (log a) (trace u) \<and>
     prefix (trace u) (log b) \<and> fst (run_state (ListHostVMs (NewInventoryService E) h) u) = Inr [])"

lemma hmc_lost:
  assumes E: "serves E ns nm w" and s: "trace s = log w" and run: "run_state (hmc_Reconcile E ns nm) s = (res, t)"
    and had: "holds (\<lambda>mm. f \<in> fins mm) w" and lost: "\<not> holds (\<lambda>mm. f \<in> fins mm) (after_run w t)"
  shows "f = HostEvacuationFinalizer \<and> (\<exists>mm. stored w = Some mm \<and> host_seen_empty E mm w (after_run w t))"
proof (cases "maasmachine_get_r (kube E) ns nm (trace s)")
  case (Inl e)
  from after_run_quiet [OF hmc_Reconcile_calm [OF run Inl] s] had lost show ?thesis by simp
next
  case (Inr mm)
  have w: "stored w = Some mm" using E s Inr by (simp add: serves_def)
  have f: "f = HostEvacuationFinalizer"
  proof (rule ccontr)
    assume "f \<noteq> HostEvacuationFinalizer"
    then have keep: "evac_of mm mm' \<Longrightarrow> f \<in> fins mm'" for mm' using had w by (auto simp: evac_of_def)
    from after_run_holds [OF hmc_Reconcile_stores [OF run Inr] s] w
    have "holds (evac_of mm) (after_run w t)" by (auto simp: admit_finalized [OF keep] evac_of_def)
    with keep lost show False by blast
  qed
  let ?u = "s\<lparr>trace := trace s @ [Kube (MaasMachineGet ns nm)], the_mm := mm\<rparr>"
  have go: "run_state (reconcileMaasMachine E) ?u = (res, t)"
    using run Inr by (auto simp: hmc_Reconcile_def MaasMachine_Get_def run_api)
  have "\<not> since no_machine_write ?u t"
  proof
    assume "since no_machine_write ?u t"
    then have "since no_machine_write s t" by (auto simp: since_def no_machine_write_def)
    from after_run_quiet [OF this s] had lost show False by simp
  qed
  from reconcileMaasMachine_gated [OF go this] obtain h u v n where
    h: "SystemID (mm_Spec mm) = Some h" "fst (run_state (ListHostVMs (NewInventoryService E) h) u) = Inr []"
    and u: "since no_machine_write ?u u" and v: "prefix (trace v) (trace t)"
      "run_state (CheckEvacuationGates E (maas_host_service E n True)) u = (Inr True, v)" by auto
  have "prefix (trace u) (trace t)"
    by (rule prefix_order.trans [OF since_prefix [OF emits_since [OF maas_host.gates_emit v(2)]] v(1)])
  with h f w since_prefix [OF u] s show ?thesis unfolding host_seen_empty_def
    by (auto intro!: exI [of _ u] dest: append_prefixD)
qed

lemma validate_same_shape: "machine_ValidateUpdate mm mm' = Inr () \<Longrightarrow> shape mm' = shape mm"
  by (auto simp: machine_ValidateUpdate_def validate_spec_update_def check_unchanged_def deref_int_def shape_def
      split: option.splits sum.splits if_splits)

text \<open>Who may lose a finalizer, and what the loser saw.\<close>

lemma lost_by:
  assumes step: "life_step ns nm a act b" and had: "holds (\<lambda>mm. f \<in> fins mm) a" and lost: "\<not> holds (\<lambda>mm. f \<in> fins mm) b"
  obtains (machine) E mm cm cl r u v where "act = MachineController E" "finalizer_laws (lib_of E)"
      "stored a = Some mm" "om_DeletionTimestamp (mm_Meta mm) \<noteq> None" "the_mm u = mm"
      "prefix (log a) (trace u)" "prefix (trace v) (log b)" "run_state (machine_reconcileDelete E cm cl) u = (r, v)"
      "f \<in> set (finalizers u)" "f \<notin> set (finalizers v)"
  | (maintenance) E mm where "act = MaintenanceController E" "f = HostEvacuationFinalizer" "stored a = Some mm"
      "host_seen_empty E mm a b"
  using step
proof cases
  case (reconcile E s res t)
  have "\<not> holds (\<lambda>mm. f \<in> fins mm) (after_run a t)" using lost reconcile(2) by simp
  from controller_lost [OF reconcile(3-5) had this] obtain mm cm cl r u v where
    c: "stored a = Some mm" "om_DeletionTimestamp (mm_Meta mm) \<noteq> None" "the_mm u = mm" "prefix (log a) (trace u)"
      "prefix (trace v) (trace t)" "run_state (machine_reconcileDelete E cm cl) u = (r, v)"
      "f \<in> set (finalizers u)" "f \<notin> set (finalizers v)" .
  show thesis
    by (rule machine [OF reconcile(1) _ c(1-4) _ c(6-8)]) (use reconcile(2,3) c(5) in \<open>simp_all add: serves_def\<close>)
next
  case (maintain E s res t)
  from hmc_lost [OF maintain(3-5) had] lost maintain show thesis by (auto intro: maintenance)
next
  case (remove mm ts)
  with had lost show thesis by (auto simp: admit_def split: if_splits)
qed (use had lost in \<open>auto simp: managed_def\<close>)

section \<open>A machine under deletion\<close>

definition identity :: "maas_machine \<Rightarrow> string option \<times> string option \<times> gtime option" where
  "identity mm = (SystemID (mm_Spec mm), ProviderID (mm_Spec mm), om_DeletionTimestamp (mm_Meta mm))"

lemma delete_keeps_identity: "keeps (\<lambda>s. identity (the_mm s)) (machine_reconcileDelete E cm cl)"
proof -
  have "keeps (\<lambda>s. identity (the_mm s)) (delete_guests E gs)" for gs
    by (induction gs) (auto simp: call_defs intro!: keeps_mm_rules)
  then show ?thesis
    unfolding delete_defs machine_svc_defs call_defs Let_def
    by (intro keeps_mm_rules) (simp_all add: identity_def)
qed

lemma gone_stays:
  assumes "life_step ns nm a act b" "stored a = None" shows "stored b = None"
proof -
  have "foldl persist None es = None" for es by (induction es) (simp_all add: persist_def)
  with assms show ?thesis by (auto elim: life_stepE simp: after_run_def)
qed

lemma delete_step_identity:
  assumes E: "serves E ns nm w" and s: "trace s = log w" and run: "run_state (machine_Reconcile E ns nm) s = (res, t)"
    and w: "stored w = Some mm" "om_DeletionTimestamp (mm_Meta mm) \<noteq> None"
  shows "well (\<lambda>mm'. identity mm' = identity mm) (after_run w t)"
  using run
proof (cases rule: machine_Reconcile_cases)
  case (quiet es)
  with after_run_quiet [OF reads_since s] w show ?thesis by simp
next
  case (handled mm' cm cl mc es)
  have mm': "mm' = mm" using E s handled(1) w by (simp add: serves_def)
  let ?u = "s\<lparr>trace := trace s @ es, the_mm := mm, the_mc := mc\<rparr>"
  from with_close_parts [OF handled(4)] obtain r v c where v: "run_state (handler E mm cm cl) ?u = (r, v)"
    and c: "run_state (machine_PatchObject E cm) v = (c, t)" using mm' by metis
  from v w have del: "run_state (machine_reconcileDelete E cm cl) ?u = (r, v)" by simp
  from patch_event [OF c] obtain mm2 ok where p: "trace t = trace v @ [Kube (MaasMachinePatch mm2 ok)]"
    "mm_Meta mm2 = mm_Meta (the_mm v)" "mm_Spec mm2 = mm_Spec (the_mm v)" by blast
  have id: "identity mm2 = identity mm" using keepsD [OF delete_keeps_identity del] p(2,3) by (simp add: identity_def)
  from emits_since [OF no_write_delete del] handled(3) s obtain ds where
    ds: "trace v = log w @ ds" "list_all no_machine_write ds"
    by (auto simp: since_def list_all_iff ball_Un read_no_write)
  have "stored (after_run w t) = (if ok then admit mm2 else stored w)"
    using p(1) ds w persist_quiet [OF ds(2)] by (cases ok) (simp_all add: after_run_def persist_def)
  with id w show ?thesis by (auto simp: admit_def split: if_splits)
qed

text \<open>Under deletion a machine keeps its IDs, whoever makes the step.\<close>

lemma dying_step:
  assumes step: "life_step ns nm a act b" and a: "well (\<lambda>mm. identity mm = k) a" and k: "snd (snd k) \<noteq> None"
  shows "well (\<lambda>mm. identity mm = k) b"
proof (cases "stored a")
  case None
  with gone_stays [OF step] show ?thesis by simp
next
  case (Some mm)
  with a k have mm: "identity mm = k" "om_DeletionTimestamp (mm_Meta mm) \<noteq> None" by (auto simp: identity_def)
  from step show ?thesis
  proof cases
    case (reconcile E s res t)
    from delete_step_identity [OF reconcile(3-5) Some mm(2)] reconcile(2) mm show ?thesis by simp
  next
    case (maintain E s res t)
    show ?thesis
    proof (cases "maasmachine_get_r (kube E) ns nm (trace s)")
      case (Inl e)
      from after_run_quiet [OF hmc_Reconcile_calm [OF maintain(5) Inl] maintain(4)] maintain(2) a show ?thesis by simp
    next
      case (Inr mm')
      with maintain Some have "mm' = mm" by (simp add: serves_def)
      then have "well (evac_of mm') a" using Some by (simp add: evac_of_def)
      from after_run_well [OF hmc_Reconcile_stores [OF maintain(5) Inr] maintain(4) this] maintain(2) mm \<open>mm' = mm\<close>
      show ?thesis by (auto simp: evac_of_def identity_def)
    qed
  next
    case (update m mm')
    with Some mm show ?thesis by (auto simp: managed_def identity_def)
  qed (use Some mm in auto)
qed

section \<open>Types\<close>

lemma step_well_formed:
  assumes step: "life_step ns nm a act b" and ok: "well (\<lambda>mm. shape mm = sh \<and> ids_ok mm) a"
  shows "well (\<lambda>mm. shape mm = sh \<and> ids_ok mm) b"
  using step
proof cases
  case (reconcile E s res t)
  have both: "stores (\<lambda>mm. shape mm = sh) e \<Longrightarrow> stores ids_ok e \<Longrightarrow> stores (\<lambda>mm. shape mm = sh \<and> ids_ok mm) e" for e
    by (cases "(ids_ok, e)" rule: stores.cases) simp_all
  have "since (stores (\<lambda>mm. shape mm = sh \<and> ids_ok mm)) s t"
  proof (cases "maasmachine_get_r (kube E) ns nm (trace s)")
    case (Inl e)
    from reconcile(5) show ?thesis
      by (cases rule: machine_Reconcile_cases) (simp_all add: Inl since_def reconcile_read_stores)
  next
    case (Inr mm)
    with reconcile ok have mm: "shape mm = sh" "ids_ok mm" by (auto simp: serves_def)
    from shaped.reconcile_written [OF reconcile(5) Inr mm(1)] ids.reconcile_written [OF reconcile(5) Inr mm(2)]
    obtain es where "trace t = trace s @ es" "list_all (stores (\<lambda>mm. shape mm = sh)) es" "list_all (stores ids_ok) es"
      by (auto simp: since_def)
    then show ?thesis by (simp add: since_def list_all_iff both)
  qed
  from after_run_well [OF this reconcile(4) ok] reconcile(2) show ?thesis by simp
next
  case (maintain E s res t)
  show ?thesis
  proof (cases "maasmachine_get_r (kube E) ns nm (trace s)")
    case (Inl e)
    from after_run_quiet [OF hmc_Reconcile_calm [OF maintain(5) Inl] maintain(4)] maintain(2) ok show ?thesis by simp
  next
    case (Inr mm)
    with maintain have w: "stored a = Some mm" by (simp add: serves_def)
    then have "well (evac_of mm) a" by (simp add: evac_of_def)
    from after_run_well [OF hmc_Reconcile_stores [OF maintain(5) Inr] maintain(4) this] maintain(2) w ok show ?thesis
      by (auto simp: evac_of_def shape_def ids_ok_def)
  qed
next
  case (update mm mm')
  with ok validate_same_shape [OF update(4)] show ?thesis by (auto simp: managed_def ids_ok_def)
next
  case (remove mm ts)
  with ok show ?thesis by (auto simp: admit_def shape_def ids_ok_def split: if_splits)
qed (use ok in simp)

text \<open>
  C9: a machine keeps its shape and consistent IDs for life. Whatever the two controllers, their MAAS
  and API servers, and the admitted updates of everybody else do to a \<open>MaasMachine\<close> that was created
  without IDs, in every order: its image, CPU count and memory stay those it was created with, and when
  it has a system ID, then its provider ID is the one composed of a zone and this system ID.
\<close>

theorem machine_stays_well_formed:
  assumes life: "life ns nm w0 h w" and created: "stored w0 = Some mm0" "SystemID (mm_Spec mm0) = None"
    and now: "stored w = Some mm"
  shows "shape mm = shape mm0 \<and> (\<forall>sid. SystemID (mm_Spec mm) = Some sid \<longrightarrow> sid \<noteq> [] \<longrightarrow>
    (\<exists>z. ProviderID (mm_Spec mm) = Some (provider_id_string sid z)))"
proof -
  let ?W = "well (\<lambda>mm. shape mm = shape mm0 \<and> ids_ok mm)"
  have "?W w0" using created by (simp add: ids_ok_def)
  then have "?W w" by (rule life_keeps [where H = ?W, OF life, rotated]) (rule step_well_formed)
  with now have "shape mm = shape mm0 \<and> ids_ok mm" by blast
  then show ?thesis unfolding ids_ok_def .
qed

section \<open>A machine that was acquired is not forgotten\<close>

lemma released_or_gone_mono:
  assumes "released_or_gone E mm es" and sub: "set es \<subseteq> set fs" shows "released_or_gone E mm fs"
proof -
  have mem: "e \<in> set es \<Longrightarrow> e \<in> set fs" for e using sub by blast
  from assms(1) show ?thesis unfolding released_or_gone_def
    by (rule disj_forward) (elim exE conjE, intro exI conjI, assumption, assumption, erule mem, assumption)
qed

lemma window_mono:
  assumes "prefix as bs" "prefix cs ds" shows "set (drop (length bs) cs) \<subseteq> set (drop (length as) ds)"
proof -
  have "set (drop (length bs) cs) \<subseteq> set (drop (length as) cs)"
    by (rule set_drop_subset_set_drop) (rule prefix_length_le [OF assms(1)])
  with assms(2) show ?thesis by (auto simp: prefix_def)
qed

text \<open>A step that acquires something finds the machine protected, and leaves its finalizers in place.\<close>

lemma acquire_step:
  assumes step: "life_step ns nm a (MachineController E) b" and ev: "e \<in> set (new_events a b)" "acquires e"
  obtains mm cm cl mc where "stored a = Some mm" "protected E mm mc cl cm"
    "\<exists>tr n k. maascluster_get_r (kube E) n k tr = Inr mc"
    "\<And>f. f \<in> fins mm \<Longrightarrow> holds (\<lambda>mm. f \<in> fins mm) b"
  using step
proof cases
  case (reconcile s res t)
  with ev have e: "e \<in> set (drop (length (trace s)) (trace t))" by (simp add: new_events_def)
  from acquire_protected [OF reconcile(4) e ev(2)] obtain mm cm cl mc where
    p: "maasmachine_get_r (kube E) ns nm (trace s) = Inr mm" "protected E mm mc cl cm"
      "\<exists>tr. maascluster_get_r (kube E) (om_Namespace (mm_Meta mm)) (cl_InfraRefName cl) tr = Inr mc" by metis
  with reconcile have mm: "stored a = Some mm" "finalizer_laws (lib_of E)" by (auto simp: serves_def)
  have "holds (\<lambda>mm. f \<in> fins mm) b" if "f \<in> fins mm" for f
  proof (rule ccontr)
    assume l: "\<not> ?thesis"
    have "holds (\<lambda>mm. f \<in> fins mm) a" using mm that by simp
    from step this l show False by (cases rule: lost_by) (use mm p in \<open>simp_all add: protected_def\<close>)
  qed
  with that mm p show thesis by blast
qed

text \<open>A provider ID that a step removes while the finalizer stays: a reconcile requested a release.\<close>

lemma unrecorded_by:
  assumes step: "life_step ns nm a act b" and a: "stored a = Some mm" "GetProviderID mm \<noteq> []"
    and b: "stored b = Some mm'" "GetProviderID mm' = []"
  obtains E e where "act = MachineController E" "om_DeletionTimestamp (mm_Meta mm) = None"
    "e \<in> set (new_events a b)" "is_release e"
  using step
proof cases
  case (reconcile E s res t)
  have alive: "om_DeletionTimestamp (mm_Meta mm) = None"
  proof (rule ccontr)
    assume "om_DeletionTimestamp (mm_Meta mm) \<noteq> None"
    from delete_step_identity [OF reconcile(3-5) a(1) this] reconcile(2) a b show False
      by (auto simp: identity_def GetProviderID_def)
  qed
  have "maasmachine_get_r (kube E) ns nm (trace s) = Inr mm"
  proof (cases "maasmachine_get_r (kube E) ns nm (trace s)")
    case (Inl e)
    from reconcile(5) have "since no_machine_write s t"
      by (cases rule: machine_Reconcile_cases) (simp_all add: Inl reads_since)
    from after_run_quiet [OF this reconcile(4)] reconcile(2) a b show ?thesis by simp
  next
    case (Inr m)
    with reconcile(3,4) a(1) show ?thesis by (simp add: serves_def)
  qed
  from pid.reconcile_written_normal [OF reconcile(5) this a(2) alive] have "excused is_release s t"
  proof
    assume "since (stores (\<lambda>mm. GetProviderID mm \<noteq> [])) s t"
    from after_run_well [OF this reconcile(4)] reconcile(2) a b show ?thesis by simp
  qed
  then obtain e where "e \<in> set (drop (length (trace s)) (trace t))" "is_release e"
    by (auto simp: excused_def list_ex_iff)
  with reconcile alive that show thesis by (auto simp: new_events_def)
next
  case (maintain E s res t)
  have "GetProviderID mm' \<noteq> []"
  proof (cases "maasmachine_get_r (kube E) ns nm (trace s)")
    case (Inl e)
    from after_run_quiet [OF hmc_Reconcile_calm [OF maintain(5) Inl] maintain(4)] maintain(2) a b show ?thesis by simp
  next
    case (Inr m)
    with maintain a(1) have m: "m = mm" by (simp add: serves_def)
    then have "well (evac_of m) a" using a(1) by (simp add: evac_of_def)
    from after_run_well [OF hmc_Reconcile_stores [OF maintain(5) Inr] maintain(4) this] maintain(2) a b m
    show ?thesis by (auto simp: evac_of_def GetProviderID_def)
  qed
  with b show thesis by simp
next
  case (update m m')
  with a b show thesis by (simp add: managed_def GetProviderID_def)
next
  case (remove m ts)
  with a b show thesis by (auto simp: admit_def GetProviderID_def split: if_splits)
next
  case (other es)
  with a b show thesis by simp
qed

lemma is_release_iff: "is_release e \<longleftrightarrow> (\<exists>sid force ok. e = Maas (MachineRelease sid force ok))"
  by (cases e rule: is_release.cases) auto

text \<open>
  C4: a recorded machine is not forgotten before its release. Take a stored \<open>MaasMachine\<close> with a
  provider ID and the machine finalizer. If later in its life the object is gone, or has lost the
  finalizer or the provider ID, then a reconcile of the machine controller in between found the object
  with a provider ID, and one of two things holds. The object was under deletion, and in this reconcile
  the release of the machine the ID names succeeded, or the ID names no instance or one that MAAS does
  not know, and the deletion was at least two minutes old. Or the object was not under deletion (a
  failed deployment, or a VM that was given to a host), and in this reconcile the release of a machine
  was requested; the code does not look at the result of this request before it clears the IDs.
\<close>

theorem recorded_machine_not_forgotten:
  assumes life: "life ns nm w0 h w"
    and start: "stored w0 = Some mm0" "MachineFinalizer \<in> fins mm0" "GetProviderID mm0 \<noteq> []"
    and lost: "\<forall>mm. stored w = Some mm \<longrightarrow> MachineFinalizer \<notin> fins mm \<or> GetProviderID mm = []"
  shows "\<exists>E a b mm. (MachineController E, a, b) \<in> set h \<and> stored a = Some mm \<and> GetProviderID mm \<noteq> [] \<and>
    (if om_DeletionTimestamp (mm_Meta mm) \<noteq> None
     then (\<exists>sid tr x. GetInstanceID mm = Some sid \<and> machine_get_r (maas E) sid tr = Inr x \<and>
             Maas (MachineRelease (sdk_SystemID x) False True) \<in> set (new_events a b)) \<or>
          ((GetInstanceID mm \<in> {None, Some []} \<or>
            (\<exists>sid tr e. GetInstanceID mm = Some sid \<and> lift_err (machine_get_r (maas E) sid tr) = Inl e \<and>
               maas_not_found e)) \<and>
           (\<exists>ts tr. om_DeletionTimestamp (mm_Meta mm) = Some ts \<and> clock_r E tr - ts \<ge> 120))
     else \<exists>sid force ok. Maas (MachineRelease sid force ok) \<in> set (new_events a b))"
proof -
  let ?H = "holds (\<lambda>mm. MachineFinalizer \<in> fins mm \<and> GetProviderID mm \<noteq> [])"
  have "?H w0" "\<not> ?H w" using start lost by auto
  with life_lost [where H = ?H, OF life] obtain act c d where
    l: "(act, c, d) \<in> set h" "life_step ns nm c act d" "?H c" "\<not> ?H d" by blast
  from l(3) obtain mm where mm: "stored c = Some mm" "MachineFinalizer \<in> fins mm" "GetProviderID mm \<noteq> []" by blast
  show ?thesis
  proof (cases "holds (\<lambda>mm. MachineFinalizer \<in> fins mm) d")
    case False
    have "holds (\<lambda>mm. MachineFinalizer \<in> fins mm) c" using mm by blast
    from l(2) this False show ?thesis
    proof (cases rule: lost_by)
      case (machine E' mm' cm cl r u v)
      have mm': "mm' = mm" using machine(3) mm(1) by simp
      obtain ts where ts: "om_DeletionTimestamp (mm_Meta mm) = Some ts" using machine(4) mm' by blast
      have "released_or_gone E' mm (drop (length (trace u)) (trace v))"
        using reconcileDelete_drop [OF machine(2,8)] machine(5,9,10) mm' by simp
      from released_or_gone_mono [OF this window_mono [OF machine(6,7)]]
      have "released_or_gone E' mm (new_events c d)" by (simp add: new_events_def)
      then have "(\<exists>sid tr x. GetInstanceID mm = Some sid \<and> machine_get_r (maas E') sid tr = Inr x \<and>
             Maas (MachineRelease (sdk_SystemID x) False True) \<in> set (new_events c d)) \<or>
          ((GetInstanceID mm \<in> {None, Some []} \<or>
            (\<exists>sid tr e. GetInstanceID mm = Some sid \<and> lift_err (machine_get_r (maas E') sid tr) = Inl e \<and>
               maas_not_found e)) \<and>
           (\<exists>ts tr. om_DeletionTimestamp (mm_Meta mm) = Some ts \<and> clock_r E' tr - ts \<ge> 120))"
        using ts unfolding released_or_gone_def by simp
      with l(1) mm ts machine(1) show ?thesis
        by (intro exI [of _ E'] exI [of _ c] exI [of _ d] exI [of _ mm]) simp
    qed (simp add: MachineFinalizer_def HostEvacuationFinalizer_def)
  next
    case True
    with l(4) obtain mm' where mm': "stored d = Some mm'" "GetProviderID mm' = []" by auto
    from unrecorded_by [OF l(2) mm(1,3) mm'] obtain E e where
      "act = MachineController E" "om_DeletionTimestamp (mm_Meta mm) = None" "e \<in> set (new_events c d)" "is_release e" .
    with l(1) mm show ?thesis
      by (intro exI [of _ E] exI [of _ c] exI [of _ d] exI [of _ mm]) (auto simp: is_release_iff)
  qed
qed

section \<open>A host is evacuated before it is released\<close>

text \<open>A deletion calls MAAS only once the evacuation finalizer is gone.\<close>

lemma delete_step_evacuated:
  assumes step: "life_step ns nm a (MachineController E) b" and ev: "Maas m \<in> set (new_events a b)"
    and a: "stored a = Some mm" "om_DeletionTimestamp (mm_Meta mm) \<noteq> None"
  shows "HostEvacuationFinalizer \<notin> fins mm"
  using step
proof cases
  case (reconcile s res t)
  from reconcile(4) show ?thesis
  proof (cases rule: machine_Reconcile_cases)
    case (quiet es)
    with reconcile ev have "reconcile_read (Maas m)" by (auto simp: new_events_def list_all_iff)
    then show ?thesis by simp
  next
    case (handled mm' cm cl mc es)
    have mm': "mm' = mm" using reconcile handled(1) a(1) by (simp add: serves_def)
    let ?u = "s\<lparr>trace := trace s @ es, the_mm := mm', the_mc := mc\<rparr>"
    from with_close_parts [OF handled(4)] obtain r v c where v: "run_state (handler E mm' cm cl) ?u = (r, v)"
      and c: "run_state (machine_PatchObject E cm) v = (c, t)" .
    from v a(2) mm' have del: "run_state (machine_reconcileDelete E cm cl) ?u = (r, v)" by simp
    show ?thesis
    proof
      assume "HostEvacuationFinalizer \<in> fins mm"
      with del mm' reconcile have "trace v = trace ?u"
        unfolding machine_reconcileDelete_def has_finalizer_def set_finalizers_def serves_def finalizer_laws_def
        by (auto split: if_splits)
      moreover from patch_event [OF c] obtain mm2 ok where "trace t = trace v @ [Kube (MaasMachinePatch mm2 ok)]" by blast
      ultimately have "trace t = trace s @ es @ [Kube (MaasMachinePatch mm2 ok)]" by simp
      with ev reconcile handled(3) have "reconcile_read (Maas m)" by (auto simp: new_events_def list_all_iff)
      then show False by simp
    qed
  qed
qed

text \<open>
  C3: a host under deletion is evacuated before MAAS is called for it. Take the machine of a host in an
  LXD-enabled cluster for which a reconcile acquired something. If a reconcile later in its life, while
  the object is under deletion and has a system ID, calls MAAS at all (to release or delete anything,
  or to look the machine up), then in between the host maintenance controller saw a host without a VM
  in the inventory and removed the evacuation finalizer; and if the object was already under deletion
  then, that host is the one of the system ID. The release that follows a failed deployment of an
  object that is not under deletion is not covered: the code makes it without looking at VMs.
\<close>

theorem host_evacuated_before_release:
  assumes life: "life ns nm w0 (h1 @ (MachineController E, a, b) # h2 @ [(MachineController E2, c, d)]) w"
    and ev: "e \<in> set (new_events a b)" "acquires e"
    and host: "stored a = Some mm" "is_host_machine mm"
    and lxd: "\<And>n k tr mc. maascluster_get_r (kube E) n k tr = Inr mc \<Longrightarrow> IsLXDHostEnabled mc"
    and release: "stored c = Some mm2" "om_DeletionTimestamp (mm_Meta mm2) \<noteq> None" "Maas m \<in> set (new_events c d)"
    and sid: "SystemID (mm_Spec mm2) = Some h" "h \<noteq> []"
  shows "\<exists>E' x y mm'. (MaintenanceController E', x, y) \<in> set h2 \<and> stored x = Some mm' \<and> host_seen_empty E' mm' x y \<and>
    (om_DeletionTimestamp (mm_Meta mm') \<noteq> None \<longrightarrow> SystemID (mm_Spec mm') = Some h)"
proof -
  let ?H = "holds (\<lambda>mm. HostEvacuationFinalizer \<in> fins mm)"
  note at = life_at [OF life]
  from acquire_step [OF at(2) ev] obtain mm' cm cl mc where p: "stored a = Some mm'" "protected E mm' mc cl cm"
    "\<exists>tr n k. maascluster_get_r (kube E) n k tr = Inr mc" "\<And>f. f \<in> fins mm' \<Longrightarrow> holds (\<lambda>mm. f \<in> fins mm) b" by metis
  from p(3) lxd have "IsLXDHostEnabled mc" by blast
  moreover from at(2) have "finalizer_laws (lib_of E)" by cases (simp add: serves_def)
  ultimately have b: "?H b" using p host by (simp add: protected_def has_finalizer_def finalizer_laws_def)
  from at(3) have h2: "life ns nm b h2 c" "life_step ns nm c (MachineController E2) d"
    by (auto simp: life_append life_single)
  have "\<not> ?H c" using delete_step_evacuated [OF h2(2) release(3,1,2)] release(1) by simp
  with life_lost [where H = ?H, OF h2(1)] b obtain act x y where
    l: "(act, x, y) \<in> set h2" "life_step ns nm x act y" "?H x" "\<not> ?H y" by blast
  from l(1) obtain g1 g2 where "h2 = g1 @ (act, x, y) # g2" by (meson split_list)
  with h2(1) life_at(3) have rest: "life ns nm y g2 c" by blast
  have kept: "identity mm2 = identity mx" if x: "stored x = Some mx" "om_DeletionTimestamp (mm_Meta mx) \<noteq> None" for mx
  proof -
    let ?W = "well (\<lambda>mm. identity mm = identity mx)"
    have del: "snd (snd (identity mx)) \<noteq> None" using x(2) by (simp add: identity_def)
    have "?W x" using x(1) by simp
    from dying_step [OF l(2) this del] have "?W y" .
    then have "?W c" by (rule life_keeps [where H = ?W, OF rest, rotated]) (rule dying_step [OF _ _ del])
    with release(1) show ?thesis by blast
  qed
  from l(2-4) show ?thesis
  proof (cases rule: lost_by)
    case (machine E' mx cm cl r u v)
    have "SystemID (mm_Spec mx) \<in> {None, Some []}"
      using delete_evacuating [OF machine(2,8,9)] machine(5,9,10) by auto
    moreover have "SystemID (mm_Spec mx) = Some h" using kept [OF machine(3,4)] sid by (simp add: identity_def)
    ultimately show ?thesis using sid(2) by simp
  next
    case (maintenance E' mx)
    have "om_DeletionTimestamp (mm_Meta mx) \<noteq> None \<longrightarrow> SystemID (mm_Spec mx) = Some h"
      using kept [OF maintenance(3)] sid(1) by (auto simp: identity_def)
    with l(1) maintenance show ?thesis by blast
  qed
qed

section \<open>An evacuation that blocks the deletion\<close>

text \<open>
  A machine under deletion that carries the evacuation finalizer and the mark of a completed evacuation:
  the maintenance controller sees the mark and leaves it alone, the machine controller waits for the
  finalizer to go. Without an update by somebody else this is for ever.
\<close>

definition stuck :: "world \<Rightarrow> bool" where
  "stuck w \<longleftrightarrow> holds (\<lambda>mm. om_DeletionTimestamp (mm_Meta mm) \<noteq> None \<and> HostEvacuationFinalizer \<in> fins mm \<and>
     SystemID (mm_Spec mm) \<notin> {None, Some []} \<and>
     map_get (om_Annotations (mm_Meta mm)) EvacuationCompletedAnnotation \<noteq> []) w"

lemma marked_quiet:
  assumes run: "run_state (reconcileMaasMachine E) s = (r, t)"
    and mark: "map_get (om_Annotations (mm_Meta (the_mm s))) EvacuationCompletedAnnotation \<noteq> []"
  shows "since no_machine_write s t"
proof -
  have hcp: "emits no_machine_write (isHCPClusterForMachine E)"
    unfolding isHCPClusterForMachine_def call_defs by (intro emits_intros) (simp_all add: no_machine_write_def)
  have get: "emits no_machine_write (CapiMachine_Get E n o')" for n o'
    unfolding CapiMachine_Get_def by (intro emits_intros) (simp add: no_machine_write_def)
  obtain p u where u: "run_state (isHCPClusterForMachine E) s = (p, u)" by fastforce
  note su = emits_since [OF hcp u]
  have capi: "since no_machine_write u v" if "run_state (CapiMachine_Get E n o') u = (q, v)" for n o' q v
    by (rule emits_since [OF get that])
  show ?thesis
    using run u su mark since_trans [OF su capi]
    by (auto simp: reconcileMaasMachine_def split: option.splits sum.splits if_splits prod.splits)
qed

lemma stuck_step:
  assumes step: "life_step ns nm a act b" and a: "stuck a" and others: "act \<noteq> User"
  shows "stuck b"
proof -
  from a obtain mm where mm: "stored a = Some mm" "om_DeletionTimestamp (mm_Meta mm) \<noteq> None"
    "HostEvacuationFinalizer \<in> fins mm" "SystemID (mm_Spec mm) \<notin> {None, Some []}"
    "map_get (om_Annotations (mm_Meta mm)) EvacuationCompletedAnnotation \<noteq> []" unfolding stuck_def by blast
  from step show ?thesis
  proof cases
    case (reconcile E s res t)
    from reconcile(5) show ?thesis
    proof (cases rule: machine_Reconcile_cases)
      case (quiet es)
      with after_run_quiet [OF reads_since reconcile(4)] reconcile(2) a show ?thesis by (simp add: stuck_def)
    next
      case (handled mm' cm cl mc es)
      have mm': "mm' = mm" using reconcile(3,4) handled(1) mm(1) by (simp add: serves_def)
      let ?u = "s\<lparr>trace := trace s @ es, the_mm := mm, the_mc := mc\<rparr>"
      from with_close_parts [OF handled(4)] obtain r v c where v: "run_state (handler E mm cm cl) ?u = (r, v)"
        and c: "run_state (machine_PatchObject E cm) v = (c, t)" using mm' by metis
      from v mm(2) have "run_state (machine_reconcileDelete E cm cl) ?u = (r, v)" by simp
      from delete_evacuating [OF _ this] mm(3,4) reconcile(3) have "v = ?u" by (auto simp: serves_def)
      with patch_event [OF c] obtain mm2 ok where p: "trace t = trace s @ es @ [Kube (MaasMachinePatch mm2 ok)]"
        "mm_Meta mm2 = mm_Meta mm" "mm_Spec mm2 = mm_Spec mm" by auto
      have "list_all no_machine_write es" using handled(3) by (simp add: list_all_iff read_no_write)
      from persist_quiet [OF this] have "stored b = (if ok then admit mm2 else stored a)"
        using p(1) reconcile(2,4) mm(1) by (cases ok) (simp_all add: after_run_def persist_def)
      moreover have "admit mm2 = Some mm2" using mm(3) p(2) by (auto simp: admit_def)
      ultimately show ?thesis using mm p(2,3) by (auto simp: stuck_def)
    qed
  next
    case (maintain E s res t)
    have "since no_machine_write s t"
    proof (cases "maasmachine_get_r (kube E) ns nm (trace s)")
      case (Inl e)
      from hmc_Reconcile_calm [OF maintain(5) Inl] show ?thesis .
    next
      case (Inr m)
      with maintain(3,4) mm(1) have m: "m = mm" by (simp add: serves_def)
      let ?u = "s\<lparr>trace := trace s @ [Kube (MaasMachineGet ns nm)], the_mm := mm\<rparr>"
      have "run_state (reconcileMaasMachine E) ?u = (res, t)"
        using maintain(5) Inr m by (auto simp: hmc_Reconcile_def MaasMachine_Get_def run_api)
      from marked_quiet [OF this] mm(5) show ?thesis by (auto simp: since_def no_machine_write_def)
    qed
    from after_run_quiet [OF this maintain(4)] maintain(2) a show ?thesis by (simp add: stuck_def)
  next
    case (remove m ts)
    with mm show ?thesis by simp
  qed (use a others in \<open>auto simp: stuck_def\<close>)
qed

lemma completed_evacuation_blocks_deletion:
  "life ns nm w0 h w \<Longrightarrow> stuck w0 \<Longrightarrow> \<forall>(act, _) \<in> set h. act \<noteq> User \<Longrightarrow> stuck w"
  by (induction rule: life.induct) (auto intro: stuck_step)

section \<open>Witnesses\<close>

text \<open>
  The life of a host in an LXD-enabled cluster: its reconcile finds it powered off and powers it on, it
  is deleted, the maintenance controller evacuates it and the machine controller releases it.
\<close>

definition life_env :: "maas_machine \<Rightarrow> env" where
  "life_env mm = sample_env\<lparr>
     kube := sample_kube\<lparr>maasmachine_get_r := (\<lambda>_ _ _. Inr mm), maascluster_get_r := (\<lambda>_ _ _. Inr lxd_mc),
       capi_machine_get_r := (\<lambda>_ _ _. Inr (sample_capi_machine\<lparr>cam_DeletionTimestamp := Some 5\<rparr>))\<rparr>,
     maas := sample_maas\<lparr>machine_get_r := (\<lambda>_ _. Inr (sample_machine\<lparr>sdk_PowerState := ''off''\<rparr>))\<rparr>\<rparr>"

lemma life_env_serves: "stored w = Some mm \<Longrightarrow> serves (life_env mm) ns nm w"
  using sample_finalizer_laws by (simp add: serves_def life_env_def sample_env_def)

definition host_mm :: maas_machine where
  "host_mm = sample_mm\<lparr>mm_Spec := sample_spec\<lparr>SystemID := Some ''abc123'', ProviderID := Some ''maas:///az1/abc123''\<rparr>,
     mm_Meta := (sample_meta ''m-1'')\<lparr>om_Finalizers := [MachineFinalizer, HostEvacuationFinalizer],
       om_OwnerReferences := [(''Machine'', ''cluster.x-k8s.io/v1beta2'', ''m-1'')]\<rparr>\<rparr>"

definition host_world :: world where
  "host_world = \<lparr>stored = Some host_mm, log = []\<rparr>"

lemmas life_eval = reconcile_eval delete_eval drive_eval PowerOnMachine_def GetSystemID_def needs_deploy_def
  IsLXDHostEnabled_def machine_state_defs MachineFinalizer_def HostEvacuationFinalizer_def

lemmas life_env_eval = life_env_def lxd_mc_def sample_defs

lemma host_powered_on:
  obtains t mm where "run_state (machine_Reconcile (life_env host_mm) ''cluster-1'' ''m-1'') sample_sys = ((RequeueAfter 60, None), t)"
    "Maas (MachinePowerOn ''abc123'' True) \<in> set (trace t)" "stored (after_run host_world t) = Some mm"
    "mm_Meta mm = mm_Meta host_mm" "SystemID (mm_Spec mm) = Some ''abc123''" "Parent (mm_Spec mm) = None"
    "ProviderID (mm_Spec mm) = Some ''maas:///az1/abc123''" "LXD (mm_Spec mm) = None"
proof -
  obtain r t where run: "run_state (machine_Reconcile (life_env host_mm) ''cluster-1'' ''m-1'') sample_sys = (r, t)" by fastforce
  then have "r = (RequeueAfter 60, None) \<and> Maas (MachinePowerOn ''abc123'' True) \<in> set (trace t) \<and>
    (\<exists>mm. stored (after_run host_world t) = Some mm \<and> mm_Meta mm = mm_Meta host_mm \<and> SystemID (mm_Spec mm) = Some ''abc123'' \<and>
      Parent (mm_Spec mm) = None \<and> ProviderID (mm_Spec mm) = Some ''maas:///az1/abc123'' \<and> LXD (mm_Spec mm) = None)"
    by (auto simp: life_eval life_env_eval host_mm_def host_world_def after_run_def persist_def admit_def)
  with that run show thesis by blast
qed

text \<open>The evacuation of a deleted host with that machine, and its release, in any world that stores it.\<close>

definition dying :: "maas_machine \<Rightarrow> maas_machine" where
  "dying mm = mm_Meta_update (om_DeletionTimestamp_update (\<lambda>_. Some 0)) mm"

lemma host_evacuated:
  assumes w: "stored w = Some mm" "mm_Meta mm = mm_Meta (dying host_mm)" "SystemID (mm_Spec mm) = Some ''abc123''"
    "Parent (mm_Spec mm) = None"
  obtains r t mm' where "run_state (hmc_Reconcile (life_env mm) ''cluster-1'' ''m-1'') (sample_sys\<lparr>trace := log w\<rparr>) = (r, t)"
    "stored (after_run w t) = Some mm'" "om_Finalizers (mm_Meta mm') = [MachineFinalizer]"
    "om_DeletionTimestamp (mm_Meta mm') = Some 0" "mm_Spec mm' = mm_Spec mm"
proof -
  obtain r t where run: "run_state (hmc_Reconcile (life_env mm) ''cluster-1'' ''m-1'') (sample_sys\<lparr>trace := log w\<rparr>) = (r, t)"
    by fastforce
  then have "\<exists>mm'. stored (after_run w t) = Some mm' \<and> om_Finalizers (mm_Meta mm') = [MachineFinalizer] \<and>
    om_DeletionTimestamp (mm_Meta mm') = Some 0 \<and> mm_Spec mm' = mm_Spec mm"
    using w
    by (auto simp: hmc_Reconcile_def hmc_eval life_env_eval host_mm_def dying_def after_run_def persist_def admit_def
        LoadSession_def StartSession_def empty_session_def NewUUID_str_def time_Now_def time_Now_UTC_def IsNotFound_def not_found_def MachineFinalizer_def HostEvacuationFinalizer_def)
  with that run show thesis by blast
qed

lemma host_released:
  assumes w: "stored w = Some mm" "om_Finalizers (mm_Meta mm) = [MachineFinalizer]"
    "om_DeletionTimestamp (mm_Meta mm) = Some 0" "ProviderID (mm_Spec mm) = Some ''maas:///az1/abc123''"
    "LXD (mm_Spec mm) = None"
  obtains r t where "run_state (machine_Reconcile (life_env mm) ''cluster-1'' ''m-1'') (sample_sys\<lparr>trace := log w\<rparr>) = (r, t)"
    "Maas (MachineRelease ''abc123'' False True) \<in> set (drop (length (log w)) (trace t))" "stored (after_run w t) = None"
proof -
  obtain r t where run: "run_state (machine_Reconcile (life_env mm) ''cluster-1'' ''m-1'') (sample_sys\<lparr>trace := log w\<rparr>) = (r, t)"
    by fastforce
  then have "Maas (MachineRelease ''abc123'' False True) \<in> set (drop (length (log w)) (trace t)) \<and> stored (after_run w t) = None"
    using w by (auto simp: life_eval life_env_eval after_run_def persist_def admit_def)
  with that run show thesis by blast
qed

lemma host_life:
  obtains b c d e E2 E3 where
    "life ''cluster-1'' ''m-1'' host_world ([] @ (MachineController (life_env host_mm), host_world, b) #
       [(Deleter, b, c), (MaintenanceController E2, c, d)] @ [(MachineController E3, d, e)]) e"
    "Maas (MachinePowerOn ''abc123'' True) \<in> set (new_events host_world b)"
    "Maas (MachineRelease ''abc123'' False True) \<in> set (new_events d e)"
    "holds (\<lambda>mm. om_DeletionTimestamp (mm_Meta mm) \<noteq> None \<and> SystemID (mm_Spec mm) = Some ''abc123'') d" "stored e = None"
proof -
  let ?step = "life_step ''cluster-1'' ''m-1''"
  from host_powered_on obtain t mm where on:
    "run_state (machine_Reconcile (life_env host_mm) ''cluster-1'' ''m-1'') sample_sys = ((RequeueAfter 60, None), t)"
    "Maas (MachinePowerOn ''abc123'' True) \<in> set (trace t)" "stored (after_run host_world t) = Some mm"
    "mm_Meta mm = mm_Meta host_mm" "SystemID (mm_Spec mm) = Some ''abc123''" "Parent (mm_Spec mm) = None"
    "ProviderID (mm_Spec mm) = Some ''maas:///az1/abc123''" "LXD (mm_Spec mm) = None" .
  define b where "b = after_run host_world t"
  have s1: "?step host_world (MachineController (life_env host_mm)) b" unfolding b_def
    by (rule reconcile [OF life_env_serves _ on(1)]) (simp_all add: host_world_def sample_sys_def)
  define c where "c = b\<lparr>stored := Some (dying mm)\<rparr>"
  have "admit (dying mm) = Some (dying mm)" using on(4) by (simp add: admit_def dying_def host_mm_def)
  then have s2: "?step b Deleter c"
    using remove [of b mm "''cluster-1''" "''m-1''" 0] on(3,4) by (simp add: b_def c_def dying_def host_mm_def sample_meta_def)
  have "stored c = Some (dying mm)" "mm_Meta (dying mm) = mm_Meta (dying host_mm)" "mm_Spec (dying mm) = mm_Spec mm"
    using on(4) by (simp_all add: c_def dying_def)
  note c = this
  with on(5,6) host_evacuated [OF c(1,2)] obtain r u mm' where ev:
    "run_state (hmc_Reconcile (life_env (dying mm)) ''cluster-1'' ''m-1'') (sample_sys\<lparr>trace := log c\<rparr>) = (r, u)"
    "stored (after_run c u) = Some mm'" "om_Finalizers (mm_Meta mm') = [MachineFinalizer]"
    "om_DeletionTimestamp (mm_Meta mm') = Some 0" "mm_Spec mm' = mm_Spec mm" by metis
  define d where "d = after_run c u"
  have s3: "?step c (MaintenanceController (life_env (dying mm))) d" unfolding d_def
    by (rule maintain [OF life_env_serves [OF c(1)] _ ev(1)]) simp
  from host_released [OF ev(2,3,4)] on(7,8) ev(5) obtain q v where rel:
    "run_state (machine_Reconcile (life_env mm') ''cluster-1'' ''m-1'') (sample_sys\<lparr>trace := log d\<rparr>) = (q, v)"
    "Maas (MachineRelease ''abc123'' False True) \<in> set (drop (length (log d)) (trace v))" "stored (after_run d v) = None"
    unfolding d_def by metis
  define e where "e = after_run d v"
  have s4: "?step d (MachineController (life_env mm')) e" unfolding e_def
    by (rule reconcile [OF life_env_serves _ rel(1)]) (simp_all add: d_def ev(2))
  have "life ''cluster-1'' ''m-1'' host_world ([] @ (MachineController (life_env host_mm), host_world, b) #
       [(Deleter, b, c), (MaintenanceController (life_env (dying mm)), c, d)] @ [(MachineController (life_env mm'), d, e)]) e"
    using more [OF more [OF more [OF more [OF start s1] s2] s3] s4] by simp
  then show thesis
    by (rule that) (use on(2,5) rel(2,3) ev(2,4,5) in \<open>simp_all add: new_events_def b_def d_def e_def host_world_def\<close>)
qed

text \<open>
  Such a machine comes about without any update by somebody else: the CAPI machine is being deleted and
  the \<open>MaasMachine\<close> not yet, which is so while the node is drained. The maintenance controller evacuates
  the host, removes the finalizer and sets the mark; the next reconcile of the machine controller puts
  the finalizer back; then the object is deleted.
\<close>

lemma host_marked:
  obtains r t mm where "run_state (hmc_Reconcile (life_env host_mm) ''cluster-1'' ''m-1'') sample_sys = (r, t)"
    "stored (after_run host_world t) = Some mm" "mm_Spec mm = mm_Spec host_mm"
    "om_Finalizers (mm_Meta mm) = [MachineFinalizer]" "om_DeletionTimestamp (mm_Meta mm) = None"
    "map_get (om_Annotations (mm_Meta mm)) EvacuationCompletedAnnotation \<noteq> []"
    "om_OwnerReferences (mm_Meta mm) = om_OwnerReferences (mm_Meta host_mm)"
    "om_Labels (mm_Meta mm) = om_Labels (mm_Meta host_mm)" "om_Namespace (mm_Meta mm) = om_Namespace (mm_Meta host_mm)"
    "mm_Status mm = mm_Status host_mm"
proof -
  obtain r t where run: "run_state (hmc_Reconcile (life_env host_mm) ''cluster-1'' ''m-1'') sample_sys = (r, t)"
    by fastforce
  then have "\<exists>mm. stored (after_run host_world t) = Some mm \<and> mm_Spec mm = mm_Spec host_mm \<and>
    om_Finalizers (mm_Meta mm) = [MachineFinalizer] \<and> om_DeletionTimestamp (mm_Meta mm) = None \<and>
    map_get (om_Annotations (mm_Meta mm)) EvacuationCompletedAnnotation \<noteq> [] \<and>
    om_OwnerReferences (mm_Meta mm) = om_OwnerReferences (mm_Meta host_mm) \<and>
    om_Labels (mm_Meta mm) = om_Labels (mm_Meta host_mm) \<and> om_Namespace (mm_Meta mm) = om_Namespace (mm_Meta host_mm) \<and>
    mm_Status mm = mm_Status host_mm"
    by (auto simp: hmc_Reconcile_def hmc_eval life_env_eval host_mm_def host_world_def after_run_def persist_def admit_def
        LoadSession_def StartSession_def empty_session_def NewUUID_str_def time_Now_UTC_def IsNotFound_def not_found_def
        MachineFinalizer_def HostEvacuationFinalizer_def map_put_def)
  with that run show thesis by blast
qed

lemma host_guarded_again:
  assumes w: "stored w = Some mm" "mm_Spec mm = mm_Spec host_mm" "om_Finalizers (mm_Meta mm) = [MachineFinalizer]"
    "om_DeletionTimestamp (mm_Meta mm) = None" "om_Labels (mm_Meta mm) = om_Labels (mm_Meta host_mm)"
    "om_OwnerReferences (mm_Meta mm) = om_OwnerReferences (mm_Meta host_mm)"
    "om_Namespace (mm_Meta mm) = om_Namespace (mm_Meta host_mm)"
  obtains r t mm' where "run_state (machine_Reconcile (life_env mm) ''cluster-1'' ''m-1'') (sample_sys\<lparr>trace := log w\<rparr>) = (r, t)"
    "stored (after_run w t) = Some mm'" "om_Finalizers (mm_Meta mm') = [MachineFinalizer, HostEvacuationFinalizer]"
    "om_Annotations (mm_Meta mm') = om_Annotations (mm_Meta mm)" "mm_Spec mm' = mm_Spec mm"
    "om_DeletionTimestamp (mm_Meta mm') = None"
proof -
  obtain r t where run: "run_state (machine_Reconcile (life_env mm) ''cluster-1'' ''m-1'') (sample_sys\<lparr>trace := log w\<rparr>) = (r, t)"
    by fastforce
  then have "\<exists>mm'. stored (after_run w t) = Some mm' \<and>
    om_Finalizers (mm_Meta mm') = [MachineFinalizer, HostEvacuationFinalizer] \<and>
    om_Annotations (mm_Meta mm') = om_Annotations (mm_Meta mm) \<and> mm_Spec mm' = mm_Spec mm \<and>
    om_DeletionTimestamp (mm_Meta mm') = None"
    using w by (auto simp: life_eval life_env_eval host_mm_def set_finalizers_def after_run_def persist_def admit_def)
  with that run show thesis by blast
qed

lemma deletion_gets_stuck:
  "\<exists>b c d E. life ''cluster-1'' ''m-1'' host_world
     [(MaintenanceController (life_env host_mm), host_world, b), (MachineController E, b, c), (Deleter, c, d)] d \<and> stuck d"
proof -
  let ?step = "life_step ''cluster-1'' ''m-1''"
  from host_marked obtain r t mm where m: "run_state (hmc_Reconcile (life_env host_mm) ''cluster-1'' ''m-1'') sample_sys = (r, t)"
    "stored (after_run host_world t) = Some mm" "mm_Spec mm = mm_Spec host_mm"
    "om_Finalizers (mm_Meta mm) = [MachineFinalizer]" "om_DeletionTimestamp (mm_Meta mm) = None"
    "map_get (om_Annotations (mm_Meta mm)) EvacuationCompletedAnnotation \<noteq> []"
    "om_OwnerReferences (mm_Meta mm) = om_OwnerReferences (mm_Meta host_mm)"
    "om_Labels (mm_Meta mm) = om_Labels (mm_Meta host_mm)" "om_Namespace (mm_Meta mm) = om_Namespace (mm_Meta host_mm)"
    by metis
  define b where "b = after_run host_world t"
  have s1: "?step host_world (MaintenanceController (life_env host_mm)) b" unfolding b_def
    by (rule maintain [OF life_env_serves _ m(1)]) (simp_all add: host_world_def sample_sys_def)
  have b: "stored b = Some mm" using m(2) by (simp add: b_def)
  from host_guarded_again [OF b m(3,4,5,8,7,9)] obtain q u mm' where
    g: "run_state (machine_Reconcile (life_env mm) ''cluster-1'' ''m-1'') (sample_sys\<lparr>trace := log b\<rparr>) = (q, u)"
    "stored (after_run b u) = Some mm'" "om_Finalizers (mm_Meta mm') = [MachineFinalizer, HostEvacuationFinalizer]"
    "om_Annotations (mm_Meta mm') = om_Annotations (mm_Meta mm)" "mm_Spec mm' = mm_Spec mm"
    "om_DeletionTimestamp (mm_Meta mm') = None" .
  define c where "c = after_run b u"
  have s2: "?step b (MachineController (life_env mm)) c" unfolding c_def
    by (rule reconcile [OF life_env_serves [OF b] _ g(1)]) simp
  define d where "d = c\<lparr>stored := Some (dying mm')\<rparr>"
  have "admit (dying mm') = Some (dying mm')" using g(3) by (simp add: admit_def dying_def)
  then have s3: "?step c Deleter d"
    using remove [of c mm' "''cluster-1''" "''m-1''" 0] g(2,6) by (simp add: c_def d_def dying_def)
  have "stuck d"
    using g(3,4,5) m(3,6) by (simp add: stuck_def d_def dying_def host_mm_def)
  moreover have "life ''cluster-1'' ''m-1'' host_world
     [(MaintenanceController (life_env host_mm), host_world, b), (MachineController (life_env mm), b, c), (Deleter, c, d)] d"
    using more [OF more [OF more [OF start s1] s2] s3] by simp
  ultimately show ?thesis by blast
qed

lemma host_mm_recorded: "stored host_world = Some host_mm" "MachineFinalizer \<in> fins host_mm" "GetProviderID host_mm \<noteq> []"
  by (simp_all add: host_world_def host_mm_def GetProviderID_def)

theorem recorded_machine_not_forgotten_witness:
  "\<exists>b c d e E2 E3 h. h = [(MachineController (life_env host_mm), host_world, b), (Deleter, b, c),
       (MaintenanceController E2, c, d), (MachineController E3, d, e)] \<and>
     life ''cluster-1'' ''m-1'' host_world h e \<and> GetProviderID host_mm = ''maas:///az1/abc123'' \<and> stored e = None \<and>
     Maas (MachineRelease ''abc123'' False True) \<in> set (new_events d e) \<and>
     (\<exists>E x y mm. (MachineController E, x, y) \<in> set h \<and> stored x = Some mm \<and> GetProviderID mm \<noteq> [])"
proof (rule host_life)
  fix b c d e E2 E3
  let ?h = "[(MachineController (life_env host_mm), host_world, b), (Deleter, b, c),
       (MaintenanceController E2, c, d), (MachineController E3, d, e)]"
  assume l: "life ''cluster-1'' ''m-1'' host_world ([] @ (MachineController (life_env host_mm), host_world, b) #
       [(Deleter, b, c), (MaintenanceController E2, c, d)] @ [(MachineController E3, d, e)]) e"
    "Maas (MachineRelease ''abc123'' False True) \<in> set (new_events d e)" "stored e = None"
  then have life: "life ''cluster-1'' ''m-1'' host_world ?h e" by simp
  have "\<forall>mm. stored e = Some mm \<longrightarrow> MachineFinalizer \<notin> fins mm \<or> GetProviderID mm = []" using l(3) by simp
  from recorded_machine_not_forgotten [OF life host_mm_recorded this]
  have "\<exists>E x y mm. (MachineController E, x, y) \<in> set ?h \<and> stored x = Some mm \<and> GetProviderID mm \<noteq> []" by blast
  moreover have "GetProviderID host_mm = ''maas:///az1/abc123''" by (simp add: host_mm_def GetProviderID_def)
  ultimately show ?thesis using life l(2,3) by blast
qed

theorem host_evacuated_before_release_witness:
  "\<exists>b c d e E2 E3 mm. life ''cluster-1'' ''m-1'' host_world
       [(MachineController (life_env host_mm), host_world, b), (Deleter, b, c), (MaintenanceController E2, c, d),
        (MachineController E3, d, e)] e \<and>
     Maas (MachinePowerOn ''abc123'' True) \<in> set (new_events host_world b) \<and>
     Maas (MachineRelease ''abc123'' False True) \<in> set (new_events d e) \<and>
     stored c = Some mm \<and> host_seen_empty E2 mm c d"
proof (rule host_life)
  fix b c d e E2 E3
  assume l: "life ''cluster-1'' ''m-1'' host_world ([] @ (MachineController (life_env host_mm), host_world, b) #
       [(Deleter, b, c), (MaintenanceController E2, c, d)] @ [(MachineController E3, d, e)]) e"
    "Maas (MachinePowerOn ''abc123'' True) \<in> set (new_events host_world b)"
    "Maas (MachineRelease ''abc123'' False True) \<in> set (new_events d e)"
    "holds (\<lambda>mm. om_DeletionTimestamp (mm_Meta mm) \<noteq> None \<and> SystemID (mm_Spec mm) = Some ''abc123'') d"
  from l(4) obtain mm2 where mm2: "stored d = Some mm2" "om_DeletionTimestamp (mm_Meta mm2) \<noteq> None"
    "SystemID (mm_Spec mm2) = Some ''abc123''" by blast
  have hm: "stored host_world = Some host_mm" "is_host_machine host_mm"
    and lxd: "maascluster_get_r (kube (life_env host_mm)) n k tr = Inr mc \<Longrightarrow> IsLXDHostEnabled mc" for n k tr mc
    by (auto simp: host_world_def host_mm_def is_host_machine_def life_env_def lxd_mc_def IsLXDHostEnabled_def sample_spec_def)
  from l(1) have life: "life ''cluster-1'' ''m-1'' host_world
       [(MachineController (life_env host_mm), host_world, b), (Deleter, b, c), (MaintenanceController E2, c, d),
        (MachineController E3, d, e)] e" by simp
  have "\<exists>E' x y mm'. (MaintenanceController E', x, y) \<in> set [(Deleter, b, c), (MaintenanceController E2, c, d)] \<and>
      stored x = Some mm' \<and> host_seen_empty E' mm' x y \<and>
      (om_DeletionTimestamp (mm_Meta mm') \<noteq> None \<longrightarrow> SystemID (mm_Spec mm') = Some ''abc123'')"
    by (rule host_evacuated_before_release [OF l(1,2) _ hm _ mm2(1,2) l(3) mm2(3)]) (simp, erule lxd, simp)
  then obtain mm' where "stored c = Some mm'" "host_seen_empty E2 mm' c d" by auto
  with life l(2,3) show ?thesis by blast
qed

text \<open>A new machine that is allocated, deployed and found running in one reconcile.\<close>

definition deploy_env :: env where
  "deploy_env = sample_env\<lparr>kube := sample_kube\<lparr>maasmachine_get_r := (\<lambda>_ _ _. Inr guarded_mm),
     secret_get_r := (\<lambda>_ _ _. Inr [(''value'', ''boot''), (''MAAS_ENDPOINT'', ''http://maas''), (''MAAS_API_KEY'', ''k'')])\<rparr>\<rparr>"

definition new_world :: world where
  "new_world = \<lparr>stored = Some guarded_mm, log = []\<rparr>"

lemma machine_deployed:
  "run_state (machine_Reconcile deploy_env ''cluster-1'' ''m-1'') sample_sys = (r, t) \<Longrightarrow>
   \<exists>mm. stored (after_run new_world t) = Some mm \<and> SystemID (mm_Spec mm) = Some ''abc123''"
  by (auto simp: life_eval cleanupStaleTagsAfterDeployment_def NewMAASClient_def GetMAASCredentials_def
      NewInventoryService_def NewTagService_def maas_GetHost_def maas_GetMachine_def to_inv_machine_def
      maas_RemoveTagFromHost_def maas_RemoveTagFromMachine_def deploy_env_def sample_defs guarded_mm_def new_world_def
      after_run_def persist_def admit_def splitImage_def Cut_def map_get_def GetMachineHostname_def node_with_prefix_def
      ToLower_def EqualFold_def Contains_def MachineDeployFailedReason_def simp del: base64_Encode.simps)

theorem machine_stays_well_formed_witness:
  "\<exists>b mm z. life_step ''cluster-1'' ''m-1'' new_world (MachineController deploy_env) b \<and> stored b = Some mm \<and>
     shape mm = shape guarded_mm \<and> SystemID (mm_Spec mm) = Some ''abc123'' \<and>
     ProviderID (mm_Spec mm) = Some (provider_id_string ''abc123'' z)"
proof -
  obtain r t where run: "run_state (machine_Reconcile deploy_env ''cluster-1'' ''m-1'') sample_sys = (r, t)" by fastforce
  from machine_deployed [OF run] obtain mm where mm: "stored (after_run new_world t) = Some mm"
    "SystemID (mm_Spec mm) = Some ''abc123''" by blast
  have "serves deploy_env ''cluster-1'' ''m-1'' new_world"
    using sample_finalizer_laws by (simp add: serves_def deploy_env_def new_world_def sample_env_def)
  then have step: "life_step ''cluster-1'' ''m-1'' new_world (MachineController deploy_env) (after_run new_world t)"
    by (rule reconcile [OF _ _ run]) (simp add: new_world_def sample_sys_def)
  have created: "stored new_world = Some guarded_mm" "SystemID (mm_Spec guarded_mm) = None"
    by (simp_all add: new_world_def guarded_mm_def sample_mm_def sample_spec_def)
  from machine_stays_well_formed [OF more [OF start step] created mm(1)] mm step show ?thesis by auto
qed

end
