(* ===== verification/Migration.thy ===== *)
theory Migration
  imports Guards Sample_World
begin

text \<open>
  \<open>controllers/migration.go\<close>: the rewriting of stored \<open>MaasCluster\<close> objects at start-up. An item of
  the untyped list is its namespace, its name and the shape found at \<open>status.failureDomains\<close>: absent,
  a slice, anything else (the map of older versions), or an error of the path lookup.
\<close>

section \<open>The migration\<close>

type_synonym raw_item = "string \<times> string \<times> fd_shape"

primrec migrate_items :: "env \<Rightarrow> raw_item list \<Rightarrow> unit res io" where
  "migrate_items E [] = ret (Inr ())"
| "migrate_items E (i # is) = (case i of (ns, nm, fd) \<Rightarrow> (case fd of
       FdPathError \<Rightarrow> ret (Inl (ErrorString ''accessor error: the path to failureDomains is not a map''))
     | FdAbsent \<Rightarrow> migrate_items E is
     | FdSlice \<Rightarrow> migrate_items E is
     | FdOther \<Rightarrow> ok_then (MC_Status_Patch E ns nm) (\<lambda>_. migrate_items E is)))"

definition MigrateMaasClusterFailureDomains :: "env \<Rightarrow> unit res io" where
  "MigrateMaasClusterFailureDomains E = ok_then (MC_List_Raw E) (migrate_items E)"

section \<open>The stored objects\<close>

text \<open>
  The abstract migration works on the store at once. The code's is a sequence of patches, each of
  which the API server applies to the object it names when it accepts it.
\<close>

fun migrated :: "fd_shape \<Rightarrow> fd_shape" where
  "migrated FdOther = FdSlice"
| "migrated sh = sh"

definition migrate_store :: "raw_item list \<Rightarrow> raw_item list" where
  "migrate_store = map (\<lambda>(ns, nm, fd). (ns, nm, migrated fd))"

fun apply_patch :: "raw_item list \<Rightarrow> event \<Rightarrow> raw_item list" where
  "apply_patch st (Kube (MCStatusPatch ns nm True)) =
     map (\<lambda>(a, b, fd). if (a, b) = (ns, nm) then (a, b, FdSlice) else (a, b, fd)) st"
| "apply_patch st _ = st"

abbreviation keys :: "raw_item list \<Rightarrow> (string \<times> string) list" where
  "keys st \<equiv> map (\<lambda>(ns, nm, fd). (ns, nm)) st"

fun migration_patch :: "raw_item \<Rightarrow> event" where
  "migration_patch (ns, nm, fd) = Kube (MCStatusPatch ns nm True)"

definition stale :: "raw_item list \<Rightarrow> raw_item list" where
  "stale = filter (\<lambda>(ns, nm, fd). fd = FdOther)"

lemma migrate_items_ok:
  assumes "run_state (migrate_items E is) s = (Inr (), t)"
  shows "t = s\<lparr>trace := trace s @ map migration_patch (stale is)\<rparr> \<and> FdPathError \<notin> snd ` snd ` set is"
  using assms
proof (induction "is" arbitrary: s)
  case Nil
  then show ?case by (simp add: stale_def)
next
  case (Cons i "is")
  obtain ns nm fd where i: "i = (ns, nm, fd)" by (cases i)
  show ?case
  proof (cases fd)
    case FdOther
    with Cons.prems i have p: "mc_status_patch_r (kube E) ns nm (trace s) = Inr ()"
      and r: "run_state (migrate_items E is) (s\<lparr>trace := trace s @ [Kube (MCStatusPatch ns nm True)]\<rparr>) = (Inr (), t)"
      by (auto simp: MC_Status_Patch_def run_api lift_err_def split: sum.splits)
    from Cons.IH [OF r] i FdOther show ?thesis by (simp add: stale_def)
  qed (use Cons i in \<open>auto simp: stale_def\<close>)
qed

lemma apply_other_keys:
  assumes "(ns, nm) \<notin> set (keys st)"
  shows "apply_patch st (Kube (MCStatusPatch ns nm ok)) = st"
  using assms by (cases ok) (auto simp: map_idI image_iff split: prod.splits)

lemma replay_cons:
  assumes "(a, b) \<notin> set (keys xs)"
  shows "foldl apply_patch ((a, b, fd) # st) (map migration_patch (stale xs)) =
    (a, b, fd) # foldl apply_patch st (map migration_patch (stale xs))"
  using assms by (induction xs arbitrary: st) (auto simp: stale_def)

lemma replay_stale:
  "distinct (keys is) \<Longrightarrow> foldl apply_patch is (map migration_patch (stale is)) = migrate_store is"
proof (induction "is")
  case Nil
  then show ?case by (simp add: stale_def migrate_store_def)
next
  case (Cons i "is")
  obtain ns nm fd where i: "i = (ns, nm, fd)" by (cases i)
  with Cons.prems have out: "(ns, nm) \<notin> set (keys is)" by simp
  have "apply_patch is (Kube (MCStatusPatch ns nm True)) = is" by (rule apply_other_keys [OF out])
  with Cons i replay_cons [OF out] show ?case
    by (cases fd) (simp_all add: stale_def migrate_store_def)
qed

lemma stale_migrate_store: "stale (migrate_store is) = []"
proof -
  have "migrated fd \<noteq> FdOther" for fd by (cases fd) simp_all
  then show ?thesis by (auto simp: stale_def migrate_store_def filter_empty_conv)
qed

lemma path_error_migrate:
  "FdPathError \<in> snd ` snd ` set (migrate_store st) \<longleftrightarrow> FdPathError \<in> snd ` snd ` set st"
proof -
  have "FdPathError = migrated fd \<longleftrightarrow> FdPathError = fd" for fd by (cases fd) simp_all
  then show ?thesis by (induction st) (auto simp: migrate_store_def)
qed

lemma migrate_items_clean:
  "stale is = [] \<Longrightarrow> FdPathError \<notin> snd ` snd ` set is \<Longrightarrow> run_state (migrate_items E is) s = (Inr (), s)"
  by (induction "is") (auto simp: stale_def split: fd_shape.splits)

text \<open>
  C17: the migration refines its abstract specification and is idempotent. When it returns without
  an error, the patches it sent, applied to the objects it listed, give exactly the store in which
  every \<open>failureDomains\<close> that was not a slice is one, and no other object is touched; run again over
  that store, it returns without an error and writes nothing.
\<close>

theorem migration_refines:
  assumes run: "run_state (MigrateMaasClusterFailureDomains E) s = (Inr (), t)"
    and listed: "mc_list_raw_r (kube E) (trace s) = Inr st" and dist: "distinct (keys st)"
  shows "foldl apply_patch st (drop (length (trace s)) (trace t)) = migrate_store st \<and>
    (\<forall>E' s'. mc_list_raw_r (kube E') (trace s') = Inr (migrate_store st) \<longrightarrow>
       run_state (MigrateMaasClusterFailureDomains E') s' = (Inr (), s'\<lparr>trace := trace s' @ [Kube MCListRaw]\<rparr>))"
proof -
  have "run_state (migrate_items E st) (s\<lparr>trace := trace s @ [Kube MCListRaw]\<rparr>) = (Inr (), t)"
    using run listed by (auto simp: MigrateMaasClusterFailureDomains_def MC_List_Raw_def run_api lift_err_def)
  note ok = migrate_items_ok [OF this]
  then have "FdPathError \<notin> snd ` snd ` set (migrate_store st)" by (simp add: path_error_migrate)
  then have again: "run_state (migrate_items E' (migrate_store st)) u = (Inr (), u)" for E' u
    by (rule migrate_items_clean [OF stale_migrate_store])
  show ?thesis
    using ok replay_stale [OF dist] again
    by (auto simp: MigrateMaasClusterFailureDomains_def MC_List_Raw_def run_api lift_err_def)
qed

definition stored_shapes :: "raw_item list" where
  "stored_shapes = [(''ns'', ''old'', FdOther), (''ns'', ''new'', FdSlice), (''ns'', ''fresh'', FdAbsent)]"

definition migration_env :: env where
  "migration_env = sample_env\<lparr>kube := sample_kube\<lparr>mc_list_raw_r := (\<lambda>_. Inr stored_shapes),
     mc_status_patch_r := (\<lambda>_ _ _. Inr ())\<rparr>\<rparr>"

theorem migration_refines_witness:
  "foldl apply_patch stored_shapes
     (trace (snd (run_state (MigrateMaasClusterFailureDomains migration_env) sample_sys))) =
   [(''ns'', ''old'', FdSlice), (''ns'', ''new'', FdSlice), (''ns'', ''fresh'', FdAbsent)]"
proof -
  obtain r t where run: "run_state (MigrateMaasClusterFailureDomains migration_env) sample_sys = (r, t)"
    by (cases "run_state (MigrateMaasClusterFailureDomains migration_env) sample_sys")
  have answers: "mc_list_raw_r (kube migration_env) tr = Inr stored_shapes"
    "mc_status_patch_r (kube migration_env) a b tr = Inr ()" for tr a b
    by (simp_all add: migration_env_def)
  have "r = Inr ()"
    using run by (auto simp: MigrateMaasClusterFailureDomains_def MC_List_Raw_def MC_Status_Patch_def run_api
        lift_err_def answers stored_shapes_def)
  moreover have "distinct (keys stored_shapes)" by (simp add: stored_shapes_def)
  ultimately show ?thesis
    using migration_refines [OF _ answers(1), of sample_sys t] run
    by (simp add: sample_sys_def migrate_store_def stored_shapes_def)
qed

end
