(* ===== verification/Manager.thy ===== *)
theory Manager
  imports Migration Hmc_Controller
begin

text \<open>
  The start of the program, \<open>main.go\<close>, with the \<open>SetupWithManager\<close> functions of the four controllers and
  of the three webhooks. controller-runtime is a parameter: \<open>M step\<close> is its answer to a step of the
  setup. The flags are the variables that \<open>pflag.Parse\<close> leaves; the exit code of the process is the
  result of \<open>main\<close>.
\<close>

section \<open>Flags\<close>

record flags =
  metricsBindAddr :: string
  enableLeaderElection :: bool
  syncPeriod :: int \<comment> \<open>seconds\<close>
  machineConcurrency :: int
  healthAddr :: string
  webhookPort :: int
  watchNamespace :: string

text \<open>The variables when no flag is given.\<close>

definition initFlags :: flags where
  "initFlags = \<lparr>metricsBindAddr = '':8080'', enableLeaderElection = False, syncPeriod = 120 * 60,
     machineConcurrency = 2, healthAddr = '':9440'', webhookPort = 9443, watchNamespace = []\<rparr>"

definition concurrency :: "int \<Rightarrow> controller_options" where
  "concurrency c = \<lparr>co_MaxConcurrentReconciles = c, co_RecoverPanic = None\<rparr>"

section \<open>What the controllers watch\<close>

definition notHCPClusterPredicate :: "maas_cluster option \<Rightarrow> bool" where
  "notHCPClusterPredicate obj = (case obj of None \<Rightarrow> False | Some mc \<Rightarrow> \<not> isHCPMaasCluster (Some mc))"

text \<open>The requests of the maintenance controller for a ConfigMap.\<close>

definition sessionRequests :: "string \<Rightarrow> string \<Rightarrow> (string \<times> string) list" where
  "sessionRequests ns nm = (if nm = SessionCMName then [(ns, nm)] else [])"

type_synonym manager = "setup_step \<Rightarrow> unit resp"

definition mgr_step :: "manager \<Rightarrow> setup_step \<Rightarrow> unit res io" where
  "mgr_step M step = api (M step) (\<lambda>r. Setup step (is_ok r))"

definition maasmachine_spec :: "controller_options \<Rightarrow> controller_spec" where
  "maasmachine_spec opts = \<lparr>cs_Name = [], cs_For = ''MaasMachine'', cs_ForPredicate = [],
     cs_Watches = [(''Machine'', ''MachineToInfrastructureMapFunc''),
       (''MaasCluster'', ''MaasClusterToMaasMachines''), (''Cluster'', ''clusterToMaasMachines'')],
     cs_Options = opts, cs_NotPaused = True\<rparr>"

definition maasmachine_SetupWithManager :: "manager \<Rightarrow> controller_options \<Rightarrow> unit res io" where
  "maasmachine_SetupWithManager M opts =
     ok_then (mgr_step M (ClusterMapper ''MaasMachineList'')) (\<lambda>_. do {
       r \<leftarrow> mgr_step M (BuildController (maasmachine_spec opts));
       ret (case r of Inl e \<Rightarrow> Inl (Wrapped ''failed setting up with a controller manager'' e) | Inr _ \<Rightarrow> Inr ()) })"

definition maascluster_spec :: controller_spec where
  "maascluster_spec = \<lparr>cs_Name = [], cs_For = ''MaasCluster'', cs_ForPredicate = [],
     cs_Watches = [(''MaasMachine'', ''controlPlaneMachineToCluster''), (''Cluster'', ''ClusterToInfrastructureMapFunc'')],
     cs_Options = \<lparr>co_MaxConcurrentReconciles = 0, co_RecoverPanic = Some True\<rparr>, cs_NotPaused = True\<rparr>"

definition maascluster_SetupWithManager :: "manager \<Rightarrow> unit res io" where
  "maascluster_SetupWithManager M =
     ok_then (mgr_step M (BuildController maascluster_spec)) (\<lambda>_. mgr_step M (WatchChannel ''MaasCluster''))"

definition vec_spec :: "controller_options \<Rightarrow> controller_spec" where
  "vec_spec opts = \<lparr>cs_Name = ''vec'', cs_For = ''MaasCluster'', cs_ForPredicate = ''notHCPClusterPredicate'',
     cs_Watches = [], cs_Options = opts, cs_NotPaused = False\<rparr>"

definition vec_SetupWithManager :: "manager \<Rightarrow> controller_options \<Rightarrow> unit res io" where
  "vec_SetupWithManager M opts = mgr_step M (BuildController (vec_spec opts))"

definition hmc_spec :: "controller_options \<Rightarrow> controller_spec" where
  "hmc_spec opts = \<lparr>cs_Name = ''hmc'', cs_For = ''MaasMachine'', cs_ForPredicate = [],
     cs_Watches = [(''ConfigMap'', ''sessionRequests'')],
     cs_Options = opts\<lparr>co_RecoverPanic := Some True\<rparr>, cs_NotPaused = False\<rparr>"

definition hmc_SetupWithManager :: "manager \<Rightarrow> controller_options \<Rightarrow> unit res io" where
  "hmc_SetupWithManager M opts =
     ok_then (mgr_step M (BuildController (hmc_spec opts))) (\<lambda>_. mgr_step M (WatchChannel ''hmc''))"

definition cluster_SetupWebhookWithManager :: "manager \<Rightarrow> unit res io" where
  "cluster_SetupWebhookWithManager M = mgr_step M (BuildWebhook ''MaasCluster'')"
definition machine_SetupWebhookWithManager :: "manager \<Rightarrow> unit res io" where
  "machine_SetupWebhookWithManager M = mgr_step M (BuildWebhook ''MaasMachine'')"
definition template_SetupWebhookWithManager :: "manager \<Rightarrow> unit res io" where
  "template_SetupWebhookWithManager M = mgr_step M (BuildWebhook ''MaasMachineTemplate'')"

section \<open>main\<close>

definition manager_options_of :: "flags \<Rightarrow> manager_options" where
  "manager_options_of fl = \<lparr>mo_MetricsBindAddress = metricsBindAddr fl, mo_LeaderElection = enableLeaderElection fl,
     mo_LeaderElectionID = ''controller-leader-election-capmaas'', mo_SyncPeriod = syncPeriod fl,
     mo_HealthProbeBindAddress = healthAddr fl, mo_WebhookPort = webhookPort fl, mo_CacheNamespaces = []\<rparr>"

text \<open>Every error logs and calls \<open>os.Exit(1)\<close>.\<close>

definition start_up :: "env \<Rightarrow> manager \<Rightarrow> flags \<Rightarrow> unit res io" where
  "start_up E M fl =
     ok_then (mgr_step M GetConfig) (\<lambda>_.
     ok_then (mgr_step M (NewManager (manager_options_of fl))) (\<lambda>_.
     ok_then (mgr_step M (AddReadyzCheck ''ping'')) (\<lambda>_.
     ok_then (mgr_step M (AddHealthzCheck ''ping'')) (\<lambda>_.
     ok_then (mgr_step M (SetupClusterCache ''cluster-api-provider-maas'' (concurrency 1))) (\<lambda>_.
     ok_then (maasmachine_SetupWithManager M (concurrency (machineConcurrency fl))) (\<lambda>_.
     ok_then (maascluster_SetupWithManager M) (\<lambda>_.
     ok_then (vec_SetupWithManager M (concurrency 1)) (\<lambda>_.
     ok_then (hmc_SetupWithManager M (concurrency 1)) (\<lambda>_.
     ok_then (cluster_SetupWebhookWithManager M) (\<lambda>_.
     ok_then (machine_SetupWebhookWithManager M) (\<lambda>_.
     ok_then (template_SetupWebhookWithManager M) (\<lambda>_.
     ok_then (mgr_step M NewDirectClient) (\<lambda>_.
     ok_then (MigrateMaasClusterFailureDomains E) (\<lambda>_.
       mgr_step M StartManager))))))))))))))"

definition main :: "env \<Rightarrow> manager \<Rightarrow> flags \<Rightarrow> int io" where
  "main E M fl = do {
     r \<leftarrow> start_up E M fl;
     ret (case r of Inl _ \<Rightarrow> 1 | Inr _ \<Rightarrow> 0) }"

section \<open>What a start shows\<close>

definition startup_plan :: "flags \<Rightarrow> setup_step list" where
  "startup_plan fl = [GetConfig, NewManager (manager_options_of fl), AddReadyzCheck ''ping'', AddHealthzCheck ''ping'',
     SetupClusterCache ''cluster-api-provider-maas'' (concurrency 1), ClusterMapper ''MaasMachineList'',
     BuildController (maasmachine_spec (concurrency (machineConcurrency fl))),
     BuildController maascluster_spec, WatchChannel ''MaasCluster'', BuildController (vec_spec (concurrency 1)),
     BuildController (hmc_spec (concurrency 1)), WatchChannel ''hmc'', BuildWebhook ''MaasCluster'',
     BuildWebhook ''MaasMachine'', BuildWebhook ''MaasMachineTemplate'', NewDirectClient]"

abbreviation succeeded :: "setup_step list \<Rightarrow> event list" where
  "succeeded sts \<equiv> map (\<lambda>st. Setup st True) sts"

abbreviation no_start :: "event \<Rightarrow> bool" where
  "no_start e \<equiv> (\<forall>ok. e \<noteq> Setup StartManager ok)"

text \<open>\<open>makes sts m\<close>: \<open>m\<close> never starts the manager, and returns without an error after exactly the steps \<open>sts\<close>.\<close>

definition makes :: "setup_step list \<Rightarrow> unit res io \<Rightarrow> bool" where
  "makes sts m \<longleftrightarrow> emits no_start m \<and> (\<forall>s t. run_state m s = (Inr (), t) \<longrightarrow> trace t = trace s @ succeeded sts)"

lemma makes_setup: "st \<noteq> StartManager \<Longrightarrow> makes [st] (mgr_step M st)"
  unfolding makes_def mgr_step_def by (auto simp: run_api is_ok_def intro!: emits_api split: sum.splits)

lemma makes_wrapped:
  assumes "makes sts m"
  shows "makes sts (do { r \<leftarrow> m; ret (case r of Inl e \<Rightarrow> Inl (f e) | Inr _ \<Rightarrow> Inr ()) })"
  using assms unfolding makes_def by (auto intro!: emits_intros split: prod.splits sum.splits)

lemma makes_then:
  assumes "makes as m" "makes bs n" shows "makes (as @ bs) (ok_then m (\<lambda>_. n))"
  using assms unfolding makes_def
  by (auto intro!: emits_intros simp: ok_then_def split: prod.splits sum.splits)

lemma ok_then_assoc: "ok_then (ok_then m f) g = ok_then m (\<lambda>x. ok_then (f x) g)"
  by (rule State_Monad.state.expand) (auto simp: ok_then_def fun_eq_iff split: prod.splits sum.splits)

lemmas setup_defs = maasmachine_SetupWithManager_def maascluster_SetupWithManager_def vec_SetupWithManager_def
  hmc_SetupWithManager_def cluster_SetupWebhookWithManager_def machine_SetupWebhookWithManager_def
  template_SetupWebhookWithManager_def

definition registrations :: "manager \<Rightarrow> flags \<Rightarrow> unit res io" where
  "registrations M fl = foldr (\<lambda>m n. ok_then m (\<lambda>_. n)) [mgr_step M GetConfig, mgr_step M (NewManager (manager_options_of fl)),
     mgr_step M (AddReadyzCheck ''ping''), mgr_step M (AddHealthzCheck ''ping''),
     mgr_step M (SetupClusterCache ''cluster-api-provider-maas'' (concurrency 1)),
     maasmachine_SetupWithManager M (concurrency (machineConcurrency fl)), maascluster_SetupWithManager M,
     vec_SetupWithManager M (concurrency 1), hmc_SetupWithManager M (concurrency 1),
     cluster_SetupWebhookWithManager M, machine_SetupWebhookWithManager M, template_SetupWebhookWithManager M]
     (mgr_step M NewDirectClient)"

lemma start_up_split:
  "start_up E M fl = ok_then (registrations M fl) (\<lambda>_. ok_then (MigrateMaasClusterFailureDomains E) (\<lambda>_. mgr_step M StartManager))"
  by (simp add: start_up_def registrations_def ok_then_assoc)

lemma makes_registrations: "makes (startup_plan fl) (registrations M fl)"
proof -
  have "makes ([GetConfig] @ [NewManager (manager_options_of fl)] @ [AddReadyzCheck ''ping''] @ [AddHealthzCheck ''ping''] @
     [SetupClusterCache ''cluster-api-provider-maas'' (concurrency 1)] @ ([ClusterMapper ''MaasMachineList''] @
     [BuildController (maasmachine_spec (concurrency (machineConcurrency fl)))]) @
     ([BuildController maascluster_spec] @ [WatchChannel ''MaasCluster'']) @ [BuildController (vec_spec (concurrency 1))] @
     ([BuildController (hmc_spec (concurrency 1))] @ [WatchChannel ''hmc'']) @ [BuildWebhook ''MaasCluster''] @
     [BuildWebhook ''MaasMachine''] @ [BuildWebhook ''MaasMachineTemplate''] @ [NewDirectClient]) (registrations M fl)"
    unfolding registrations_def setup_defs foldr.simps id_apply comp_def
    by (intro makes_then makes_wrapped makes_setup) simp_all
  then show ?thesis by (simp add: startup_plan_def)
qed

lemma no_start_migration: "emits no_start (MigrateMaasClusterFailureDomains E)"
proof -
  have "emits no_start (migrate_items E is)" for "is"
    by (induction "is") (auto simp: MC_Status_Patch_def intro!: emits_intros split: fd_shape.split)
  then show ?thesis unfolding MigrateMaasClusterFailureDomains_def MC_List_Raw_def by (auto intro!: emits_intros)
qed

lemma migration_ok:
  assumes "run_state (MigrateMaasClusterFailureDomains E) s = (Inr (), t)"
  obtains st where "mc_list_raw_r (kube E) (trace s) = Inr st"
    "trace t = trace s @ Kube MCListRaw # map migration_patch (stale st)"
proof -
  from assms obtain st where st: "mc_list_raw_r (kube E) (trace s) = Inr st"
    "run_state (migrate_items E st) (s\<lparr>trace := trace s @ [Kube MCListRaw]\<rparr>) = (Inr (), t)"
    by (auto simp: MigrateMaasClusterFailureDomains_def MC_List_Raw_def run_api lift_err_def split: sum.splits)
  from migrate_items_ok [OF st(2)] that [OF st(1)] show thesis by simp
qed

text \<open>A manager that is started is started last.\<close>

lemma start_up_started:
  assumes run: "run_state (start_up E M fl) s = (r, t)" and new: "trace t = trace s @ xs @ Setup StartManager ok # ys"
  obtains st where "mc_list_raw_r (kube E) (trace s @ succeeded (startup_plan fl)) = Inr st" "ys = []" "ok = is_ok r"
    "xs = succeeded (startup_plan fl) @ Kube MCListRaw # map migration_patch (stale st)"
proof -
  have any: "emits any_event (ok_then (MigrateMaasClusterFailureDomains E) (\<lambda>_. mgr_step M StartManager))"
    "emits any_event (mgr_step M StartManager)"
    unfolding mgr_step_def by (intro emits_intros emits_mono [OF no_start_migration]; simp)+
  have front: "emits no_start (registrations M fl)" using makes_registrations by (simp add: makes_def)
  have starts: "\<not> no_start (Setup StartManager ok)" by simp
  from late_ok_then [OF run [unfolded start_up_split] front any(1) new starts] obtain x u zs us where
    u: "run_state (registrations M fl) s = (Inr x, u)"
      "run_state (ok_then (MigrateMaasClusterFailureDomains E) (\<lambda>_. mgr_step M StartManager)) u = (r, t)"
      "trace u = trace s @ zs" "xs = zs @ us" "trace t = trace u @ us @ Setup StartManager ok # ys" .
  from late_ok_then [OF u(2) no_start_migration any(2) u(5) starts] obtain y v ms vs where
    v: "run_state (MigrateMaasClusterFailureDomains E) u = (Inr y, v)" "run_state (mgr_step M StartManager) v = (r, t)"
      "trace v = trace u @ ms" "us = ms @ vs" "trace t = trace v @ vs @ Setup StartManager ok # ys" .
  from u makes_registrations have zs: "zs = succeeded (startup_plan fl)" by (simp add: makes_def)
  from v(2,5) have last: "vs = []" "ys = []" "ok = is_ok r"
    by (auto simp: mgr_step_def run_api Cons_eq_append_conv)
  have "run_state (MigrateMaasClusterFailureDomains E) u = (Inr (), v)" using v(1) by simp
  from migration_ok [OF this] obtain st where "mc_list_raw_r (kube E) (trace u) = Inr st"
    "trace v = trace u @ Kube MCListRaw # map migration_patch (stale st)" .
  with that u v zs last show thesis by simp
qed

lemma start_up_ok:
  assumes "run_state (start_up E M fl) s = (Inr (), t)" shows "Setup StartManager True \<in> set (drop (length (trace s)) (trace t))"
proof -
  from assms obtain u v where u: "run_state (registrations M fl) s = (Inr (), u)"
    "run_state (MigrateMaasClusterFailureDomains E) u = (Inr (), v)" "run_state (mgr_step M StartManager) v = (Inr (), t)"
    unfolding start_up_split by (auto split: prod.splits sum.splits)
  from u(1) makes_registrations have "prefix (trace s) (trace u)" by (auto simp: makes_def)
  moreover from migration_ok [OF u(2)] have "prefix (trace u) (trace v)" by (metis prefixI)
  ultimately have "prefix (trace s) (trace v)" by (rule prefix_order.trans)
  with u(3) show ?thesis by (auto simp: mgr_step_def run_api prefix_def is_ok_def)
qed

text \<open>
  C18: the manager only starts when everything is registered and the stored clusters are migrated. If
  a run of \<open>main\<close> starts the manager, then before it, with nothing else in between, all the checks, the
  cluster cache, the four controllers with their watches and the three webhooks were registered without
  an error, in the order of the source; the migration then patched exactly the stale clusters of the
  list it read, so that the replayed store has none left, and the start is the last thing that
  happens. The exit code is 0 exactly when the manager was started and returned without an error.
\<close>

theorem manager_starts_on_migrated_store:
  assumes run: "run_state (main E M fl) s = (code, t)"
  shows "(code = 0 \<longleftrightarrow> Setup StartManager True \<in> set (drop (length (trace s)) (trace t))) \<and>
    (\<forall>ok. Setup StartManager ok \<in> set (drop (length (trace s)) (trace t)) \<longrightarrow>
      (\<exists>st ms. mc_list_raw_r (kube E) (trace s @ succeeded (startup_plan fl)) = Inr st \<and>
        trace t = trace s @ succeeded (startup_plan fl) @ ms @ [Setup StartManager ok] \<and>
        (distinct (keys st) \<longrightarrow> foldl apply_patch st ms = migrate_store st \<and> stale (foldl apply_patch st ms) = [])))"
proof (intro conjI allI impI)
  from run obtain r where r: "run_state (start_up E M fl) s = (r, t)" "code = (case r of Inl _ \<Rightarrow> 1 | Inr _ \<Rightarrow> 0)"
    by (auto simp: main_def split: prod.splits)
  have "emits any_event (start_up E M fl)"
    unfolding start_up_split mgr_step_def using makes_registrations
    by (intro emits_intros emits_mono [OF no_start_migration]) (auto simp: makes_def intro: emits_mono)
  from emitsD [OF this r(1)] obtain es where es: "trace t = trace s @ es" by blast
  have start: "\<exists>st. mc_list_raw_r (kube E) (trace s @ succeeded (startup_plan fl)) = Inr st \<and> ok = is_ok r \<and>
      trace t = trace s @ succeeded (startup_plan fl) @ (Kube MCListRaw # map migration_patch (stale st)) @ [Setup StartManager ok]"
    if in_new: "Setup StartManager ok \<in> set (drop (length (trace s)) (trace t))" for ok
  proof -
    from in_new es obtain xs ys where new: "trace t = trace s @ xs @ Setup StartManager ok # ys"
      by (auto simp: in_set_conv_decomp)
    from start_up_started [OF r(1) new] obtain st where
      "mc_list_raw_r (kube E) (trace s @ succeeded (startup_plan fl)) = Inr st" "ys = []" "ok = is_ok r"
      "xs = succeeded (startup_plan fl) @ Kube MCListRaw # map migration_patch (stale st)" .
    with new show ?thesis by simp
  qed
  show "code = 0 \<longleftrightarrow> Setup StartManager True \<in> set (drop (length (trace s)) (trace t))"
    using r start_up_ok [of E M fl s t] start [of True] by (cases r) (auto simp: is_ok_def)
  fix ok assume "Setup StartManager ok \<in> set (drop (length (trace s)) (trace t))"
  from start [OF this] obtain st where st: "mc_list_raw_r (kube E) (trace s @ succeeded (startup_plan fl)) = Inr st"
    "trace t = trace s @ succeeded (startup_plan fl) @ (Kube MCListRaw # map migration_patch (stale st)) @ [Setup StartManager ok]"
    by blast
  have "foldl apply_patch st (Kube MCListRaw # map migration_patch (stale st)) = migrate_store st" if "distinct (keys st)"
    using replay_stale [OF that] by simp
  with st stale_migrate_store show "\<exists>st ms. mc_list_raw_r (kube E) (trace s @ succeeded (startup_plan fl)) = Inr st \<and>
      trace t = trace s @ succeeded (startup_plan fl) @ ms @ [Setup StartManager ok] \<and>
      (distinct (keys st) \<longrightarrow> foldl apply_patch st ms = migrate_store st \<and> stale (foldl apply_patch st ms) = [])"
    by metis
qed

text \<open>The namespace of the flag reaches neither the manager nor a controller.\<close>

lemma watchNamespace_ignored: "main E M (fl\<lparr>watchNamespace := n\<rparr>) = main E M fl"
  by (simp add: main_def start_up_def manager_options_of_def)

theorem manager_starts_on_migrated_store_witness:
  "\<exists>t ms. run_state (main migration_env (\<lambda>_ _. Inr ()) initFlags) sample_sys = (0, t) \<and>
     trace t = succeeded (startup_plan initFlags) @ ms @ [Setup StartManager True] \<and>
     foldl apply_patch stored_shapes ms = [(''ns'', ''old'', FdSlice), (''ns'', ''new'', FdSlice), (''ns'', ''fresh'', FdAbsent)]"
proof -
  let ?M = "\<lambda>_ _. Inr ()"
  obtain code t where run: "run_state (main migration_env ?M initFlags) sample_sys = (code, t)" by fastforce
  have answers: "mc_list_raw_r (kube migration_env) tr = Inr stored_shapes"
    "mc_status_patch_r (kube migration_env) a b tr = Inr ()" for tr a b
    by (simp_all add: migration_env_def)
  have code: "code = 0" using run
    by (auto simp: main_def start_up_def setup_defs mgr_step_def run_api MigrateMaasClusterFailureDomains_def
        MC_List_Raw_def MC_Status_Patch_def answers stored_shapes_def)
  have dist: "distinct (keys stored_shapes)" by (simp add: stored_shapes_def)
  have "Setup StartManager True \<in> set (trace t)"
    using manager_starts_on_migrated_store [OF run] code by (simp add: sample_sys_def)
  then have "\<exists>ms. trace t = succeeded (startup_plan initFlags) @ ms @ [Setup StartManager True] \<and>
      foldl apply_patch stored_shapes ms = migrate_store stored_shapes"
    using manager_starts_on_migrated_store [OF run] dist by (auto simp: sample_sys_def answers)
  with run code show ?thesis by (auto simp: migrate_store_def stored_shapes_def)
qed

section \<open>One maintenance controller per cluster\<close>

lemma read_only_hcp: "emits read_only (isHCPClusterForMachine E)"
  unfolding isHCPClusterForMachine_def call_defs by (intro emits_intros) simp_all

lemma isHCP_sees:
  assumes "run_state (isHCPClusterForMachine E) s = (Inr True, t)"
  shows "\<exists>cl mc tr tr'. cluster_from_metadata_r (kube E) (om_Labels (mm_Meta (the_mm s))) (om_Namespace (mm_Meta (the_mm s))) tr = Inr cl \<and>
    maascluster_get_r (kube E) (om_Namespace (mm_Meta (the_mm s))) (cl_InfraRefName cl) tr' = Inr mc \<and> isHCPMaasCluster (Some mc)"
  using assms unfolding isHCPClusterForMachine_def GetClusterFromMetadata_def MaasCluster_Get_def
  by (auto simp: run_api split: sum.splits option.splits)

text \<open>
  C27: one maintenance controller per cluster. If the host maintenance controller does anything for a
  machine beyond reading it, its owner and its cluster (starts a session, tags a host, writes an
  object), then the infrastructure cluster it read is one that the watch of the VM evacuation
  controller rejects; so a management cluster that serves both kinds of clusters never has both
  controllers evacuate the same one.
\<close>

theorem one_maintenance_controller_per_cluster:
  assumes run: "run_state (reconcileMaasMachine E) s = (r, t)"
    and ev: "e \<in> set (drop (length (trace s)) (trace t))" "\<not> read_only e"
  shows "\<exists>cl mc tr tr'.
    cluster_from_metadata_r (kube E) (om_Labels (mm_Meta (the_mm s))) (om_Namespace (mm_Meta (the_mm s))) tr = Inr cl \<and>
    maascluster_get_r (kube E) (om_Namespace (mm_Meta (the_mm s))) (cl_InfraRefName cl) tr' = Inr mc \<and>
    \<not> notHCPClusterPredicate (Some mc)"
proof -
  obtain h u where h: "run_state (isHCPClusterForMachine E) s = (h, u)" by fastforce
  from emits_since [OF read_only_hcp h] have calm: "since read_only s u" .
  have "h = Inr True"
  proof (rule ccontr)
    assume "h \<noteq> Inr True"
    with run h have "t = s \<or> t = u"
      unfolding reconcileMaasMachine_def by (cases h) (auto split: option.splits if_splits)
    with calm have "since read_only s t" by auto
    from since_not_in [OF this ev(1)] ev(2) show False by simp
  qed
  from isHCP_sees [OF h [unfolded this]] show ?thesis by (simp add: notHCPClusterPredicate_def)
qed

theorem one_maintenance_controller_per_cluster_witness:
  "\<exists>mc tr. maascluster_get_r (kube hmc_env) ''cluster-1'' ''c-1'' tr = Inr mc \<and> \<not> notHCPClusterPredicate (Some mc)"
proof -
  obtain t mm where t: "run_state (reconcileMaasMachine hmc_env) hmc_sys = ((NoRequeue, None), t)"
    "Kube (MaasMachineUpdate mm True) \<in> set (trace t)" using hmc_run by blast
  have "Kube (MaasMachineUpdate mm True) \<in> set (drop (length (trace hmc_sys)) (trace t))"
    using t(2) by (simp add: hmc_sys_def host_sys_def sample_sys_def)
  from one_maintenance_controller_per_cluster [OF t(1) this] show ?thesis
    by (auto simp: hmc_env_simps hmc_sys_def host_sys_def sample_defs)
qed

end
