(* ===== verification/Go_Memory.thy ===== *)
theory Go_Memory
  imports Prelude
begin

text \<open>
  Go's memory, for the code that copies objects: addresses, pointers, slices and maps, and what it means
  that a function returns a deep copy. A store hands out addresses in order; an address below \<open>lim\<close> holds a
  cell, and what a cell holds is up to the theory that uses the store. A panic (a dereference that fails) is
  \<open>None\<close>.
\<close>

section \<open>The store\<close>

type_synonym addr = nat
type_synonym ptr = "addr option" \<comment> \<open>\<open>None\<close> is nil\<close>

record 'c store =
  lim :: addr
  cells :: "addr \<Rightarrow> 'c"

type_synonym ('c, 'a) step = "'c store \<Rightarrow> ('a \<times> 'c store) option"

definition load :: "('c \<Rightarrow> 'a option) \<Rightarrow> addr \<Rightarrow> 'c store \<Rightarrow> 'a option" where
  "load get a h = (if a < lim h then get (cells h a) else None)"

text \<open>\<open>new\<close> and \<open>make\<close> reserve the next address; the cell gets its contents when they are complete.\<close>

definition reserve :: "'c store \<Rightarrow> addr \<times> 'c store" where
  "reserve h = (lim h, h\<lparr>lim := Suc (lim h)\<rparr>)"

definition put_cell :: "addr \<Rightarrow> 'c \<Rightarrow> 'c store \<Rightarrow> 'c store" where
  "put_cell a c h = h\<lparr>cells := (cells h)(a := c)\<rparr>"

definition agree :: "addr set \<Rightarrow> 'c store \<Rightarrow> 'c store \<Rightarrow> bool" where
  "agree A h k \<longleftrightarrow> (\<forall>a \<in> A. a < lim k \<and> cells k a = cells h a)"

definition extends :: "'c store \<Rightarrow> 'c store \<Rightarrow> bool" where
  "extends h k \<longleftrightarrow> lim h \<le> lim k \<and> agree {..<lim h} h k"

text \<open>What a program may do later when of the old memory it writes only to \<open>A\<close>.\<close>

definition writes :: "addr set \<Rightarrow> 'c store \<Rightarrow> 'c store \<Rightarrow> bool" where
  "writes A k l \<longleftrightarrow> lim k \<le> lim l \<and> (\<forall>a < lim k. a \<notin> A \<longrightarrow> cells l a = cells k a)"

lemma extends_refl [simp]: "extends h h"
  by (simp add: extends_def agree_def)

lemma extends_trans: "extends h k \<Longrightarrow> extends k l \<Longrightarrow> extends h l"
  by (auto simp: extends_def agree_def)

lemma agree_union [simp]: "agree (A \<union> B) h k \<longleftrightarrow> agree A h k \<and> agree B h k"
  by (auto simp: agree_def)

lemma agree_sub: "agree B h k \<Longrightarrow> A \<subseteq> B \<Longrightarrow> agree A h k"
  by (auto simp: agree_def)

lemma extends_agree: "extends h k \<Longrightarrow> A \<subseteq> {..<lim h} \<Longrightarrow> agree A h k"
  by (auto simp: extends_def agree_def)

section \<open>Deep copies\<close>

text \<open>
  A reader gives the value that a piece of memory stands for, with the addresses it is kept at. A copying
  function makes a deep copy when the result stands for the same value, is kept at new addresses only, and
  nothing that was there has changed.
\<close>

type_synonym ('c, 'p, 'v) reader = "'p \<Rightarrow> 'c store \<Rightarrow> ('v \<times> addr set) option"
type_synonym ('c, 'p) copying = "'p \<Rightarrow> ('c, 'p) step"

definition isolates :: "('c, 'p, 'v) reader \<Rightarrow> ('c, 'p) copying \<Rightarrow> bool" where
  "isolates rd cp \<longleftrightarrow> (\<forall>p h v A. rd p h = Some (v, A) \<longrightarrow>
     (\<exists>q k B. cp p h = Some (q, k) \<and> rd p k = Some (v, A) \<and> rd q k = Some (v, B) \<and> A \<inter> B = {} \<and>
        (\<forall>l. writes A k l \<longrightarrow> rd q l = Some (v, B)) \<and> (\<forall>l. writes B k l \<longrightarrow> rd p l = Some (v, A))))"

locale deep_copy =
  fixes rd :: "('c, 'p, 'v) reader" and cp :: "('c, 'p) copying"
  assumes below: "rd p h = Some (v, A) \<Longrightarrow> A \<subseteq> {..<lim h}"
    and frame: "rd p h = Some (v, A) \<Longrightarrow> agree A h k \<Longrightarrow> rd p k = Some (v, A)"
    and copies: "rd p h = Some (v, A) \<Longrightarrow> \<exists>q k B. cp p h = Some (q, k) \<and> extends h k \<and> rd q k = Some (v, B) \<and> B \<inter> {..<lim h} = {}"
begin

lemma kept:
  assumes "rd p h = Some (v, A)" and "extends h k"
  shows "rd p k = Some (v, A)"
  by (rule frame [OF assms(1) extends_agree [OF assms(2) below [OF assms(1)]]])

text \<open>The copy and the original are independent: writes to the memory of one do not reach the other.\<close>

lemma independent:
  assumes "rd p h = Some (v, A)"
  obtains q k B where "cp p h = Some (q, k)" "extends h k" "rd p k = Some (v, A)" "rd q k = Some (v, B)" "A \<inter> B = {}"
    "\<And>l. writes A k l \<Longrightarrow> rd q l = Some (v, B)" "\<And>l. writes B k l \<Longrightarrow> rd p l = Some (v, A)"
proof -
  from copies [OF assms] obtain q k B where q: "cp p h = Some (q, k)" "extends h k" "rd q k = Some (v, B)"
    "B \<inter> {..<lim h} = {}" by blast
  from kept [OF assms q(2)] have p: "rd p k = Some (v, A)" .
  have "A \<inter> B = {}" using below [OF assms] q(4) by blast
  then have "agree B k l" if "writes A k l" for l
    using that below [OF q(3)] by (fastforce simp: writes_def agree_def)
  moreover have "agree A k l" if "writes B k l" for l
    using that below [OF p] \<open>A \<inter> B = {}\<close> by (fastforce simp: writes_def agree_def)
  ultimately show thesis
    by (rule that [OF q(1,2) p q(3) \<open>A \<inter> B = {}\<close> frame [OF q(3)] frame [OF p]])
qed

lemma isolated: "isolates rd cp"
  unfolding isolates_def
proof (intro allI impI)
  fix p h v A
  assume "rd p h = Some (v, A)"
  from independent [OF this] show "\<exists>q k B. cp p h = Some (q, k) \<and> rd p k = Some (v, A) \<and> rd q k = Some (v, B) \<and>
      A \<inter> B = {} \<and> (\<forall>l. writes A k l \<longrightarrow> rd q l = Some (v, B)) \<and> (\<forall>l. writes B k l \<longrightarrow> rd p l = Some (v, A))"
    by metis
qed

end

section \<open>How copies are put together\<close>

text \<open>A value without pointers is copied by the assignment.\<close>

definition flat :: "('c, 'p, 'p) reader" where
  "flat p h = Some (p, {})"

definition assign :: "('c, 'p) copying" where
  "assign p h = Some (p, h)"

interpretation plain: deep_copy flat assign
  by unfold_locales (auto simp: flat_def assign_def)

text \<open>Two fields, one after the other.\<close>

definition rd_pair :: "('c, 'p, 'v) reader \<Rightarrow> ('c, 'q, 'w) reader \<Rightarrow> ('c, 'p \<times> 'q, 'v \<times> 'w) reader" where
  "rd_pair r s = (\<lambda>(p, q) h. do { (v, A) \<leftarrow> r p h; (w, B) \<leftarrow> s q h; Some ((v, w), A \<union> B) })"

definition cp_pair :: "('c, 'p) copying \<Rightarrow> ('c, 'q) copying \<Rightarrow> ('c, 'p \<times> 'q) copying" where
  "cp_pair f g = (\<lambda>(p, q) h. do { (p', h) \<leftarrow> f p h; (q', h) \<leftarrow> g q h; Some ((p', q'), h) })"

lemma rd_pair_Some: "rd_pair r s (p, q) h = Some (x, C) \<longleftrightarrow>
  (\<exists>v A w B. r p h = Some (v, A) \<and> s q h = Some (w, B) \<and> x = (v, w) \<and> C = A \<union> B)"
  by (auto simp: rd_pair_def bind_eq_Some_conv)

definition copied :: "('c, 'p, 'v) reader \<Rightarrow> ('c, 'p) copying \<Rightarrow> 'p \<Rightarrow> bool" where
  "copied rd cp p \<longleftrightarrow> (\<forall>h v A. rd p h = Some (v, A) \<longrightarrow>
     (\<exists>q k B. cp p h = Some (q, k) \<and> extends h k \<and> rd q k = Some (v, B) \<and> B \<inter> {..<lim h} = {}))"

lemma copied_deep: "deep_copy rd cp \<Longrightarrow> copied rd cp p"
  unfolding copied_def by (intro allI impI) (rule deep_copy.copies)

lemma copied_pair:
  assumes r: "deep_copy r f" and s: "copied s g q" and kept: "\<And>w B k. s q h = Some (w, B) \<Longrightarrow> extends h k \<Longrightarrow> s q k = Some (w, B)"
    and z: "rd_pair r s (p, q) h = Some (x, C)"
  obtains p' q' k D where "cp_pair f g (p, q) h = Some ((p', q'), k)" "extends h k" "rd_pair r s (p', q') k = Some (x, D)"
    "D \<inter> {..<lim h} = {}"
proof -
  from z obtain v A w B where v: "r p h = Some (v, A)" and w: "s q h = Some (w, B)" and x: "x = (v, w)"
    by (auto simp: rd_pair_Some)
  from deep_copy.copies [OF r v] obtain p' h1 A' where p: "f p h = Some (p', h1)" "extends h h1"
    "r p' h1 = Some (v, A')" "A' \<inter> {..<lim h} = {}" by blast
  from kept [OF w p(2)] s obtain q' h2 B' where
    q: "g q h1 = Some (q', h2)" "extends h1 h2" "s q' h2 = Some (w, B')" "B' \<inter> {..<lim h1} = {}"
    unfolding copied_def by blast
  have "B' \<inter> {..<lim h} = {}" using q(4) p(2) by (fastforce simp: extends_def)
  moreover have "r p' h2 = Some (v, A')" by (rule deep_copy.kept [OF r p(3) q(2)])
  ultimately show thesis using p q extends_trans [OF p(2) q(2)]
    by (intro that [of p' q' h2 "A' \<union> B'"]) (auto simp: x cp_pair_def rd_pair_Some)
qed

lemma rd_pair_frame:
  assumes "rd_pair r s (p, q) h = Some (x, C)" and "agree C h k"
    and "\<And>v A. r p h = Some (v, A) \<Longrightarrow> agree A h k \<Longrightarrow> r p k = Some (v, A)"
    and "\<And>w B. s q h = Some (w, B) \<Longrightarrow> agree B h k \<Longrightarrow> s q k = Some (w, B)"
  shows "rd_pair r s (p, q) k = Some (x, C)"
proof -
  from assms(1) obtain v A w B where v: "r p h = Some (v, A)" "s q h = Some (w, B)" "x = (v, w)" "C = A \<union> B"
    by (auto simp: rd_pair_Some)
  with assms(2) have "r p k = Some (v, A)" "s q k = Some (w, B)" by (simp_all add: assms(3,4))
  with v show ?thesis by (auto simp: rd_pair_Some)
qed

lemma rd_pair_below:
  assumes "rd_pair r s (p, q) h = Some (x, C)"
    and "\<And>v A. r p h = Some (v, A) \<Longrightarrow> A \<subseteq> N" and "\<And>w B. s q h = Some (w, B) \<Longrightarrow> B \<subseteq> N"
  shows "C \<subseteq> N"
  using assms(1) by (auto simp: rd_pair_Some dest!: assms(2,3))

lemma deep_copy_pair:
  assumes r: "deep_copy r f" and s: "deep_copy s g"
  shows "deep_copy (rd_pair r s) (cp_pair f g)"
proof (unfold_locales, goal_cases)
  case (1 z h x C)
  then show ?case
    by (cases z) (auto dest: rd_pair_below [OF _ deep_copy.below [OF r] deep_copy.below [OF s]])
next
  case (2 z h x C k)
  obtain p q where z: "z = (p, q)" by fastforce
  show ?case unfolding z
    by (rule rd_pair_frame [OF 2 [unfolded z]]) (erule (1) deep_copy.frame [OF r] deep_copy.frame [OF s])+
next
  case (3 z h x C)
  obtain p q where z: "z = (p, q)" by fastforce
  show ?case
    by (rule copied_pair [OF r copied_deep [OF s] deep_copy.kept [OF s] 3 [unfolded z]]) (auto simp: z)
qed

text \<open>A struct, by the tuple of its fields that are copied; the assignment \<open>*out = *in\<close> gives the others.\<close>

lemma deep_copy_struct:
  assumes "deep_copy r f"
    and "\<And>p h. rd p h = map_option (\<lambda>(v, A). (denote p v, A)) (r (parts p) h)"
    and "\<And>p h. cp p h = map_option (\<lambda>(q, k). (upd p q, k)) (f (parts p) h)"
    and "\<And>p q. parts (upd p q) = q" and "\<And>p q v. denote (upd p q) v = denote p v"
  shows "deep_copy rd cp"
proof (unfold_locales, goal_cases)
  case (1 p h x A)
  then show ?case by (auto simp: assms(2) dest: deep_copy.below [OF assms(1)])
next
  case (2 p h x A k)
  then obtain v where v: "r (parts p) h = Some (v, A)" "x = denote p v" by (auto simp: assms(2))
  from deep_copy.frame [OF assms(1), OF v(1) 2(2)] v(2) show ?case by (simp add: assms(2))
next
  case (3 p h x A)
  then obtain v where v: "r (parts p) h = Some (v, A)" "x = denote p v" by (auto simp: assms(2))
  from deep_copy.copies [OF assms(1), OF v(1)] obtain q k B where "f (parts p) h = Some (q, k)" "extends h k"
    "r q k = Some (v, B)" "B \<inter> {..<lim h} = {}" by blast
  with v(2) show ?case by (intro exI [of _ "upd p q"] exI [of _ k] exI [of _ B]) (simp add: assms(2-5))
qed

text \<open>The elements of an array.\<close>

fun rd_list :: "('c, 'p, 'v) reader \<Rightarrow> ('c, 'p list, 'v list) reader" where
  "rd_list r [] h = Some ([], {})"
| "rd_list r (p # ps) h = do { (v, A) \<leftarrow> r p h; (vs, B) \<leftarrow> rd_list r ps h; Some (v # vs, A \<union> B) }"

fun cp_list :: "('c, 'p) copying \<Rightarrow> ('c, 'p list) copying" where
  "cp_list f [] h = Some ([], h)"
| "cp_list f (p # ps) h = do { (q, h) \<leftarrow> f p h; (qs, h) \<leftarrow> cp_list f ps h; Some (q # qs, h) }"

lemma rd_list_Some: "rd_list r (p # ps) h = Some (x, A) \<longleftrightarrow>
  (\<exists>v vs. rd_pair r (rd_list r) (p, ps) h = Some ((v, vs), A) \<and> x = v # vs)"
  by (auto simp: rd_pair_Some bind_eq_Some_conv)

lemma cp_list_pair: "cp_list f (p # ps) h = map_option (\<lambda>((q, qs), k). (q # qs, k)) (cp_pair f (cp_list f) (p, ps) h)"
  by (auto simp: cp_pair_def split: bind_splits)

lemma deep_copy_list:
  assumes r: "deep_copy r f"
  shows "deep_copy (rd_list r) (cp_list f)"
proof -
  have below: "rd_list r ps h = Some (vs, A) \<Longrightarrow> A \<subseteq> {..<lim h}" for ps h vs A
  proof (induction ps arbitrary: vs A)
    case (Cons p ps)
    then obtain v ws where "rd_pair r (rd_list r) (p, ps) h = Some ((v, ws), A)"
      unfolding rd_list_Some by blast
    then show ?case by (rule rd_pair_below [OF _ deep_copy.below [OF r] Cons.IH])
  qed simp
  have frame: "rd_list r ps h = Some (vs, A) \<Longrightarrow> agree A h k \<Longrightarrow> rd_list r ps k = Some (vs, A)" for ps h k vs A
  proof (induction ps arbitrary: vs A)
    case (Cons p ps)
    then obtain v ws where v: "rd_pair r (rd_list r) (p, ps) h = Some ((v, ws), A)" "vs = v # ws"
      unfolding rd_list_Some by blast
    from rd_pair_frame [OF v(1) Cons.prems(2) deep_copy.frame [OF r] Cons.IH] v(2) show ?case
      by (simp add: rd_list_Some del: rd_list.simps)
  qed simp
  have kept: "rd_list r ps h = Some (vs, A) \<Longrightarrow> extends h k \<Longrightarrow> rd_list r ps k = Some (vs, A)" for ps h k vs A
    by (rule frame [OF _ extends_agree [OF _ below]])
  have "copied (rd_list r) (cp_list f) ps" for ps
  proof (induction ps)
    case (Cons p ps)
    show ?case unfolding copied_def
    proof (intro allI impI)
      fix h vs A
      assume "rd_list r (p # ps) h = Some (vs, A)"
      then obtain v ws where v: "rd_pair r (rd_list r) (p, ps) h = Some ((v, ws), A)" "vs = v # ws"
        unfolding rd_list_Some by blast
      from copied_pair [OF r Cons.IH kept v(1)] obtain q qs k D where
        "cp_pair f (cp_list f) (p, ps) h = Some ((q, qs), k)" "extends h k"
        "rd_pair r (rd_list r) (q, qs) k = Some ((v, ws), D)" "D \<inter> {..<lim h} = {}" .
      with v(2) show "\<exists>q k B. cp_list f (p # ps) h = Some (q, k) \<and> extends h k \<and> rd_list r q k = Some (vs, B) \<and>
          B \<inter> {..<lim h} = {}"
        by (intro exI [of _ "q # qs"] exI [of _ k] exI [of _ D]) (simp add: rd_list_Some cp_list_pair del: rd_list.simps cp_list.simps)
    qed
  qed (simp add: copied_def)
  then show ?thesis by unfold_locales (rule below frame copied_def [THEN iffD1, rule_format], assumption+)+
qed

section \<open>Pointers, slices and maps\<close>

text \<open>
  A pointer to a struct: \<open>if in.F != nil { in, out := &in.F, &out.F; *out = new(T); (*in).DeepCopyInto(*out) }\<close>,
  and with the assignment \<open>**out = **in\<close> for a plain type. The parameters are the way the type is kept in a cell.
\<close>

definition kept_as :: "('c \<Rightarrow> 'p option) \<Rightarrow> ('p \<Rightarrow> 'c) \<Rightarrow> bool" where
  "kept_as get cell \<longleftrightarrow> (\<forall>x. get (cell x) = Some x)"

definition rd_ptr :: "('c \<Rightarrow> 'p option) \<Rightarrow> ('c, 'p, 'v) reader \<Rightarrow> ('c, ptr, 'v option) reader" where
  "rd_ptr get r p h = (case p of None \<Rightarrow> Some (None, {})
     | Some a \<Rightarrow> do { x \<leftarrow> load get a h; (v, A) \<leftarrow> r x h; Some (Some v, insert a A) })"

definition cp_ptr :: "('c \<Rightarrow> 'p option) \<Rightarrow> ('p \<Rightarrow> 'c) \<Rightarrow> ('c, 'p) copying \<Rightarrow> ('c, ptr) copying" where
  "cp_ptr get cell f p h = (case p of None \<Rightarrow> Some (None, h)
     | Some a \<Rightarrow> do {
         x \<leftarrow> load get a h;
         let (out, h) = reserve h;
         (y, h) \<leftarrow> f x h;
         Some (Some out, put_cell out (cell y) h) })"

text \<open>A slice is a window on an array; the copy has an array of its own, of the length of the slice.\<close>

record slice =
  sl_array :: addr
  sl_off :: nat
  sl_len :: nat

type_synonym slice_ref = "slice option"

definition window :: "slice \<Rightarrow> 'a list \<Rightarrow> 'a list option" where
  "window s xs = (if sl_off s + sl_len s \<le> length xs then Some (take (sl_len s) (drop (sl_off s) xs)) else None)"

definition rd_slice :: "('c \<Rightarrow> 'p list option) \<Rightarrow> ('c, 'p, 'v) reader \<Rightarrow> ('c, slice_ref, 'v list option) reader" where
  "rd_slice get r s h = (case s of None \<Rightarrow> Some (None, {})
     | Some s \<Rightarrow> do {
         xs \<leftarrow> load get (sl_array s) h;
         xs \<leftarrow> window s xs;
         (vs, A) \<leftarrow> rd_list r xs h;
         Some (Some vs, insert (sl_array s) A) })"

definition cp_slice :: "('c \<Rightarrow> 'p list option) \<Rightarrow> ('p list \<Rightarrow> 'c) \<Rightarrow> ('c, 'p) copying \<Rightarrow> ('c, slice_ref) copying" where
  "cp_slice get cell f s h = (case s of None \<Rightarrow> Some (None, h)
     | Some s \<Rightarrow> do {
         xs \<leftarrow> load get (sl_array s) h;
         xs \<leftarrow> window s xs;
         let (out, h) = reserve h;
         (ys, h) \<leftarrow> cp_list f xs h;
         Some (Some \<lparr>sl_array = out, sl_off = 0, sl_len = sl_len s\<rparr>, put_cell out (cell ys) h) })"

text \<open>The entries of a map, put into the new map one by one. A map has one entry for a key.\<close>

definition rd_entries :: "('c, strmap, string \<rightharpoonup> string) reader" where
  "rd_entries m h = (if distinct (map fst m) then Some (map_of m, {}) else None)"

definition cp_entries :: "('c, strmap) copying" where
  "cp_entries m h = Some (fold (\<lambda>(key, val). map_put key val) m [], h)"

interpretation entries: deep_copy rd_entries cp_entries
  by unfold_locales (auto simp: rd_entries_def cp_entries_def map_of_fold_put map_of_rev_distinct distinct_fold_put
    split: if_splits)

lemma copied_cell:
  assumes dc: "deep_copy r f" and get: "kept_as get cell" and x: "r x h = Some (v, A)"
  obtains y l B where "f x (snd (reserve h)) = Some (y, l)" "extends h (put_cell (lim h) (cell y) l)"
    "load get (lim h) (put_cell (lim h) (cell y) l) = Some y"
    "r y (put_cell (lim h) (cell y) l) = Some (v, B)" "insert (lim h) B \<inter> {..<lim h} = {}"
proof -
  have ext: "extends h (snd (reserve h))" by (simp add: extends_def agree_def reserve_def)
  from deep_copy.copies [OF dc deep_copy.kept [OF dc x ext]] obtain y l B where
    y: "f x (snd (reserve h)) = Some (y, l)" "extends (snd (reserve h)) l" "r y l = Some (v, B)"
      "B \<inter> {..<Suc (lim h)} = {}" by (auto simp: reserve_def)
  have "agree B l (put_cell (lim h) (cell y) l)"
    using y(4) deep_copy.below [OF dc y(3)] by (fastforce simp: agree_def put_cell_def)
  from deep_copy.frame [OF dc y(3) this] y show thesis
    by (intro that [OF y(1)]) (use get in \<open>fastforce simp: extends_def agree_def put_cell_def reserve_def load_def kept_as_def\<close>)+
qed

lemma load_frame: "load get a h = Some x \<Longrightarrow> agree (insert a A) h k \<Longrightarrow> load get a k = Some x"
  by (auto simp: load_def agree_def split: if_splits)

lemma load_below: "load get a h = Some x \<Longrightarrow> a < lim h"
  by (simp add: load_def split: if_splits)

lemma agree_insert: "agree (insert a A) h k \<Longrightarrow> agree A h k"
  by (simp add: agree_def)

lemma deep_copy_ptr:
  assumes dc: "deep_copy r f" and get: "kept_as get cell"
  shows "deep_copy (rd_ptr get r) (cp_ptr get cell f)"
proof (unfold_locales, goal_cases)
  case (1 p h v A)
  then show ?case
    by (auto simp: rd_ptr_def bind_eq_Some_conv split: option.splits dest!: load_below deep_copy.below [OF dc])
next
  case (2 p h v A k)
  show ?case
  proof (cases p)
    case (Some a)
    with 2 obtain x w B where x: "load get a h = Some x" "r x h = Some (w, B)" "v = Some w" "A = insert a B"
      by (auto simp: rd_ptr_def bind_eq_Some_conv)
    with 2 have "agree (insert a B) h k" by simp
    from load_frame [OF x(1) this] deep_copy.frame [OF dc x(2) agree_insert [OF this]] show ?thesis
      by (simp add: Some x rd_ptr_def)
  qed (use 2 in \<open>simp add: rd_ptr_def\<close>)
next
  case (3 p h v A)
  show ?case
  proof (cases p)
    case (Some a)
    with 3 obtain x w B where x: "load get a h = Some x" "r x h = Some (w, B)" "v = Some w"
      by (auto simp: rd_ptr_def bind_eq_Some_conv)
    show ?thesis
      by (rule copied_cell [where cell = cell and get = get, OF dc get x(2)])
         (simp add: Some x cp_ptr_def rd_ptr_def reserve_def)
  qed (use 3 in \<open>simp add: rd_ptr_def cp_ptr_def\<close>)
qed

lemma window_full: "length ys = n \<Longrightarrow> window \<lparr>sl_array = a, sl_off = 0, sl_len = n\<rparr> ys = Some ys"
  by (simp add: window_def)

lemma length_cp_list: "cp_list f xs h = Some (ys, k) \<Longrightarrow> length ys = length xs"
  by (induction xs arbitrary: h ys) (auto simp: bind_eq_Some_conv)

lemma deep_copy_slice:
  assumes dc: "deep_copy r f" and get: "kept_as get cell"
  shows "deep_copy (rd_slice get r) (cp_slice get cell f)"
proof (unfold_locales, goal_cases)
  case (1 p h v A)
  then show ?case
    by (auto simp: rd_slice_def bind_eq_Some_conv split: option.splits
        dest!: load_below deep_copy.below [OF deep_copy_list [OF dc]])
next
  case (2 p h v A k)
  show ?case
  proof (cases p)
    case (Some s)
    with 2 obtain xs ws w B where x: "load get (sl_array s) h = Some xs" "window s xs = Some ws"
      "rd_list r ws h = Some (w, B)" "v = Some w" "A = insert (sl_array s) B"
      by (auto simp: rd_slice_def bind_eq_Some_conv)
    with 2 have "agree (insert (sl_array s) B) h k" by simp
    from load_frame [OF x(1) this] deep_copy.frame [OF deep_copy_list [OF dc] x(3) agree_insert [OF this]] show ?thesis
      by (simp add: Some x rd_slice_def)
  qed (use 2 in \<open>simp add: rd_slice_def\<close>)
next
  case (3 p h v A)
  show ?case
  proof (cases p)
    case (Some s)
    with 3 obtain xs ws w B where x: "load get (sl_array s) h = Some xs" "window s xs = Some ws"
      "rd_list r ws h = Some (w, B)" "v = Some w"
      by (auto simp: rd_slice_def bind_eq_Some_conv)
    have len: "length ws = sl_len s" using x(2) by (auto simp: window_def split: if_splits)
    show ?thesis
      by (rule copied_cell [where cell = cell and get = get, OF deep_copy_list [OF dc] get x(3)], frule length_cp_list)
         (simp add: Some x cp_slice_def rd_slice_def reserve_def window_full len)
  qed (use 3 in \<open>simp add: rd_slice_def cp_slice_def\<close>)
qed

end
