(* ===== verification/Deep_Copy.thy ===== *)
theory Deep_Copy
  imports Go_Memory Api_Types
begin

text \<open>
  The copying functions of the custom resources, \<open>zz_generated.deepcopy.go\<close>, on Go's memory. The other theories
  treat an object as a value; here a pointer is an address, so that a copy that shares memory with its
  original would show. A struct is a record over what its pointers are: addresses in the memory
  (\<open>_mem\<close>), what they point to in the value of the struct (\<open>_val\<close>). The structs of the Kubernetes libraries are a
  parameter, with the law that their own copying functions make deep copies.
\<close>

section \<open>Structs\<close>

record type_meta =
  tm_Kind :: string
  tm_APIVersion :: string

record network =
  net_DNSName :: string

record ('i, 'm, 'b) vm_config_struct =
  vm_DiskSize :: 'i
  vm_StoragePool :: string
  vm_Network :: string
  vm_InterfaceLinkModes :: 'm
  vm_AutoStart :: 'b

type_synonym vm_config_mem = "(ptr, ptr, ptr) vm_config_struct"
type_synonym vm_config_val = "(int option, (string \<rightharpoonup> string) option, bool option) vm_config_struct"

record ('b, 'vm) machine_lxd_struct =
  mlx_Enabled :: 'b
  mlx_VMConfig :: 'vm

type_synonym machine_lxd_mem = "(ptr, ptr) machine_lxd_struct"
type_synonym machine_lxd_val = "(bool option, vm_config_val option) machine_lxd_struct"

record ('s, 'i, 'ss, 'lxd) machine_spec_struct =
  ms_FailureDomain :: 's
  ms_SystemID :: 's
  ms_Parent :: 's
  ms_ProviderID :: 's
  ms_ResourcePool :: 's
  ms_MinCPU :: 'i
  ms_MinMemoryInMB :: 'i
  ms_MinDiskSizeInGB :: 'i
  ms_Tags :: 'ss
  ms_Image :: string
  ms_DeployInMemory :: bool
  ms_LXD :: 'lxd

type_synonym machine_spec_mem = "(ptr, ptr, slice_ref, ptr) machine_spec_struct"
type_synonym machine_spec_val = "(string option, int option, string list option, machine_lxd_val option) machine_spec_struct"

record 'b initialization =
  ini_Provisioned :: 'b

record ('b, 's, 'as, 'cs) machine_status_struct =
  mst_Ready :: bool
  mst_Initialization :: "'b initialization"
  mst_MachineState :: 's
  mst_MachinePowered :: bool
  mst_Hostname :: 's
  mst_DNSAttached :: bool
  mst_Addresses :: 'as
  mst_Conditions :: 'cs
  mst_FailureReason :: 's
  mst_FailureMessage :: 's

type_synonym machine_status_mem = "(ptr, ptr, slice_ref, slice_ref) machine_status_struct"
type_synonym 'y machine_status_val =
  "(bool option, string option, machine_address list option, 'y list option) machine_status_struct"

text \<open>\<open>MaasMachine\<close> and \<open>MaasCluster\<close> have the same four parts.\<close>

record ('o, 'sp, 'st) object_struct =
  ob_TypeMeta :: type_meta
  ob_ObjectMeta :: 'o
  ob_Spec :: 'sp
  ob_Status :: 'st

type_synonym 'x machine_mem = "('x, machine_spec_mem, machine_status_mem) object_struct"
type_synonym 'y machine_val = "('y, machine_spec_val, 'y machine_status_val) object_struct"

text \<open>\<open>MaasMachineList\<close>, \<open>MaasClusterList\<close> and \<open>MaasMachineTemplateList\<close>.\<close>

record ('l, 'items) list_struct =
  ls_TypeMeta :: type_meta
  ls_ListMeta :: 'l
  ls_Items :: 'items

type_synonym 'x list_mem = "('x, slice_ref) list_struct"
type_synonym ('y, 'v) list_val = "('y, 'v list option) list_struct"

record 'sp template_resource =
  tr_Spec :: 'sp

record 'sp template_spec =
  ts_Template :: "'sp template_resource"

record ('o, 'sp) template_struct =
  tp_TypeMeta :: type_meta
  tp_ObjectMeta :: 'o
  tp_Spec :: "'sp template_spec"

type_synonym 'x template_mem = "('x, machine_spec_mem) template_struct"
type_synonym 'y template_val = "('y, machine_spec_val) template_struct"

record 'b lxd_struct =
  lx_Enabled :: 'b
  lx_ResourcePool :: string
  lx_Zone :: string
  lx_StorageBackend :: string
  lx_StorageSize :: string
  lx_NICType :: string
  lx_NICParent :: string
  lx_NetworkBridge :: string
  lx_SkipNetworkUpdate :: 'b

record ('ss, 'lxd) cluster_spec_struct =
  cs_DNSDomain :: string
  cs_ControlPlaneEndpoint :: api_endpoint
  cs_FailureDomains :: 'ss
  cs_LXDConfig :: 'lxd

type_synonym cluster_spec_mem = "(slice_ref, ptr) cluster_spec_struct"
type_synonym cluster_spec_val = "(string list option, bool option lxd_struct option) cluster_spec_struct"

record ('b, 'fs) cluster_status_struct =
  cst_Ready :: bool
  cst_Initialization :: "'b initialization"
  cst_Network :: network
  cst_FailureDomains :: 'fs
  cst_Conditions :: 'fs

type_synonym cluster_status_mem = "(ptr, slice_ref) cluster_status_struct"
type_synonym 'y cluster_status_val = "(bool option, 'y list option) cluster_status_struct"

type_synonym 'x cluster_mem = "('x, cluster_spec_mem, cluster_status_mem) object_struct"
type_synonym 'y cluster_val = "('y, cluster_spec_val, 'y cluster_status_val) object_struct"

record 'as machine_info =
  mi_ID :: string
  mi_Hostname :: string
  mi_State :: machine_state
  mi_Powered :: bool
  mi_PowerState :: string
  mi_AvailabilityZone :: string
  mi_Addresses :: 'as
  mi_DeployedInMemory :: bool

section \<open>Cells\<close>

text \<open>What \<open>new\<close> and \<open>make\<close> allocate; \<open>'x\<close> is a struct of the libraries.\<close>

datatype 'x cell =
    CBool bool | CInt int | CString string | CMap strmap
  | CStrings "string list" | CAddresses "machine_address list" | CLibs "'x list"
  | CMachines "'x machine_mem list" | CClusters "'x cluster_mem list" | CTemplates "'x template_mem list"
  | CAPIEndpoint api_endpoint | CNetwork network | CInitialization "ptr initialization"
  | CVMConfig vm_config_mem | CMachineLXDConfig machine_lxd_mem | CLXDConfig "ptr lxd_struct"
  | CMachineSpec machine_spec_mem | CMachineStatus machine_status_mem | CMaasMachine "'x machine_mem"
  | CClusterSpec cluster_spec_mem | CClusterStatus cluster_status_mem | CMaasCluster "'x cluster_mem"
  | CTemplateResource "machine_spec_mem template_resource" | CTemplateSpec "machine_spec_mem template_spec"
  | CTemplate "'x template_mem" | CList "'x list_mem" | CMachine "slice_ref machine_info"

definition as_Bool :: "'x cell \<Rightarrow> bool option" where
  "as_Bool c = (case c of CBool x \<Rightarrow> Some x | _ \<Rightarrow> None)"

definition as_Int :: "'x cell \<Rightarrow> int option" where
  "as_Int c = (case c of CInt x \<Rightarrow> Some x | _ \<Rightarrow> None)"

definition as_String :: "'x cell \<Rightarrow> string option" where
  "as_String c = (case c of CString x \<Rightarrow> Some x | _ \<Rightarrow> None)"

definition as_Map :: "'x cell \<Rightarrow> strmap option" where
  "as_Map c = (case c of CMap x \<Rightarrow> Some x | _ \<Rightarrow> None)"

definition as_Strings :: "'x cell \<Rightarrow> (string list) option" where
  "as_Strings c = (case c of CStrings x \<Rightarrow> Some x | _ \<Rightarrow> None)"

definition as_Addresses :: "'x cell \<Rightarrow> (machine_address list) option" where
  "as_Addresses c = (case c of CAddresses x \<Rightarrow> Some x | _ \<Rightarrow> None)"

definition as_Libs :: "'x cell \<Rightarrow> ('x list) option" where
  "as_Libs c = (case c of CLibs x \<Rightarrow> Some x | _ \<Rightarrow> None)"

definition as_Machines :: "'x cell \<Rightarrow> ('x machine_mem list) option" where
  "as_Machines c = (case c of CMachines x \<Rightarrow> Some x | _ \<Rightarrow> None)"

definition as_Clusters :: "'x cell \<Rightarrow> ('x cluster_mem list) option" where
  "as_Clusters c = (case c of CClusters x \<Rightarrow> Some x | _ \<Rightarrow> None)"

definition as_Templates :: "'x cell \<Rightarrow> ('x template_mem list) option" where
  "as_Templates c = (case c of CTemplates x \<Rightarrow> Some x | _ \<Rightarrow> None)"

definition as_APIEndpoint :: "'x cell \<Rightarrow> api_endpoint option" where
  "as_APIEndpoint c = (case c of CAPIEndpoint x \<Rightarrow> Some x | _ \<Rightarrow> None)"

definition as_Network :: "'x cell \<Rightarrow> network option" where
  "as_Network c = (case c of CNetwork x \<Rightarrow> Some x | _ \<Rightarrow> None)"

definition as_Initialization :: "'x cell \<Rightarrow> (ptr initialization) option" where
  "as_Initialization c = (case c of CInitialization x \<Rightarrow> Some x | _ \<Rightarrow> None)"

definition as_VMConfig :: "'x cell \<Rightarrow> vm_config_mem option" where
  "as_VMConfig c = (case c of CVMConfig x \<Rightarrow> Some x | _ \<Rightarrow> None)"

definition as_MachineLXDConfig :: "'x cell \<Rightarrow> machine_lxd_mem option" where
  "as_MachineLXDConfig c = (case c of CMachineLXDConfig x \<Rightarrow> Some x | _ \<Rightarrow> None)"

definition as_LXDConfig :: "'x cell \<Rightarrow> (ptr lxd_struct) option" where
  "as_LXDConfig c = (case c of CLXDConfig x \<Rightarrow> Some x | _ \<Rightarrow> None)"

definition as_MachineSpec :: "'x cell \<Rightarrow> machine_spec_mem option" where
  "as_MachineSpec c = (case c of CMachineSpec x \<Rightarrow> Some x | _ \<Rightarrow> None)"

definition as_MachineStatus :: "'x cell \<Rightarrow> machine_status_mem option" where
  "as_MachineStatus c = (case c of CMachineStatus x \<Rightarrow> Some x | _ \<Rightarrow> None)"

definition as_MaasMachine :: "'x cell \<Rightarrow> ('x machine_mem) option" where
  "as_MaasMachine c = (case c of CMaasMachine x \<Rightarrow> Some x | _ \<Rightarrow> None)"

definition as_ClusterSpec :: "'x cell \<Rightarrow> cluster_spec_mem option" where
  "as_ClusterSpec c = (case c of CClusterSpec x \<Rightarrow> Some x | _ \<Rightarrow> None)"

definition as_ClusterStatus :: "'x cell \<Rightarrow> cluster_status_mem option" where
  "as_ClusterStatus c = (case c of CClusterStatus x \<Rightarrow> Some x | _ \<Rightarrow> None)"

definition as_MaasCluster :: "'x cell \<Rightarrow> ('x cluster_mem) option" where
  "as_MaasCluster c = (case c of CMaasCluster x \<Rightarrow> Some x | _ \<Rightarrow> None)"

definition as_TemplateResource :: "'x cell \<Rightarrow> (machine_spec_mem template_resource) option" where
  "as_TemplateResource c = (case c of CTemplateResource x \<Rightarrow> Some x | _ \<Rightarrow> None)"

definition as_TemplateSpec :: "'x cell \<Rightarrow> (machine_spec_mem template_spec) option" where
  "as_TemplateSpec c = (case c of CTemplateSpec x \<Rightarrow> Some x | _ \<Rightarrow> None)"

definition as_Template :: "'x cell \<Rightarrow> ('x template_mem) option" where
  "as_Template c = (case c of CTemplate x \<Rightarrow> Some x | _ \<Rightarrow> None)"

definition as_List :: "'x cell \<Rightarrow> ('x list_mem) option" where
  "as_List c = (case c of CList x \<Rightarrow> Some x | _ \<Rightarrow> None)"

definition as_Machine :: "'x cell \<Rightarrow> (slice_ref machine_info) option" where
  "as_Machine c = (case c of CMachine x \<Rightarrow> Some x | _ \<Rightarrow> None)"

lemmas as_defs =
  as_Bool_def as_Int_def as_String_def as_Map_def as_Strings_def as_Addresses_def as_Libs_def as_Machines_def
  as_Clusters_def as_Templates_def as_APIEndpoint_def as_Network_def as_Initialization_def as_VMConfig_def
  as_MachineLXDConfig_def as_LXDConfig_def as_MachineSpec_def as_MachineStatus_def as_MaasMachine_def
  as_ClusterSpec_def as_ClusterStatus_def as_MaasCluster_def as_TemplateResource_def as_TemplateSpec_def
  as_Template_def as_List_def as_Machine_def

lemma as_cell:
  "kept_as as_Bool CBool" "kept_as as_Int CInt" "kept_as as_String CString" "kept_as as_Map CMap"
  "kept_as as_Strings CStrings" "kept_as as_Addresses CAddresses" "kept_as as_Libs CLibs"
  "kept_as as_Machines CMachines" "kept_as as_Clusters CClusters" "kept_as as_Templates CTemplates"
  "kept_as as_APIEndpoint CAPIEndpoint" "kept_as as_Network CNetwork"
  "kept_as as_Initialization CInitialization" "kept_as as_VMConfig CVMConfig"
  "kept_as as_MachineLXDConfig CMachineLXDConfig" "kept_as as_LXDConfig CLXDConfig"
  "kept_as as_MachineSpec CMachineSpec" "kept_as as_MachineStatus CMachineStatus"
  "kept_as as_MaasMachine CMaasMachine" "kept_as as_ClusterSpec CClusterSpec"
  "kept_as as_ClusterStatus CClusterStatus" "kept_as as_MaasCluster CMaasCluster"
  "kept_as as_TemplateResource CTemplateResource" "kept_as as_TemplateSpec CTemplateSpec"
  "kept_as as_Template CTemplate" "kept_as as_List CList" "kept_as as_Machine CMachine"
  by (simp_all add: kept_as_def as_defs)

section \<open>Pointers to plain values and the libraries\<close>

definition rd_string :: "('x cell, ptr, string option) reader" where "rd_string = rd_ptr as_String flat"
definition cp_string :: "('x cell, ptr) copying" where "cp_string = cp_ptr as_String CString assign"
definition rd_int :: "('x cell, ptr, int option) reader" where "rd_int = rd_ptr as_Int flat"
definition cp_int :: "('x cell, ptr) copying" where "cp_int = cp_ptr as_Int CInt assign"
definition rd_bool :: "('x cell, ptr, bool option) reader" where "rd_bool = rd_ptr as_Bool flat"
definition cp_bool :: "('x cell, ptr) copying" where "cp_bool = cp_ptr as_Bool CBool assign"
definition rd_strings :: "('x cell, slice_ref, string list option) reader" where "rd_strings = rd_slice as_Strings flat"
definition cp_strings :: "('x cell, slice_ref) copying" where "cp_strings = cp_slice as_Strings CStrings assign"

text \<open>The library structs: how each is copied and what it stands for.\<close>

record ('x, 'y) k8s =
  ObjectMeta_DeepCopyInto :: "('x cell, 'x) copying"
  rd_ObjectMeta :: "('x cell, 'x, 'y) reader"
  ListMeta_DeepCopyInto :: "('x cell, 'x) copying"
  rd_ListMeta :: "('x cell, 'x, 'y) reader"
  Condition_DeepCopyInto :: "('x cell, 'x) copying"
  rd_Condition :: "('x cell, 'x, 'y) reader"
  FailureDomain_DeepCopyInto :: "('x cell, 'x) copying"
  rd_FailureDomain :: "('x cell, 'x, 'y) reader"

definition k8s_laws :: "('x, 'y) k8s \<Rightarrow> bool" where
  "k8s_laws K \<longleftrightarrow> deep_copy (rd_ObjectMeta K) (ObjectMeta_DeepCopyInto K) \<and>
     deep_copy (rd_ListMeta K) (ListMeta_DeepCopyInto K) \<and> deep_copy (rd_Condition K) (Condition_DeepCopyInto K) \<and>
     deep_copy (rd_FailureDomain K) (FailureDomain_DeepCopyInto K)"

section \<open>Machines\<close>

definition rd_VMConfig :: "('x cell, vm_config_mem, vm_config_val) reader" where
  "rd_VMConfig c h = do {
     (disk, A) \<leftarrow> rd_int (vm_DiskSize c) h;
     (modes, B) \<leftarrow> rd_ptr as_Map rd_entries (vm_InterfaceLinkModes c) h;
     (auto, C) \<leftarrow> rd_bool (vm_AutoStart c) h;
     Some (\<lparr>vm_DiskSize = disk, vm_StoragePool = vm_StoragePool c, vm_Network = vm_Network c,
       vm_InterfaceLinkModes = modes, vm_AutoStart = auto\<rparr>, A \<union> B \<union> C) }"

definition VMConfig_DeepCopyInto :: "('x cell, vm_config_mem) copying" where
  "VMConfig_DeepCopyInto c h = do {
     (disk, h) \<leftarrow> cp_int (vm_DiskSize c) h;
     (modes, h) \<leftarrow> cp_ptr as_Map CMap cp_entries (vm_InterfaceLinkModes c) h;
     (auto, h) \<leftarrow> cp_bool (vm_AutoStart c) h;
     Some (c\<lparr>vm_DiskSize := disk, vm_InterfaceLinkModes := modes, vm_AutoStart := auto\<rparr>, h) }"

definition VMConfig_DeepCopy :: "('x cell, ptr) copying" where
  "VMConfig_DeepCopy = cp_ptr as_VMConfig CVMConfig VMConfig_DeepCopyInto"

definition rd_MachineLXDConfig :: "('x cell, machine_lxd_mem, machine_lxd_val) reader" where
  "rd_MachineLXDConfig c h = do {
     (enabled, A) \<leftarrow> rd_bool (mlx_Enabled c) h;
     (vm, B) \<leftarrow> rd_ptr as_VMConfig rd_VMConfig (mlx_VMConfig c) h;
     Some (\<lparr>mlx_Enabled = enabled, mlx_VMConfig = vm\<rparr>, A \<union> B) }"

definition MachineLXDConfig_DeepCopyInto :: "('x cell, machine_lxd_mem) copying" where
  "MachineLXDConfig_DeepCopyInto c h = do {
     (enabled, h) \<leftarrow> cp_bool (mlx_Enabled c) h;
     (vm, h) \<leftarrow> cp_ptr as_VMConfig CVMConfig VMConfig_DeepCopyInto (mlx_VMConfig c) h;
     Some (c\<lparr>mlx_Enabled := enabled, mlx_VMConfig := vm\<rparr>, h) }"

definition MachineLXDConfig_DeepCopy :: "('x cell, ptr) copying" where
  "MachineLXDConfig_DeepCopy = cp_ptr as_MachineLXDConfig CMachineLXDConfig MachineLXDConfig_DeepCopyInto"

definition rd_MaasMachineSpec :: "('x cell, machine_spec_mem, machine_spec_val) reader" where
  "rd_MaasMachineSpec c h = do {
     (domain, A) \<leftarrow> rd_string (ms_FailureDomain c) h;
     (sid, B) \<leftarrow> rd_string (ms_SystemID c) h;
     (parent, C) \<leftarrow> rd_string (ms_Parent c) h;
     (pid, D) \<leftarrow> rd_string (ms_ProviderID c) h;
     (pool, E) \<leftarrow> rd_string (ms_ResourcePool c) h;
     (cpu, F) \<leftarrow> rd_int (ms_MinCPU c) h;
     (mem, G) \<leftarrow> rd_int (ms_MinMemoryInMB c) h;
     (disk, H) \<leftarrow> rd_int (ms_MinDiskSizeInGB c) h;
     (tags, I) \<leftarrow> rd_strings (ms_Tags c) h;
     (lxd, J) \<leftarrow> rd_ptr as_MachineLXDConfig rd_MachineLXDConfig (ms_LXD c) h;
     Some (\<lparr>ms_FailureDomain = domain, ms_SystemID = sid, ms_Parent = parent, ms_ProviderID = pid,
       ms_ResourcePool = pool, ms_MinCPU = cpu, ms_MinMemoryInMB = mem, ms_MinDiskSizeInGB = disk, ms_Tags = tags,
       ms_Image = ms_Image c, ms_DeployInMemory = ms_DeployInMemory c, ms_LXD = lxd\<rparr>, A \<union> B \<union> C
       \<union> D \<union> E \<union> F \<union> G \<union> H \<union> I \<union> J) }"

definition MaasMachineSpec_DeepCopyInto :: "('x cell, machine_spec_mem) copying" where
  "MaasMachineSpec_DeepCopyInto c h = do {
     (domain, h) \<leftarrow> cp_string (ms_FailureDomain c) h;
     (sid, h) \<leftarrow> cp_string (ms_SystemID c) h;
     (parent, h) \<leftarrow> cp_string (ms_Parent c) h;
     (pid, h) \<leftarrow> cp_string (ms_ProviderID c) h;
     (pool, h) \<leftarrow> cp_string (ms_ResourcePool c) h;
     (cpu, h) \<leftarrow> cp_int (ms_MinCPU c) h;
     (mem, h) \<leftarrow> cp_int (ms_MinMemoryInMB c) h;
     (disk, h) \<leftarrow> cp_int (ms_MinDiskSizeInGB c) h;
     (tags, h) \<leftarrow> cp_strings (ms_Tags c) h;
     (lxd, h) \<leftarrow> cp_ptr as_MachineLXDConfig CMachineLXDConfig MachineLXDConfig_DeepCopyInto (ms_LXD c) h;
     Some (c\<lparr>ms_FailureDomain := domain, ms_SystemID := sid, ms_Parent := parent, ms_ProviderID := pid,
       ms_ResourcePool := pool, ms_MinCPU := cpu, ms_MinMemoryInMB := mem, ms_MinDiskSizeInGB := disk, ms_Tags := tags,
       ms_LXD := lxd\<rparr>, h) }"

definition MaasMachineSpec_DeepCopy :: "('x cell, ptr) copying" where
  "MaasMachineSpec_DeepCopy = cp_ptr as_MachineSpec CMachineSpec MaasMachineSpec_DeepCopyInto"

definition rd_MaasMachineInitializationStatus :: "('x cell, ptr initialization, bool option initialization) reader" where
  "rd_MaasMachineInitializationStatus c h = do {
     (prov, A) \<leftarrow> rd_bool (ini_Provisioned c) h;
     Some (\<lparr>ini_Provisioned = prov\<rparr>, A) }"

definition MaasMachineInitializationStatus_DeepCopyInto :: "('x cell, ptr initialization) copying" where
  "MaasMachineInitializationStatus_DeepCopyInto c h = do {
     (prov, h) \<leftarrow> cp_bool (ini_Provisioned c) h;
     Some (c\<lparr>ini_Provisioned := prov\<rparr>, h) }"

definition MaasMachineInitializationStatus_DeepCopy :: "('x cell, ptr) copying" where
  "MaasMachineInitializationStatus_DeepCopy = cp_ptr as_Initialization CInitialization MaasMachineInitializationStatus_DeepCopyInto"

definition rd_MaasMachineStatus :: "('x, 'y) k8s \<Rightarrow> ('x cell, machine_status_mem, 'y machine_status_val) reader" where
  "rd_MaasMachineStatus K c h = do {
     (ini, A) \<leftarrow> rd_MaasMachineInitializationStatus (mst_Initialization c) h;
     (state, B) \<leftarrow> rd_string (mst_MachineState c) h;
     (name, C) \<leftarrow> rd_string (mst_Hostname c) h;
     (addrs, D) \<leftarrow> rd_slice as_Addresses flat (mst_Addresses c) h;
     (conds, E) \<leftarrow> rd_slice as_Libs (rd_Condition K) (mst_Conditions c) h;
     (reason, F) \<leftarrow> rd_string (mst_FailureReason c) h;
     (msg, G) \<leftarrow> rd_string (mst_FailureMessage c) h;
     Some (\<lparr>mst_Ready = mst_Ready c, mst_Initialization = ini, mst_MachineState = state, mst_MachinePowered =
       mst_MachinePowered c, mst_Hostname = name, mst_DNSAttached = mst_DNSAttached c, mst_Addresses = addrs,
       mst_Conditions = conds, mst_FailureReason = reason, mst_FailureMessage = msg\<rparr>, A \<union> B \<union> C
       \<union> D \<union> E \<union> F \<union> G) }"

definition MaasMachineStatus_DeepCopyInto :: "('x, 'y) k8s \<Rightarrow> ('x cell, machine_status_mem) copying" where
  "MaasMachineStatus_DeepCopyInto K c h = do {
     (ini, h) \<leftarrow> MaasMachineInitializationStatus_DeepCopyInto (mst_Initialization c) h;
     (state, h) \<leftarrow> cp_string (mst_MachineState c) h;
     (name, h) \<leftarrow> cp_string (mst_Hostname c) h;
     (addrs, h) \<leftarrow> cp_slice as_Addresses CAddresses assign (mst_Addresses c) h;
     (conds, h) \<leftarrow> cp_slice as_Libs CLibs (Condition_DeepCopyInto K) (mst_Conditions c) h;
     (reason, h) \<leftarrow> cp_string (mst_FailureReason c) h;
     (msg, h) \<leftarrow> cp_string (mst_FailureMessage c) h;
     Some (c\<lparr>mst_Initialization := ini, mst_MachineState := state, mst_Hostname := name, mst_Addresses :=
       addrs, mst_Conditions := conds, mst_FailureReason := reason, mst_FailureMessage := msg\<rparr>, h) }"

definition MaasMachineStatus_DeepCopy :: "('x, 'y) k8s \<Rightarrow> ('x cell, ptr) copying" where
  "MaasMachineStatus_DeepCopy K = cp_ptr as_MachineStatus CMachineStatus (MaasMachineStatus_DeepCopyInto K)"

definition rd_MaasMachine :: "('x, 'y) k8s \<Rightarrow> ('x cell, 'x machine_mem, 'y machine_val) reader" where
  "rd_MaasMachine K c h = do {
     (meta, A) \<leftarrow> rd_ObjectMeta K (ob_ObjectMeta c) h;
     (spec, B) \<leftarrow> rd_MaasMachineSpec (ob_Spec c) h;
     (status, C) \<leftarrow> rd_MaasMachineStatus K (ob_Status c) h;
     Some (\<lparr>ob_TypeMeta = ob_TypeMeta c, ob_ObjectMeta = meta, ob_Spec = spec, ob_Status = status\<rparr>, A
       \<union> B \<union> C) }"

definition MaasMachine_DeepCopyInto :: "('x, 'y) k8s \<Rightarrow> ('x cell, 'x machine_mem) copying" where
  "MaasMachine_DeepCopyInto K c h = do {
     (meta, h) \<leftarrow> ObjectMeta_DeepCopyInto K (ob_ObjectMeta c) h;
     (spec, h) \<leftarrow> MaasMachineSpec_DeepCopyInto (ob_Spec c) h;
     (status, h) \<leftarrow> MaasMachineStatus_DeepCopyInto K (ob_Status c) h;
     Some (c\<lparr>ob_ObjectMeta := meta, ob_Spec := spec, ob_Status := status\<rparr>, h) }"

definition MaasMachine_DeepCopy :: "('x, 'y) k8s \<Rightarrow> ('x cell, ptr) copying" where
  "MaasMachine_DeepCopy K = cp_ptr as_MaasMachine CMaasMachine (MaasMachine_DeepCopyInto K)"

definition MaasMachine_DeepCopyObject :: "('x, 'y) k8s \<Rightarrow> ('x cell, ptr) copying" where
  "MaasMachine_DeepCopyObject K p h = do { (c, h) \<leftarrow> MaasMachine_DeepCopy K p h; Some (if c \<noteq> None then c else None, h) }"

definition rd_MaasMachineList :: "('x, 'y) k8s \<Rightarrow> ('x cell, 'x list_mem, ('y, 'y machine_val) list_val) reader" where
  "rd_MaasMachineList K c h = do {
     (meta, A) \<leftarrow> rd_ListMeta K (ls_ListMeta c) h;
     (items, B) \<leftarrow> rd_slice as_Machines (rd_MaasMachine K) (ls_Items c) h;
     Some (\<lparr>ls_TypeMeta = ls_TypeMeta c, ls_ListMeta = meta, ls_Items = items\<rparr>, A \<union> B) }"

definition MaasMachineList_DeepCopyInto :: "('x, 'y) k8s \<Rightarrow> ('x cell, 'x list_mem) copying" where
  "MaasMachineList_DeepCopyInto K c h = do {
     (meta, h) \<leftarrow> ListMeta_DeepCopyInto K (ls_ListMeta c) h;
     (items, h) \<leftarrow> cp_slice as_Machines CMachines (MaasMachine_DeepCopyInto K) (ls_Items c) h;
     Some (c\<lparr>ls_ListMeta := meta, ls_Items := items\<rparr>, h) }"

definition MaasMachineList_DeepCopy :: "('x, 'y) k8s \<Rightarrow> ('x cell, ptr) copying" where
  "MaasMachineList_DeepCopy K = cp_ptr as_List CList (MaasMachineList_DeepCopyInto K)"

definition MaasMachineList_DeepCopyObject :: "('x, 'y) k8s \<Rightarrow> ('x cell, ptr) copying" where
  "MaasMachineList_DeepCopyObject K p h = do { (c, h) \<leftarrow> MaasMachineList_DeepCopy K p h; Some (if c \<noteq> None then c else None, h) }"

definition rd_Machine :: "('x cell, slice_ref machine_info, machine_address list option machine_info) reader" where
  "rd_Machine c h = do {
     (addrs, A) \<leftarrow> rd_slice as_Addresses flat (mi_Addresses c) h;
     Some (\<lparr>mi_ID = mi_ID c, mi_Hostname = mi_Hostname c, mi_State = mi_State c, mi_Powered = mi_Powered c,
       mi_PowerState = mi_PowerState c, mi_AvailabilityZone = mi_AvailabilityZone c, mi_Addresses = addrs,
       mi_DeployedInMemory = mi_DeployedInMemory c\<rparr>, A) }"

definition Machine_DeepCopyInto :: "('x cell, slice_ref machine_info) copying" where
  "Machine_DeepCopyInto c h = do {
     (addrs, h) \<leftarrow> cp_slice as_Addresses CAddresses assign (mi_Addresses c) h;
     Some (c\<lparr>mi_Addresses := addrs\<rparr>, h) }"

definition Machine_DeepCopy :: "('x cell, ptr) copying" where
  "Machine_DeepCopy = cp_ptr as_Machine CMachine Machine_DeepCopyInto"

section \<open>Templates\<close>

definition rd_MaasMachineTemplateResource :: "('x cell, machine_spec_mem template_resource, machine_spec_val template_resource) reader" where
  "rd_MaasMachineTemplateResource c h = do {
     (spec, A) \<leftarrow> rd_MaasMachineSpec (tr_Spec c) h;
     Some (\<lparr>tr_Spec = spec\<rparr>, A) }"

definition MaasMachineTemplateResource_DeepCopyInto :: "('x cell, machine_spec_mem template_resource) copying" where
  "MaasMachineTemplateResource_DeepCopyInto c h = do {
     (spec, h) \<leftarrow> MaasMachineSpec_DeepCopyInto (tr_Spec c) h;
     Some (c\<lparr>tr_Spec := spec\<rparr>, h) }"

definition MaasMachineTemplateResource_DeepCopy :: "('x cell, ptr) copying" where
  "MaasMachineTemplateResource_DeepCopy = cp_ptr as_TemplateResource CTemplateResource MaasMachineTemplateResource_DeepCopyInto"

definition rd_MaasMachineTemplateSpec :: "('x cell, machine_spec_mem template_spec, machine_spec_val template_spec) reader" where
  "rd_MaasMachineTemplateSpec c h = do {
     (tmpl, A) \<leftarrow> rd_MaasMachineTemplateResource (ts_Template c) h;
     Some (\<lparr>ts_Template = tmpl\<rparr>, A) }"

definition MaasMachineTemplateSpec_DeepCopyInto :: "('x cell, machine_spec_mem template_spec) copying" where
  "MaasMachineTemplateSpec_DeepCopyInto c h = do {
     (tmpl, h) \<leftarrow> MaasMachineTemplateResource_DeepCopyInto (ts_Template c) h;
     Some (c\<lparr>ts_Template := tmpl\<rparr>, h) }"

definition MaasMachineTemplateSpec_DeepCopy :: "('x cell, ptr) copying" where
  "MaasMachineTemplateSpec_DeepCopy = cp_ptr as_TemplateSpec CTemplateSpec MaasMachineTemplateSpec_DeepCopyInto"

definition rd_MaasMachineTemplate :: "('x, 'y) k8s \<Rightarrow> ('x cell, 'x template_mem, 'y template_val) reader" where
  "rd_MaasMachineTemplate K c h = do {
     (meta, A) \<leftarrow> rd_ObjectMeta K (tp_ObjectMeta c) h;
     (spec, B) \<leftarrow> rd_MaasMachineTemplateSpec (tp_Spec c) h;
     Some (\<lparr>tp_TypeMeta = tp_TypeMeta c, tp_ObjectMeta = meta, tp_Spec = spec\<rparr>, A \<union> B) }"

definition MaasMachineTemplate_DeepCopyInto :: "('x, 'y) k8s \<Rightarrow> ('x cell, 'x template_mem) copying" where
  "MaasMachineTemplate_DeepCopyInto K c h = do {
     (meta, h) \<leftarrow> ObjectMeta_DeepCopyInto K (tp_ObjectMeta c) h;
     (spec, h) \<leftarrow> MaasMachineTemplateSpec_DeepCopyInto (tp_Spec c) h;
     Some (c\<lparr>tp_ObjectMeta := meta, tp_Spec := spec\<rparr>, h) }"

definition MaasMachineTemplate_DeepCopy :: "('x, 'y) k8s \<Rightarrow> ('x cell, ptr) copying" where
  "MaasMachineTemplate_DeepCopy K = cp_ptr as_Template CTemplate (MaasMachineTemplate_DeepCopyInto K)"

definition MaasMachineTemplate_DeepCopyObject :: "('x, 'y) k8s \<Rightarrow> ('x cell, ptr) copying" where
  "MaasMachineTemplate_DeepCopyObject K p h = do { (c, h) \<leftarrow> MaasMachineTemplate_DeepCopy K p h; Some (if c \<noteq> None then c else None, h) }"

definition rd_MaasMachineTemplateList :: "('x, 'y) k8s \<Rightarrow> ('x cell, 'x list_mem, ('y, 'y template_val) list_val) reader" where
  "rd_MaasMachineTemplateList K c h = do {
     (meta, A) \<leftarrow> rd_ListMeta K (ls_ListMeta c) h;
     (items, B) \<leftarrow> rd_slice as_Templates (rd_MaasMachineTemplate K) (ls_Items c) h;
     Some (\<lparr>ls_TypeMeta = ls_TypeMeta c, ls_ListMeta = meta, ls_Items = items\<rparr>, A \<union> B) }"

definition MaasMachineTemplateList_DeepCopyInto :: "('x, 'y) k8s \<Rightarrow> ('x cell, 'x list_mem) copying" where
  "MaasMachineTemplateList_DeepCopyInto K c h = do {
     (meta, h) \<leftarrow> ListMeta_DeepCopyInto K (ls_ListMeta c) h;
     (items, h) \<leftarrow> cp_slice as_Templates CTemplates (MaasMachineTemplate_DeepCopyInto K) (ls_Items c) h;
     Some (c\<lparr>ls_ListMeta := meta, ls_Items := items\<rparr>, h) }"

definition MaasMachineTemplateList_DeepCopy :: "('x, 'y) k8s \<Rightarrow> ('x cell, ptr) copying" where
  "MaasMachineTemplateList_DeepCopy K = cp_ptr as_List CList (MaasMachineTemplateList_DeepCopyInto K)"

definition MaasMachineTemplateList_DeepCopyObject :: "('x, 'y) k8s \<Rightarrow> ('x cell, ptr) copying" where
  "MaasMachineTemplateList_DeepCopyObject K p h = do { (c, h) \<leftarrow> MaasMachineTemplateList_DeepCopy K p h; Some (if c \<noteq> None then c else None, h) }"

section \<open>Clusters\<close>

definition APIEndpoint_DeepCopyInto :: "('x cell, api_endpoint) copying" where
  "APIEndpoint_DeepCopyInto = assign"

definition APIEndpoint_DeepCopy :: "('x cell, ptr) copying" where
  "APIEndpoint_DeepCopy = cp_ptr as_APIEndpoint CAPIEndpoint APIEndpoint_DeepCopyInto"

definition Network_DeepCopyInto :: "('x cell, network) copying" where
  "Network_DeepCopyInto = assign"

definition Network_DeepCopy :: "('x cell, ptr) copying" where
  "Network_DeepCopy = cp_ptr as_Network CNetwork Network_DeepCopyInto"

definition rd_LXDConfig :: "('x cell, ptr lxd_struct, bool option lxd_struct) reader" where
  "rd_LXDConfig c h = do {
     (enabled, A) \<leftarrow> rd_bool (lx_Enabled c) h;
     (skip, B) \<leftarrow> rd_bool (lx_SkipNetworkUpdate c) h;
     Some (\<lparr>lx_Enabled = enabled, lx_ResourcePool = lx_ResourcePool c, lx_Zone = lx_Zone c, lx_StorageBackend
       = lx_StorageBackend c, lx_StorageSize = lx_StorageSize c, lx_NICType = lx_NICType c, lx_NICParent = lx_NICParent
       c, lx_NetworkBridge = lx_NetworkBridge c, lx_SkipNetworkUpdate = skip\<rparr>, A \<union> B) }"

definition LXDConfig_DeepCopyInto :: "('x cell, ptr lxd_struct) copying" where
  "LXDConfig_DeepCopyInto c h = do {
     (enabled, h) \<leftarrow> cp_bool (lx_Enabled c) h;
     (skip, h) \<leftarrow> cp_bool (lx_SkipNetworkUpdate c) h;
     Some (c\<lparr>lx_Enabled := enabled, lx_SkipNetworkUpdate := skip\<rparr>, h) }"

definition LXDConfig_DeepCopy :: "('x cell, ptr) copying" where
  "LXDConfig_DeepCopy = cp_ptr as_LXDConfig CLXDConfig LXDConfig_DeepCopyInto"

definition rd_MaasClusterSpec :: "('x cell, cluster_spec_mem, cluster_spec_val) reader" where
  "rd_MaasClusterSpec c h = do {
     (ep, A) \<leftarrow> flat (cs_ControlPlaneEndpoint c) h;
     (domains, B) \<leftarrow> rd_strings (cs_FailureDomains c) h;
     (lxd, C) \<leftarrow> rd_ptr as_LXDConfig rd_LXDConfig (cs_LXDConfig c) h;
     Some (\<lparr>cs_DNSDomain = cs_DNSDomain c, cs_ControlPlaneEndpoint = ep, cs_FailureDomains = domains,
       cs_LXDConfig = lxd\<rparr>, A \<union> B \<union> C) }"

definition MaasClusterSpec_DeepCopyInto :: "('x cell, cluster_spec_mem) copying" where
  "MaasClusterSpec_DeepCopyInto c h = do {
     (ep, h) \<leftarrow> assign (cs_ControlPlaneEndpoint c) h;
     (domains, h) \<leftarrow> cp_strings (cs_FailureDomains c) h;
     (lxd, h) \<leftarrow> cp_ptr as_LXDConfig CLXDConfig LXDConfig_DeepCopyInto (cs_LXDConfig c) h;
     Some (c\<lparr>cs_ControlPlaneEndpoint := ep, cs_FailureDomains := domains, cs_LXDConfig := lxd\<rparr>, h) }"

definition MaasClusterSpec_DeepCopy :: "('x cell, ptr) copying" where
  "MaasClusterSpec_DeepCopy = cp_ptr as_ClusterSpec CClusterSpec MaasClusterSpec_DeepCopyInto"

definition rd_MaasClusterInitializationStatus :: "('x cell, ptr initialization, bool option initialization) reader" where
  "rd_MaasClusterInitializationStatus c h = do {
     (prov, A) \<leftarrow> rd_bool (ini_Provisioned c) h;
     Some (\<lparr>ini_Provisioned = prov\<rparr>, A) }"

definition MaasClusterInitializationStatus_DeepCopyInto :: "('x cell, ptr initialization) copying" where
  "MaasClusterInitializationStatus_DeepCopyInto c h = do {
     (prov, h) \<leftarrow> cp_bool (ini_Provisioned c) h;
     Some (c\<lparr>ini_Provisioned := prov\<rparr>, h) }"

definition MaasClusterInitializationStatus_DeepCopy :: "('x cell, ptr) copying" where
  "MaasClusterInitializationStatus_DeepCopy = cp_ptr as_Initialization CInitialization MaasClusterInitializationStatus_DeepCopyInto"

definition rd_MaasClusterStatus :: "('x, 'y) k8s \<Rightarrow> ('x cell, cluster_status_mem, 'y cluster_status_val) reader" where
  "rd_MaasClusterStatus K c h = do {
     (ini, A) \<leftarrow> rd_MaasClusterInitializationStatus (cst_Initialization c) h;
     (net, B) \<leftarrow> flat (cst_Network c) h;
     (domains, C) \<leftarrow> rd_slice as_Libs (rd_FailureDomain K) (cst_FailureDomains c) h;
     (conds, D) \<leftarrow> rd_slice as_Libs (rd_Condition K) (cst_Conditions c) h;
     Some (\<lparr>cst_Ready = cst_Ready c, cst_Initialization = ini, cst_Network = net, cst_FailureDomains =
       domains, cst_Conditions = conds\<rparr>, A \<union> B \<union> C \<union> D) }"

definition MaasClusterStatus_DeepCopyInto :: "('x, 'y) k8s \<Rightarrow> ('x cell, cluster_status_mem) copying" where
  "MaasClusterStatus_DeepCopyInto K c h = do {
     (ini, h) \<leftarrow> MaasClusterInitializationStatus_DeepCopyInto (cst_Initialization c) h;
     (net, h) \<leftarrow> assign (cst_Network c) h;
     (domains, h) \<leftarrow> cp_slice as_Libs CLibs (FailureDomain_DeepCopyInto K) (cst_FailureDomains c) h;
     (conds, h) \<leftarrow> cp_slice as_Libs CLibs (Condition_DeepCopyInto K) (cst_Conditions c) h;
     Some (c\<lparr>cst_Initialization := ini, cst_Network := net, cst_FailureDomains := domains, cst_Conditions :=
       conds\<rparr>, h) }"

definition MaasClusterStatus_DeepCopy :: "('x, 'y) k8s \<Rightarrow> ('x cell, ptr) copying" where
  "MaasClusterStatus_DeepCopy K = cp_ptr as_ClusterStatus CClusterStatus (MaasClusterStatus_DeepCopyInto K)"

definition rd_MaasCluster :: "('x, 'y) k8s \<Rightarrow> ('x cell, 'x cluster_mem, 'y cluster_val) reader" where
  "rd_MaasCluster K c h = do {
     (meta, A) \<leftarrow> rd_ObjectMeta K (ob_ObjectMeta c) h;
     (spec, B) \<leftarrow> rd_MaasClusterSpec (ob_Spec c) h;
     (status, C) \<leftarrow> rd_MaasClusterStatus K (ob_Status c) h;
     Some (\<lparr>ob_TypeMeta = ob_TypeMeta c, ob_ObjectMeta = meta, ob_Spec = spec, ob_Status = status\<rparr>, A
       \<union> B \<union> C) }"

definition MaasCluster_DeepCopyInto :: "('x, 'y) k8s \<Rightarrow> ('x cell, 'x cluster_mem) copying" where
  "MaasCluster_DeepCopyInto K c h = do {
     (meta, h) \<leftarrow> ObjectMeta_DeepCopyInto K (ob_ObjectMeta c) h;
     (spec, h) \<leftarrow> MaasClusterSpec_DeepCopyInto (ob_Spec c) h;
     (status, h) \<leftarrow> MaasClusterStatus_DeepCopyInto K (ob_Status c) h;
     Some (c\<lparr>ob_ObjectMeta := meta, ob_Spec := spec, ob_Status := status\<rparr>, h) }"

definition MaasCluster_DeepCopy :: "('x, 'y) k8s \<Rightarrow> ('x cell, ptr) copying" where
  "MaasCluster_DeepCopy K = cp_ptr as_MaasCluster CMaasCluster (MaasCluster_DeepCopyInto K)"

definition MaasCluster_DeepCopyObject :: "('x, 'y) k8s \<Rightarrow> ('x cell, ptr) copying" where
  "MaasCluster_DeepCopyObject K p h = do { (c, h) \<leftarrow> MaasCluster_DeepCopy K p h; Some (if c \<noteq> None then c else None, h) }"

definition rd_MaasClusterList :: "('x, 'y) k8s \<Rightarrow> ('x cell, 'x list_mem, ('y, 'y cluster_val) list_val) reader" where
  "rd_MaasClusterList K c h = do {
     (meta, A) \<leftarrow> rd_ListMeta K (ls_ListMeta c) h;
     (items, B) \<leftarrow> rd_slice as_Clusters (rd_MaasCluster K) (ls_Items c) h;
     Some (\<lparr>ls_TypeMeta = ls_TypeMeta c, ls_ListMeta = meta, ls_Items = items\<rparr>, A \<union> B) }"

definition MaasClusterList_DeepCopyInto :: "('x, 'y) k8s \<Rightarrow> ('x cell, 'x list_mem) copying" where
  "MaasClusterList_DeepCopyInto K c h = do {
     (meta, h) \<leftarrow> ListMeta_DeepCopyInto K (ls_ListMeta c) h;
     (items, h) \<leftarrow> cp_slice as_Clusters CClusters (MaasCluster_DeepCopyInto K) (ls_Items c) h;
     Some (c\<lparr>ls_ListMeta := meta, ls_Items := items\<rparr>, h) }"

definition MaasClusterList_DeepCopy :: "('x, 'y) k8s \<Rightarrow> ('x cell, ptr) copying" where
  "MaasClusterList_DeepCopy K = cp_ptr as_List CList (MaasClusterList_DeepCopyInto K)"

definition MaasClusterList_DeepCopyObject :: "('x, 'y) k8s \<Rightarrow> ('x cell, ptr) copying" where
  "MaasClusterList_DeepCopyObject K p h = do { (c, h) \<leftarrow> MaasClusterList_DeepCopy K p h; Some (if c \<noteq> None then c else None, h) }"

section \<open>Deep copies\<close>

lemma deep_flat: "deep_copy flat assign"
  by (rule plain.deep_copy_axioms)

lemma deep_string: "deep_copy rd_string cp_string"
  unfolding rd_string_def cp_string_def by (rule deep_copy_ptr [OF deep_flat as_cell(3)])

lemma deep_int: "deep_copy rd_int cp_int"
  unfolding rd_int_def cp_int_def by (rule deep_copy_ptr [OF deep_flat as_cell(2)])

lemma deep_bool: "deep_copy rd_bool cp_bool"
  unfolding rd_bool_def cp_bool_def by (rule deep_copy_ptr [OF deep_flat as_cell(1)])

lemma deep_strings: "deep_copy rd_strings cp_strings"
  unfolding rd_strings_def cp_strings_def by (rule deep_copy_slice [OF deep_flat as_cell(5)])

lemmas deep_map = deep_copy_ptr [OF entries.deep_copy_axioms as_cell(4)]
lemmas deep_addresses = deep_copy_slice [OF deep_flat as_cell(6)]

lemma k8s_deep:
  assumes "k8s_laws K"
  shows "deep_copy (rd_ObjectMeta K) (ObjectMeta_DeepCopyInto K)" "deep_copy (rd_ListMeta K) (ListMeta_DeepCopyInto K)"
    "deep_copy (rd_Condition K) (Condition_DeepCopyInto K)" "deep_copy (rd_FailureDomain K) (FailureDomain_DeepCopyInto K)"
  using assms by (simp_all add: k8s_laws_def)

lemma map_option_do: "map_option g m = Option.bind m (\<lambda>x. Some (g x))"
  by (cases m) simp_all

lemmas struct_simps = rd_pair_def cp_pair_def split_def map_option_do Option.bind_assoc Un_assoc

lemma deep_VMConfig: "deep_copy rd_VMConfig VMConfig_DeepCopyInto"
  by (rule deep_copy_struct [where parts = "\<lambda>c. (vm_DiskSize c, vm_InterfaceLinkModes c, vm_AutoStart c)"
      and upd = "\<lambda>c (disk, modes, auto). c\<lparr>vm_DiskSize := disk, vm_InterfaceLinkModes := modes,
        vm_AutoStart := auto\<rparr>"
      and denote = "\<lambda>c (disk, modes, auto). \<lparr>vm_DiskSize = disk, vm_StoragePool = vm_StoragePool c,
        vm_Network = vm_Network c, vm_InterfaceLinkModes = modes, vm_AutoStart = auto\<rparr>",
      OF deep_copy_pair [OF deep_int deep_copy_pair [OF deep_map deep_bool]]])
    (simp_all add: rd_VMConfig_def VMConfig_DeepCopyInto_def struct_simps split: prod.splits)

lemma deep_MachineLXDConfig: "deep_copy rd_MachineLXDConfig MachineLXDConfig_DeepCopyInto"
  by (rule deep_copy_struct [where parts = "\<lambda>c. (mlx_Enabled c, mlx_VMConfig c)"
      and upd = "\<lambda>c (enabled, vm). c\<lparr>mlx_Enabled := enabled, mlx_VMConfig := vm\<rparr>"
      and denote = "\<lambda>c (enabled, vm). \<lparr>mlx_Enabled = enabled, mlx_VMConfig = vm\<rparr>",
      OF deep_copy_pair [OF deep_bool deep_copy_ptr [OF deep_VMConfig as_cell(14)]]])
    (simp_all add: rd_MachineLXDConfig_def MachineLXDConfig_DeepCopyInto_def struct_simps split: prod.splits)

lemma deep_MaasMachineSpec: "deep_copy rd_MaasMachineSpec MaasMachineSpec_DeepCopyInto"
  by (rule deep_copy_struct [where parts = "\<lambda>c. (ms_FailureDomain c, ms_SystemID c, ms_Parent c,
        ms_ProviderID c, ms_ResourcePool c, ms_MinCPU c, ms_MinMemoryInMB c, ms_MinDiskSizeInGB c, ms_Tags c, ms_LXD c)"
      and upd = "\<lambda>c (domain, sid, parent, pid, pool, cpu, mem, disk, tags, lxd). c\<lparr>ms_FailureDomain
        := domain, ms_SystemID := sid, ms_Parent := parent, ms_ProviderID := pid, ms_ResourcePool := pool, ms_MinCPU
        := cpu, ms_MinMemoryInMB := mem, ms_MinDiskSizeInGB := disk, ms_Tags := tags, ms_LXD := lxd\<rparr>"
      and denote = "\<lambda>c (domain, sid, parent, pid, pool, cpu, mem, disk, tags, lxd).
        \<lparr>ms_FailureDomain = domain, ms_SystemID = sid, ms_Parent = parent, ms_ProviderID = pid,
        ms_ResourcePool = pool, ms_MinCPU = cpu, ms_MinMemoryInMB = mem, ms_MinDiskSizeInGB = disk, ms_Tags = tags,
        ms_Image = ms_Image c, ms_DeployInMemory = ms_DeployInMemory c, ms_LXD = lxd\<rparr>",
      OF deep_copy_pair [OF deep_string deep_copy_pair [OF deep_string deep_copy_pair [OF deep_string
        deep_copy_pair [OF deep_string deep_copy_pair [OF deep_string deep_copy_pair [OF deep_int deep_copy_pair [OF
        deep_int deep_copy_pair [OF deep_int deep_copy_pair [OF deep_strings deep_copy_ptr [OF deep_MachineLXDConfig
        as_cell(15)]]]]]]]]]]])
    (simp_all add: rd_MaasMachineSpec_def MaasMachineSpec_DeepCopyInto_def struct_simps split: prod.splits)

lemma deep_MaasMachineInitializationStatus: "deep_copy rd_MaasMachineInitializationStatus MaasMachineInitializationStatus_DeepCopyInto"
  by (rule deep_copy_struct [where parts = "\<lambda>c. ini_Provisioned c"
      and upd = "\<lambda>c prov. c\<lparr>ini_Provisioned := prov\<rparr>"
      and denote = "\<lambda>c prov. \<lparr>ini_Provisioned = prov\<rparr>",
      OF deep_bool])
(simp_all add: rd_MaasMachineInitializationStatus_def MaasMachineInitializationStatus_DeepCopyInto_def
        struct_simps split: prod.splits)

lemma deep_MaasMachineStatus:
  assumes K: "k8s_laws K"
  shows "deep_copy (rd_MaasMachineStatus K) (MaasMachineStatus_DeepCopyInto K)"
  by (rule deep_copy_struct [where parts = "\<lambda>c. (mst_Initialization c, mst_MachineState c, mst_Hostname c,
        mst_Addresses c, mst_Conditions c, mst_FailureReason c, mst_FailureMessage c)"
      and upd = "\<lambda>c (ini, state, name, addrs, conds, reason, msg). c\<lparr>mst_Initialization := ini,
        mst_MachineState := state, mst_Hostname := name, mst_Addresses := addrs, mst_Conditions := conds,
        mst_FailureReason := reason, mst_FailureMessage := msg\<rparr>"
      and denote = "\<lambda>c (ini, state, name, addrs, conds, reason, msg). \<lparr>mst_Ready = mst_Ready c,
        mst_Initialization = ini, mst_MachineState = state, mst_MachinePowered = mst_MachinePowered c, mst_Hostname
        = name, mst_DNSAttached = mst_DNSAttached c, mst_Addresses = addrs, mst_Conditions = conds,
        mst_FailureReason = reason, mst_FailureMessage = msg\<rparr>",
      OF deep_copy_pair [OF deep_MaasMachineInitializationStatus deep_copy_pair [OF deep_string deep_copy_pair [OF
        deep_string deep_copy_pair [OF deep_addresses deep_copy_pair [OF deep_copy_slice [OF k8s_deep(3) [OF K]
        as_cell(7)] deep_copy_pair [OF deep_string deep_string]]]]]]])
    (simp_all add: rd_MaasMachineStatus_def MaasMachineStatus_DeepCopyInto_def struct_simps split: prod.splits)

lemma deep_MaasMachine:
  assumes K: "k8s_laws K"
  shows "deep_copy (rd_MaasMachine K) (MaasMachine_DeepCopyInto K)"
  by (rule deep_copy_struct [where parts = "\<lambda>c. (ob_ObjectMeta c, ob_Spec c, ob_Status c)"
      and upd = "\<lambda>c (meta, spec, status). c\<lparr>ob_ObjectMeta := meta, ob_Spec := spec, ob_Status :=
        status\<rparr>"
      and denote = "\<lambda>c (meta, spec, status). \<lparr>ob_TypeMeta = ob_TypeMeta c, ob_ObjectMeta = meta,
        ob_Spec = spec, ob_Status = status\<rparr>",
      OF deep_copy_pair [OF k8s_deep(1) [OF K] deep_copy_pair [OF deep_MaasMachineSpec deep_MaasMachineStatus [OF
        K]]]])
    (simp_all add: rd_MaasMachine_def MaasMachine_DeepCopyInto_def struct_simps split: prod.splits)

lemma deep_MaasMachineList:
  assumes K: "k8s_laws K"
  shows "deep_copy (rd_MaasMachineList K) (MaasMachineList_DeepCopyInto K)"
  by (rule deep_copy_struct [where parts = "\<lambda>c. (ls_ListMeta c, ls_Items c)"
      and upd = "\<lambda>c (meta, items). c\<lparr>ls_ListMeta := meta, ls_Items := items\<rparr>"
      and denote = "\<lambda>c (meta, items). \<lparr>ls_TypeMeta = ls_TypeMeta c, ls_ListMeta = meta, ls_Items =
        items\<rparr>",
      OF deep_copy_pair [OF k8s_deep(2) [OF K] deep_copy_slice [OF deep_MaasMachine [OF K] as_cell(8)]]])
    (simp_all add: rd_MaasMachineList_def MaasMachineList_DeepCopyInto_def struct_simps split: prod.splits)

lemma deep_Machine: "deep_copy rd_Machine Machine_DeepCopyInto"
  by (rule deep_copy_struct [where parts = "\<lambda>c. mi_Addresses c"
      and upd = "\<lambda>c addrs. c\<lparr>mi_Addresses := addrs\<rparr>"
      and denote = "\<lambda>c addrs. \<lparr>mi_ID = mi_ID c, mi_Hostname = mi_Hostname c, mi_State = mi_State c,
        mi_Powered = mi_Powered c, mi_PowerState = mi_PowerState c, mi_AvailabilityZone = mi_AvailabilityZone c,
        mi_Addresses = addrs, mi_DeployedInMemory = mi_DeployedInMemory c\<rparr>",
      OF deep_addresses])
    (simp_all add: rd_Machine_def Machine_DeepCopyInto_def struct_simps split: prod.splits)

lemma deep_MaasMachineTemplateResource: "deep_copy rd_MaasMachineTemplateResource MaasMachineTemplateResource_DeepCopyInto"
  by (rule deep_copy_struct [where parts = "\<lambda>c. tr_Spec c"
      and upd = "\<lambda>c spec. c\<lparr>tr_Spec := spec\<rparr>"
      and denote = "\<lambda>c spec. \<lparr>tr_Spec = spec\<rparr>",
      OF deep_MaasMachineSpec])
(simp_all add: rd_MaasMachineTemplateResource_def MaasMachineTemplateResource_DeepCopyInto_def struct_simps
        split: prod.splits)

lemma deep_MaasMachineTemplateSpec: "deep_copy rd_MaasMachineTemplateSpec MaasMachineTemplateSpec_DeepCopyInto"
  by (rule deep_copy_struct [where parts = "\<lambda>c. ts_Template c"
      and upd = "\<lambda>c tmpl. c\<lparr>ts_Template := tmpl\<rparr>"
      and denote = "\<lambda>c tmpl. \<lparr>ts_Template = tmpl\<rparr>",
      OF deep_MaasMachineTemplateResource])
(simp_all add: rd_MaasMachineTemplateSpec_def MaasMachineTemplateSpec_DeepCopyInto_def struct_simps split:
        prod.splits)

lemma deep_MaasMachineTemplate:
  assumes K: "k8s_laws K"
  shows "deep_copy (rd_MaasMachineTemplate K) (MaasMachineTemplate_DeepCopyInto K)"
  by (rule deep_copy_struct [where parts = "\<lambda>c. (tp_ObjectMeta c, tp_Spec c)"
      and upd = "\<lambda>c (meta, spec). c\<lparr>tp_ObjectMeta := meta, tp_Spec := spec\<rparr>"
      and denote = "\<lambda>c (meta, spec). \<lparr>tp_TypeMeta = tp_TypeMeta c, tp_ObjectMeta = meta, tp_Spec =
        spec\<rparr>",
      OF deep_copy_pair [OF k8s_deep(1) [OF K] deep_MaasMachineTemplateSpec]])
    (simp_all add: rd_MaasMachineTemplate_def MaasMachineTemplate_DeepCopyInto_def struct_simps split: prod.splits)

lemma deep_MaasMachineTemplateList:
  assumes K: "k8s_laws K"
  shows "deep_copy (rd_MaasMachineTemplateList K) (MaasMachineTemplateList_DeepCopyInto K)"
  by (rule deep_copy_struct [where parts = "\<lambda>c. (ls_ListMeta c, ls_Items c)"
      and upd = "\<lambda>c (meta, items). c\<lparr>ls_ListMeta := meta, ls_Items := items\<rparr>"
      and denote = "\<lambda>c (meta, items). \<lparr>ls_TypeMeta = ls_TypeMeta c, ls_ListMeta = meta, ls_Items =
        items\<rparr>",
      OF deep_copy_pair [OF k8s_deep(2) [OF K] deep_copy_slice [OF deep_MaasMachineTemplate [OF K] as_cell(10)]]])
(simp_all add: rd_MaasMachineTemplateList_def MaasMachineTemplateList_DeepCopyInto_def struct_simps split:
        prod.splits)

lemma deep_LXDConfig: "deep_copy rd_LXDConfig LXDConfig_DeepCopyInto"
  by (rule deep_copy_struct [where parts = "\<lambda>c. (lx_Enabled c, lx_SkipNetworkUpdate c)"
      and upd = "\<lambda>c (enabled, skip). c\<lparr>lx_Enabled := enabled, lx_SkipNetworkUpdate := skip\<rparr>"
      and denote = "\<lambda>c (enabled, skip). \<lparr>lx_Enabled = enabled, lx_ResourcePool = lx_ResourcePool c,
        lx_Zone = lx_Zone c, lx_StorageBackend = lx_StorageBackend c, lx_StorageSize = lx_StorageSize c, lx_NICType
        = lx_NICType c, lx_NICParent = lx_NICParent c, lx_NetworkBridge = lx_NetworkBridge c, lx_SkipNetworkUpdate =
        skip\<rparr>",
      OF deep_copy_pair [OF deep_bool deep_bool]])
    (simp_all add: rd_LXDConfig_def LXDConfig_DeepCopyInto_def struct_simps split: prod.splits)

lemma deep_MaasClusterSpec: "deep_copy rd_MaasClusterSpec MaasClusterSpec_DeepCopyInto"
  by (rule deep_copy_struct [where parts = "\<lambda>c. (cs_ControlPlaneEndpoint c, cs_FailureDomains c, cs_LXDConfig c)"
      and upd = "\<lambda>c (ep, domains, lxd). c\<lparr>cs_ControlPlaneEndpoint := ep, cs_FailureDomains :=
        domains, cs_LXDConfig := lxd\<rparr>"
      and denote = "\<lambda>c (ep, domains, lxd). \<lparr>cs_DNSDomain = cs_DNSDomain c, cs_ControlPlaneEndpoint
        = ep, cs_FailureDomains = domains, cs_LXDConfig = lxd\<rparr>",
      OF deep_copy_pair [OF deep_flat deep_copy_pair [OF deep_strings deep_copy_ptr [OF deep_LXDConfig
        as_cell(16)]]]])
    (simp_all add: rd_MaasClusterSpec_def MaasClusterSpec_DeepCopyInto_def struct_simps split: prod.splits)

lemma deep_MaasClusterInitializationStatus: "deep_copy rd_MaasClusterInitializationStatus MaasClusterInitializationStatus_DeepCopyInto"
  by (rule deep_copy_struct [where parts = "\<lambda>c. ini_Provisioned c"
      and upd = "\<lambda>c prov. c\<lparr>ini_Provisioned := prov\<rparr>"
      and denote = "\<lambda>c prov. \<lparr>ini_Provisioned = prov\<rparr>",
      OF deep_bool])
(simp_all add: rd_MaasClusterInitializationStatus_def MaasClusterInitializationStatus_DeepCopyInto_def
        struct_simps split: prod.splits)

lemma deep_MaasClusterStatus:
  assumes K: "k8s_laws K"
  shows "deep_copy (rd_MaasClusterStatus K) (MaasClusterStatus_DeepCopyInto K)"
  by (rule deep_copy_struct [where parts = "\<lambda>c. (cst_Initialization c, cst_Network c, cst_FailureDomains c,
        cst_Conditions c)"
      and upd = "\<lambda>c (ini, net, domains, conds). c\<lparr>cst_Initialization := ini, cst_Network := net,
        cst_FailureDomains := domains, cst_Conditions := conds\<rparr>"
      and denote = "\<lambda>c (ini, net, domains, conds). \<lparr>cst_Ready = cst_Ready c, cst_Initialization =
        ini, cst_Network = net, cst_FailureDomains = domains, cst_Conditions = conds\<rparr>",
      OF deep_copy_pair [OF deep_MaasClusterInitializationStatus deep_copy_pair [OF deep_flat deep_copy_pair [OF
        deep_copy_slice [OF k8s_deep(4) [OF K] as_cell(7)] deep_copy_slice [OF k8s_deep(3) [OF K] as_cell(7)]]]]])
    (simp_all add: rd_MaasClusterStatus_def MaasClusterStatus_DeepCopyInto_def struct_simps split: prod.splits)

lemma deep_MaasCluster:
  assumes K: "k8s_laws K"
  shows "deep_copy (rd_MaasCluster K) (MaasCluster_DeepCopyInto K)"
  by (rule deep_copy_struct [where parts = "\<lambda>c. (ob_ObjectMeta c, ob_Spec c, ob_Status c)"
      and upd = "\<lambda>c (meta, spec, status). c\<lparr>ob_ObjectMeta := meta, ob_Spec := spec, ob_Status :=
        status\<rparr>"
      and denote = "\<lambda>c (meta, spec, status). \<lparr>ob_TypeMeta = ob_TypeMeta c, ob_ObjectMeta = meta,
        ob_Spec = spec, ob_Status = status\<rparr>",
      OF deep_copy_pair [OF k8s_deep(1) [OF K] deep_copy_pair [OF deep_MaasClusterSpec deep_MaasClusterStatus [OF
        K]]]])
    (simp_all add: rd_MaasCluster_def MaasCluster_DeepCopyInto_def struct_simps split: prod.splits)

lemma deep_MaasClusterList:
  assumes K: "k8s_laws K"
  shows "deep_copy (rd_MaasClusterList K) (MaasClusterList_DeepCopyInto K)"
  by (rule deep_copy_struct [where parts = "\<lambda>c. (ls_ListMeta c, ls_Items c)"
      and upd = "\<lambda>c (meta, items). c\<lparr>ls_ListMeta := meta, ls_Items := items\<rparr>"
      and denote = "\<lambda>c (meta, items). \<lparr>ls_TypeMeta = ls_TypeMeta c, ls_ListMeta = meta, ls_Items =
        items\<rparr>",
      OF deep_copy_pair [OF k8s_deep(2) [OF K] deep_copy_slice [OF deep_MaasCluster [OF K] as_cell(9)]]])
    (simp_all add: rd_MaasClusterList_def MaasClusterList_DeepCopyInto_def struct_simps split: prod.splits)

lemma copy_or_nil: "do { (c, h) \<leftarrow> m; Some (if c \<noteq> None then c else None, h) } = m"
  by (cases m) auto

lemma DeepCopyObject_eq:
  "MaasMachine_DeepCopyObject K = MaasMachine_DeepCopy K" "MaasCluster_DeepCopyObject K = MaasCluster_DeepCopy K"
  "MaasMachineTemplate_DeepCopyObject K = MaasMachineTemplate_DeepCopy K"
  "MaasMachineList_DeepCopyObject K = MaasMachineList_DeepCopy K"
  "MaasClusterList_DeepCopyObject K = MaasClusterList_DeepCopy K"
  "MaasMachineTemplateList_DeepCopyObject K = MaasMachineTemplateList_DeepCopy K"
  by (rule ext, rule ext, simp only: MaasMachine_DeepCopyObject_def MaasCluster_DeepCopyObject_def
      MaasMachineTemplate_DeepCopyObject_def MaasMachineList_DeepCopyObject_def MaasClusterList_DeepCopyObject_def
      MaasMachineTemplateList_DeepCopyObject_def copy_or_nil)+

lemma deep_objects:
  assumes K: "k8s_laws K"
  shows "deep_copy (rd_ptr as_MaasMachine (rd_MaasMachine K)) (MaasMachine_DeepCopy K)"
    "deep_copy (rd_ptr as_MaasCluster (rd_MaasCluster K)) (MaasCluster_DeepCopy K)"
    "deep_copy (rd_ptr as_Template (rd_MaasMachineTemplate K)) (MaasMachineTemplate_DeepCopy K)"
    "deep_copy (rd_ptr as_List (rd_MaasMachineList K)) (MaasMachineList_DeepCopy K)"
    "deep_copy (rd_ptr as_List (rd_MaasClusterList K)) (MaasClusterList_DeepCopy K)"
    "deep_copy (rd_ptr as_List (rd_MaasMachineTemplateList K)) (MaasMachineTemplateList_DeepCopy K)"
  unfolding MaasMachine_DeepCopy_def MaasCluster_DeepCopy_def MaasMachineTemplate_DeepCopy_def
    MaasMachineList_DeepCopy_def MaasClusterList_DeepCopy_def MaasMachineTemplateList_DeepCopy_def
  by (intro deep_copy_ptr as_cell deep_MaasMachine deep_MaasCluster deep_MaasMachineTemplate deep_MaasMachineList
      deep_MaasClusterList deep_MaasMachineTemplateList K)+

lemmas read_defs = rd_ptr_def rd_slice_def window_def load_def flat_def rd_entries_def as_defs rd_string_def rd_int_def rd_bool_def
  rd_strings_def
  rd_VMConfig_def rd_MachineLXDConfig_def rd_MaasMachineSpec_def rd_MaasMachineInitializationStatus_def
  rd_MaasMachineStatus_def rd_MaasMachine_def rd_MaasMachineList_def rd_Machine_def
  rd_MaasMachineTemplateResource_def rd_MaasMachineTemplateSpec_def rd_MaasMachineTemplate_def
  rd_MaasMachineTemplateList_def rd_LXDConfig_def rd_MaasClusterSpec_def
  rd_MaasClusterInitializationStatus_def rd_MaasClusterStatus_def rd_MaasCluster_def rd_MaasClusterList_def

section \<open>Independence\<close>

text \<open>
  C23: a deep copy shares no memory with its original. For each object type of the API, \<open>DeepCopyObject\<close> of an
  object that can be read does not panic and returns one that stands for the same value; the original still
  stands for that value; and whatever is written to the memory of either afterwards, the other one
  reads as before. So an object of the cache that a controller copies is not changed by what it does to the copy.
\<close>

theorem DeepCopyObject_isolated:
  assumes K: "k8s_laws K"
  shows "isolates (rd_ptr as_MaasMachine (rd_MaasMachine K)) (MaasMachine_DeepCopyObject K) \<and>
    isolates (rd_ptr as_MaasCluster (rd_MaasCluster K)) (MaasCluster_DeepCopyObject K) \<and>
    isolates (rd_ptr as_Template (rd_MaasMachineTemplate K)) (MaasMachineTemplate_DeepCopyObject K) \<and>
    isolates (rd_ptr as_List (rd_MaasMachineList K)) (MaasMachineList_DeepCopyObject K) \<and>
    isolates (rd_ptr as_List (rd_MaasClusterList K)) (MaasClusterList_DeepCopyObject K) \<and>
    isolates (rd_ptr as_List (rd_MaasMachineTemplateList K)) (MaasMachineTemplateList_DeepCopyObject K)"
  unfolding DeepCopyObject_eq by (intro conjI deep_copy.isolated deep_objects [OF K])

section \<open>Witness\<close>

text \<open>Library structs that are a list of strings, the finalizers of an object, for one.\<close>

definition sample_k8s :: "(slice_ref, string list option) k8s" where
  "sample_k8s = \<lparr>ObjectMeta_DeepCopyInto = cp_strings, rd_ObjectMeta = rd_strings, ListMeta_DeepCopyInto = cp_strings,
     rd_ListMeta = rd_strings, Condition_DeepCopyInto = cp_strings, rd_Condition = rd_strings,
     FailureDomain_DeepCopyInto = cp_strings, rd_FailureDomain = rd_strings\<rparr>"

definition sample_machine_mem :: "slice_ref machine_mem" where
  "sample_machine_mem = \<lparr>ob_TypeMeta = \<lparr>tm_Kind = ''MaasMachine'', tm_APIVersion = ''v1beta1''\<rparr>,
     ob_ObjectMeta = Some \<lparr>sl_array = 2, sl_off = 0, sl_len = 1\<rparr>,
     ob_Spec = \<lparr>ms_FailureDomain = None, ms_SystemID = None, ms_Parent = None, ms_ProviderID = Some 0,
       ms_ResourcePool = None, ms_MinCPU = None, ms_MinMemoryInMB = None, ms_MinDiskSizeInGB = None,
       ms_Tags = Some \<lparr>sl_array = 1, sl_off = 1, sl_len = 1\<rparr>, ms_Image = ''u'', ms_DeployInMemory = False,
       ms_LXD = None\<rparr>,
     ob_Status = \<lparr>mst_Ready = True, mst_Initialization = \<lparr>ini_Provisioned = None\<rparr>, mst_MachineState = None,
       mst_MachinePowered = True, mst_Hostname = None, mst_DNSAttached = False, mst_Addresses = None,
       mst_Conditions = None, mst_FailureReason = None, mst_FailureMessage = None\<rparr>\<rparr>"

definition sample_store :: "slice_ref cell store" where
  "sample_store = \<lparr>lim = 4, cells = (\<lambda>a. if a = 0 then CString ''maas:///z/id'' else if a = 1 then CStrings [''a'', ''b'']
     else if a = 2 then CStrings [''fin''] else CMaasMachine sample_machine_mem)\<rparr>"

text \<open>The provider ID of the original is overwritten; the copy keeps it.\<close>

theorem DeepCopyObject_isolated_witness:
  "\<exists>v A q k. rd_ptr as_MaasMachine (rd_MaasMachine sample_k8s) (Some 3) sample_store = Some (v, A) \<and>
     MaasMachine_DeepCopyObject sample_k8s (Some 3) sample_store = Some (q, k) \<and>
     0 \<in> A \<and>
     map_option fst (rd_ptr as_MaasMachine (rd_MaasMachine sample_k8s) q (put_cell 0 (CString ''other'') k)) = Some v"
proof -
  let ?rd = "rd_ptr as_MaasMachine (rd_MaasMachine sample_k8s)"
  have laws: "k8s_laws sample_k8s" by (simp add: k8s_laws_def sample_k8s_def deep_strings)
  have "\<exists>v A. ?rd (Some 3) sample_store = Some (Some v, A) \<and> 0 \<in> A"
    by (simp add: read_defs sample_k8s_def sample_machine_mem_def sample_store_def)
  then obtain v A where v: "?rd (Some 3) sample_store = Some (Some v, A)" "0 \<in> A" by blast
  from DeepCopyObject_isolated [OF laws] have "isolates ?rd (MaasMachine_DeepCopyObject sample_k8s)" by blast
  with v(1) obtain q k B where q: "MaasMachine_DeepCopyObject sample_k8s (Some 3) sample_store = Some (q, k)"
    "?rd (Some 3) k = Some (Some v, A)" "\<And>l. writes A k l \<Longrightarrow> ?rd q l = Some (Some v, B)"
    unfolding isolates_def by meson
  have "writes A k (put_cell 0 (CString ''other'') k)" using v(2) by (simp add: writes_def put_cell_def)
  from q(3) [OF this] have "map_option fst (?rd q (put_cell 0 (CString ''other'') k)) = Some (Some v)" by simp
  with v q(1) show ?thesis by blast
qed

end
