(* ===== verification/Spec2Isabelle.thy ===== *)
theory Spec2Isabelle
  imports Vec_Controller Cluster_Controller Initializer_Main Machine_Lifecycle Manager Deep_Copy
begin

text \<open>
  The Cluster API provider for MAAS, modelled and verified. The program is a Kubernetes controller
  manager that turns \<open>MaasCluster\<close> and \<open>MaasMachine\<close> objects into bare-metal machines and LXD virtual
  machines of a MAAS server, and a small program, the LXD initializer, that runs on the nodes.

  \<^bold>\<open>The parts and how they interact.\<close> The MaasMachine controller (\<open>controllers/maasmachine_controller.go\<close>)
  drives one machine through the machine service (\<open>pkg/maas/machine\<close>), which allocates or composes,
  deploys and releases it in MAAS, and places VMs with the host client (\<open>pkg/maas/lxd\<close>). The
  MaasCluster controller keeps the DNS name of the API server and sends the LXD initializer to
  the nodes of a cluster. Two maintenance controllers evacuate a host before its deletion: the host
  maintenance controller tags the host and holds its finalizer until the gates open, the VM evacuation
  controller of a workload cluster sees the tags and replaces its control-plane VMs one at a time.
  The controllers share nothing but what they read and write: objects of the API server, machines
  and tags of MAAS, and a session \<open>ConfigMap\<close>.

  \<^bold>\<open>The model of effects.\<close> Prelude.thy holds the monad, the result type (\<open>'a res\<close>, \<open>Inl\<close> an error
  \<open>gerr\<close>, with Go panics as the error \<open>GoPanic\<close>), Go's string functions and a small Hoare calculus. World.thy holds
  the environment: every call to MAAS, to an API server, to the LXD server, to a command or to the clock
  is a field of \<open>env\<close>, a function of the whole trace of calls so far, so that a server may answer
  in any way, may fail any call and may change its answers. Each call adds an event; a write's event says
  whether the server accepted it. The state \<open>sys\<close> is the trace with the \<open>MaasMachine\<close> and \<open>MaasCluster\<close>
  that the running reconcile holds. Guards.thy holds the calculus for statements of the form
  "this write only happens after that check". Sample_World.thy holds the environment of the witnesses.

  \<^bold>\<open>Theories and code.\<close>
  \<^item> Api_Types: \<open>api/v1beta1\<close>, the records and constants of the custom resources, and the errors.
  \<^item> Tags, Tag_Service, Inventory, Session (over Go_Codec): \<open>pkg/maas/maintenance\<close>, tag vocabulary, the
    tagging and inventory interfaces with their MAAS implementation, the session and its text format.
  \<^item> Provider_ID: \<open>pkg/util\<close>. Cluster_Scope, Machine_Scope: \<open>pkg/maas/scope\<close>. Dns: \<open>pkg/maas/dns\<close>.
  \<^item> Lxd_Hosts, Lxd_Service: \<open>pkg/maas/lxd\<close>. Machine_Service: \<open>pkg/maas/machine\<close>.
  \<^item> Host_Maintenance, Hmc_Controller, Vec_Controller, Machine_Controller, Cluster_Controller,
    Lxd_Daemonset, Migration: \<open>controllers\<close>, one theory per file.
  \<^item> Lxd_Initializer, Initializer_Main: \<open>lxd-initializer\<close>. Webhooks: the webhook files of \<open>api/v1beta1\<close>.
  \<^item> Manager: \<open>main.go\<close> and the \<open>SetupWithManager\<close> functions: what is registered with controller-runtime, in
    which order, and when the manager starts; a step of the setup is an event \<open>Setup\<close>, its answer a parameter.
  \<^item> Machine_Writes: what a reconcile of the MaasMachine controller can store, as two locales over a
    property of the object, \<open>machine_writes\<close> and \<open>machine_removals\<close>. Machine_Lifecycle: the life of one stored
    \<open>MaasMachine\<close>, a step relation whose steps are the reconciles of both controllers and everybody else's updates.

  \<^item> Deep_Copy (over Go_Memory, a store of cells with pointers, slices and maps, and the locale \<open>deep_copy\<close>):
    \<open>zz_generated.deepcopy.go\<close>. All other theories treat an object as a value; this one shows that
    the copies the libraries hand to the controllers can be treated so.

  Operations keep the names of the Go functions; a long function is split at its blank lines and
  branches into definitions that follow it in order. The interfaces of the code are records of
  functions with a locale each (\<open>tag_service_laws\<close>, \<open>inventory_laws\<close>, \<open>host_service\<close>), interpreted on the MAAS
  implementation; \<open>machine_writes\<close> is interpreted on the shape the webhook checks, on the IDs, on the
  finalizers of the object and on its provider ID, which a reconcile clears only after it requested a release; \<open>strict_weak_order\<close> is what \<open>sort.Slice\<close> needs of a comparison, interpreted on the one of the placement.

  \<^bold>\<open>What is shown.\<close> For the machine: nothing is acquired in MAAS before the finalizers that make a
  deletion release it are stored; deletion releases before it drops the finalizer; a machine is ready
  exactly when deployed, and is powered on only when it is known to be off; a failed deployment is released; a VM
  is composed at most once and its IDs are sent to the API server; the selected host is the best eligible one. For
  maintenance: the finalizer of a host falls only after the gates, and only when no maintenance tag is left; at
  most one control-plane machine is deleted per reconcile, and none while a session is active; a session in progress is never
  replaced; tags, sessions (up to the fraction of a second) and provider IDs round trip. For clusters: the endpoint, the addresses of the DNS record, the finalizer, the
  gates of the initializer; the manager serves only after the migration of the stored objects succeeded, and
  each kind of cluster has one of the two maintenance controllers. For the initializer: its wait ends, it registers a node once and under its own name, a node is
  labelled only when it is registered and LXD works. Across components (this theory, Webhooks and Machine_Lifecycle): a
  host tagged by the maintenance controller is not selected by a machine reconcile; every write of
  the machine controller passes the machine webhook; over any interleaving of reconciles and updates the
  stored IDs of a machine keep their type and agree, a machine that is recorded is not forgotten before its
  release is requested, and under deletion a host is seen empty before MAAS is called for it; the life also
  shows a deletion that a completed evacuation blocks for ever (\<open>deletion_gets_stuck\<close>); deletion finds the host name that the
  initializer registered exactly for plain names.

  \<^bold>\<open>Hypotheses.\<close> The properties hold for every environment unless they say otherwise. The documented
  behaviour that some assume is named: \<open>finalizer_laws\<close> (controller-runtime's finalizer functions are set
  operations), \<open>clock_laws\<close> (the clock advances by at least what was slept), \<open>machine_tags_law\<close> (MAAS reports the
  tags it accepted), \<open>k8s_laws\<close> (the copying functions of the library structs make deep copies), \<open>time_ok\<close> (RFC 3339
  prints a time of the years 0 to 9999 as a non-empty string that parses to its whole second; for the round trip of a
  session), \<open>session_server\<close> (a read of the session returns what was written last; for the restart by a trigger
  that is not removed). Each has a concrete instance in a witness. A life (Machine_Lifecycle) takes whole
  reconciles as its steps, each reading the object as it is stored; a patch or update that the API
  server accepts stores the object the controller holds; users leave the IDs, the finalizers and the deletion
  timestamp alone and pass the webhook; an object under deletion disappears with its last finalizer. A
  reconcile that works on a stale cache is outside these statements; those on single reconciles cover it.

  \<^bold>\<open>Bounds and fuel.\<close> Times are whole Unix seconds where they are compared, and nanoseconds where the code stores or
  prints the clock. Replica counts are 32 bit words, disk bytes 64 bit words, both with their wrap-around. A
  \<open>float64\<close> is a rational rounded by a parameter after each operation. Iteration over a Go map is in an order
  that the environment chooses. The only loop with fuel is the wait for the LXD socket: it takes one second
  per round, and any fuel above the timeout (120 seconds) is shown to be enough. All other definitions are total functions.

  \<^bold>\<open>Not modelled.\<close> The scheme registration of \<open>main.go\<close> and its logging setup. \<open>conversion.go\<close> and
  \<open>groupversion_info.go\<close> hold markers. \<open>pkg/maas/maintenance/config.go\<close> and \<open>contracts.go\<close> hold defaults
  and interfaces that nothing uses. The rendering of the DaemonSet template and YAML parsing are library
  parameters. Log lines, metrics, tests and mocks are left out.
\<close>

section \<open>Maintenance and placement\<close>

text \<open>What the placement knows of a candidate it keeps, at the moment it read the host.\<close>

definition seen_free :: "env \<Rightarrow> trace \<Rightarrow> vm_host \<Rightarrow> bool" where
  "seen_free E us h \<longleftrightarrow> (\<exists>es m. list_all no_tag_write es \<and>
     machine_get_r (maas E) (vmh_HostSystemID h) (us @ es) = Inr m \<and>
     TagHostMaintenance \<notin> set (sdk_Tags m))"

lemma seen_free_later: "seen_free E (us @ es) h \<Longrightarrow> list_all no_tag_write es \<Longrightarrow> seen_free E us h"
proof -
  assume f: "seen_free E (us @ es) h" and q: "list_all no_tag_write es"
  from f obtain es' m where m: "list_all no_tag_write es'"
    "machine_get_r (maas E) (vmh_HostSystemID h) (us @ es @ es') = Inr m" "TagHostMaintenance \<notin> set (sdk_Tags m)"
    unfolding seen_free_def by auto
  then show ?thesis using q unfolding seen_free_def
    by (intro exI [of _ "es @ es'"] exI [of _ m]) simp
qed

lemma consider_reads_only: "emits no_tag_write (consider_host E opts counts h)"
  unfolding consider_host_def call_defs Let_def by (intro emits_intros) (simp_all add: no_tag_write_def)

lemma seen_freeI:
  "machine_get_r (maas E) (vmh_HostSystemID h) us = Inr m \<Longrightarrow> \<not> hasMaintenanceTag (sdk_Tags m) \<Longrightarrow> seen_free E us h"
  unfolding seen_free_def by (intro exI [of _ "[]"] exI [of _ m]) (auto simp: hasMaintenanceTag_def list_ex_iff)

lemma consider_seen_free:
  assumes run: "run_state (consider_host E opts counts h) s = (Inr (Some c), t)"
  shows "ca_host c = h \<and> seen_free E (trace s) h"
proof (cases "machine_get_r (maas E) (vmh_HostSystemID h) (trace s)")
  case (Inl e)
  with run show ?thesis unfolding consider_host_def Machine_Get_def
    by (cases e) (simp add: run_api lift_err_def Let_def split: sum.splits if_splits)
next
  case (Inr m)
  with run have "ca_host c = h \<and> \<not> hasMaintenanceTag (sdk_Tags m)" unfolding consider_host_def Machine_Get_def
    by (auto simp: run_api lift_err_def Let_def split: sum.splits if_splits)
  with seen_freeI [OF Inr] show ?thesis by simp
qed

lemma filter_seen_free:
  assumes "run_state (filter_hosts E opts counts hs) s = (Inr cs, t)" and "c \<in> set cs"
  shows "seen_free E (trace s) (ca_host c)"
  using assms
proof (induction hs arbitrary: s cs)
  case (Cons h hs)
  from Cons.prems(1) obtain o' u xs where c: "run_state (consider_host E opts counts h) s = (Inr o', u)"
    and f: "run_state (filter_hosts E opts counts hs) u = (Inr xs, t)"
    and cs: "cs = (case o' of None \<Rightarrow> xs | Some x \<Rightarrow> x # xs)"
    by (auto simp: ok_then_def split: prod.splits sum.splits)
  from emitsD [OF consider_reads_only c] obtain es where
    es: "trace u = trace s @ es" "list_all no_tag_write es" by blast
  show ?case
  proof (cases "c \<in> set xs")
    case True
    from Cons.IH [OF f True] es show ?thesis by (auto intro: seen_free_later)
  next
    case False
    with cs Cons.prems(2) have "o' = Some c" by (auto split: option.splits)
    with consider_seen_free [of E opts counts h s c u] c show ?thesis by simp
  qed
qed simp

lemma select_seen_free:
  assumes "run_state (SelectLXDHostWithMaasClient E hosts opts) u = (Inr h, t)"
  shows "seen_free E (trace u) h"
proof -
  define cl where "cl = (if so_ClusterID opts \<noteq> [] then TagVMClusterPrefix @ SanitizeID (so_ClusterID opts) else [])"
  define counting where "counting = (if cl \<noteq> [] then do { r \<leftarrow> Machines_List E [];
      ret (case r of Inl _ \<Rightarrow> [] | Inr ms \<Rightarrow> computeCPCountsByHost ms cl) } else ret [])"
  from assms obtain counts v cs w sorted where c: "run_state counting u = (counts, v)"
    and f: "run_state (filter_hosts E opts counts hosts) v = (Inr cs, w)" and ne: "cs \<noteq> []"
    and srt: "run_state (sort_Slice E cand_less cs) w = (sorted, t)" and h: "h = ca_host (hd sorted)"
    unfolding SelectLXDHostWithMaasClient_def Let_def cl_def [symmetric] counting_def [symmetric]
    by (auto split: if_splits prod.splits sum.splits)
  have "emits no_tag_write counting"
    unfolding counting_def call_defs by (intro emits_intros) (simp_all add: no_tag_write_def)
  from emitsD [OF this c] obtain es where es: "trace v = trace u @ es" "list_all no_tag_write es" by blast
  have "hd sorted \<in> set cs" using cand.sort_Slice_min [OF srt ne] by simp
  from filter_seen_free [OF f this] es h show ?thesis by (auto intro: seen_free_later)
qed

text \<open>
  MAAS as the tags API documents it: a machine is read with the tags it started with, changed by the
  assignments and removals that MAAS accepted since.
\<close>

definition machine_tags_law :: "env \<Rightarrow> (string \<Rightarrow> string set) \<Rightarrow> bool" where
  "machine_tags_law E T0 \<longleftrightarrow> (\<forall>sid tr m. machine_get_r (maas E) sid tr = Inr m \<longrightarrow>
     set (sdk_Tags m) = tags_after sid tr (T0 sid))"

lemma tag_stays:
  assumes "TagHostMaintenance \<in> T" and "Maas (TagUnassign TagHostMaintenance sid True) \<notin> set es"
  shows "TagHostMaintenance \<in> tags_after sid es T"
  using assms
proof (induction es arbitrary: T)
  case (Cons e es)
  have "TagHostMaintenance \<in> tag_effect sid e T"
    using Cons.prems by (cases "(sid, e, T)" rule: tag_effect.cases) (auto split: if_splits)
  with Cons show ?case by simp
qed simp

text \<open>
  C7: no VM is placed on a host under maintenance. Once the host maintenance controller's tagging of
  a host has returned without an error, no later host selection of a machine reconcile returns that
  host, whatever the other hosts, the constraints and the events between, until the
  maintenance tag is taken off it.
\<close>

theorem no_placement_during_maintenance:
  assumes law: "machine_tags_law E T0"
    and tagged: "run_state (EnsureHostMaintenanceTags (NewTagService E) sid op) s = (Inr (), s1)"
    and later: "trace u = trace s1 @ es" "Maas (TagUnassign TagHostMaintenance sid True) \<notin> set es"
    and sel: "run_state (SelectLXDHostWithMaasClient E hosts opts) u = (Inr h, t)"
  shows "vmh_HostSystemID h \<noteq> sid"
proof
  assume sid: "vmh_HostSystemID h = sid"
  from select_seen_free [OF sel] sid obtain fs m where m: "list_all no_tag_write fs"
    "machine_get_r (maas E) sid (trace u @ fs) = Inr m" "TagHostMaintenance \<notin> set (sdk_Tags m)"
    by (auto simp: seen_free_def)
  from maas_tags.ensure_host_tags [OF tagged, of "T0 sid"]
  have "TagHostMaintenance \<in> tags_after sid (trace s1) (T0 sid)" by (auto simp: numeral_3_eq_3)
  then have "TagHostMaintenance \<in> tags_after sid (trace u @ fs) (T0 sid)"
    using later by (simp add: tags_after_append tags_after_no_write [OF m(1)] tag_stays)
  moreover have "set (sdk_Tags m) = tags_after sid (trace u @ fs) (T0 sid)"
    using law m(2) by (simp add: machine_tags_law_def)
  ultimately show False using m(3) by simp
qed

text \<open>A server that answers with the tags it was given.\<close>

fun list_effect :: "string \<Rightarrow> event \<Rightarrow> string list \<Rightarrow> string list" where
  "list_effect h (Maas (TagAssign t sid ok)) ts = (if ok \<and> sid = h then t # ts else ts)"
| "list_effect h (Maas (TagUnassign t sid ok)) ts = (if ok \<and> sid = h then removeAll t ts else ts)"
| "list_effect h _ ts = ts"

definition tag_keeping_env :: env where
  "tag_keeping_env = sample_env\<lparr>maas := sample_maas\<lparr>machine_get_r :=
     (\<lambda>sid tr. Inr (sample_machine\<lparr>sdk_Tags := fold (list_effect sid) tr []\<rparr>))\<rparr>\<rparr>"

lemma tag_keeping_law: "machine_tags_law tag_keeping_env (\<lambda>_. {})"
proof -
  have step: "set (list_effect h e ts) = tag_effect h e (set ts)" for h e ts
    by (cases "(h, e, ts)" rule: list_effect.cases) auto
  have "set (fold (list_effect h) tr ts) = tags_after h tr (set ts)" for h tr ts
    by (induction tr arbitrary: ts) (simp_all add: step)
  from this [of _ _ "[]"] show ?thesis
    by (auto simp: machine_tags_law_def tag_keeping_env_def)
qed

theorem no_placement_during_maintenance_witness:
  "\<exists>s1 h t. run_state (EnsureHostMaintenanceTags (NewTagService tag_keeping_env) ''hd'' ''op'') sample_sys = (Inr (), s1) \<and>
     run_state (SelectLXDHostWithMaasClient tag_keeping_env [drained_host, free_host]
       (placement_opts\<lparr>so_ClusterID := []\<rparr>)) s1 = (Inr h, t) \<and> vmh_HostSystemID h \<noteq> ''hd''"
proof -
  let ?ensure = "EnsureHostMaintenanceTags (NewTagService tag_keeping_env) ''hd'' ''op''"
  let ?select = "SelectLXDHostWithMaasClient tag_keeping_env [drained_host, free_host] (placement_opts\<lparr>so_ClusterID := []\<rparr>)"
  have answers: "machine_get_r (maas tag_keeping_env) sid tr = Inr (sample_machine\<lparr>sdk_Tags := fold (list_effect sid) tr []\<rparr>)"
    for sid tr by (simp add: tag_keeping_env_def)
  have e: "run_state ?ensure sample_sys = (Inr (), snd (run_state ?ensure sample_sys))"
    by (simp add: EnsureHostMaintenanceTags_def NewTagService_def maas_EnsureTagInInventory_def
      maas_AddTagToHost_def call_defs run_api tag_keeping_env_def sample_env_def sample_maas_def sample_sys_def)
  have "\<exists>h t. run_state ?select (snd (run_state ?ensure sample_sys)) = (Inr h, t)"
    by (simp add: SelectLXDHostWithMaasClient_def consider_host_def sort_Slice_def range_keys_def answers
      EnsureHostMaintenanceTags_def NewTagService_def maas_EnsureTagInInventory_def maas_AddTagToHost_def
      call_defs run_api run_call tag_keeping_env_def sample_env_def sample_maas_def sample_sys_def
      drained_host_def free_host_def sample_vm_host_def sample_machine_def placement_opts_def zone_Name_def
      hasMaintenanceTag_def Let_def)
  then obtain h t where sel: "run_state ?select (snd (run_state ?ensure sample_sys)) = (Inr h, t)" by blast
  from no_placement_during_maintenance [OF tag_keeping_law e _ _ sel, of "[]"] e sel show ?thesis by auto
qed

section \<open>The name of a host\<close>

lemma canonical_iff_token: "canonicalLXDHostName h = host_name_of h \<longleftrightarrow> dns_token (ToLower (TrimSpace h))"
proof
  let ?w = "ToLower (TrimSpace h)"
  assume tok: "dns_token ?w"
  have "normalizeName h = normalizeName ?w"
    by (simp add: normalizeName_def dns_token_TrimSpace [OF tok] Let_def)
  with tok show "canonicalLXDHostName h = host_name_of h"
    by (simp add: canonicalLXDHostName_def host_name_of_def normalizeName_fix dns_token_def)
next
  assume eq: "canonicalLXDHostName h = host_name_of h"
  have "dns_token ''node''" by code_simp
  with eq normalizeName_token [of h] show "dns_token (ToLower (TrimSpace h))"
    by (auto simp: canonicalLXDHostName_def host_name_of_def split: if_splits)
qed

lemma identity_no_delete: "emits (\<lambda>e. \<not> (\<exists>i ok. e = Maas (VMHostDelete i ok))) (GetMaasClientIdentity E)"
  unfolding GetMaasClientIdentity_def GetMAASCredentials_def call_defs Let_def
  by (intro emits_intros) simp_all

text \<open>
  C20: deletion and registration meet on plain names only. The deletion of a host's machine removes
  from MAAS the VM host that the initializer registered for the node of the same name if and only if
  that name is, up to case and outer blanks, a token of letters, digits and single inner dashes. A host with a
  dotted name, for one, stays registered: the initializer turns the dots into dashes, the controller does not.
\<close>

theorem unregisters_what_was_registered:
  assumes run: "run_state (bestEffortUnregisterLXDHost E m) s = (u, t)"
    and listed: "\<And>tr. vmhosts_list_r (maas E) tr = Inr hs"
    and reg: "h \<in> set hs" "vmh_Name h = host_name_of (m_Hostname m)"
    and dist: "distinct (map vmh_Name hs)" "distinct (map vmh_SystemID hs)"
  shows "(\<exists>ok. Maas (VMHostDelete (vmh_SystemID h) ok) \<in> set (drop (length (trace s)) (trace t))) \<longleftrightarrow>
    dns_token (ToLower (TrimSpace (m_Hostname m)))"
proof -
  let ?nm = "canonicalLXDHostName (m_Hostname m)"
  obtain i v where v: "run_state (GetMaasClientIdentity E) s = (i, v)" by fastforce
  from emitsD [OF identity_no_delete this] obtain es where es: "trace v = trace s @ es"
    "\<And>i ok. Maas (VMHostDelete i ok) \<notin> set es" by (auto simp: list_all_iff)
  have found: "find (\<lambda>x. vmh_Name x = ?nm) hs = Some x \<longleftrightarrow> x \<in> set hs \<and> vmh_Name x = ?nm" for x
    using dist(1) by (induction hs) (auto simp: image_iff)
  have del: "(\<exists>ok. Maas (VMHostDelete k ok) \<in> set (drop (length (trace s)) (trace t))) \<longleftrightarrow>
      ?nm \<noteq> ''lxd-host-'' \<and> (\<exists>x. find (\<lambda>x. vmh_Name x = ?nm) hs = Some x \<and> vmh_SystemID x = k)" for k
    using run es v unfolding bestEffortUnregisterLXDHost_def UnregisterLXDHostByNameWithMaasClient_def
      VMHosts_List_def VMHost_Delete_def
    by (auto simp: run_api listed Let_def split: if_splits option.splits prod.splits)
  have ids: "x \<in> set hs \<Longrightarrow> vmh_SystemID x = vmh_SystemID h \<Longrightarrow> x = h" for x
    using dist(2) reg(1) by (auto simp: distinct_map inj_on_def)
  have "(\<exists>ok. Maas (VMHostDelete (vmh_SystemID h) ok) \<in> set (drop (length (trace s)) (trace t))) \<longleftrightarrow>
      ?nm \<noteq> ''lxd-host-'' \<and> find (\<lambda>x. vmh_Name x = ?nm) hs = Some h"
    unfolding del found using ids by blast
  also have "\<dots> \<longleftrightarrow> ?nm \<noteq> ''lxd-host-'' \<and> ?nm = host_name_of (m_Hostname m)"
    using reg by (auto simp: found)
  also have "\<dots> \<longleftrightarrow> dns_token (ToLower (TrimSpace (m_Hostname m)))"
    by (auto simp: canonical_iff_token) (simp add: canonicalLXDHostName_def dns_token_def)
  finally show ?thesis .
qed

definition dotted_host :: vm_host where
  "dotted_host = sample_vm_host\<lparr>vmh_Name := ''lxd-host-node-1-maas''\<rparr>"

definition dotted_env :: env where
  "dotted_env = sample_env\<lparr>maas := sample_maas\<lparr>vmhosts_list_r := (\<lambda>_. Inr [dotted_host])\<rparr>\<rparr>"

definition dotted_machine :: machine where
  "dotted_machine = (fromSDKTypeToMachine sample_machine)\<lparr>m_Hostname := ''node-1.maas''\<rparr>"

theorem unregisters_what_was_registered_witness:
  "\<not> (\<exists>ok. Maas (VMHostDelete (vmh_SystemID dotted_host) ok) \<in>
     set (trace (snd (run_state (bestEffortUnregisterLXDHost dotted_env dotted_machine) sample_sys))))"
proof -
  obtain u t where run: "run_state (bestEffortUnregisterLXDHost dotted_env dotted_machine) sample_sys = (u, t)"
    by (cases "run_state (bestEffortUnregisterLXDHost dotted_env dotted_machine) sample_sys")
  have nm: "host_name_of ''node-1.maas'' = ''lxd-host-node-1-maas''"
    "\<not> dns_token (ToLower (TrimSpace ''node-1.maas''))" by code_simp+
  show ?thesis
    using unregisters_what_was_registered [OF run, of "[dotted_host]" dotted_host] run nm
    by (simp add: dotted_env_def dotted_machine_def dotted_host_def sample_sys_def)
qed

end
